(* ===== verification/Ghg_Prelude.thy ===== *)
theory Ghg_Prelude
  imports Complex_Main "HOL-Library.Sublist" "HOL-Library.Char_ord"
    "HOL-Library.List_Lexorder" "HOL-Library.Product_Lexorder" "HOL-Library.Word"
begin

text \<open>
  Shared vocabulary of the development: the exceptions of the program as one datatype, the
  result type of code that may raise, the run type of code that also reads the clock and draws
  fresh identifiers, the rules that carry post-conditions through both, and the fragment of
  Python's string operations the calculation code uses.

  Text is a list of bytes: a non-ASCII character of the source is its UTF-8 encoding. The case
  functions change the ASCII letters only, and stripping removes the ASCII white space only.
\<close>

section \<open>Exceptions\<close>

text \<open>
  The built-in exceptions the modelled code can raise, the classes below \<open>CalcError\<close>, and the
  exceptions of the policies and services. The text of an exception is not modelled, its class
  is. \<open>Unmodelled\<close> marks the inputs whose Python behaviour is outside the model (a non-finite
  decimal literal, an integer read from a float beyond the range in which its shortest text is
  exact); no theorem that claims a result is about such an input.
\<close>

datatype exn =
    KeyError string
  | ValueError
  | TypeError
  | InvalidOperation
  | DivisionByZero
  | Unmodelled
  | MissingFactorError
  | GWPSetMismatchError
  | InvalidSubScopeError
  | NegativeEmissionError
  | GOValidationError
  | FactorUnitMismatchError
  | InvalidGWPSetError
  | InvalidMethodologyError
  | InvalidRegulatoryStreamError
  | NaiveTimestampError
  | InvalidIntensityDenominatorError
  | MixedGWPSetError
  | ImmutabilityViolationError
  | UnitConversionError
  | HTTPException int
  | IdempotencyKeyReusedError
  | IntegrityError
  | DataError
  | RaiseException
  | MultipleResultsFound
  | FactorNotFoundError
  | FactorAlreadyPublishedError
  | FactorTbcError
  | FactorNullValueError
  | SelfApprovalCreatorError
  | SelfApprovalForbiddenError
  | PublishRaceConflictError
  | JWTError
  | RuntimeError
  | FileNotFoundError
  | SchemaErrors
  | WorkbookParseError
  | InvalidExcelFormatError | ProgrammingError | StaleDataError

fun is_calc_error :: "exn \<Rightarrow> bool" where
  "is_calc_error MissingFactorError = True"
| "is_calc_error GWPSetMismatchError = True"
| "is_calc_error InvalidSubScopeError = True"
| "is_calc_error NegativeEmissionError = True"
| "is_calc_error GOValidationError = True"
| "is_calc_error FactorUnitMismatchError = True"
| "is_calc_error InvalidGWPSetError = True"
| "is_calc_error InvalidMethodologyError = True"
| "is_calc_error InvalidRegulatoryStreamError = True"
| "is_calc_error NaiveTimestampError = True"
| "is_calc_error InvalidIntensityDenominatorError = True"
| "is_calc_error _ = False"

section \<open>Lists\<close>

lemma list_all2_right: "list_all2 P xs ys \<Longrightarrow> y \<in> set ys \<Longrightarrow> \<exists>x\<in>set xs. P x y"
  by (induction rule: list_all2_induct) auto

lemma list_all2_left: "list_all2 P xs ys \<Longrightarrow> x \<in> set xs \<Longrightarrow> \<exists>y\<in>set ys. P x y"
  by (induction rule: list_all2_induct) auto

section \<open>Results and runs\<close>

type_synonym 'a res = "exn + 'a"

definition rbind :: "'a res \<Rightarrow> ('a \<Rightarrow> 'b res) \<Rightarrow> 'b res" where
  "rbind m f = (case m of Inl e \<Rightarrow> Inl e | Inr x \<Rightarrow> f x)"

lemma rbind_simps [simp]: "rbind (Inr x) f = f x" "rbind (Inl e) f = Inl e"
  by (simp_all add: rbind_def)

lemma rbind_assoc: "rbind (rbind m f) g = rbind m (\<lambda>x. rbind (f x) g)"
  by (cases m) simp_all

lemma rbind_eq_Inr: "rbind m f = Inr y \<longleftrightarrow> (\<exists>x. m = Inr x \<and> f x = Inr y)"
  by (cases m) auto

lemma rbind_eq_Inl: "rbind m f = Inl e \<longleftrightarrow> m = Inl e \<or> (\<exists>x. m = Inr x \<and> f x = Inl e)"
  by (cases m) auto

lemma rbind_cong [fundef_cong]:
  "m = m' \<Longrightarrow> (\<And>x. m' = Inr x \<Longrightarrow> f x = g x) \<Longrightarrow> rbind m f = rbind m' g"
  by (cases m') auto

text \<open>
  The world outside a calculation: the identifiers \<open>uuid.uuid4()\<close> will draw and the instants
  \<open>datetime.now(UTC)\<close> will return, by call number, and how many of each were used.
\<close>

type_synonym uuid = "128 word"

datatype datetime = DateTime (instant: int) (tz_aware: bool)

record world =
  w_uuid :: "nat \<Rightarrow> uuid"
  w_clock :: "nat \<Rightarrow> int"
  w_uuids :: nat
  w_ticks :: nat

type_synonym 'a run = "world \<Rightarrow> (exn + 'a \<times> world)"

definition mret :: "'a \<Rightarrow> 'a run" where
  "mret x = (\<lambda>w. Inr (x, w))"

definition mlift :: "'a res \<Rightarrow> 'a run" where
  "mlift r = (\<lambda>w. case r of Inl e \<Rightarrow> Inl e | Inr x \<Rightarrow> Inr (x, w))"

definition mbind :: "'a run \<Rightarrow> ('a \<Rightarrow> 'b run) \<Rightarrow> 'b run" where
  "mbind m f = (\<lambda>w. case m w of Inl e \<Rightarrow> Inl e | Inr (x, w') \<Rightarrow> f x w')"

definition uuid4 :: "uuid run" where
  "uuid4 = (\<lambda>w. Inr (w_uuid w (w_uuids w), w\<lparr>w_uuids := Suc (w_uuids w)\<rparr>))"

definition now_utc :: "datetime run" where
  "now_utc = (\<lambda>w. Inr (DateTime (w_clock w (w_ticks w)) True, w\<lparr>w_ticks := Suc (w_ticks w)\<rparr>))"

text \<open>A \<open>for\<close> loop that appends: the body returns the elements it appends, none for \<open>continue\<close>.\<close>

fun for_each :: "('r \<Rightarrow> 'a list run) \<Rightarrow> 'r list \<Rightarrow> 'a list run" where
  "for_each body [] = mret []"
| "for_each body (x # xs) =
     mbind (body x) (\<lambda>ys. mbind (for_each body xs) (\<lambda>zs. mret (ys @ zs)))"

text \<open>The extension of a result list by several calls in turn (\<open>rows.extend(...)\<close> repeated).\<close>

fun run_all :: "'a list run list \<Rightarrow> 'a list run" where
  "run_all [] = mret []"
| "run_all (m # ms) = mbind m (\<lambda>ys. mbind (run_all ms) (\<lambda>zs. mret (ys @ zs)))"

subsection \<open>Post-conditions\<close>

text \<open>
  \<open>post m P\<close>: every value \<open>m\<close> returns satisfies \<open>P\<close>. \<open>returns m P\<close>: moreover \<open>m\<close> always
  returns. \<open>fails m e\<close>: \<open>m\<close> always raises \<open>e\<close>.
\<close>

definition post :: "'a run \<Rightarrow> ('a \<Rightarrow> bool) \<Rightarrow> bool" where
  "post m P \<longleftrightarrow> (\<forall>w x w'. m w = Inr (x, w') \<longrightarrow> P x)"

definition returns :: "'a run \<Rightarrow> ('a \<Rightarrow> bool) \<Rightarrow> bool" where
  "returns m P \<longleftrightarrow> (\<forall>w. \<exists>x w'. m w = Inr (x, w') \<and> P x)"

definition fails :: "'a run \<Rightarrow> exn \<Rightarrow> bool" where
  "fails m e \<longleftrightarrow> (\<forall>w. m w = Inl e)"

named_theorems posts \<open>rules that prove a post-condition by the structure of the code\<close>
named_theorems returns_rules \<open>rules that prove that code returns\<close>

lemma postD: "post m P \<Longrightarrow> m w = Inr (x, w') \<Longrightarrow> P x"
  by (auto simp: post_def)

lemma postI: "(\<And>w x w'. m w = Inr (x, w') \<Longrightarrow> P x) \<Longrightarrow> post m P"
  by (auto simp: post_def)

lemma post_mono: "post m P \<Longrightarrow> (\<And>x. P x \<Longrightarrow> Q x) \<Longrightarrow> post m Q"
  by (auto simp: post_def)

lemma post_conj: "post m P \<Longrightarrow> post m Q \<Longrightarrow> post m (\<lambda>x. P x \<and> Q x)"
  by (auto simp: post_def)

lemma post_mret [posts]: "P x \<Longrightarrow> post (mret x) P"
  by (auto simp: post_def mret_def)

lemma post_mlift [posts]: "(\<And>x. r = Inr x \<Longrightarrow> P x) \<Longrightarrow> post (mlift r) P"
  by (auto simp: post_def mlift_def split: sum.splits)

lemma post_mbind: "post m Q \<Longrightarrow> (\<And>x. Q x \<Longrightarrow> post (f x) P) \<Longrightarrow> post (mbind m f) P"
  unfolding post_def mbind_def by (fastforce split: sum.splits prod.splits)

lemma post_mbind_any [posts]: "(\<And>x. post (f x) P) \<Longrightarrow> post (mbind m f) P"
  by (rule post_mbind [where Q = "\<lambda>_. True"]) (simp_all add: post_def)

lemma post_mbind_mlift: "(\<And>x. r = Inr x \<Longrightarrow> post (f x) P) \<Longrightarrow> post (mbind (mlift r) f) P"
  by (rule post_mbind [where Q = "\<lambda>x. r = Inr x"]) (auto intro: posts)

lemma post_if [posts]:
  "(b \<Longrightarrow> post m P) \<Longrightarrow> (\<not> b \<Longrightarrow> post m' P) \<Longrightarrow> post (if b then m else m') P"
  by simp

lemma post_case_option [posts]:
  "(x = None \<Longrightarrow> post m P) \<Longrightarrow> (\<And>y. x = Some y \<Longrightarrow> post (f y) P) \<Longrightarrow>
   post (case x of None \<Rightarrow> m | Some y \<Rightarrow> f y) P"
  by (cases x) auto

lemma post_for_each:
  "(\<And>x. x \<in> set xs \<Longrightarrow> post (body x) (\<lambda>ys. \<forall>y\<in>set ys. P y)) \<Longrightarrow>
   post (for_each body xs) (\<lambda>ys. \<forall>y\<in>set ys. P y)"
proof (induction xs)
  case Nil
  show ?case by (auto intro: posts)
next
  case (Cons x xs)
  then have "post (body x) (\<lambda>ys. \<forall>y\<in>set ys. P y)"
    and "post (for_each body xs) (\<lambda>ys. \<forall>y\<in>set ys. P y)"
    by auto
  then show ?case
    by (auto intro!: post_mbind post_mret)
qed

lemma post_run_all:
  "(\<And>m. m \<in> set ms \<Longrightarrow> post m (\<lambda>ys. \<forall>y\<in>set ys. P y)) \<Longrightarrow>
   post (run_all ms) (\<lambda>ys. \<forall>y\<in>set ys. P y)"
proof (induction ms)
  case Nil
  show ?case by (auto intro: posts)
next
  case (Cons m ms)
  then have "post m (\<lambda>ys. \<forall>y\<in>set ys. P y)"
    and "post (run_all ms) (\<lambda>ys. \<forall>y\<in>set ys. P y)"
    by auto
  then show ?case
    by (auto intro!: post_mbind post_mret)
qed

lemma returns_imp_post: "returns m P \<Longrightarrow> post m P"
  unfolding returns_def post_def by (metis Inr_inject prod.inject)

lemma returnsD: "returns m P \<Longrightarrow> \<exists>x w'. m w = Inr (x, w') \<and> P x"
  by (auto simp: returns_def)

lemma returns_mono: "returns m P \<Longrightarrow> (\<And>x. P x \<Longrightarrow> Q x) \<Longrightarrow> returns m Q"
  by (meson returns_def)

lemma returns_mret [returns_rules]: "P x \<Longrightarrow> returns (mret x) P"
  by (auto simp: returns_def mret_def)

lemma returns_mlift [returns_rules]: "r = Inr x \<Longrightarrow> P x \<Longrightarrow> returns (mlift r) P"
  by (auto simp: returns_def mlift_def)

lemma returns_mbind: "returns m Q \<Longrightarrow> (\<And>x. Q x \<Longrightarrow> returns (f x) P) \<Longrightarrow> returns (mbind m f) P"
  unfolding returns_def
proof
  fix w
  assume m: "\<forall>w. \<exists>x w'. m w = Inr (x, w') \<and> Q x"
    and f: "\<And>x. Q x \<Longrightarrow> \<forall>w. \<exists>y w'. f x w = Inr (y, w') \<and> P y"
  from m obtain x w' where "m w = Inr (x, w')" and "Q x" by blast
  then show "\<exists>y w'. mbind m f w = Inr (y, w') \<and> P y"
    using f [of x] by (simp add: mbind_def)
qed

lemma returns_mbind_mlift [returns_rules]: "r = Inr x \<Longrightarrow> returns (f x) P \<Longrightarrow> returns (mbind (mlift r) f) P"
  by (rule returns_mbind [where Q = "\<lambda>y. y = x"]) (auto intro: returns_rules)

lemma returns_uuid4: "returns uuid4 (\<lambda>_. True)"
  by (auto simp: returns_def uuid4_def)

lemma returns_now_utc: "returns now_utc (\<lambda>t. tz_aware t)"
  by (auto simp: returns_def now_utc_def)

lemma returns_for_each:
  "(\<And>x. x \<in> set xs \<Longrightarrow> returns (body x) (Q x)) \<Longrightarrow>
   returns (for_each body xs) (\<lambda>zs. \<exists>yss. zs = concat yss \<and> list_all2 Q xs yss)"
proof (induction xs)
  case Nil
  show ?case by (auto intro: returns_rules)
next
  case (Cons x xs)
  then have "returns (body x) (Q x)"
    and "returns (for_each body xs) (\<lambda>zs. \<exists>yss. zs = concat yss \<and> list_all2 Q xs yss)"
    by auto
  then show ?case
    by (auto intro!: returns_mbind [of "body x"] returns_mbind [of "for_each body xs"] returns_mret)
       (metis concat.simps(2) list_all2_Cons)
qed

lemma returns_run_all:
  "(\<And>m. m \<in> set ms \<Longrightarrow> returns m (\<lambda>_. True)) \<Longrightarrow> returns (run_all ms) (\<lambda>_. True)"
proof (induction ms)
  case Nil
  show ?case by (auto intro: returns_rules)
next
  case (Cons m ms)
  then have "returns m (\<lambda>_. True)" and "returns (run_all ms) (\<lambda>_. True)"
    by auto
  then show ?case
    by (auto intro!: returns_mbind [of m] returns_mbind [of "run_all ms"] returns_mret)
qed

lemma failsD: "fails m e \<Longrightarrow> m w = Inl e"
  by (simp add: fails_def)

lemma fails_mlift: "r = Inl e \<Longrightarrow> fails (mlift r) e"
  by (simp add: fails_def mlift_def)

lemma fails_mbind: "fails m e \<Longrightarrow> fails (mbind m f) e"
  by (simp add: fails_def mbind_def)

lemma fails_mbind_after:
  "returns m Q \<Longrightarrow> (\<And>x. Q x \<Longrightarrow> fails (f x) e) \<Longrightarrow> fails (mbind m f) e"
  unfolding fails_def returns_def mbind_def by (metis (no_types, lifting) case_prod_conv old.sum.simps(6))

lemma mbind_eq_Inr:
  "mbind m f w = Inr (y, w'') \<longleftrightarrow> (\<exists>x w'. m w = Inr (x, w') \<and> f x w' = Inr (y, w''))"
  by (auto simp: mbind_def split: sum.splits)

lemma mlift_eq_Inr [simp]: "mlift r w = Inr (x, w') \<longleftrightarrow> r = Inr x \<and> w' = w"
  by (auto simp: mlift_def split: sum.splits)

lemma mret_eq_Inr [simp]: "mret x w = Inr (y, w') \<longleftrightarrow> y = x \<and> w' = w"
  by (auto simp: mret_def)

end
