(* ===== verification/Py_Text.thy ===== *)
theory Py_Text
  imports Ghg_Prelude
begin

text \<open>
  The string operations of Python that the program uses: case change, stripping, substring
  test, replacement, decimal printing and reading of integers, hexadecimal printing and reading
  of identifiers. The printing functions come with the lemmas that reading inverts them.
\<close>

section \<open>Characters and case\<close>

abbreviation chr_nat :: "char \<Rightarrow> nat" where
  "chr_nat c \<equiv> of_char c"

definition chr_lower :: "char \<Rightarrow> char" where
  "chr_lower c = (if 65 \<le> chr_nat c \<and> chr_nat c \<le> 90 then char_of (chr_nat c + 32) else c)"

definition chr_upper :: "char \<Rightarrow> char" where
  "chr_upper c = (if 97 \<le> chr_nat c \<and> chr_nat c \<le> 122 then char_of (chr_nat c - 32) else c)"

definition chr_space :: "char \<Rightarrow> bool" where
  "chr_space c \<longleftrightarrow> chr_nat c = 32 \<or> (9 \<le> chr_nat c \<and> chr_nat c \<le> 13) \<or>
     (28 \<le> chr_nat c \<and> chr_nat c \<le> 31)"

definition str_lower :: "string \<Rightarrow> string" where
  "str_lower s = map chr_lower s"

definition str_upper :: "string \<Rightarrow> string" where
  "str_upper s = map chr_upper s"

definition str_strip :: "string \<Rightarrow> string" where
  "str_strip s = rev (dropWhile chr_space (rev (dropWhile chr_space s)))"

text \<open>\<open>x in s\<close>, \<open>s.startswith(x)\<close>: the sublist and prefix orders of the library.\<close>

definition str_in :: "string \<Rightarrow> string \<Rightarrow> bool" where
  "str_in p s \<longleftrightarrow> sublist p s"

definition str_startswith :: "string \<Rightarrow> string \<Rightarrow> bool" where
  "str_startswith s p \<longleftrightarrow> prefix p s"

text \<open>
  \<open>s.replace(pat, rep)\<close> for a non-empty pattern: the leftmost occurrence first, and \<open>n\<close>
  replacements at most. The first argument bounds the recursion by the length of the text.
\<close>

fun str_replace_n :: "nat \<Rightarrow> nat \<Rightarrow> string \<Rightarrow> string \<Rightarrow> string \<Rightarrow> string" where
  "str_replace_n 0 n pat rep s = s"
| "str_replace_n (Suc k) n pat rep [] = []"
| "str_replace_n (Suc k) n pat rep (c # cs) =
     (if 0 < n \<and> prefix pat (c # cs)
      then rep @ str_replace_n k (n - 1) pat rep (drop (length pat) (c # cs))
      else c # str_replace_n k n pat rep cs)"

definition str_replace :: "string \<Rightarrow> string \<Rightarrow> string \<Rightarrow> string" where
  "str_replace pat rep s = str_replace_n (length s) (length s) pat rep s"

definition str_replace_first :: "string \<Rightarrow> string \<Rightarrow> string \<Rightarrow> string" where
  "str_replace_first pat rep s = str_replace_n (length s) 1 pat rep s"

lemma chr_lower_idem [simp]: "chr_lower (chr_lower c) = chr_lower c"
  by (simp add: chr_lower_def)

lemma str_lower_idem [simp]: "str_lower (str_lower s) = str_lower s"
  by (simp add: str_lower_def)

lemma str_lower_append: "str_lower (s @ t) = str_lower s @ str_lower t"
  by (simp add: str_lower_def)

lemma str_lower_Nil_iff [simp]: "str_lower s = [] \<longleftrightarrow> s = []"
  by (simp add: str_lower_def)

section \<open>Decimal digits\<close>

definition digit_chr :: "nat \<Rightarrow> char" where
  "digit_chr d = char_of (48 + d)"

definition chr_digit :: "char \<Rightarrow> nat option" where
  "chr_digit c = (if 48 \<le> chr_nat c \<and> chr_nat c \<le> 57 then Some (chr_nat c - 48) else None)"

text \<open>\<open>len(s)\<close>: the code points of a text, that is its bytes but for the continuation bytes of UTF-8.\<close>

definition py_len :: "string \<Rightarrow> nat" where
  "py_len s = length (filter (\<lambda>c. \<not> (128 \<le> chr_nat c \<and> chr_nat c < 192)) s)"

lemma py_len_le: "py_len s \<le> length s"
  by (simp add: py_len_def)

definition is_digit :: "char \<Rightarrow> bool" where
  "is_digit c \<longleftrightarrow> 48 \<le> chr_nat c \<and> chr_nat c \<le> 57"

fun nat_str :: "nat \<Rightarrow> string" where
  "nat_str n = (if n < 10 then [digit_chr n] else nat_str (n div 10) @ [digit_chr (n mod 10)])"

declare nat_str.simps [simp del]

definition digits_val :: "string \<Rightarrow> nat" where
  "digits_val s = foldl (\<lambda>a c. 10 * a + (chr_nat c - 48)) 0 s"

definition int_str :: "int \<Rightarrow> string" where
  "int_str i = (if i < 0 then ''-'' @ nat_str (nat (- i)) else nat_str (nat i))"

lemma chr_nat_digit_chr [simp]: "d < 10 \<Longrightarrow> chr_nat (digit_chr d) = 48 + d"
  by (simp add: digit_chr_def)

lemma is_digit_digit_chr [simp]: "d < 10 \<Longrightarrow> is_digit (digit_chr d)"
  by (simp add: is_digit_def)

lemma nat_str_digits: "\<forall>c\<in>set (nat_str n). is_digit c"
proof (induction n rule: nat_str.induct)
  case (1 n)
  then show ?case
    by (cases "n < 10") (auto simp: nat_str.simps [of n])
qed

lemma nat_str_nonempty [simp]: "nat_str n \<noteq> []"
  by (subst nat_str.simps) simp

lemma digits_val_snoc: "digits_val (s @ [c]) = 10 * digits_val s + (chr_nat c - 48)"
  by (simp add: digits_val_def)

lemma digits_val_Nil [simp]: "digits_val [] = 0"
  by (simp add: digits_val_def)

lemma digits_val_append:
  "digits_val (s @ t) = digits_val s * 10 ^ length t + digits_val t"
proof (induction t rule: rev_induct)
  case Nil
  show ?case by simp
next
  case (snoc c t)
  then show ?case
    using digits_val_snoc [of "s @ t" c] by (simp add: digits_val_snoc algebra_simps)
qed

lemma digits_val_zeros [simp]: "digits_val (replicate n (CHR ''0'')) = 0"
  by (induction n rule: nat.induct) (simp_all add: digits_val_def flip: replicate_append_same)

lemma digits_val_nat_str [simp]: "digits_val (nat_str n) = n"
proof (induction n rule: nat_str.induct)
  case (1 n)
  then show ?case
    by (cases "n < 10") (simp_all add: nat_str.simps [of n] digits_val_snoc digits_val_def)
qed

lemma nat_str_inj: "nat_str m = nat_str n \<Longrightarrow> m = n"
  by (metis digits_val_nat_str)

subsection \<open>Number of digits\<close>

fun ndigits :: "nat \<Rightarrow> nat" where
  "ndigits n = (if n < 10 then 1 else Suc (ndigits (n div 10)))"

declare ndigits.simps [simp del]

lemma length_nat_str: "length (nat_str n) = ndigits n"
proof (induction n rule: nat_str.induct)
  case (1 n)
  then show ?case
    by (cases "n < 10") (simp_all add: nat_str.simps [of n] ndigits.simps [of n])
qed

lemma ndigits_0 [simp]: "ndigits 0 = 1"
  by (subst ndigits.simps) simp

lemma ndigits_gt_1: "1 < ndigits n \<Longrightarrow> 0 < n"
  by (cases "n = 0") simp_all

lemma ndigits_pos [simp]: "0 < ndigits n"
  by (subst ndigits.simps) simp

lemma ndigits_upper: "n < 10 ^ ndigits n"
proof (induction n rule: ndigits.induct)
  case (1 n)
  then show ?case
    by (cases "n < 10") (auto simp: ndigits.simps [of n])
qed

lemma ndigits_lower: "n \<noteq> 0 \<Longrightarrow> 10 ^ (ndigits n - 1) \<le> n"
proof (induction n rule: ndigits.induct)
  case (1 n)
  show ?case
  proof (cases "n < 10")
    case True
    with 1 show ?thesis by (simp add: ndigits.simps [of n])
  next
    case False
    then have "10 ^ (ndigits (n div 10) - 1) \<le> n div 10"
      using "1.IH" by simp
    then have "10 * 10 ^ (ndigits (n div 10) - 1) \<le> n" by simp
    then show ?thesis
      using False by (simp add: ndigits.simps [of n] flip: power_Suc)
  qed
qed

lemma ndigits_le_iff: "0 < k \<Longrightarrow> ndigits n \<le> k \<longleftrightarrow> n < 10 ^ k"
proof
  assume "ndigits n \<le> k"
  then have "(10::nat) ^ ndigits n \<le> 10 ^ k" by simp
  then show "n < 10 ^ k" using ndigits_upper [of n] by linarith
next
  assume k: "0 < k" and n: "n < 10 ^ k"
  show "ndigits n \<le> k"
  proof (cases "n = 0")
    case True
    with k show ?thesis by (simp add: ndigits.simps)
  next
    case False
    then have "(10::nat) ^ (ndigits n - 1) < 10 ^ k"
      using ndigits_lower [of n] n by linarith
    then show ?thesis by simp
  qed
qed

section \<open>The non-ASCII characters of the disclosure texts, in UTF-8\<close>

definition utf8_sigma :: string where "utf8_sigma = [CHR 0xCE, CHR 0xA3]"

definition utf8_em_dash :: string where "utf8_em_dash = [CHR 0xE2, CHR 0x80, CHR 0x94]"

definition utf8_en_dash :: string where "utf8_en_dash = [CHR 0xE2, CHR 0x80, CHR 0x93]"

definition utf8_plus_minus :: string where "utf8_plus_minus = [CHR 0xC2, CHR 0xB1]"

definition utf8_section :: string where "utf8_section = [CHR 0xC2, CHR 0xA7]"

definition utf8_times :: string where "utf8_times = [CHR 0xC3, CHR 0x97]"

end
