(* ===== verification/Py_Decimal.thy ===== *)
theory Py_Decimal
  imports Py_Text
begin

text \<open>
  Python's \<open>decimal.Decimal\<close> as the calculation code uses it: finite numbers of a sign, a
  coefficient and an exponent, with the default context (28 significant digits, ties to even).
  Sums, differences and products are exact and then rounded to the context; quotients follow the
  scaled integer division with its sticky digit; \<open>quantize\<close> rounds ties away from zero and raises
  when the result does not fit the precision. The exponent limits of the context
  (\<open>Emin\<close>, \<open>Emax\<close>, about a million) and the special values (infinities, NaNs) are not modelled.
\<close>

section \<open>Numbers\<close>

datatype decimal = Dec (dsign: bool) (dcoef: nat) (dexp: int)

definition dec_prec :: nat where
  "dec_prec = 28"

definition dec_int :: "decimal \<Rightarrow> int" where
  "dec_int d = (if dsign d then - int (dcoef d) else int (dcoef d))"

text \<open>The number a decimal denotes.\<close>

definition dec_val :: "decimal \<Rightarrow> rat" where
  "dec_val d = of_int (dec_int d) * 10 powi dexp d"

text \<open>The coefficient at a smaller or equal exponent.\<close>

definition dec_scaled :: "int \<Rightarrow> decimal \<Rightarrow> int" where
  "dec_scaled e d = dec_int d * 10 ^ nat (dexp d - e)"

definition dec_of_int :: "int \<Rightarrow> decimal" where
  "dec_of_int i = Dec (i < 0) (nat \<bar>i\<bar>) 0"

abbreviation dec_zero :: decimal where
  "dec_zero \<equiv> Dec False 0 0"

section \<open>Rounding to the context\<close>

definition round_half_even :: "nat \<Rightarrow> nat \<Rightarrow> nat" where
  "round_half_even c k =
     (let q = c div 10 ^ k; r = c mod 10 ^ k
      in if 10 ^ k < 2 * r \<or> (2 * r = 10 ^ k \<and> odd q) then Suc q else q)"

definition round_half_up :: "nat \<Rightarrow> nat \<Rightarrow> nat" where
  "round_half_up c k =
     (let q = c div 10 ^ k; r = c mod 10 ^ k in if 10 ^ k \<le> 2 * r then Suc q else q)"

definition dec_fix :: "decimal \<Rightarrow> decimal" where
  "dec_fix d =
     (let n = ndigits (dcoef d) in
      if n \<le> dec_prec then d
      else let k = n - dec_prec; q = round_half_even (dcoef d) k; e = dexp d + int k
           in if q = 10 ^ dec_prec then Dec (dsign d) (10 ^ (dec_prec - 1)) (e + 1)
              else Dec (dsign d) q e)"

section \<open>Arithmetic\<close>

definition dec_mul :: "decimal \<Rightarrow> decimal \<Rightarrow> decimal" where
  "dec_mul a b = dec_fix (Dec (dsign a \<noteq> dsign b) (dcoef a * dcoef b) (dexp a + dexp b))"

definition dec_add :: "decimal \<Rightarrow> decimal \<Rightarrow> decimal" where
  "dec_add a b =
     (let e = min (dexp a) (dexp b); x = dec_scaled e a + dec_scaled e b
      in dec_fix (Dec (if x = 0 then dsign a \<and> dsign b else x < 0) (nat \<bar>x\<bar>) e))"

definition dec_negate :: "decimal \<Rightarrow> decimal" where
  "dec_negate a = Dec (\<not> dsign a) (dcoef a) (dexp a)"

definition dec_sub :: "decimal \<Rightarrow> decimal \<Rightarrow> decimal" where
  "dec_sub a b = dec_add a (dec_negate b)"

definition dec_abs :: "decimal \<Rightarrow> decimal" where
  "dec_abs a = dec_fix (Dec False (dcoef a) (dexp a))"

text \<open>
  Division: the dividend is scaled so that the integer quotient has at least one digit more than
  the precision; an inexact quotient gets a sticky digit, an exact one loses trailing zeros until
  the exponent is the ideal one.
\<close>

fun div_strip :: "nat \<Rightarrow> nat \<Rightarrow> int \<Rightarrow> nat \<times> int" where
  "div_strip 0 c e = (c, e)"
| "div_strip (Suc k) c e = (if c mod 10 = 0 then div_strip k (c div 10) (e + 1) else (c, e))"

definition dec_div :: "decimal \<Rightarrow> decimal \<Rightarrow> decimal res" where
  "dec_div a b =
     (if dcoef b = 0 then Inl (if dcoef a = 0 then InvalidOperation else DivisionByZero)
      else let s = (dsign a \<noteq> dsign b) in
      if dcoef a = 0 then Inr (dec_fix (Dec s 0 (dexp a - dexp b)))
      else
        let shift = int (ndigits (dcoef b)) - int (ndigits (dcoef a)) + int dec_prec + 1;
            e = dexp a - dexp b - shift;
            n = (if 0 \<le> shift then dcoef a * 10 ^ nat shift else dcoef a);
            m = (if 0 \<le> shift then dcoef b else dcoef b * 10 ^ nat (- shift));
            q = n div m
        in if n mod m \<noteq> 0
           then Inr (dec_fix (Dec s (if q mod 5 = 0 then q + 1 else q) e))
           else let (q', e') = div_strip (nat (dexp a - dexp b - e)) q e
                in Inr (dec_fix (Dec s q' e')))"

text \<open>\<open>value.quantize(Decimal(10) ** e, rounding=ROUND_HALF_UP)\<close>.\<close>

definition dec_quantize_half_up :: "int \<Rightarrow> decimal \<Rightarrow> decimal res" where
  "dec_quantize_half_up e d =
     (let c = (if e \<le> dexp d then dcoef d * 10 ^ nat (dexp d - e)
               else round_half_up (dcoef d) (nat (e - dexp d)))
      in if dec_prec < ndigits c then Inl InvalidOperation else Inr (Dec (dsign d) c e))"

section \<open>Comparison\<close>

definition dec_le :: "decimal \<Rightarrow> decimal \<Rightarrow> bool" where
  "dec_le a b = (let e = min (dexp a) (dexp b) in dec_scaled e a \<le> dec_scaled e b)"

definition dec_less :: "decimal \<Rightarrow> decimal \<Rightarrow> bool" where
  "dec_less a b = (let e = min (dexp a) (dexp b) in dec_scaled e a < dec_scaled e b)"

definition dec_eq :: "decimal \<Rightarrow> decimal \<Rightarrow> bool" where
  "dec_eq a b = (let e = min (dexp a) (dexp b) in dec_scaled e a = dec_scaled e b)"

text \<open>\<open>value or Decimal("0")\<close>: a zero is falsy.\<close>

definition dec_or_zero :: "decimal option \<Rightarrow> decimal" where
  "dec_or_zero v = (case v of None \<Rightarrow> dec_zero | Some d \<Rightarrow> if dcoef d = 0 then dec_zero else d)"

section \<open>Value lemmas\<close>

named_theorems dec_value \<open>the number a decimal operation denotes\<close>

lemma powi_pos_rat [simp]: "0 < (10::rat) powi e"
  by (simp add: power_int_def)

lemma powi_not_le_0_rat [simp]: "\<not> (10::rat) powi e \<le> 0"
  by (simp add: not_le)

lemma powi_split: "e \<le> e' \<Longrightarrow> (10::rat) powi e' = 10 ^ nat (e' - e) * 10 powi e"
  using power_int_add [of "10::rat" "e' - e" e]
  by (simp add: power_int_def)

lemma dec_val_scaled: "e \<le> dexp d \<Longrightarrow> dec_val d = of_int (dec_scaled e d) * 10 powi e"
  by (simp add: dec_val_def dec_scaled_def powi_split)

lemma dec_cmp_value:
  "dec_le a b \<longleftrightarrow> dec_val a \<le> dec_val b"
  "dec_less a b \<longleftrightarrow> dec_val a < dec_val b"
  "dec_eq a b \<longleftrightarrow> dec_val a = dec_val b"
  using dec_val_scaled [of "min (dexp a) (dexp b)" a] dec_val_scaled [of "min (dexp a) (dexp b)" b]
  by (simp_all add: dec_le_def dec_less_def dec_eq_def Let_def)

lemma dec_val_zero_iff: "dec_val d = 0 \<longleftrightarrow> dcoef d = 0"
  by (auto simp: dec_val_def dec_int_def)

lemma dec_val_Dec: "dec_val (Dec s c e) = (if s then -1 else 1) * of_nat c * 10 powi e"
  by (simp add: dec_val_def dec_int_def)

lemma dec_val_of_int [simp]: "dec_val (dec_of_int i) = of_int i"
  by (simp add: dec_of_int_def dec_val_def dec_int_def)

lemma dec_val_or_zero: "dec_val (dec_or_zero (Some d)) = dec_val d"
  by (simp add: dec_or_zero_def dec_val_def dec_int_def)

lemma dec_val_zero [simp]: "dec_val (Dec s 0 e) = 0"
  by (simp add: dec_val_Dec)

definition dec_nonneg :: "decimal \<Rightarrow> bool" where
  "dec_nonneg d \<longleftrightarrow> \<not> dsign d \<or> dcoef d = 0"

lemma dec_nonneg_value: "dec_nonneg d \<longleftrightarrow> 0 \<le> dec_val d"
  by (cases d) (auto simp: dec_nonneg_def dec_val_Dec mult_le_0_iff zero_le_mult_iff
      less_imp_le)

subsection \<open>Rounding keeps the sign and is exact on short coefficients\<close>

lemma dec_fix_short: "ndigits (dcoef d) \<le> dec_prec \<Longrightarrow> dec_fix d = d"
  by (simp add: dec_fix_def)

lemma dsign_dec_fix [simp]: "dsign (dec_fix d) = dsign d"
  by (simp add: dec_fix_def Let_def)

lemma round_half_even_ge: "c div 10 ^ k \<le> round_half_even c k"
  by (simp add: round_half_even_def Let_def)

lemma round_half_even_le: "round_half_even c k \<le> Suc (c div 10 ^ k)"
  by (simp add: round_half_even_def Let_def)

lemma round_half_even_short:
  assumes "ndigits c = dec_prec + k"
  shows "round_half_even c k \<le> 10 ^ dec_prec" "10 ^ (dec_prec - 1) \<le> round_half_even c k"
proof -
  have "c < 10 ^ dec_prec * 10 ^ k"
    using ndigits_upper [of c] assms by (simp add: power_add)
  then have "c div 10 ^ k < 10 ^ dec_prec"
    by (simp add: less_mult_imp_div_less)
  then show "round_half_even c k \<le> 10 ^ dec_prec"
    using round_half_even_le [of c k] by linarith
  have "c \<noteq> 0"
    using assms ndigits_gt_1 [of c] by (simp add: dec_prec_def)
  then have "10 ^ (dec_prec - 1) * 10 ^ k \<le> c"
    using ndigits_lower [of c] assms by (simp add: dec_prec_def power_add)
  then have "10 ^ (dec_prec - 1) \<le> c div 10 ^ k"
    by (simp add: less_eq_div_iff_mult_less_eq)
  then show "10 ^ (dec_prec - 1) \<le> round_half_even c k"
    using round_half_even_ge [of c k] by linarith
qed

lemma dec_fix_digits: "ndigits (dcoef (dec_fix d)) \<le> dec_prec"
proof (cases "ndigits (dcoef d) \<le> dec_prec")
  case True
  then show ?thesis by (simp add: dec_fix_short)
next
  case False
  define k where "k = ndigits (dcoef d) - dec_prec"
  have n: "ndigits (dcoef d) = dec_prec + k" using False by (simp add: k_def)
  have p: "(10::nat) ^ (dec_prec - 1) < 10 ^ dec_prec" by (simp add: dec_prec_def)
  show ?thesis
    using False round_half_even_short(1) [OF n] p
    by (auto simp: dec_fix_def Let_def k_def ndigits_le_iff dec_prec_def)
qed

lemma dec_fix_zero_iff [simp]: "dcoef (dec_fix d) = 0 \<longleftrightarrow> dcoef d = 0"
proof (cases "ndigits (dcoef d) \<le> dec_prec")
  case True
  then show ?thesis by (simp add: dec_fix_short)
next
  case False
  define k where "k = ndigits (dcoef d) - dec_prec"
  have n: "ndigits (dcoef d) = dec_prec + k" using False by (simp add: k_def)
  have "dcoef d \<noteq> 0" using False ndigits_gt_1 [of "dcoef d"] by (simp add: dec_prec_def)
  moreover have "round_half_even (dcoef d) k \<noteq> 0"
    using round_half_even_short(2) [OF n] by (auto simp: dec_prec_def)
  ultimately show ?thesis
    using False by (auto simp: dec_fix_def Let_def k_def)
qed

lemma dec_fix_nonneg [simp]: "dec_nonneg (dec_fix d) \<longleftrightarrow> dec_nonneg d"
  by (simp add: dec_nonneg_def)

lemma dec_mul_nonneg: "dec_nonneg a \<Longrightarrow> dec_nonneg b \<Longrightarrow> dec_nonneg (dec_mul a b)"
  by (auto simp: dec_mul_def dec_nonneg_def)

lemma dec_scaled_nonneg: "dec_nonneg d \<Longrightarrow> 0 \<le> dec_scaled e d"
  by (auto simp: dec_scaled_def dec_int_def dec_nonneg_def)

lemma dec_add_nonneg: "dec_nonneg a \<Longrightarrow> dec_nonneg b \<Longrightarrow> dec_nonneg (dec_add a b)"
  using dec_scaled_nonneg [of a "min (dexp a) (dexp b)"]
    dec_scaled_nonneg [of b "min (dexp a) (dexp b)"]
  by (auto simp: dec_add_def Let_def dec_nonneg_def)

lemma dec_or_zero_nonneg: "dec_nonneg d \<Longrightarrow> dec_nonneg (dec_or_zero (Some d))"
  by (auto simp: dec_or_zero_def dec_nonneg_def)

lemma dec_abs_nonneg [simp]: "dec_nonneg (dec_abs d)"
  by (simp add: dec_abs_def dec_nonneg_def)

lemma dec_mul_zero_left [simp]: "dcoef a = 0 \<Longrightarrow> dcoef (dec_mul a b) = 0"
  by (simp add: dec_mul_def)

lemma dec_mul_zero_right [simp]: "dcoef b = 0 \<Longrightarrow> dcoef (dec_mul a b) = 0"
  by (simp add: dec_mul_def)

subsection \<open>Exactness\<close>

lemma dec_mul_exact:
  "ndigits (dcoef a * dcoef b) \<le> dec_prec \<Longrightarrow> dec_val (dec_mul a b) = dec_val a * dec_val b"
  by (auto simp: dec_mul_def dec_fix_short dec_val_Dec power_int_add dec_val_def dec_int_def)

lemma dec_val_exact_sum:
  "dec_val (Dec (if x = 0 then s else x < 0) (nat \<bar>x\<bar>) e) = of_int x * 10 powi e"
  by (auto simp: dec_val_def dec_int_def)

lemma dec_add_exact:
  assumes "ndigits (nat \<bar>dec_scaled (min (dexp a) (dexp b)) a + dec_scaled (min (dexp a) (dexp b)) b\<bar>)
    \<le> dec_prec"
  shows "dec_val (dec_add a b) = dec_val a + dec_val b"
  using assms dec_val_scaled [of "min (dexp a) (dexp b)" a]
    dec_val_scaled [of "min (dexp a) (dexp b)" b]
  by (simp add: dec_add_def Let_def dec_fix_short dec_val_exact_sum distrib_right)

subsection \<open>Error of the roundings\<close>

lemma nat_round_error:
  fixes c q k :: nat
  assumes "q = c div 10 ^ k \<and> 2 * (c mod 10 ^ k) \<le> 10 ^ k \<or>
    q = Suc (c div 10 ^ k) \<and> 10 ^ k \<le> 2 * (c mod 10 ^ k)"
  shows "\<bar>of_nat q * 10 ^ k - of_nat c :: rat\<bar> \<le> 10 ^ k / 2"
proof -
  have c: "of_nat c = (of_nat (c div 10 ^ k) * 10 ^ k + of_nat (c mod 10 ^ k) :: rat)"
    using arg_cong [OF div_mult_mod_eq [of c "10 ^ k"], of "of_nat :: nat \<Rightarrow> rat"] by simp
  have r: "of_nat (c mod 10 ^ k) < (10 ^ k :: rat)"
    using mod_less_divisor [of "10 ^ k" c]
    by (metis of_nat_less_iff of_nat_numeral of_nat_power zero_less_numeral zero_less_power)
  have le: "2 * (c mod 10 ^ k) \<le> 10 ^ k \<Longrightarrow> 2 * of_nat (c mod 10 ^ k) \<le> (10 ^ k :: rat)"
    by (metis of_nat_le_iff of_nat_mult of_nat_numeral of_nat_power)
  have ge: "10 ^ k \<le> 2 * (c mod 10 ^ k) \<Longrightarrow> (10 ^ k :: rat) \<le> 2 * of_nat (c mod 10 ^ k)"
    by (metis of_nat_le_iff of_nat_mult of_nat_numeral of_nat_power)
  show ?thesis
    using assms c r le ge by (auto simp: abs_le_iff field_simps)
qed

lemma round_half_even_error: "\<bar>of_nat (round_half_even c k) * 10 ^ k - of_nat c :: rat\<bar> \<le> 10 ^ k / 2"
  by (rule nat_round_error) (auto simp: round_half_even_def Let_def)

lemma round_half_up_error: "\<bar>of_nat (round_half_up c k) * 10 ^ k - of_nat c :: rat\<bar> \<le> 10 ^ k / 2"
  by (rule nat_round_error) (auto simp: round_half_up_def Let_def)

lemma powi_diff_nat: "e \<le> e' \<Longrightarrow> (10::rat) powi e' = 10 powi e * 10 ^ nat (e' - e)"
  by (simp add: powi_split mult.commute)

lemma signed_diff_abs:
  fixes x y p :: rat
  assumes "0 < p"
  shows "\<bar>(if s then -1 else 1) * x * p - (if s then -1 else 1) * y * p\<bar> = \<bar>x - y\<bar> * p"
proof -
  have "(if s then -1 else 1) * x * p - (if s then -1 else 1) * y * p =
      (if s then -1 else 1) * ((x - y) * p)"
    by (simp add: algebra_simps)
  then show ?thesis using assms by (simp add: abs_mult)
qed

lemma dec_val_alt: "dec_val d = (if dsign d then -1 else 1) * of_nat (dcoef d) * 10 powi dexp d"
  by (simp add: dec_val_def dec_int_def)

lemma dec_val_fix_long:
  assumes "dec_prec < ndigits (dcoef d)"
  defines "k \<equiv> ndigits (dcoef d) - dec_prec"
  shows "dec_val (dec_fix d) =
    (if dsign d then -1 else 1) * of_nat (round_half_even (dcoef d) k) * 10 powi (dexp d + int k)"
proof -
  have "(10::rat) ^ dec_prec = 10 ^ (dec_prec - 1) * 10" by (simp add: dec_prec_def)
  then show ?thesis
    using assms by (auto simp: dec_fix_def Let_def k_def dec_val_Dec power_int_add)
qed

text \<open>
  Rounding to the context changes a number by at most half a unit in the last of its 28 digits,
  a relative error of at most \<open>5 \<cdot> 10\<^sup>-\<^sup>2\<^sup>8\<close>.
\<close>

lemma dec_fix_error: "\<bar>dec_val (dec_fix d) - dec_val d\<bar> \<le> \<bar>dec_val d\<bar> * (5 / 10 ^ dec_prec)"
proof (cases "ndigits (dcoef d) \<le> dec_prec")
  case True
  then show ?thesis by (simp add: dec_fix_short)
next
  case False
  define k where "k = ndigits (dcoef d) - dec_prec"
  define p where "p = (10::rat) powi dexp d"
  let ?c = "of_nat (dcoef d) :: rat" and ?q = "of_nat (round_half_even (dcoef d) k) :: rat"
  have p: "0 < p" by (simp add: p_def)
  have "\<bar>dec_val (dec_fix d) - dec_val d\<bar> = \<bar>?q * 10 ^ k - ?c\<bar> * p"
  proof -
    have "dec_val (dec_fix d) = (if dsign d then -1 else 1) * (?q * 10 ^ k) * p"
      using False dec_val_fix_long [of d] by (simp add: k_def [symmetric] p_def power_int_add)
    then show ?thesis
      using signed_diff_abs [OF p, of "dsign d" "?q * 10 ^ k" ?c]
      by (simp add: dec_val_alt [of d] p_def)
  qed
  also have "\<dots> \<le> (10 ^ k / 2) * p"
    using round_half_even_error [of "dcoef d" k] p by (simp add: mult_right_mono)
  also have "\<dots> \<le> ?c * (5 / 10 ^ dec_prec) * p"
  proof -
    have "dcoef d \<noteq> 0" using False ndigits_gt_1 [of "dcoef d"] by (simp add: dec_prec_def)
    then have "10 ^ (ndigits (dcoef d) - 1) \<le> dcoef d" by (rule ndigits_lower)
    then have "(10::rat) ^ (ndigits (dcoef d) - 1) \<le> ?c"
      by (metis of_nat_le_iff of_nat_numeral of_nat_power)
    moreover have "ndigits (dcoef d) - 1 = k + (dec_prec - 1)"
      using False by (simp add: k_def dec_prec_def)
    ultimately have "(10::rat) ^ k * 10 ^ (dec_prec - 1) \<le> ?c"
      by (metis power_add)
    then have "10 ^ k / 2 \<le> ?c * (5 / 10 ^ dec_prec)"
      by (simp add: dec_prec_def field_simps)
    then show ?thesis by (rule mult_right_mono) (use p in simp)
  qed
  also have "\<dots> = \<bar>dec_val d\<bar> * (5 / 10 ^ dec_prec)"
    using p by (simp add: dec_val_def dec_int_def p_def abs_mult)
  finally show ?thesis .
qed

lemma dec_mul_error:
  "\<bar>dec_val (dec_mul a b) - dec_val a * dec_val b\<bar> \<le> \<bar>dec_val a * dec_val b\<bar> * (5 / 10 ^ dec_prec)"
proof -
  have "dec_val (Dec (dsign a \<noteq> dsign b) (dcoef a * dcoef b) (dexp a + dexp b)) = dec_val a * dec_val b"
    by (auto simp: dec_val_Dec power_int_add dec_val_def dec_int_def)
  then show ?thesis
    using dec_fix_error [of "Dec (dsign a \<noteq> dsign b) (dcoef a * dcoef b) (dexp a + dexp b)"]
    by (simp add: dec_mul_def)
qed

lemma dec_quantize_half_up_error:
  assumes "dec_quantize_half_up e d = Inr q"
  shows "\<bar>dec_val q - dec_val d\<bar> \<le> 10 powi e / 2" and "dexp q = e" and "dsign q = dsign d"
proof -
  show "dexp q = e" and "dsign q = dsign d"
    using assms by (auto simp: dec_quantize_half_up_def Let_def split: if_splits)
  show "\<bar>dec_val q - dec_val d\<bar> \<le> 10 powi e / 2"
  proof (cases "e \<le> dexp d")
    case True
    then have "dec_val q = dec_val d"
      using assms
      by (auto simp: dec_quantize_half_up_def Let_def dec_val_def dec_int_def powi_split
          split: if_splits)
    then show ?thesis by (simp add: less_imp_le)
  next
    case False
    define k where "k = nat (e - dexp d)"
    define p where "p = (10::rat) powi dexp d"
    have p: "0 < p" by (simp add: p_def)
    have e: "10 powi e = p * 10 ^ k"
      using False powi_diff_nat [of "dexp d" e] by (simp add: p_def k_def)
    let ?c = "of_nat (dcoef d) :: rat" and ?q = "of_nat (round_half_up (dcoef d) k) :: rat"
    have "\<bar>dec_val q - dec_val d\<bar> = \<bar>?q * 10 ^ k - ?c\<bar> * p"
    proof -
      have "dec_val q = (if dsign d then -1 else 1) * (?q * 10 ^ k) * p"
        using False assms e
        by (auto simp: dec_quantize_half_up_def Let_def dec_val_Dec k_def [symmetric]
            split: if_splits)
      then show ?thesis
        using signed_diff_abs [OF p, of "dsign d" "?q * 10 ^ k" ?c]
        by (simp add: dec_val_alt [of d] p_def)
    qed
    also have "\<dots> \<le> (10 ^ k / 2) * p"
      using round_half_up_error [of "dcoef d" k] p by (simp add: mult_right_mono)
    finally show ?thesis using e by (simp add: mult.commute)
  qed
qed

section \<open>Results within a number of roundings\<close>

text \<open>
  \<open>rounded n x d\<close>: the decimal \<open>d\<close> is the non-negative number \<open>x\<close> up to \<open>n\<close> roundings to the
  context, each of relative error at most \<open>5 / 10^28\<close>. The operations compose.
\<close>

definition dec_ulp :: rat where
  "dec_ulp = 5 / 10 ^ dec_prec"

definition rounded :: "nat \<Rightarrow> rat \<Rightarrow> decimal \<Rightarrow> bool" where
  "rounded n x d \<longleftrightarrow>
     0 \<le> x \<and> x * (1 - dec_ulp) ^ n \<le> dec_val d \<and> dec_val d \<le> x * (1 + dec_ulp) ^ n"

lemma dec_ulp_bounds: "0 < dec_ulp" "dec_ulp < 1"
  by (simp_all add: dec_ulp_def dec_prec_def)

lemma ulp_powers: "0 \<le> (1 - dec_ulp) ^ n" "0 \<le> (1 + dec_ulp) ^ n"
  using dec_ulp_bounds by simp_all

lemma rounded_exact: "0 \<le> dec_val d \<Longrightarrow> rounded 0 (dec_val d) d"
  by (simp add: rounded_def)

lemma rounded_nonneg: "rounded n x d \<Longrightarrow> 0 \<le> dec_val d"
  unfolding rounded_def using ulp_powers(1) [of n] by (meson mult_nonneg_nonneg order_trans)

lemma rounded_weaken:
  assumes "rounded m x d" and "m \<le> n"
  shows "rounded n x d"
proof -
  have "(1 - dec_ulp) ^ n \<le> (1 - dec_ulp) ^ m" and "(1 + dec_ulp) ^ m \<le> (1 + dec_ulp) ^ n"
    using dec_ulp_bounds assms(2) by (auto intro: power_decreasing power_increasing)
  with assms(1) show ?thesis
    unfolding rounded_def by (meson mult_left_mono order_trans)
qed

lemma rounded_fix:
  assumes "rounded n x d"
  shows "rounded (Suc n) x (dec_fix d)"
proof -
  have v: "0 \<le> dec_val d" using assms by (rule rounded_nonneg)
  then have "\<bar>dec_val (dec_fix d) - dec_val d\<bar> \<le> dec_val d * dec_ulp"
    using dec_fix_error [of d] by (simp add: dec_ulp_def)
  then have lo: "dec_val d * (1 - dec_ulp) \<le> dec_val (dec_fix d)"
    and hi: "dec_val (dec_fix d) \<le> dec_val d * (1 + dec_ulp)"
    by (simp_all add: algebra_simps abs_le_iff)
  have u: "0 \<le> 1 - dec_ulp" "0 \<le> 1 + dec_ulp" using dec_ulp_bounds by simp_all
  from assms have b: "x * (1 - dec_ulp) ^ n \<le> dec_val d" "dec_val d \<le> x * (1 + dec_ulp) ^ n"
    and x: "0 \<le> x" by (auto simp: rounded_def)
  have "x * (1 - dec_ulp) ^ n * (1 - dec_ulp) \<le> dec_val (dec_fix d)"
    using mult_right_mono [OF b(1) u(1)] lo by linarith
  moreover have "dec_val (dec_fix d) \<le> x * (1 + dec_ulp) ^ n * (1 + dec_ulp)"
    using mult_right_mono [OF b(2) u(2)] hi by linarith
  ultimately show ?thesis using x by (simp add: rounded_def ac_simps)
qed

lemma rounded_product:
  assumes "rounded m x a" and "rounded n y b" and "dec_val c = dec_val a * dec_val b"
  shows "rounded (m + n) (x * y) c"
proof -
  have nn: "0 \<le> dec_val a" "0 \<le> dec_val b"
    using assms(1,2) by (auto dest: rounded_nonneg)
  from assms(1,2) have x: "0 \<le> x" "0 \<le> y"
    and lo: "x * (1 - dec_ulp) ^ m \<le> dec_val a" "y * (1 - dec_ulp) ^ n \<le> dec_val b"
    and hi: "dec_val a \<le> x * (1 + dec_ulp) ^ m" "dec_val b \<le> y * (1 + dec_ulp) ^ n"
    by (auto simp: rounded_def)
  have "x * (1 - dec_ulp) ^ m * (y * (1 - dec_ulp) ^ n) \<le> dec_val a * dec_val b"
    using lo nn x ulp_powers by (intro mult_mono) auto
  moreover have "dec_val a * dec_val b \<le> x * (1 + dec_ulp) ^ m * (y * (1 + dec_ulp) ^ n)"
    using hi nn x ulp_powers by (intro mult_mono) auto
  ultimately show ?thesis
    using x by (simp add: rounded_def assms(3) power_add algebra_simps)
qed

lemma rounded_sum:
  assumes "rounded n x a" and "rounded n y b" and "dec_val c = dec_val a + dec_val b"
  shows "rounded n (x + y) c"
  using assms by (auto simp: rounded_def algebra_simps)

lemma dec_mul_fix:
  obtains c where "dec_mul a b = dec_fix c" and "dec_val c = dec_val a * dec_val b"
proof
  show "dec_mul a b = dec_fix (Dec (dsign a \<noteq> dsign b) (dcoef a * dcoef b) (dexp a + dexp b))"
    by (simp add: dec_mul_def)
  show "dec_val (Dec (dsign a \<noteq> dsign b) (dcoef a * dcoef b) (dexp a + dexp b)) = dec_val a * dec_val b"
    by (auto simp: dec_val_Dec power_int_add dec_val_def dec_int_def)
qed

lemma dec_add_fix:
  obtains c where "dec_add a b = dec_fix c" and "dec_val c = dec_val a + dec_val b"
proof
  let ?e = "min (dexp a) (dexp b)"
  let ?x = "dec_scaled ?e a + dec_scaled ?e b"
  show "dec_add a b = dec_fix (Dec (if ?x = 0 then dsign a \<and> dsign b else ?x < 0) (nat \<bar>?x\<bar>) ?e)"
    by (simp add: dec_add_def Let_def)
  show "dec_val (Dec (if ?x = 0 then dsign a \<and> dsign b else ?x < 0) (nat \<bar>?x\<bar>) ?e) =
      dec_val a + dec_val b"
    unfolding dec_val_exact_sum using dec_val_scaled [of ?e a] dec_val_scaled [of ?e b]
    by (simp add: algebra_simps)
qed

lemma rounded_mul:
  assumes "rounded m x a" and "rounded n y b"
  shows "rounded (Suc (m + n)) (x * y) (dec_mul a b)"
proof -
  obtain c where "dec_mul a b = dec_fix c" and "dec_val c = dec_val a * dec_val b"
    by (rule dec_mul_fix)
  with assms show ?thesis by (simp add: rounded_product rounded_fix)
qed

lemma rounded_add:
  assumes "rounded n x a" and "rounded n y b"
  shows "rounded (Suc n) (x + y) (dec_add a b)"
proof -
  obtain c where "dec_add a b = dec_fix c" and "dec_val c = dec_val a + dec_val b"
    by (rule dec_add_fix)
  with assms show ?thesis by (simp add: rounded_sum rounded_fix)
qed

lemma rounded_zero: "rounded n 0 d \<longleftrightarrow> dec_val d = 0"
  by (auto simp: rounded_def)

end
