(* ===== verification/Py_Values.thy ===== *)
theory Py_Values
  imports Py_Decimal
begin

text \<open>
  The dynamically typed values a raw row carries (\<open>Mapping[str, Any]\<close>) and the conversions the
  program applies to them: \<open>str\<close>, \<open>int\<close>, \<open>Decimal\<close> and \<open>uuid.UUID\<close>. The printers of decimals
  and of identifiers come with the theorems that the matching reader inverts them.
\<close>

section \<open>Decimal literals\<close>

text \<open>\<open>str(d)\<close>: the to-scientific-string conversion of the decimal specification.\<close>

definition signed_int_str :: "int \<Rightarrow> string" where
  "signed_int_str i = (if i < 0 then ''-'' else ''+'') @ nat_str (nat \<bar>i\<bar>)"

definition dec_str :: "decimal \<Rightarrow> string" where
  "dec_str d =
     (let ds = nat_str (dcoef d); n = int (length ds); left = dexp d + n;
          dot = (if dexp d \<le> 0 \<and> - 6 < left then left else 1);
          mant = (if dot \<le> 0 then ''0.'' @ replicate (nat (- dot)) (CHR ''0'') @ ds
                  else if n \<le> dot then ds @ replicate (nat (dot - n)) (CHR ''0'')
                  else take (nat dot) ds @ ''.'' @ drop (nat dot) ds);
          ex = (if left = dot then '''' else ''E'' @ signed_int_str (left - dot))
      in (if dsign d then ''-'' else '''') @ mant @ ex)"

text \<open>\<open>Decimal(s)\<close>: optional sign, digits with an optional point, optional exponent.\<close>

definition split_sign :: "string \<Rightarrow> bool \<times> string" where
  "split_sign s = (case s of [] \<Rightarrow> (False, [])
     | c # cs \<Rightarrow> if c = CHR ''-'' then (True, cs) else if c = CHR ''+'' then (False, cs)
                else (False, c # cs))"

definition signed_int_of :: "string \<Rightarrow> int option" where
  "signed_int_of s =
     (let (neg, ds) = split_sign s
      in if ds \<noteq> [] \<and> list_all is_digit ds
         then Some (if neg then - int (digits_val ds) else int (digits_val ds)) else None)"

definition is_exp_mark :: "char \<Rightarrow> bool" where
  "is_exp_mark c \<longleftrightarrow> c = CHR ''e'' \<or> c = CHR ''E''"

definition fraction_of :: "string \<Rightarrow> string option" where
  "fraction_of r = (case r of [] \<Rightarrow> Some []
     | c # fs \<Rightarrow> if c = CHR ''.'' \<and> list_all is_digit fs then Some fs else None)"

definition exponent_of :: "string \<Rightarrow> int option" where
  "exponent_of x = (case x of [] \<Rightarrow> Some 0 | _ # es \<Rightarrow> signed_int_of es)"

definition decimal_body :: "bool \<Rightarrow> string \<Rightarrow> decimal option" where
  "decimal_body neg t =
     (let m = takeWhile (\<lambda>c. \<not> is_exp_mark c) t; x = dropWhile (\<lambda>c. \<not> is_exp_mark c) t;
          ip = takeWhile is_digit m; r = dropWhile is_digit m
      in case (fraction_of r, exponent_of x) of
           (Some fs, Some ex) \<Rightarrow>
             if ip @ fs = [] then None
             else Some (Dec neg (digits_val (ip @ fs)) (ex - int (length fs)))
         | _ \<Rightarrow> None)"

definition special_literal :: "string \<Rightarrow> bool" where
  "special_literal t \<longleftrightarrow>
     (let l = str_lower t in l = ''inf'' \<or> l = ''infinity'' \<or> prefix ''nan'' l \<or> prefix ''snan'' l)"

definition decimal_of_string :: "string \<Rightarrow> decimal res" where
  "decimal_of_string s =
     (let (neg, t) = split_sign (filter (\<lambda>c. c \<noteq> CHR ''_'') (str_strip s))
      in if special_literal t then Inl Unmodelled
         else case decimal_body neg t of None \<Rightarrow> Inl InvalidOperation | Some d \<Rightarrow> Inr d)"

section \<open>Identifiers\<close>

definition hex_chr :: "nat \<Rightarrow> char" where
  "hex_chr d = char_of (if d < 10 then 48 + d else 87 + d)"

fun hex_digits :: "nat \<Rightarrow> nat \<Rightarrow> string" where
  "hex_digits 0 n = []"
| "hex_digits (Suc k) n = hex_digits k (n div 16) @ [hex_chr (n mod 16)]"

definition uuid_str :: "uuid \<Rightarrow> string" where
  "uuid_str u =
     (let h = hex_digits 32 (unat u)
      in take 8 h @ ''-'' @ take 4 (drop 8 h) @ ''-'' @ take 4 (drop 12 h) @ ''-'' @
         take 4 (drop 16 h) @ ''-'' @ drop 20 h)"

definition chr_hex :: "char \<Rightarrow> nat option" where
  "chr_hex c =
     (if 48 \<le> chr_nat c \<and> chr_nat c \<le> 57 then Some (chr_nat c - 48)
      else if 97 \<le> chr_nat c \<and> chr_nat c \<le> 102 then Some (chr_nat c - 87)
      else if 65 \<le> chr_nat c \<and> chr_nat c \<le> 70 then Some (chr_nat c - 55)
      else None)"

definition hex_val :: "string \<Rightarrow> nat" where
  "hex_val s = foldl (\<lambda>a c. 16 * a + (case chr_hex c of None \<Rightarrow> 0 | Some d \<Rightarrow> d)) 0 s"

definition strip_braces :: "string \<Rightarrow> string" where
  "strip_braces s =
     (let b = (\<lambda>c. c = CHR ''{'' \<or> c = CHR ''}'') in rev (dropWhile b (rev (dropWhile b s))))"

text \<open>
  \<open>uuid.UUID(s)\<close>: the prefixes, braces and hyphens are dropped and 32 hexadecimal digits must
  remain. \<open>int(hex, 16)\<close> would also take a few strings with a sign, a base prefix, an underscore
  or white space among their 32 characters; those are outside the model.
\<close>

definition uuid_of_string :: "string \<Rightarrow> uuid res" where
  "uuid_of_string s =
     (let h = filter (\<lambda>c. c \<noteq> CHR ''-'')
                (strip_braces (str_replace ''uuid:'' [] (str_replace ''urn:'' [] s)))
      in if length h \<noteq> 32 then Inl ValueError
         else if list_all (\<lambda>c. chr_hex c \<noteq> None) h then Inr (of_nat (hex_val h))
         else if list_ex (\<lambda>c. chr_space c \<or> c \<in> {CHR ''+'', CHR ''_'', CHR ''x'', CHR ''X''}) h
              then Inl Unmodelled else Inl ValueError)"

section \<open>Dynamic values\<close>

text \<open>
  The kinds of value a raw row holds. A float is carried by its shortest text \<open>repr(x)\<close>, which
  identifies it; the program converts floats to decimals through that text only.
\<close>

datatype pyval =
    PNone
  | PInt int
  | PFloat string
  | PStr string
  | PDec decimal
  | PUuid uuid

type_synonym row = "string \<rightharpoonup> pyval"

definition row_get :: "row \<Rightarrow> string \<Rightarrow> pyval res" where
  "row_get r k = (case r k of None \<Rightarrow> Inl (KeyError k) | Some v \<Rightarrow> Inr v)"

definition row_get_default :: "row \<Rightarrow> string \<Rightarrow> pyval \<Rightarrow> pyval" where
  "row_get_default r k v0 = (case r k of None \<Rightarrow> v0 | Some v \<Rightarrow> v)"

fun py_str :: "pyval \<Rightarrow> string" where
  "py_str PNone = ''None''"
| "py_str (PInt i) = int_str i"
| "py_str (PFloat r) = r"
| "py_str (PStr s) = s"
| "py_str (PDec d) = dec_str d"
| "py_str (PUuid u) = uuid_str u"

text \<open>\<open>int(d)\<close> truncates towards zero.\<close>

definition dec_trunc :: "decimal \<Rightarrow> int" where
  "dec_trunc d =
     (let m = (if 0 \<le> dexp d then dcoef d * 10 ^ nat (dexp d) else dcoef d div 10 ^ nat (- dexp d))
      in if dsign d then - int m else int m)"

definition int_of_string :: "string \<Rightarrow> int res" where
  "int_of_string s =
     (let t = str_strip s in
      case signed_int_of t of Some i \<Rightarrow> Inr i
      | None \<Rightarrow> if CHR ''_'' \<in> set t then Inl Unmodelled else Inl ValueError)"

fun py_int :: "pyval \<Rightarrow> int res" where
  "py_int PNone = Inl TypeError"
| "py_int (PInt i) = Inr i"
| "py_int (PFloat r) =
     rbind (decimal_of_string r) (\<lambda>d. if dec_less (Dec False (10 ^ 15) 0) (dec_abs d)
                                       then Inl Unmodelled else Inr (dec_trunc d))"
| "py_int (PStr s) = int_of_string s"
| "py_int (PDec d) = Inr (dec_trunc d)"
| "py_int (PUuid u) = Inr (uint u)"

section \<open>Reading inverts printing\<close>

lemma dropWhile_absent: "(\<And>c. c \<in> set s \<Longrightarrow> \<not> P c) \<Longrightarrow> dropWhile P s = s"
  by (cases s) simp_all

lemma str_strip_id: "(\<And>c. c \<in> set s \<Longrightarrow> \<not> chr_space c) \<Longrightarrow> str_strip s = s"
proof -
  assume s: "\<And>c. c \<in> set s \<Longrightarrow> \<not> chr_space c"
  have "dropWhile chr_space s = s" and "dropWhile chr_space (rev s) = rev s"
    by (rule dropWhile_absent; use s in simp)+
  then show ?thesis by (simp add: str_strip_def)
qed

lemma digit_facts:
  "is_digit c \<Longrightarrow> \<not> chr_space c \<and> c \<noteq> CHR ''_'' \<and> \<not> is_exp_mark c \<and> c \<noteq> CHR ''-'' \<and>
     c \<noteq> CHR ''+'' \<and> c \<noteq> CHR ''.''"
  by (auto simp: is_digit_def chr_space_def is_exp_mark_def)

lemma split_sign_digit: "is_digit c \<Longrightarrow> split_sign (c # cs) = (False, c # cs)"
  using digit_facts [of c] by (simp add: split_sign_def)

lemma signed_int_of_print: "signed_int_of (signed_int_str i) = Some i"
  using nat_str_digits [of "nat \<bar>i\<bar>"]
  by (auto simp: signed_int_of_def signed_int_str_def split_sign_def list_all_iff)

lemma span_parts:
  assumes "\<And>c. c \<in> set xs \<Longrightarrow> P c" and "ys = [] \<or> \<not> P (hd ys)"
  shows "takeWhile P (xs @ ys) = xs" and "dropWhile P (xs @ ys) = ys"
proof -
  have y: "takeWhile P ys = []" "dropWhile P ys = ys"
    using assms(2) by (cases ys; simp)+
  show "takeWhile P (xs @ ys) = xs" "dropWhile P (xs @ ys) = ys"
    using assms(1) y by (simp_all add: takeWhile_append2 dropWhile_append2)
qed

lemma decimal_body_parts:
  assumes ip: "list_all is_digit ip" and r: "r = [] \<or> \<not> is_digit (hd r)"
    and f: "fraction_of r = Some fs" and x: "x = [] \<or> is_exp_mark (hd x)"
    and e: "exponent_of x = Some ex" and ne: "ip \<noteq> []"
  shows "decimal_body neg (ip @ r @ x) = Some (Dec neg (digits_val (ip @ fs)) (ex - int (length fs)))"
proof -
  have fs: "r = [] \<and> fs = [] \<or> r = CHR ''.'' # fs \<and> list_all is_digit fs"
    using f by (auto simp: fraction_of_def split: list.splits if_splits)
  have m: "\<not> is_exp_mark c" if "c \<in> set (ip @ r)" for c
  proof -
    have "is_digit c \<or> c = CHR ''.''" using that ip fs by (auto simp: list_all_iff)
    then show ?thesis using digit_facts [of c] by (auto simp: is_exp_mark_def)
  qed
  have "takeWhile (\<lambda>c. \<not> is_exp_mark c) ((ip @ r) @ x) = ip @ r"
    and "dropWhile (\<lambda>c. \<not> is_exp_mark c) ((ip @ r) @ x) = x"
    by (rule span_parts; use m x in auto)+
  moreover have "takeWhile is_digit (ip @ r) = ip" and "dropWhile is_digit (ip @ r) = r"
    by (rule span_parts; use ip r in \<open>auto simp: list_all_iff\<close>)+
  ultimately show ?thesis
    using f e ne unfolding decimal_body_def by (simp add: Let_def)
qed

lemma decimal_of_string_body:
  assumes "list_all is_digit ip" and "ip \<noteq> []" and "fraction_of r = Some fs"
    and "r = [] \<or> \<not> is_digit (hd r)" and "x = [] \<or> is_exp_mark (hd x)"
    and "exponent_of x = Some ex"
    and clean: "\<And>c. c \<in> set (r @ x) \<Longrightarrow> \<not> chr_space c \<and> c \<noteq> CHR ''_''"
  shows "decimal_of_string ((if neg then ''-'' else '''') @ ip @ r @ x) =
    Inr (Dec neg (digits_val (ip @ fs)) (ex - int (length fs)))"
proof -
  let ?t = "ip @ r @ x" and ?s = "(if neg then ''-'' else '''') @ ip @ r @ x"
  obtain c cs where ip: "ip = c # cs" and c: "is_digit c"
    using assms(1,2) by (cases ip) auto
  have sp: "\<not> chr_space c \<and> c \<noteq> CHR ''_''" if "c \<in> set ?s" for c
  proof -
    have "is_digit c \<or> c = CHR ''-'' \<or> c \<in> set (r @ x)"
      using that assms(1) by (auto simp: list_all_iff split: if_splits)
    then show ?thesis using digit_facts [of c] clean [of c] by (auto simp: chr_space_def)
  qed
  have "str_strip ?s = ?s" by (rule str_strip_id) (use sp in blast)
  moreover have "filter (\<lambda>c. c \<noteq> CHR ''_'') ?s = ?s" by (rule filter_True) (use sp in blast)
  moreover have "split_sign ?s = (neg, ?t)"
    using split_sign_digit [OF c] by (simp add: ip split_sign_def)
  moreover have "\<not> special_literal ?t"
  proof -
    have "chr_lower c = c" and "c \<noteq> CHR ''i''" "c \<noteq> CHR ''n''" "c \<noteq> CHR ''s''"
      using c by (auto simp: is_digit_def chr_lower_def)
    then show ?thesis by (auto simp: special_literal_def Let_def str_lower_def ip)
  qed
  ultimately show ?thesis
    using decimal_body_parts [of ip r fs x ex neg] assms
    by (simp add: decimal_of_string_def del: append_assoc)
qed

lemma signed_int_str_clean:
  "c \<in> set (signed_int_str i) \<Longrightarrow> \<not> chr_space c \<and> c \<noteq> CHR ''_''"
  using nat_str_digits [of "nat \<bar>i\<bar>"] digit_facts [of c]
  by (auto simp: signed_int_str_def chr_space_def split: if_splits)

lemma nat_str_all_digits: "list_all is_digit (nat_str n)"
  using nat_str_digits by (simp add: list_all_iff)

lemma fraction_of_digits: "list_all is_digit fs \<Longrightarrow> fraction_of (CHR ''.'' # fs) = Some fs"
  by (simp add: fraction_of_def)

lemma digit_clean: "list_all is_digit fs \<Longrightarrow> c \<in> set fs \<Longrightarrow> \<not> chr_space c \<and> c \<noteq> CHR ''_''"
  using digit_facts [of c] by (simp add: list_all_iff)

lemma point_clean:
  "list_all is_digit fs \<Longrightarrow> c \<in> set (CHR ''.'' # fs) \<Longrightarrow> \<not> chr_space c \<and> c \<noteq> CHR ''_''"
  using digit_clean [of fs c] by (auto simp: chr_space_def)

lemma not_digit_point: "\<not> is_digit (CHR ''.'')"
  by (simp add: is_digit_def)

lemma decimal_of_fixed:
  assumes "list_all is_digit ip" and "ip \<noteq> []" and "list_all is_digit fs"
  shows "decimal_of_string ((if neg then ''-'' else '''') @ ip @ CHR ''.'' # fs) =
    Inr (Dec neg (digits_val (ip @ fs)) (- int (length fs)))"
  using decimal_of_string_body [OF assms(1,2) fraction_of_digits [OF assms(3)], of "[]" 0 neg]
    point_clean [OF assms(3)]
  by (simp add: not_digit_point exponent_of_def)

lemma decimal_of_exp:
  assumes "list_all is_digit ip" and "ip \<noteq> []" and "list_all is_digit fs"
  shows "decimal_of_string ((if neg then ''-'' else '''') @ ip @
      (if fs = [] then [] else CHR ''.'' # fs) @ CHR ''E'' # signed_int_str x) =
    Inr (Dec neg (digits_val (ip @ fs)) (x - int (length fs)))"
proof (rule decimal_of_string_body [OF assms(1,2)])
  show "fraction_of (if fs = [] then [] else CHR ''.'' # fs) = Some fs"
    using assms(3) by (simp add: fraction_of_def)
  show "exponent_of (CHR ''E'' # signed_int_str x) = Some x"
    by (simp add: exponent_of_def signed_int_of_print)
  fix c
  assume "c \<in> set ((if fs = [] then [] else CHR ''.'' # fs) @ CHR ''E'' # signed_int_str x)"
  then have "c \<in> set (CHR ''.'' # fs) \<or> c = CHR ''E'' \<or> c \<in> set (signed_int_str x)"
    by (auto split: if_splits)
  then show "\<not> chr_space c \<and> c \<noteq> CHR ''_''"
    using point_clean [OF assms(3), of c] signed_int_str_clean [of c x] by (auto simp: chr_space_def)
qed (auto simp: not_digit_point is_exp_mark_def)

text \<open>
  The text of a decimal determines it, trailing zeros and exponent included:
  \<open>Decimal(str(d))\<close> is \<open>d\<close>.
\<close>

lemma decimal_of_dec_str: "decimal_of_string (dec_str d) = Inr d"
proof -
  obtain s c e where d: "d = Dec s c e" by (cases d)
  define ds where "ds = nat_str c"
  define n where "n = length ds"
  have n: "0 < n" and ne: "ds \<noteq> []" and dig: "list_all is_digit ds" and val: "digits_val ds = c"
    by (simp_all add: ds_def n_def nat_str_all_digits)
  have part: "list_all is_digit (take k ds)" "list_all is_digit (drop k ds)" for k
    using dig by (auto simp: list_all_iff dest: in_set_takeD in_set_dropD)
  consider (whole) "e = 0" | (small) "e < 0" "e + int n \<le> 0" "- 6 < e + int n"
    | (point) "e < 0" "0 < e + int n" | (expo) "0 < e \<or> e + int n \<le> - 6"
    by linarith
  then show ?thesis
  proof cases
    case whole
    then show ?thesis
      using decimal_of_string_body [OF dig ne, of "[]" "[]" "[]" 0 s] n val ne
      by (simp add: d dec_str_def ds_def [symmetric] n_def [symmetric] Let_def fraction_of_def
          exponent_of_def)
  next
    case small
    have "list_all is_digit (replicate (nat (- e - int n)) (CHR ''0'') @ ds)"
      using dig by (auto simp: list_all_iff is_digit_def)
    moreover have "digits_val (CHR ''0'' # replicate (nat (- e - int n)) (CHR ''0'') @ ds) = c"
      using digits_val_append [of "replicate (Suc (nat (- e - int n))) (CHR ''0'')" ds] val
        digits_val_zeros [of "Suc (nat (- e - int n))"] by simp
    ultimately show ?thesis
      using decimal_of_fixed [of "''0''" "replicate (nat (- e - int n)) (CHR ''0'') @ ds" s] small
      by (simp add: d dec_str_def ds_def [symmetric] Let_def n_def [symmetric] is_digit_def
          add.commute)
  next
    case point
    define k where "k = nat (e + int n)"
    have k: "k < n" "0 < k" "int k = e + int n" using point by (simp_all add: k_def)
    have "take k ds \<noteq> []" using k n by (simp add: n_def)
    then show ?thesis
      using decimal_of_fixed [OF part(1) [of k] _ part(2) [of k], of s] point k val
      by (simp add: d dec_str_def ds_def [symmetric] Let_def n_def [symmetric] k_def [symmetric])
  next
    case expo
    have c: "\<not> (e \<le> 0 \<and> - 6 < e + int n)" "e + int n \<noteq> 1" using expo n by auto
    have "take 1 ds \<noteq> []" using n by (simp add: n_def)
    moreover have "(if drop 1 ds = [] then [] else CHR ''.'' # drop 1 ds) =
        (if n \<le> 1 then [] else CHR ''.'' # drop 1 ds)" by (simp add: n_def)
    moreover have "n \<le> 1 \<Longrightarrow> take 1 ds = ds" by (simp add: n_def)
    ultimately show ?thesis
      using decimal_of_exp [OF part(1) [of 1] _ part(2) [of 1], of s "e + int n - 1"] c n val
      by (auto simp: d dec_str_def ds_def [symmetric] Let_def n_def [symmetric])
  qed
qed

subsection \<open>Identifiers\<close>

lemma str_replace_n_absent:
  "x \<in> set pat \<Longrightarrow> x \<notin> set s \<Longrightarrow> str_replace_n k n pat rep s = s"
proof (induction k n pat rep s rule: str_replace_n.induct)
  case (3 k n pat rep c cs)
  then have "\<not> prefix pat (c # cs)" by (meson set_mono_prefix subsetD)
  with 3 show ?case by simp
qed simp_all

lemma str_replace_absent: "x \<in> set pat \<Longrightarrow> x \<notin> set s \<Longrightarrow> str_replace pat rep s = s"
  by (simp add: str_replace_def str_replace_n_absent)

definition is_hex :: "char \<Rightarrow> bool" where
  "is_hex c \<longleftrightarrow> (48 \<le> chr_nat c \<and> chr_nat c \<le> 57) \<or> (97 \<le> chr_nat c \<and> chr_nat c \<le> 102)"

lemma is_hex_facts:
  "is_hex c \<Longrightarrow> c \<noteq> CHR ''-'' \<and> c \<noteq> CHR '':'' \<and> c \<noteq> CHR ''{'' \<and> c \<noteq> CHR ''}'' \<and> chr_hex c \<noteq> None"
  by (auto simp: is_hex_def chr_hex_def)

lemma hex_chr_props:
  assumes "d < 16"
  shows "is_hex (hex_chr d)" and "chr_hex (hex_chr d) = Some d"
  using assms by (auto simp: is_hex_def hex_chr_def chr_hex_def)

lemma hex_digits_props:
  "length (hex_digits k n) = k" "\<forall>c\<in>set (hex_digits k n). is_hex c"
  "hex_val (hex_digits k n) = n mod 16 ^ k"
proof (induction k arbitrary: n)
  case (Suc k)
  { case 1 show ?case using Suc.IH(1) by simp }
  { case 2 show ?case using Suc.IH(2) hex_chr_props(1) [of "n mod 16"] by auto }
  { case 3
    have "hex_val (hex_digits (Suc k) n) = 16 * (n div 16 mod 16 ^ k) + n mod 16"
      using Suc.IH(3) [of "n div 16"] hex_chr_props(2) [of "n mod 16"] by (simp add: hex_val_def)
    also have "\<dots> = n mod 16 ^ Suc k"
      using mod_mult2_eq [of n 16 "16 ^ k"] by simp
    finally show ?case . }
qed (simp_all add: hex_val_def)

lemma length_uuid_str: "length (uuid_str u) = 36"
  using hex_digits_props(1) [of 32 "unat u"] by (simp add: uuid_str_def Let_def)

text \<open>The text of an identifier determines it: \<open>uuid.UUID(str(u))\<close> is \<open>u\<close>.\<close>

lemma uuid_of_uuid_str: "uuid_of_string (uuid_str u) = Inr u"
proof -
  define h where "h = hex_digits 32 (unat u)"
  have len: "length h = 32" and hex: "\<forall>c\<in>set h. is_hex c" and val: "hex_val h = unat u mod 16 ^ 32"
    using hex_digits_props [of 32 "unat u"] by (simp_all add: h_def)
  let ?s = "uuid_str u"
  have s: "?s = take 8 h @ ''-'' @ take 4 (drop 8 h) @ ''-'' @ take 4 (drop 12 h) @ ''-'' @
      take 4 (drop 16 h) @ ''-'' @ drop 20 h"
    by (simp add: uuid_str_def Let_def h_def)
  have chars: "is_hex c \<or> c = CHR ''-''" if "c \<in> set ?s" for c
    using that hex by (auto simp: s dest!: in_set_takeD in_set_dropD)
  have no: "CHR '':'' \<notin> set ?s" "CHR ''{'' \<notin> set ?s" "CHR ''}'' \<notin> set ?s"
    using chars is_hex_facts by fastforce+
  have "str_replace ''uuid:'' [] (str_replace ''urn:'' [] ?s) = ?s"
    using no(1) str_replace_absent [of "CHR '':''" "''urn:''" ?s]
      str_replace_absent [of "CHR '':''" "''uuid:''" ?s] by simp
  moreover have "strip_braces ?s = ?s"
  proof -
    let ?b = "\<lambda>c. c = CHR ''{'' \<or> c = CHR ''}''"
    have "\<not> ?b c" if "c \<in> set ?s" for c using that no(2,3) by auto
    then have "dropWhile ?b ?s = ?s" and "dropWhile ?b (rev ?s) = rev ?s"
      by (intro dropWhile_absent, simp)+
    then show ?thesis unfolding strip_braces_def Let_def by (metis rev_rev_ident)
  qed
  moreover have "filter (\<lambda>c. c \<noteq> CHR ''-'') ?s = h"
  proof -
    have part: "filter (\<lambda>c. c \<noteq> CHR ''-'') p = p" if "set p \<subseteq> set h" for p
      using that hex is_hex_facts by (intro filter_True) blast
    have "filter (\<lambda>c. c \<noteq> CHR ''-'') ?s =
        take 8 h @ take 4 (drop 8 h) @ take 4 (drop 12 h) @ take 4 (drop 16 h) @ drop 20 h"
      by (simp add: s part set_take_subset set_drop_subset order_trans [OF set_take_subset])
    also have "\<dots> = h"
      using append_take_drop_id [of 8 h] append_take_drop_id [of 4 "drop 8 h"]
        append_take_drop_id [of 4 "drop 12 h"] append_take_drop_id [of 4 "drop 16 h"] by simp
    finally show ?thesis .
  qed
  moreover have "list_all (\<lambda>c. chr_hex c \<noteq> None) h"
    using hex is_hex_facts by (auto simp: list_all_iff)
  moreover have "hex_val h = unat u"
    using val unsigned_less [of u, where ?'a = nat] by simp
  ultimately show ?thesis
    using len by (simp add: uuid_of_string_def Let_def)
qed

lemma uuid_str_inj: "uuid_str u = uuid_str v \<longleftrightarrow> u = v"
  using uuid_of_uuid_str [of u] uuid_of_uuid_str [of v] by (metis Inr_inject)

end
