(* ===== verification/Domain_Model.thy ===== *)
theory Domain_Model
  imports Py_Values
begin

text \<open>
  The domain layer of the calculation engine (\<open>domain/\<close>): the GWP value sets and their lookup
  table, the factor record and the factor-catalogue port, the emission record with the checks of
  its constructor, and the two run policies (one GWP set per run, no in-place mutation).

  Each \<open>__post_init__\<close> is a function to \<open>unit res\<close> that applies the source's checks in the
  source's order; its correctness lemma states exactly which records pass.
\<close>

section \<open>GWP value sets (\<open>value_objects/gwp_set.py\<close>, \<open>ports/gwp_table.py\<close>)\<close>

record GWPValues =
  gv_code :: string
  gv_co2 :: decimal
  gv_ch4 :: decimal
  gv_n2o :: decimal
  gv_sf6 :: decimal
  gv_hfc134a :: decimal

definition AR6 :: GWPValues where
  "AR6 = \<lparr>gv_code = ''AR6'', gv_co2 = Dec False 1 0, gv_ch4 = Dec False 279 (- 1),
     gv_n2o = Dec False 273 0, gv_sf6 = Dec False 25200 0, gv_hfc134a = Dec False 1530 0\<rparr>"

definition AR5 :: GWPValues where
  "AR5 = \<lparr>gv_code = ''AR5'', gv_co2 = Dec False 1 0, gv_ch4 = Dec False 28 0,
     gv_n2o = Dec False 265 0, gv_sf6 = Dec False 23500 0, gv_hfc134a = Dec False 1300 0\<rparr>"

definition gwp_registry :: "(string \<times> GWPValues) list" where
  "gwp_registry = [(''AR6'', AR6), (''AR5'', AR5)]"

definition get_gwp_values :: "string \<Rightarrow> GWPValues res" where
  "get_gwp_values code =
     (case map_of gwp_registry code of None \<Rightarrow> Inl (KeyError code) | Some v \<Rightarrow> Inr v)"

text \<open>\<open>GWPSetTable.get\<close>: the substance is upper-cased and underscores become hyphens.\<close>

definition gwp_table_mapping :: "GWPValues \<Rightarrow> (string \<times> decimal) list" where
  "gwp_table_mapping g =
     [(''CO2'', gv_co2 g), (''CH4'', gv_ch4 g), (''N2O'', gv_n2o g), (''SF6'', gv_sf6 g),
      (''HFC-134A'', gv_hfc134a g)]"

definition gwp_table_get :: "GWPValues \<Rightarrow> string \<Rightarrow> decimal res" where
  "gwp_table_get g substance =
     (let key = str_replace ''_'' ''-'' (str_upper substance)
      in case map_of (gwp_table_mapping g) key of
           None \<Rightarrow> Inl (KeyError substance) | Some v \<Rightarrow> Inr v)"

section \<open>Factors (\<open>ports/factor_catalog.py\<close>)\<close>

record FactorRecord =
  fr_factor_id :: string
  fr_version :: string
  fr_value :: "decimal option"
  fr_unit :: string
  fr_source :: string
  fr_gwp_set :: string
  fr_biogenic_co2_kg_per_unit :: "decimal option"
  fr_vintage :: "string option"
  fr_applicability_note :: "string option"
  fr_is_tbc :: bool
  fr_is_licence_only :: bool
  fr_factor_db_id :: "uuid option"

text \<open>The port: \<open>get(factor_id, gwp_set, vintage_year)\<close> and \<open>get_biogenic_share(factor_id, gwp_set)\<close>.\<close>

record FactorCatalogPort =
  cat_get :: "string \<Rightarrow> string \<Rightarrow> int option \<Rightarrow> FactorRecord res"
  cat_get_biogenic_share :: "string \<Rightarrow> string \<Rightarrow> decimal option res"

section \<open>Emission records (\<open>entities/emission_record.py\<close>)\<close>

definition ALLOWED_SUB_SCOPES :: "(int \<times> string list) list" where
  "ALLOWED_SUB_SCOPES =
     [(1, [''combustion'', ''process'', ''fugitive'']),
      (2, [''LB'', ''MB'']),
      (3, [''Cat1'', ''Cat2'', ''Cat3_WTT_FUEL'', ''Cat3_WTT_ELEC'', ''Cat3_TND'', ''Cat4'', ''Cat5'',
           ''Cat6'', ''Cat7'', ''Cat8_ZERO'', ''Cat9'', ''Cat10_ZERO'', ''Cat11_ZERO'', ''Cat12'',
           ''Cat13_ZERO'', ''Cat14_ZERO'', ''Cat15_ZERO''])]"

definition ALLOWED_METHODOLOGIES :: "string list" where
  "ALLOWED_METHODOLOGIES =
     [''activity-based'', ''mass-based'', ''spend-based'', ''distance-based'', ''stoichiometric'',
      ''declared-zero'', ''location-based'', ''market-based'']"

definition ALLOWED_REGULATORY_STREAMS :: "string list" where
  "ALLOWED_REGULATORY_STREAMS = [''CSRD_ESRS_E1'', ''EU_ETS_PHASE_IV'']"

definition ALLOWED_GWP_SETS :: "string list" where
  "ALLOWED_GWP_SETS = [''AR6'', ''AR5'']"

record EmissionRecord =
  er_correlation_id :: uuid
  er_raw_row_id :: "uuid option"
  er_scope :: int
  er_sub_scope :: string
  er_codice_sito :: "string option"
  er_anno :: int
  er_tco2e :: decimal
  er_factor_id :: string
  er_factor_version :: string
  er_factor_source :: string
  er_gwp_set :: string
  er_methodology :: string
  er_regulatory_stream :: string
  er_calc_timestamp :: datetime
  er_created_by :: string
  er_id :: uuid
  er_co2_tonne :: "decimal option"
  er_co2_biogenic_tonne :: "decimal option"
  er_co2_fossil_tonne :: "decimal option"
  er_ch4_tco2e :: "decimal option"
  er_n2o_tco2e :: "decimal option"
  er_factor_id_uuid :: "uuid option"
  er_valid_from :: "datetime option"
  er_valid_to :: "datetime option"
  er_superseded_by :: "uuid option"
  er_reason_code :: "string option"
  er_disclosure_notes :: "string option"
  er_uncertainty_band_lower :: "decimal option"
  er_uncertainty_band_upper :: "decimal option"

definition opt_negative :: "decimal option \<Rightarrow> bool" where
  "opt_negative v = (case v of None \<Rightarrow> False | Some d \<Rightarrow> dec_less d dec_zero)"

definition er_post_init :: "EmissionRecord \<Rightarrow> unit res" where
  "er_post_init r =
     (if er_scope r \<notin> {1, 2, 3} then Inl ValueError
      else if dec_less (er_tco2e r) dec_zero then Inl NegativeEmissionError
      else case map_of ALLOWED_SUB_SCOPES (er_scope r) of
        None \<Rightarrow> Inl (KeyError (int_str (er_scope r)))
      | Some allowed \<Rightarrow>
        if er_sub_scope r \<notin> set allowed then Inl InvalidSubScopeError
        else if er_methodology r \<notin> set ALLOWED_METHODOLOGIES then Inl InvalidMethodologyError
        else if er_regulatory_stream r \<notin> set ALLOWED_REGULATORY_STREAMS
          then Inl InvalidRegulatoryStreamError
        else if er_gwp_set r \<notin> set ALLOWED_GWP_SETS then Inl InvalidGWPSetError
        else if \<not> tz_aware (er_calc_timestamp r) then Inl NaiveTimestampError
        else if opt_negative (er_co2_biogenic_tonne r) then Inl ValueError
        else if opt_negative (er_co2_fossil_tonne r) then Inl ValueError
        else Inr ())"

section \<open>Run policies (\<open>policies/\<close>)\<close>

definition assert_single_gwp_set :: "string list \<Rightarrow> string res" where
  "assert_single_gwp_set gwp_sets =
     (if gwp_sets = [] then Inl ValueError
      else let unique = remdups gwp_sets
           in if 1 < length unique then Inl MixedGWPSetError else Inr (hd unique))"

definition assert_no_mutation :: "string \<Rightarrow> string \<Rightarrow> unit res" where
  "assert_no_mutation entity_name attempted_field = Inl ImmutabilityViolationError"

section \<open>What the checks establish\<close>

lemma gwp_table_get_known [simp]:
  "gwp_table_get g ''CO2'' = Inr (gv_co2 g)"
  "gwp_table_get g ''CH4'' = Inr (gv_ch4 g)"
  "gwp_table_get g ''N2O'' = Inr (gv_n2o g)"
  by (simp_all add: gwp_table_get_def gwp_table_mapping_def str_upper_def chr_upper_def
      str_replace_def)

lemma get_gwp_values_cases:
  "get_gwp_values code = Inr g \<longleftrightarrow> code = ''AR6'' \<and> g = AR6 \<or> code = ''AR5'' \<and> g = AR5"
  by (auto simp: get_gwp_values_def gwp_registry_def split: if_splits)

lemma opt_negative_iff: "opt_negative v \<longleftrightarrow> (\<exists>d. v = Some d \<and> dec_val d < 0)"
  by (auto simp: opt_negative_def dec_cmp_value split: option.splits)

text \<open>The invariant of a constructed record.\<close>

definition er_wf :: "EmissionRecord \<Rightarrow> bool" where
  "er_wf r \<longleftrightarrow>
     er_scope r \<in> {1, 2, 3} \<and>
     0 \<le> dec_val (er_tco2e r) \<and>
     (\<exists>allowed. (er_scope r, allowed) \<in> set ALLOWED_SUB_SCOPES \<and> er_sub_scope r \<in> set allowed) \<and>
     er_methodology r \<in> set ALLOWED_METHODOLOGIES \<and>
     er_regulatory_stream r \<in> set ALLOWED_REGULATORY_STREAMS \<and>
     er_gwp_set r \<in> set ALLOWED_GWP_SETS \<and>
     tz_aware (er_calc_timestamp r) \<and>
     (\<forall>d. er_co2_biogenic_tonne r = Some d \<longrightarrow> 0 \<le> dec_val d) \<and>
     (\<forall>d. er_co2_fossil_tonne r = Some d \<longrightarrow> 0 \<le> dec_val d)"

lemma allowed_sub_scopes_map:
  "map_of ALLOWED_SUB_SCOPES s = Some allowed \<longleftrightarrow> (s, allowed) \<in> set ALLOWED_SUB_SCOPES"
  by (auto simp: ALLOWED_SUB_SCOPES_def)

lemma er_post_init_ok: "er_post_init r = Inr () \<longleftrightarrow> er_wf r"
proof -
  have "er_scope r \<in> {1, 2, 3} \<Longrightarrow> map_of ALLOWED_SUB_SCOPES (er_scope r) \<noteq> None"
    by (auto simp: ALLOWED_SUB_SCOPES_def)
  then show ?thesis
    unfolding er_post_init_def er_wf_def opt_negative_iff dec_cmp_value
    by (auto simp: not_less allowed_sub_scopes_map [symmetric] split: option.splits)
qed

lemma assert_single_gwp_set_ok:
  "assert_single_gwp_set gs = Inr g \<longleftrightarrow> gs \<noteq> [] \<and> set gs = {g}"
proof
  assume "assert_single_gwp_set gs = Inr g"
  then have ne: "gs \<noteq> []" and len: "length (remdups gs) \<le> 1" and g: "g = hd (remdups gs)"
    by (auto simp: assert_single_gwp_set_def Let_def split: if_splits)
  from ne have "remdups gs \<noteq> []" by simp
  with len obtain x where "remdups gs = [x]"
    by (cases "remdups gs") auto
  then show "gs \<noteq> [] \<and> set gs = {g}"
    using ne g set_remdups [of gs] by simp
next
  assume a: "gs \<noteq> [] \<and> set gs = {g}"
  then have "card (set gs) = 1" by simp
  then have "length (remdups gs) = 1" by (simp add: length_remdups_card_conv)
  moreover then obtain x where "remdups gs = [x]" by (auto simp: length_Suc_conv)
  moreover then have "x = g" using a set_remdups [of gs] by simp
  ultimately show "assert_single_gwp_set gs = Inr g"
    using a by (simp add: assert_single_gwp_set_def)
qed

end
