(* ===== verification/Calc_Helpers.thy ===== *)
theory Calc_Helpers
  imports Domain_Model
begin

text \<open>
  \<open>application/calc/_helpers.py\<close>: factor lookup, the emission-record builder, and the
  coercions. A calculation module is a loop that computes the arguments of \<open>make_emission\<close> from
  a row (pure, may raise) and builds the record (reads the clock, draws an identifier, may raise
  in the constructor). The second half of the theory makes this a refinement: \<open>realizes m p\<close>
  says that the effectful loop \<open>m\<close> returns exactly when the pure plan \<open>p\<close> is a list of argument
  records that all pass the constructor, and then returns exactly the records built from them.
\<close>

section \<open>Operations\<close>

definition KG_TO_TONNE :: decimal where
  "KG_TO_TONNE = Dec False 1 (- 3)"

definition utc_now :: "datetime run" where
  "utc_now = now_utc"

definition require_factor ::
    "FactorCatalogPort \<Rightarrow> string \<Rightarrow> string \<Rightarrow> int option \<Rightarrow> FactorRecord res" where
  "require_factor catalog factor_id gwp_set vintage_year =
     rbind (cat_get catalog factor_id gwp_set vintage_year) (\<lambda>record.
       if fr_value record = None then Inl MissingFactorError else Inr record)"

text \<open>The keyword arguments of \<open>make_emission\<close>.\<close>

record EmissionArgs =
  ea_correlation_id :: uuid
  ea_raw_row_id :: "uuid option"
  ea_scope :: int
  ea_sub_scope :: string
  ea_codice_sito :: "string option"
  ea_anno :: int
  ea_tco2e :: decimal
  ea_factor :: FactorRecord
  ea_gwp_set :: string
  ea_methodology :: string
  ea_regulatory_stream :: string
  ea_created_by :: string
  ea_calc_timestamp :: "datetime option"
  ea_co2_tonne :: "decimal option"
  ea_co2_biogenic_tonne :: "decimal option"
  ea_co2_fossil_tonne :: "decimal option"
  ea_ch4_tco2e :: "decimal option"
  ea_n2o_tco2e :: "decimal option"
  ea_disclosure_notes :: "string option"
  ea_uncertainty_band_lower :: "decimal option"
  ea_uncertainty_band_upper :: "decimal option"

text \<open>The \<open>EmissionRecord(...)\<close> call; \<open>t\<close> and \<open>i\<close> are the timestamp and the default identifier.\<close>

definition emission_of :: "EmissionArgs \<Rightarrow> datetime \<Rightarrow> uuid \<Rightarrow> EmissionRecord" where
  "emission_of a t i =
     \<lparr>er_correlation_id = ea_correlation_id a, er_raw_row_id = ea_raw_row_id a,
      er_scope = ea_scope a, er_sub_scope = ea_sub_scope a, er_codice_sito = ea_codice_sito a,
      er_anno = ea_anno a, er_tco2e = ea_tco2e a,
      er_factor_id = fr_factor_id (ea_factor a), er_factor_version = fr_version (ea_factor a),
      er_factor_source = fr_source (ea_factor a), er_gwp_set = ea_gwp_set a,
      er_methodology = ea_methodology a, er_regulatory_stream = ea_regulatory_stream a,
      er_calc_timestamp = t, er_created_by = ea_created_by a, er_id = i,
      er_co2_tonne = ea_co2_tonne a, er_co2_biogenic_tonne = ea_co2_biogenic_tonne a,
      er_co2_fossil_tonne = ea_co2_fossil_tonne a, er_ch4_tco2e = ea_ch4_tco2e a,
      er_n2o_tco2e = ea_n2o_tco2e a, er_factor_id_uuid = fr_factor_db_id (ea_factor a),
      er_valid_from = None, er_valid_to = None, er_superseded_by = None, er_reason_code = None,
      er_disclosure_notes = ea_disclosure_notes a,
      er_uncertainty_band_lower = ea_uncertainty_band_lower a,
      er_uncertainty_band_upper = ea_uncertainty_band_upper a\<rparr>"

definition make_emission :: "EmissionArgs \<Rightarrow> EmissionRecord run" where
  "make_emission a =
     mbind (case ea_calc_timestamp a of Some t \<Rightarrow> mret t | None \<Rightarrow> utc_now) (\<lambda>t.
     mbind uuid4 (\<lambda>i.
     let r = emission_of a t i
     in mbind (mlift (er_post_init r)) (\<lambda>_. mret r)))"

fun to_decimal :: "pyval \<Rightarrow> decimal res" where
  "to_decimal (PDec d) = Inr d"
| "to_decimal (PInt i) = Inr (dec_of_int i)"
| "to_decimal (PFloat r) = decimal_of_string r"
| "to_decimal (PStr s) = decimal_of_string (str_strip s)"
| "to_decimal PNone = Inl TypeError"
| "to_decimal (PUuid u) = Inl TypeError"

definition sum_decimals :: "decimal list \<Rightarrow> decimal" where
  "sum_decimals values = foldl dec_add dec_zero values"

definition uuid_or_none :: "pyval \<Rightarrow> uuid option res" where
  "uuid_or_none v =
     (case v of PNone \<Rightarrow> Inr None
      | PUuid u \<Rightarrow> Inr (Some u)
      | _ \<Rightarrow> rbind (uuid_of_string (py_str v)) (\<lambda>u. Inr (Some u)))"

section \<open>The shape of a calculation module\<close>

text \<open>The keyword arguments every \<open>calculate\<close> passes through to its records.\<close>

record CalcCtx =
  cx_correlation_id :: uuid
  cx_created_by :: string
  cx_regulatory_stream :: string

text \<open>The arguments of a record with every optional column left at its default.\<close>

definition emission_args ::
    "CalcCtx \<Rightarrow> GWPValues \<Rightarrow> FactorRecord \<Rightarrow> int \<Rightarrow> string \<Rightarrow> string \<Rightarrow> uuid option \<Rightarrow>
     string option \<Rightarrow> int \<Rightarrow> decimal \<Rightarrow> string \<Rightarrow> EmissionArgs" where
  "emission_args ctx g factor scope sub_scope methodology raw_row_id codice_sito anno tco2e notes =
     \<lparr>ea_correlation_id = cx_correlation_id ctx, ea_raw_row_id = raw_row_id, ea_scope = scope,
      ea_sub_scope = sub_scope, ea_codice_sito = codice_sito, ea_anno = anno, ea_tco2e = tco2e,
      ea_factor = factor, ea_gwp_set = gv_code g, ea_methodology = methodology,
      ea_regulatory_stream = cx_regulatory_stream ctx, ea_created_by = cx_created_by ctx,
      ea_calc_timestamp = None, ea_co2_tonne = None, ea_co2_biogenic_tonne = None,
      ea_co2_fossil_tonne = None, ea_ch4_tco2e = None, ea_n2o_tco2e = None,
      ea_disclosure_notes = Some notes, ea_uncertainty_band_lower = None,
      ea_uncertainty_band_upper = None\<rparr>"

text \<open>
  The loop of a module: for each element the body computes the argument records (none for
  \<open>continue\<close>), then \<open>make_emission\<close> is called on each and its record appended.
\<close>

definition emit_rows :: "('r \<Rightarrow> EmissionArgs list res) \<Rightarrow> 'r list \<Rightarrow> EmissionRecord list run" where
  "emit_rows body rows =
     for_each (\<lambda>row. mbind (mlift (body row))
       (for_each (\<lambda>a. mbind (make_emission a) (\<lambda>r. mret [r])))) rows"

text \<open>\<open>int(row.get("categoria_s3", 0)) != n\<close> with \<open>continue\<close>, shared by the Scope 3 modules.\<close>

definition if_category :: "int \<Rightarrow> row \<Rightarrow> 'a list res \<Rightarrow> 'a list res" where
  "if_category n row k =
     rbind (py_int (row_get_default row ''categoria_s3'' (PInt 0))) (\<lambda>c.
       if c \<noteq> n then Inr [] else k)"

text \<open>\<open>to_decimal(row[k])\<close>, \<open>str(row[k])\<close> and \<open>int(row[k])\<close>.\<close>

definition row_decimal :: "row \<Rightarrow> string \<Rightarrow> decimal res" where
  "row_decimal row k = rbind (row_get row k) to_decimal"

definition row_str :: "row \<Rightarrow> string \<Rightarrow> string res" where
  "row_str row k = rbind (row_get row k) (\<lambda>v. Inr (py_str v))"

definition row_int :: "row \<Rightarrow> string \<Rightarrow> int res" where
  "row_int row k = rbind (row_get row k) py_int"

text \<open>\<open>row.get(k)\<close> and \<open>(factor.value or Decimal("0"))\<close>.\<close>

abbreviation row_opt :: "row \<Rightarrow> string \<Rightarrow> pyval" where
  "row_opt r k \<equiv> row_get_default r k PNone"

abbreviation factor_value :: "FactorRecord \<Rightarrow> decimal" where
  "factor_value f \<equiv> dec_or_zero (fr_value f)"

section \<open>The pure plan of an effectful loop\<close>

fun collect :: "('r \<Rightarrow> 'a list res) \<Rightarrow> 'r list \<Rightarrow> 'a list res" where
  "collect body [] = Inr []"
| "collect body (x # xs) = rbind (body x) (\<lambda>ys. rbind (collect body xs) (\<lambda>zs. Inr (ys @ zs)))"

fun collect_all :: "'a list res list \<Rightarrow> 'a list res" where
  "collect_all [] = Inr []"
| "collect_all (p # ps) = rbind p (\<lambda>ys. rbind (collect_all ps) (\<lambda>zs. Inr (ys @ zs)))"

text \<open>The record an argument list gives in a world, and the arguments the constructor accepts.\<close>

definition emit_one :: "EmissionArgs \<Rightarrow> world \<Rightarrow> EmissionRecord \<times> world" where
  "emit_one a w =
     (case ea_calc_timestamp a of
        Some t \<Rightarrow> (emission_of a t (w_uuid w (w_uuids w)), w\<lparr>w_uuids := Suc (w_uuids w)\<rparr>)
      | None \<Rightarrow> (emission_of a (DateTime (w_clock w (w_ticks w)) True) (w_uuid w (w_uuids w)),
                 w\<lparr>w_ticks := Suc (w_ticks w), w_uuids := Suc (w_uuids w)\<rparr>))"

fun emit_pure :: "EmissionArgs list \<Rightarrow> world \<Rightarrow> EmissionRecord list \<times> world" where
  "emit_pure [] w = ([], w)"
| "emit_pure (a # as) w =
     (let (r, w1) = emit_one a w; (rs, w2) = emit_pure as w1 in (r # rs, w2))"

definition args_ok :: "EmissionArgs \<Rightarrow> bool" where
  "args_ok a \<longleftrightarrow>
     er_wf (emission_of a (case ea_calc_timestamp a of Some t \<Rightarrow> t | None \<Rightarrow> DateTime 0 True) 0)"

definition realizes :: "EmissionRecord list run \<Rightarrow> EmissionArgs list res \<Rightarrow> bool" where
  "realizes m p \<longleftrightarrow>
     (\<forall>w rs w'. m w = Inr (rs, w') \<longleftrightarrow>
        (\<exists>as. p = Inr as \<and> (\<forall>a\<in>set as. args_ok a) \<and> emit_pure as w = (rs, w')))"

named_theorems realizes_rules \<open>rules that relate an effectful loop to its pure plan\<close>

lemma er_wf_emission_of:
  "er_wf (emission_of a t i) \<longleftrightarrow> tz_aware t \<and> er_wf (emission_of a (DateTime 0 True) 0)"
  by (auto simp: er_wf_def emission_of_def)

lemma make_emission_iff:
  "make_emission a w = Inr (r, w') \<longleftrightarrow> args_ok a \<and> emit_one a w = (r, w')"
proof -
  have ok: "er_post_init x = Inr u \<longleftrightarrow> er_wf x" for x u
    using er_post_init_ok [of x] by (cases u) simp
  show ?thesis
  proof (cases "ea_calc_timestamp a")
    case None
    have "er_wf (emission_of a (DateTime c True) i) \<longleftrightarrow> args_ok a" for c i
      using er_wf_emission_of [of a "DateTime c True" i] None by (simp add: args_ok_def)
    then show ?thesis
      using None by (auto simp: make_emission_def mbind_eq_Inr utc_now_def now_utc_def uuid4_def
          Let_def ok emit_one_def)
  next
    case (Some t)
    have "er_wf (emission_of a t i) \<longleftrightarrow> args_ok a" for i
      using er_wf_emission_of [of a t i] er_wf_emission_of [of a t 0] Some
      by (simp add: args_ok_def)
    then show ?thesis
      using Some by (auto simp: make_emission_def mbind_eq_Inr uuid4_def Let_def ok emit_one_def)
  qed
qed

lemma emit_pure_append:
  "emit_pure (as @ bs) w =
     (let (rs, w1) = emit_pure as w; (ss, w2) = emit_pure bs w1 in (rs @ ss, w2))"
  by (induction as arbitrary: w) (auto simp: split_def Let_def)

lemma realizes_emit_args: "realizes (for_each (\<lambda>a. mbind (make_emission a) (\<lambda>r. mret [r])) as) (Inr as)"
  unfolding realizes_def
proof (induction as)
  case Nil
  show ?case by auto
next
  case (Cons a as)
  then have IH: "for_each (\<lambda>a. mbind (make_emission a) (\<lambda>r. mret [r])) as w = Inr (rs, w') \<longleftrightarrow>
      (\<forall>a\<in>set as. args_ok a) \<and> emit_pure as w = (rs, w')" for w rs w'
    by simp
  show ?case
    by (auto simp: mbind_eq_Inr make_emission_iff IH split: prod.splits)
qed

lemma realizes_append:
  assumes m: "realizes m p" and n: "\<And>as. p = Inr as \<Longrightarrow> realizes n q"
  shows "realizes (mbind m (\<lambda>ys. mbind n (\<lambda>zs. mret (ys @ zs))))
           (rbind p (\<lambda>ys. rbind q (\<lambda>zs. Inr (ys @ zs))))"
proof (cases p)
  case (Inl e)
  with m show ?thesis by (auto simp: realizes_def mbind_eq_Inr)
next
  case (Inr as)
  then have n: "realizes n q" by (rule n)
  show ?thesis
  proof (cases q)
    case (Inl e)
    with n Inr show ?thesis by (auto simp: realizes_def mbind_eq_Inr)
  next
    case (Inr bs)
    with \<open>p = Inr as\<close> m n show ?thesis
      by (auto simp: realizes_def mbind_eq_Inr emit_pure_append split: prod.splits)
  qed
qed

lemma realizes_lift [realizes_rules]:
  "(\<And>x. r = Inr x \<Longrightarrow> realizes (f x) (p x)) \<Longrightarrow> realizes (mbind (mlift r) f) (rbind r p)"
  by (cases r) (auto simp: realizes_def mbind_eq_Inr)

lemma realizes_for_each:
  "(\<And>x. x \<in> set xs \<Longrightarrow> realizes (body x) (p x)) \<Longrightarrow> realizes (for_each body xs) (collect p xs)"
proof (induction xs)
  case Nil
  show ?case by (auto simp: realizes_def)
next
  case (Cons x xs)
  then show ?case by (auto intro: realizes_append)
qed

lemma realizes_emit_rows [realizes_rules]: "realizes (emit_rows body rows) (collect body rows)"
proof -
  have "realizes (mbind (mlift (body x)) (for_each (\<lambda>a. mbind (make_emission a) (\<lambda>r. mret [r]))))
      (body x)" for x
    using realizes_lift [of "body x" "for_each (\<lambda>a. mbind (make_emission a) (\<lambda>r. mret [r]))" Inr]
    by (cases "body x") (simp_all add: realizes_emit_args)
  then show ?thesis
    unfolding emit_rows_def by (intro realizes_for_each)
qed

lemma realizes_run_all:
  "list_all2 realizes ms ps \<Longrightarrow> realizes (run_all ms) (collect_all ps)"
proof (induction rule: list_all2_induct)
  case Nil
  show ?case by (auto simp: realizes_def)
next
  case (Cons m ms p ps)
  then show ?case by (simp add: realizes_append)
qed

subsection \<open>What a realized plan gives\<close>

lemma emit_one_id: "er_id (fst (emit_one a w)) = w_uuid w (w_uuids w)"
  by (simp add: emit_one_def emission_of_def split: option.split)

lemma emit_one_world:
  "w_uuid (snd (emit_one a w)) = w_uuid w" "w_uuids (snd (emit_one a w)) = Suc (w_uuids w)"
  by (simp_all add: emit_one_def split: option.split)

text \<open>The record of an argument list: every column but the timestamp and the identifier is fixed.\<close>

definition built :: "EmissionArgs \<Rightarrow> EmissionRecord \<Rightarrow> bool" where
  "built a r \<longleftrightarrow> er_wf r \<and> (\<exists>t i. r = emission_of a t i)"

lemma emit_one_built: "args_ok a \<Longrightarrow> built a (fst (emit_one a w))"
proof (cases "ea_calc_timestamp a")
  case None
  assume "args_ok a"
  with None have "er_wf (emission_of a (DateTime c True) i)" for c i
    using er_wf_emission_of [of a "DateTime c True" i] by (simp add: args_ok_def)
  with None show ?thesis by (auto simp: built_def emit_one_def)
next
  case (Some t)
  assume "args_ok a"
  with Some have "er_wf (emission_of a t i)" for i
    using er_wf_emission_of [of a t i] er_wf_emission_of [of a t 0] by (simp add: args_ok_def)
  with Some show ?thesis by (auto simp: built_def emit_one_def)
qed

lemma emit_pure_built:
  "\<forall>a\<in>set as. args_ok a \<Longrightarrow> list_all2 built as (fst (emit_pure as w))"
proof (induction as arbitrary: w)
  case Nil
  show ?case by simp
next
  case (Cons a as)
  then show ?case
    using emit_one_built [of a w] by (auto simp: split_def Let_def)
qed

lemma emit_pure_ids:
  "map er_id (fst (emit_pure as w)) = map (w_uuid w) [w_uuids w ..< w_uuids w + length as]"
proof (induction as arbitrary: w)
  case Nil
  show ?case by simp
next
  case (Cons a as)
  then show ?case
    by (simp add: split_def Let_def emit_one_id emit_one_world upt_conv_Cons del: upt_Suc)
qed

lemma realizes_built:
  "realizes m p \<Longrightarrow> m w = Inr (rs, w') \<Longrightarrow> \<exists>as. p = Inr as \<and> list_all2 built as rs"
  unfolding realizes_def using emit_pure_built by (metis fst_conv)

lemma realizes_returns:
  "realizes m (Inr as) \<Longrightarrow> \<forall>a\<in>set as. args_ok a \<Longrightarrow> m w = Inr (emit_pure as w)"
  unfolding realizes_def by (cases "emit_pure as w") auto

lemma realizes_ids:
  assumes "realizes m p" and "m w = Inr (rs, w')"
  shows "map er_id rs = map (w_uuid w) [w_uuids w ..< w_uuids w + length rs]"
proof -
  from assms obtain as where as: "emit_pure as w = (rs, w')" "p = Inr as" "\<forall>a\<in>set as. args_ok a"
    by (auto simp: realizes_def)
  with emit_pure_built [of as w] have "length as = length rs"
    by (auto dest: list_all2_lengthD)
  with emit_pure_ids [of as w] as(1) show ?thesis by simp
qed

lemma built_fields:
  assumes "built a r"
  shows "er_wf r" "er_tco2e r = ea_tco2e a" "er_scope r = ea_scope a"
    "er_sub_scope r = ea_sub_scope a" "er_gwp_set r = ea_gwp_set a"
    "er_correlation_id r = ea_correlation_id a" "er_created_by r = ea_created_by a"
    "er_regulatory_stream r = ea_regulatory_stream a" "er_methodology r = ea_methodology a"
    "er_anno r = ea_anno a" "er_raw_row_id r = ea_raw_row_id a"
    "er_codice_sito r = ea_codice_sito a" "er_factor_id r = fr_factor_id (ea_factor a)"
    "er_co2_tonne r = ea_co2_tonne a" "er_co2_biogenic_tonne r = ea_co2_biogenic_tonne a"
    "er_co2_fossil_tonne r = ea_co2_fossil_tonne a" "er_ch4_tco2e r = ea_ch4_tco2e a"
    "er_n2o_tco2e r = ea_n2o_tco2e a"
    "er_uncertainty_band_lower r = ea_uncertainty_band_lower a"
    "er_uncertainty_band_upper r = ea_uncertainty_band_upper a"
  using assms by (auto simp: built_def emission_of_def)

lemma collect_member:
  "collect body xs = Inr as \<Longrightarrow> a \<in> set as \<Longrightarrow>
   \<exists>x ys. x \<in> set xs \<and> body x = Inr ys \<and> a \<in> set ys \<and> set ys \<subseteq> set as"
proof (induction xs arbitrary: as)
  case Nil
  then show ?case by simp
next
  case (Cons x xs)
  from Cons.prems(1) obtain ys zs where
    parts: "body x = Inr ys" "collect body xs = Inr zs" "as = ys @ zs"
    by (auto simp: rbind_eq_Inr)
  with Cons.prems(2) consider "a \<in> set ys" | "a \<in> set zs" by auto
  then show ?case
  proof cases
    case 1
    with parts show ?thesis by (intro exI [of _ x] exI [of _ ys]) auto
  next
    case 2
    then obtain x' ys' where "x' \<in> set xs \<and> body x' = Inr ys' \<and> a \<in> set ys' \<and> set ys' \<subseteq> set zs"
      using Cons.IH [OF parts(2)] by blast
    with parts show ?thesis by (intro exI [of _ x'] exI [of _ ys']) auto
  qed
qed

lemma collect_all_member:
  "collect_all ps = Inr as \<Longrightarrow> a \<in> set as \<Longrightarrow> \<exists>p bs. p \<in> set ps \<and> p = Inr bs \<and> a \<in> set bs"
proof (induction ps arbitrary: as)
  case Nil
  then show ?case by simp
next
  case (Cons p ps)
  then obtain ys zs where parts: "p = Inr ys" "collect_all ps = Inr zs" "as = ys @ zs"
    by (auto simp: rbind_eq_Inr)
  then show ?case
    using Cons.IH [of zs] Cons.prems(2) by auto
qed

lemma collect_all_Inr:
  "list_all2 (\<lambda>p as. p = Inr as) ps ass \<Longrightarrow> collect_all ps = Inr (concat ass)"
  by (induction rule: list_all2_induct) auto

lemma collect_all_split:
  "collect_all ps = Inr as \<Longrightarrow> \<exists>ass. list_all2 (\<lambda>p bs. p = Inr bs) ps ass \<and> as = concat ass"
proof (induction ps arbitrary: as)
  case Nil
  then show ?case by auto
next
  case (Cons p ps)
  then obtain ys zs where parts: "p = Inr ys" "collect_all ps = Inr zs" "as = ys @ zs"
    by (auto simp: rbind_eq_Inr)
  from Cons.IH [OF parts(2)] obtain ass where
    "list_all2 (\<lambda>p bs. p = Inr bs) ps ass" "zs = concat ass" by blast
  with parts show ?case by (intro exI [of _ "ys # ass"]) simp
qed

lemma collect_length:
  "collect body xs = Inr as \<Longrightarrow> (\<And>x ys. x \<in> set xs \<Longrightarrow> body x = Inr ys \<Longrightarrow> length ys = n) \<Longrightarrow>
   length as = n * length xs"
proof (induction xs arbitrary: as)
  case Nil
  then show ?case by simp
next
  case (Cons x xs)
  then obtain ys zs where parts: "body x = Inr ys" "collect body xs = Inr zs" "as = ys @ zs"
    by (auto simp: rbind_eq_Inr)
  have "length zs = n * length xs"
    by (rule Cons.IH [OF parts(2)]) (rule Cons.prems(2), auto)
  moreover have "length ys = n" using Cons.prems(2) [OF _ parts(1)] by simp
  ultimately show ?case using parts by simp
qed

lemma collect_total:
  "(\<And>x. x \<in> set xs \<Longrightarrow> body x = Inr (f x)) \<Longrightarrow> collect body xs = Inr (concat (map f xs))"
  by (induction xs) auto

end
