(* ===== verification/Calc_Contract.thy ===== *)
theory Calc_Contract
  imports Calc_Helpers
begin

text \<open>
  The contract between the sixteen calculation modules and their orchestrator, as a locale. A
  module is an effectful \<open>calculate\<close> with a pure plan; it promises that it realizes the plan,
  that every planned record carries the run's correlation identifier, author, stream and GWP
  code, and that its (scope, sub-scope) pairs and methodologies are admissible ones. A zero-line
  module promises moreover that its plan never fails and is all zeros.
\<close>

section \<open>Stamps\<close>

definition stamped :: "CalcCtx \<Rightarrow> GWPValues \<Rightarrow> (int \<times> string) set \<Rightarrow> EmissionArgs \<Rightarrow> bool" where
  "stamped ctx g tags a \<longleftrightarrow>
     ea_correlation_id a = cx_correlation_id ctx \<and> ea_created_by a = cx_created_by ctx \<and>
     ea_regulatory_stream a = cx_regulatory_stream ctx \<and> ea_gwp_set a = gv_code g \<and>
     ea_methodology a \<in> set ALLOWED_METHODOLOGIES \<and> ea_calc_timestamp a = None \<and>
     (ea_scope a, ea_sub_scope a) \<in> tags"

definition tag_allowed :: "int \<times> string \<Rightarrow> bool" where
  "tag_allowed t \<longleftrightarrow> (\<exists>allowed. (fst t, allowed) \<in> set ALLOWED_SUB_SCOPES \<and> snd t \<in> set allowed)"

definition ctx_ok :: "CalcCtx \<Rightarrow> GWPValues \<Rightarrow> bool" where
  "ctx_ok ctx g \<longleftrightarrow>
     cx_regulatory_stream ctx \<in> set ALLOWED_REGULATORY_STREAMS \<and> gv_code g \<in> set ALLOWED_GWP_SETS"

definition nonneg_args :: "EmissionArgs \<Rightarrow> bool" where
  "nonneg_args a \<longleftrightarrow>
     dec_nonneg (ea_tco2e a) \<and> (\<forall>d. ea_co2_biogenic_tonne a = Some d \<longrightarrow> dec_nonneg d) \<and>
     (\<forall>d. ea_co2_fossil_tonne a = Some d \<longrightarrow> dec_nonneg d)"

lemma tag_allowed_scope: "tag_allowed t \<Longrightarrow> fst t \<in> {1, 2, 3}"
  by (auto simp: tag_allowed_def ALLOWED_SUB_SCOPES_def)

text \<open>For stamped arguments the constructor can only object to a negative amount.\<close>

lemma stamped_args_ok:
  assumes "stamped ctx g tags a" and "\<And>t. t \<in> tags \<Longrightarrow> tag_allowed t" and "ctx_ok ctx g"
  shows "args_ok a \<longleftrightarrow> nonneg_args a"
proof -
  have "tag_allowed (ea_scope a, ea_sub_scope a)"
    using assms(1,2) by (auto simp: stamped_def)
  with assms(1,3) tag_allowed_scope [OF this] show ?thesis
    by (auto simp: args_ok_def er_wf_def emission_of_def nonneg_args_def dec_nonneg_value
        stamped_def ctx_ok_def tag_allowed_def)
qed

lemma stamped_emission_args [simp]:
  "stamped ctx g tags (emission_args ctx g f s t meth raw site anno x notes) \<longleftrightarrow>
     meth \<in> set ALLOWED_METHODOLOGIES \<and> (s, t) \<in> tags"
  by (auto simp: stamped_def emission_args_def)

lemma stamped_optional_columns [simp]:
  "stamped ctx g tags (a\<lparr>ea_co2_tonne := v\<rparr>) = stamped ctx g tags a"
  "stamped ctx g tags (a\<lparr>ea_co2_biogenic_tonne := v\<rparr>) = stamped ctx g tags a"
  "stamped ctx g tags (a\<lparr>ea_co2_fossil_tonne := v\<rparr>) = stamped ctx g tags a"
  "stamped ctx g tags (a\<lparr>ea_ch4_tco2e := v\<rparr>) = stamped ctx g tags a"
  "stamped ctx g tags (a\<lparr>ea_n2o_tco2e := v\<rparr>) = stamped ctx g tags a"
  "stamped ctx g tags (a\<lparr>ea_uncertainty_band_lower := v\<rparr>) = stamped ctx g tags a"
  "stamped ctx g tags (a\<lparr>ea_uncertainty_band_upper := v\<rparr>) = stamped ctx g tags a"
  by (simp_all add: stamped_def)

lemma stamped_mono: "stamped ctx g tags a \<Longrightarrow> tags \<subseteq> tags' \<Longrightarrow> stamped ctx g tags' a"
  by (auto simp: stamped_def)

text \<open>A plan all of whose records are stamped.\<close>

definition conforms ::
    "CalcCtx \<Rightarrow> GWPValues \<Rightarrow> (int \<times> string) set \<Rightarrow> EmissionArgs list res \<Rightarrow> bool" where
  "conforms ctx g tags p \<longleftrightarrow> (\<forall>as. p = Inr as \<longrightarrow> (\<forall>a\<in>set as. stamped ctx g tags a))"

lemma conforms_collect_all:
  "(\<And>p. p \<in> set ps \<Longrightarrow> conforms ctx g tags p) \<Longrightarrow> conforms ctx g tags (collect_all ps)"
  unfolding conforms_def by (blast dest: collect_all_member)

text \<open>A plan of \<open>n\<close> records without a negative amount.\<close>

definition good_plan :: "EmissionArgs list res \<Rightarrow> nat \<Rightarrow> bool" where
  "good_plan p n \<longleftrightarrow> (\<exists>as. p = Inr as \<and> length as = n \<and> (\<forall>a\<in>set as. nonneg_args a))"

section \<open>The contract\<close>

locale calc_module =
  fixes calculate :: "GWPValues \<Rightarrow> CalcCtx \<Rightarrow> EmissionRecord list run"
    and plan :: "GWPValues \<Rightarrow> CalcCtx \<Rightarrow> EmissionArgs list res"
    and tags :: "(int \<times> string) set"
  assumes calculate_realizes: "realizes (calculate g ctx) (plan g ctx)"
    and plan_stamped: "plan g ctx = Inr as \<Longrightarrow> a \<in> set as \<Longrightarrow> stamped ctx g tags a"
    and tags_allowed: "t \<in> tags \<Longrightarrow> tag_allowed t"
begin

lemma plan_conforms: "tags \<subseteq> tags' \<Longrightarrow> conforms ctx g tags' (plan g ctx)"
  unfolding conforms_def by (blast intro: plan_stamped stamped_mono)

lemma record_planned:
  assumes "calculate g ctx w = Inr (rs, w')" and "r \<in> set rs"
  shows "\<exists>as a. plan g ctx = Inr as \<and> a \<in> set as \<and> built a r"
proof -
  obtain as where as: "plan g ctx = Inr as" "list_all2 built as rs"
    using realizes_built [OF calculate_realizes assms(1)] by blast
  with list_all2_right [OF as(2) assms(2)] show ?thesis by blast
qed

lemma record_stamps:
  assumes "calculate g ctx w = Inr (rs, w')" and "r \<in> set rs"
  shows "er_wf r" and "er_gwp_set r = gv_code g"
    and "er_correlation_id r = cx_correlation_id ctx"
    and "er_created_by r = cx_created_by ctx"
    and "er_regulatory_stream r = cx_regulatory_stream ctx"
    and "(er_scope r, er_sub_scope r) \<in> tags"
proof -
  obtain as a where "plan g ctx = Inr as" "a \<in> set as" and b: "built a r"
    using record_planned [OF assms] by blast
  then have "stamped ctx g tags a" by (auto intro: plan_stamped)
  with b show "er_wf r" "er_gwp_set r = gv_code g" "er_correlation_id r = cx_correlation_id ctx"
    "er_created_by r = cx_created_by ctx" "er_regulatory_stream r = cx_regulatory_stream ctx"
    "(er_scope r, er_sub_scope r) \<in> tags"
    by (auto simp: stamped_def built_fields)
qed

lemma returns_iff_nonneg:
  assumes "plan g ctx = Inr as" and "ctx_ok ctx g"
  shows "(\<exists>rs w'. calculate g ctx w = Inr (rs, w')) \<longleftrightarrow> (\<forall>a\<in>set as. nonneg_args a)"
proof -
  have "args_ok a \<longleftrightarrow> nonneg_args a" if "a \<in> set as" for a
    using stamped_args_ok [OF plan_stamped [OF assms(1) that] tags_allowed assms(2)] by blast
  with calculate_realizes [of g ctx] assms(1) show ?thesis
    by (auto simp: realizes_def)
qed

lemma good_plan_records:
  assumes "good_plan (plan g ctx) n" and "ctx_ok ctx g"
  shows "\<exists>rs w'. calculate g ctx w = Inr (rs, w') \<and> length rs = n"
proof -
  obtain as where as: "plan g ctx = Inr as" "length as = n" "\<forall>a\<in>set as. nonneg_args a"
    using assms(1) by (auto simp: good_plan_def)
  then obtain rs w' where rs: "calculate g ctx w = Inr (rs, w')"
    using returns_iff_nonneg [OF as(1) assms(2)] by blast
  with realizes_built [OF calculate_realizes rs] as have "length rs = n"
    by (auto dest: list_all2_lengthD)
  with rs show ?thesis by blast
qed

end

section \<open>Declared zeros\<close>

text \<open>The synthetic factor of a declared zero; the columns not given keep their defaults.\<close>

definition synth_factor :: "string \<Rightarrow> string \<Rightarrow> string \<Rightarrow> string \<Rightarrow> FactorRecord" where
  "synth_factor factor_id source rationale gwp_set =
     \<lparr>fr_factor_id = factor_id, fr_version = ''2026-05-13'', fr_value = Some dec_zero,
      fr_unit = ''tCO2e'', fr_source = source, fr_gwp_set = gwp_set,
      fr_biogenic_co2_kg_per_unit = None, fr_vintage = None,
      fr_applicability_note = Some rationale, fr_is_tbc = False, fr_is_licence_only = False,
      fr_factor_db_id = None\<rparr>"

text \<open>A declared-zero record: explicit zero components, no raw row.\<close>

definition zero_line_args ::
    "CalcCtx \<Rightarrow> GWPValues \<Rightarrow> FactorRecord \<Rightarrow> int \<Rightarrow> string \<Rightarrow> string option \<Rightarrow> int \<Rightarrow> string \<Rightarrow>
     EmissionArgs" where
  "zero_line_args ctx g factor scope sub_scope codice_sito anno rationale =
     (emission_args ctx g factor scope sub_scope ''declared-zero'' None codice_sito anno dec_zero
        rationale)
     \<lparr>ea_co2_tonne := Some dec_zero, ea_co2_biogenic_tonne := Some dec_zero,
      ea_co2_fossil_tonne := Some dec_zero\<rparr>"

text \<open>The arguments of a declared zero.\<close>

definition zero_args :: "EmissionArgs \<Rightarrow> bool" where
  "zero_args a \<longleftrightarrow>
     ea_tco2e a = dec_zero \<and> ea_co2_tonne a = Some dec_zero \<and>
     ea_co2_biogenic_tonne a = Some dec_zero \<and> ea_co2_fossil_tonne a = Some dec_zero \<and>
     ea_raw_row_id a = None \<and> ea_methodology a = ''declared-zero''"

lemma zero_args_zero_line [simp]:
  "zero_args (zero_line_args ctx g factor scope sub_scope codice_sito anno rationale)"
  by (simp add: zero_args_def zero_line_args_def emission_args_def)

lemma stamped_zero_line [simp]:
  "stamped ctx g tags (zero_line_args ctx g factor scope sub_scope site anno rationale) \<longleftrightarrow>
     (scope, sub_scope) \<in> tags"
  by (simp add: zero_line_args_def ALLOWED_METHODOLOGIES_def)

text \<open>The zero-line modules.\<close>

locale zero_line_module = calc_module +
  fixes lines :: nat
  assumes plan_total: "\<exists>as. plan g ctx = Inr as \<and> length as = lines"
    and plan_zero: "plan g ctx = Inr as \<Longrightarrow> a \<in> set as \<Longrightarrow> zero_args a"
begin

lemma always_returns:
  assumes "ctx_ok ctx g"
  shows "\<exists>rs w'. calculate g ctx w = Inr (rs, w')"
proof -
  obtain as where as: "plan g ctx = Inr as" using plan_total by blast
  have "\<forall>a\<in>set as. nonneg_args a"
    using plan_zero [OF as] by (auto simp: nonneg_args_def zero_args_def dec_nonneg_def)
  with returns_iff_nonneg [OF as assms] show ?thesis by blast
qed

lemma zero_records:
  assumes "calculate g ctx w = Inr (rs, w')"
  shows "length rs = lines"
    and "r \<in> set rs \<Longrightarrow> er_tco2e r = dec_zero \<and> er_raw_row_id r = None \<and>
           er_methodology r = ''declared-zero''"
proof -
  obtain as where "plan g ctx = Inr as" "list_all2 built as rs"
    using realizes_built [OF calculate_realizes assms] by blast
  with plan_total [of g ctx] show "length rs = lines"
    by (auto dest: list_all2_lengthD)
next
  assume "r \<in> set rs"
  then obtain as a where "plan g ctx = Inr as" "a \<in> set as" and b: "built a r"
    using record_planned [OF assms] by blast
  then have "zero_args a" by (auto intro: plan_zero)
  with b show "er_tco2e r = dec_zero \<and> er_raw_row_id r = None \<and>
      er_methodology r = ''declared-zero''"
    by (simp add: zero_args_def built_fields)
qed

end

end
