(* ===== verification/Calc_Scope1.thy ===== *)
theory Calc_Scope1
  imports Calc_Contract
begin

text \<open>
  The three Scope 1 modules: combustion (\<open>scope1_combustion.py\<close>), carbonate process emissions
  (\<open>scope1_process.py\<close>) and the fugitive zero-line per site (\<open>scope1_fugitive_zero.py\<close>). For
  each, the loop body that computes a record's arguments, \<open>calculate\<close>, the pure plan, and the
  interpretation of the module contract.
\<close>

section \<open>Combustion\<close>

text \<open>The factor identifiers of a fuel: CO2, CH4, N2O.\<close>

definition FUEL_FACTOR_IDS :: "(string \<times> (string \<times> string \<times> string)) list" where
  "FUEL_FACTOR_IDS =
     [(''GAS_NAT'', (''COMB_GAS_NAT_CO2_DEFRA_2025'', ''COMB_GAS_NAT_CH4_DEFRA_2025'',
                     ''COMB_GAS_NAT_N2O_DEFRA_2025'')),
      (''GASOLIO'', (''COMB_GASOLIO_CO2_DEFRA_2025'', ''COMB_GASOLIO_CH4_DEFRA_2025'',
                     ''COMB_GASOLIO_N2O_DEFRA_2025'')),
      (''BENZINA'', (''COMB_BENZINA_CO2_DEFRA_2025'', ''COMB_BENZINA_CH4_DEFRA_2025'',
                     ''COMB_BENZINA_N2O_DEFRA_2025''))]"

text \<open>The arithmetic of \<open>_build_record\<close>: CO2 tonnes, CH4 and N2O in CO2e, and their sum.\<close>

definition combustion_amounts ::
    "decimal \<Rightarrow> FactorRecord \<Rightarrow> FactorRecord \<Rightarrow> FactorRecord \<Rightarrow> decimal \<Rightarrow> decimal \<Rightarrow>
     decimal \<times> decimal \<times> decimal \<times> decimal" where
  "combustion_amounts quantita co2_factor ch4_factor n2o_factor gwp_ch4 gwp_n2o =
     (let co2_kg = dec_mul (factor_value co2_factor) quantita;
          ch4_kg = dec_mul (factor_value ch4_factor) quantita;
          n2o_kg = dec_mul (factor_value n2o_factor) quantita;
          co2_tonne = dec_mul co2_kg KG_TO_TONNE;
          ch4_tco2e = dec_mul (dec_mul ch4_kg KG_TO_TONNE) gwp_ch4;
          n2o_tco2e = dec_mul (dec_mul n2o_kg KG_TO_TONNE) gwp_n2o
      in (co2_tonne, ch4_tco2e, n2o_tco2e, dec_add (dec_add co2_tonne ch4_tco2e) n2o_tco2e))"

definition scope1_combustion_build_record ::
    "row \<Rightarrow> string \<Rightarrow> FactorCatalogPort \<Rightarrow> GWPValues \<Rightarrow> CalcCtx \<Rightarrow> EmissionArgs res" where
  "scope1_combustion_build_record row combustibile factors g ctx =
     rbind (row_decimal row ''quantita'') (\<lambda>quantita.
     case map_of FUEL_FACTOR_IDS combustibile of
       None \<Rightarrow> Inl (KeyError combustibile)
     | Some (co2_id, ch4_id, n2o_id) \<Rightarrow>
     rbind (require_factor factors co2_id (gv_code g) None) (\<lambda>co2_factor.
     rbind (require_factor factors ch4_id (gv_code g) None) (\<lambda>ch4_factor.
     rbind (require_factor factors n2o_id (gv_code g) None) (\<lambda>n2o_factor.
     rbind (gwp_table_get g ''CH4'') (\<lambda>gwp_ch4.
     rbind (gwp_table_get g ''N2O'') (\<lambda>gwp_n2o.
     let (co2_tonne, ch4_tco2e, n2o_tco2e, tco2e) =
           combustion_amounts quantita co2_factor ch4_factor n2o_factor gwp_ch4 gwp_n2o
     in
     rbind (uuid_or_none (row_opt row ''id'')) (\<lambda>raw_row_id.
     rbind (row_str row ''codice_sito'') (\<lambda>codice_sito.
     rbind (row_int row ''anno'') (\<lambda>anno.
     Inr ((emission_args ctx g co2_factor 1 ''combustion'' ''activity-based'' raw_row_id
             (Some codice_sito) anno tco2e
             (''Combustion '' @ combustibile @ '': CO2 factor='' @ fr_factor_id co2_factor @
              '', CH4 factor='' @ fr_factor_id ch4_factor @
              '', N2O factor='' @ fr_factor_id n2o_factor @ ''.''))
          \<lparr>ea_co2_tonne := Some co2_tonne, ea_co2_fossil_tonne := Some co2_tonne,
           ea_ch4_tco2e := Some ch4_tco2e, ea_n2o_tco2e := Some n2o_tco2e\<rparr>))))))))))"

definition scope1_combustion_row ::
    "FactorCatalogPort \<Rightarrow> GWPValues \<Rightarrow> CalcCtx \<Rightarrow> row \<Rightarrow> EmissionArgs list res" where
  "scope1_combustion_row factors g ctx row =
     rbind (row_str row ''combustibile'') (\<lambda>combustibile.
     if map_of FUEL_FACTOR_IDS combustibile = None then Inr []
     else rbind (scope1_combustion_build_record row combustibile factors g ctx) (\<lambda>a. Inr [a]))"

definition scope1_combustion_calculate ::
    "row list \<Rightarrow> FactorCatalogPort \<Rightarrow> GWPValues \<Rightarrow> CalcCtx \<Rightarrow> EmissionRecord list run" where
  "scope1_combustion_calculate raw_rows factors g ctx =
     emit_rows (scope1_combustion_row factors g ctx) raw_rows"

definition scope1_combustion_plan ::
    "row list \<Rightarrow> FactorCatalogPort \<Rightarrow> GWPValues \<Rightarrow> CalcCtx \<Rightarrow> EmissionArgs list res" where
  "scope1_combustion_plan raw_rows factors g ctx =
     collect (scope1_combustion_row factors g ctx) raw_rows"

section \<open>Process\<close>

definition PROCESS_FACTOR_ID :: string where
  "PROCESS_FACTOR_ID = ''STOICH_CACO3_IPCC_2006''"

definition PROCESS_CATEGORY_TAG :: string where
  "PROCESS_CATEGORY_TAG = ''Processo_Decarb''"

definition LOI_UNCERTAINTY_NOTE :: string where
  "LOI_UNCERTAINTY_NOTE =
     ''Stoichiometric factor 0.4397 tCO2/t CaCO3 (IPCC 2006 V3 Ch.2 '' @ utf8_section @
     ''2.5.1.3 Table 2.1). CaCO3 mass estimated via LOI 3.5% method; uncertainty band '' @
     utf8_plus_minus @ ''10'' @ utf8_en_dash @ ''20% relative (methodology_validation '' @
     utf8_section @ ''6.4 / MG-09). Tier-2 XRF / Tier-3 titration upgrade in Year-1 plan.''"

definition STOICH_VALUE :: decimal where
  "STOICH_VALUE = Dec False 4397 (- 4)"

text \<open>The factor and its pinned-value check, before the loop.\<close>

definition scope1_process_factor :: "FactorCatalogPort \<Rightarrow> GWPValues \<Rightarrow> (FactorRecord \<times> decimal) res" where
  "scope1_process_factor factors g =
     rbind (require_factor factors PROCESS_FACTOR_ID (gv_code g) None) (\<lambda>factor.
     case fr_value factor of
       None \<Rightarrow> Inl ValueError
     | Some v \<Rightarrow> if \<not> dec_eq v STOICH_VALUE then Inl ValueError else Inr (factor, v))"

definition scope1_process_row ::
    "FactorRecord \<Rightarrow> decimal \<Rightarrow> GWPValues \<Rightarrow> CalcCtx \<Rightarrow> row \<Rightarrow> EmissionArgs list res" where
  "scope1_process_row factor v g ctx row =
     (if py_str (row_get_default row ''categoria_s1'' (PStr [])) \<noteq> PROCESS_CATEGORY_TAG then Inr []
      else
      rbind (row_decimal row ''quantita'') (\<lambda>quantita_t.
      let co2_tonne = dec_mul v quantita_t in
      rbind (gwp_table_get g ''CO2'') (\<lambda>gwp_co2.
      let tco2e = dec_mul co2_tonne gwp_co2 in
      rbind (uuid_or_none (row_opt row ''id'')) (\<lambda>raw_row_id.
      rbind (row_str row ''codice_sito'') (\<lambda>codice_sito.
      rbind (row_int row ''anno'') (\<lambda>anno.
      Inr [(emission_args ctx g factor 1 ''process'' ''stoichiometric'' raw_row_id
              (Some codice_sito) anno tco2e LOI_UNCERTAINTY_NOTE)
           \<lparr>ea_co2_tonne := Some co2_tonne\<rparr>]))))))"

definition scope1_process_calculate ::
    "row list \<Rightarrow> FactorCatalogPort \<Rightarrow> GWPValues \<Rightarrow> CalcCtx \<Rightarrow> EmissionRecord list run" where
  "scope1_process_calculate raw_rows factors g ctx =
     mbind (mlift (scope1_process_factor factors g)) (\<lambda>(factor, v).
       emit_rows (scope1_process_row factor v g ctx) raw_rows)"

definition scope1_process_plan ::
    "row list \<Rightarrow> FactorCatalogPort \<Rightarrow> GWPValues \<Rightarrow> CalcCtx \<Rightarrow> EmissionArgs list res" where
  "scope1_process_plan raw_rows factors g ctx =
     rbind (scope1_process_factor factors g) (\<lambda>(factor, v).
       collect (scope1_process_row factor v g ctx) raw_rows)"

section \<open>Fugitive zero-lines\<close>

definition FUGITIVE_RATIONALE :: string where
  "FUGITIVE_RATIONALE =
     ''FR-35 / MG-18 / OI-10 closure: Closed-loop refrigeration systems; '' @
     ''refrigerant top-ups across all 7 sites declared negligible by user 2026-05-13. '' @
     ''Zero-line is a disclosure of completeness, not an absence of accounting. '' @
     ''Supersedable via FR-21 correction workflow if future inventory data emerges.''"

definition FUGITIVE_SYNTH_FACTOR_ID :: string where
  "FUGITIVE_SYNTH_FACTOR_ID = ''FUGITIVE_ZERO_OI_10''"

definition fugitive_synth_factor_record :: "string \<Rightarrow> FactorRecord" where
  "fugitive_synth_factor_record gwp_set =
     synth_factor FUGITIVE_SYNTH_FACTOR_ID ''OI-10 user confirmation'' FUGITIVE_RATIONALE gwp_set"

definition fugitive_zero_site :: "int \<Rightarrow> GWPValues \<Rightarrow> CalcCtx \<Rightarrow> string \<Rightarrow> EmissionArgs list res" where
  "fugitive_zero_site anno g ctx codice_sito =
     Inr [zero_line_args ctx g (fugitive_synth_factor_record (gv_code g)) 1 ''fugitive''
            (Some codice_sito) anno FUGITIVE_RATIONALE]"

definition fugitive_zero_calculate ::
    "string list \<Rightarrow> int \<Rightarrow> GWPValues \<Rightarrow> CalcCtx \<Rightarrow> EmissionRecord list run" where
  "fugitive_zero_calculate sites anno g ctx = emit_rows (fugitive_zero_site anno g ctx) sites"

definition fugitive_zero_plan ::
    "string list \<Rightarrow> int \<Rightarrow> GWPValues \<Rightarrow> CalcCtx \<Rightarrow> EmissionArgs list res" where
  "fugitive_zero_plan sites anno g ctx = collect (fugitive_zero_site anno g ctx) sites"

section \<open>The modules meet the contract\<close>

lemma tag_allowed_scope1:
  "tag_allowed (1, ''combustion'')" "tag_allowed (1, ''process'')" "tag_allowed (1, ''fugitive'')"
  by (simp_all add: tag_allowed_def ALLOWED_SUB_SCOPES_def)

lemma scope1_combustion_row_stamped:
  assumes "scope1_combustion_row factors g ctx row = Inr as" and "a \<in> set as"
  shows "stamped ctx g {(1, ''combustion'')} a"
  using assms
  by (auto simp: scope1_combustion_row_def scope1_combustion_build_record_def rbind_eq_Inr
      ALLOWED_METHODOLOGIES_def Let_def split_def split: if_splits option.splits)

lemma scope1_process_row_stamped:
  assumes "scope1_process_row factor v g ctx row = Inr as" and "a \<in> set as"
  shows "stamped ctx g {(1, ''process'')} a"
  using assms
  by (auto simp: scope1_process_row_def rbind_eq_Inr ALLOWED_METHODOLOGIES_def Let_def
      split: if_splits)

interpretation combustion_m: calc_module
  "scope1_combustion_calculate raw_rows factors" "scope1_combustion_plan raw_rows factors"
  "{(1, ''combustion'')}"
proof
  fix g ctx
  show "realizes (scope1_combustion_calculate raw_rows factors g ctx)
      (scope1_combustion_plan raw_rows factors g ctx)"
    unfolding scope1_combustion_calculate_def scope1_combustion_plan_def by (rule realizes_rules)
next
  fix g ctx as a
  assume "scope1_combustion_plan raw_rows factors g ctx = Inr as" "a \<in> set as"
  then show "stamped ctx g {(1, ''combustion'')} a"
    unfolding scope1_combustion_plan_def
    by (blast dest: collect_member intro: scope1_combustion_row_stamped)
qed (simp add: tag_allowed_scope1)

interpretation process_m: calc_module
  "scope1_process_calculate raw_rows factors" "scope1_process_plan raw_rows factors"
  "{(1, ''process'')}"
proof
  fix g ctx
  show "realizes (scope1_process_calculate raw_rows factors g ctx)
      (scope1_process_plan raw_rows factors g ctx)"
    unfolding scope1_process_calculate_def scope1_process_plan_def
    by (auto intro!: realizes_rules)
next
  fix g ctx as a
  assume "scope1_process_plan raw_rows factors g ctx = Inr as" "a \<in> set as"
  then show "stamped ctx g {(1, ''process'')} a"
    unfolding scope1_process_plan_def
    by (auto simp: rbind_eq_Inr dest!: collect_member intro: scope1_process_row_stamped)
qed (simp add: tag_allowed_scope1)

interpretation fugitive_m: zero_line_module
  "fugitive_zero_calculate sites anno" "fugitive_zero_plan sites anno" "{(1, ''fugitive'')}"
  "length sites"
proof
  fix g ctx
  show "realizes (fugitive_zero_calculate sites anno g ctx) (fugitive_zero_plan sites anno g ctx)"
    unfolding fugitive_zero_calculate_def fugitive_zero_plan_def by (rule realizes_rules)
next
  fix g ctx
  show "\<exists>as. fugitive_zero_plan sites anno g ctx = Inr as \<and> length as = length sites"
    unfolding fugitive_zero_plan_def fugitive_zero_site_def
    by (subst collect_total) (auto simp: length_concat comp_def sum_list_triv)
qed (auto simp: fugitive_zero_plan_def fugitive_zero_site_def tag_allowed_scope1
    dest!: collect_member)

end
