(* ===== verification/Calc_Scope2.thy ===== *)
theory Calc_Scope2
  imports Calc_Contract
begin

text \<open>
  The two Scope 2 modules: location-based (\<open>scope2_lb.py\<close>) and market-based (\<open>scope2_mb.py\<close>)
  with its guarantee-of-origin gate. The evidence check is the function \<open>is_validated\<close> of the
  port; \<open>default_go_evidence_check\<close> is the stub used when no port is supplied.
\<close>

section \<open>Location-based\<close>

definition LB_FACTOR_ID :: string where
  "LB_FACTOR_ID = ''LB_IT_GRID_ISPRA_2024''"

definition scope2_lb_row ::
    "FactorRecord \<Rightarrow> GWPValues \<Rightarrow> CalcCtx \<Rightarrow> row \<Rightarrow> EmissionArgs list res" where
  "scope2_lb_row factor g ctx row =
     rbind (row_decimal row ''quantita'') (\<lambda>quantita_kwh.
     let tco2e = dec_mul (dec_mul (factor_value factor) quantita_kwh) KG_TO_TONNE in
     rbind (uuid_or_none (row_opt row ''id'')) (\<lambda>raw_row_id.
     rbind (row_str row ''codice_sito'') (\<lambda>codice_sito.
     rbind (row_int row ''anno'') (\<lambda>anno.
     Inr [emission_args ctx g factor 2 ''LB'' ''location-based'' raw_row_id (Some codice_sito) anno
            tco2e
            (''Scope 2 LB: ISPRA factor applied to '' @ dec_str quantita_kwh @ '' kWh (voce_s2='' @
             py_str (row_get_default row ''voce_s2'' (PStr ''unknown'')) @ '').'')]))))"

definition scope2_lb_calculate ::
    "row list \<Rightarrow> FactorCatalogPort \<Rightarrow> GWPValues \<Rightarrow> CalcCtx \<Rightarrow> EmissionRecord list run" where
  "scope2_lb_calculate raw_rows factors g ctx =
     mbind (mlift (require_factor factors LB_FACTOR_ID (gv_code g) None)) (\<lambda>factor.
       emit_rows (scope2_lb_row factor g ctx) raw_rows)"

definition scope2_lb_plan ::
    "row list \<Rightarrow> FactorCatalogPort \<Rightarrow> GWPValues \<Rightarrow> CalcCtx \<Rightarrow> EmissionArgs list res" where
  "scope2_lb_plan raw_rows factors g ctx =
     rbind (require_factor factors LB_FACTOR_ID (gv_code g) None) (\<lambda>factor.
       collect (scope2_lb_row factor g ctx) raw_rows)"

section \<open>Market-based\<close>

definition FACTOR_ID_GO_ZERO :: string where
  "FACTOR_ID_GO_ZERO = ''MB_GO_ZERO''"

definition FACTOR_ID_RESIDUAL :: string where
  "FACTOR_ID_RESIDUAL = ''MB_IT_RESIDUAL_AIB_2024''"

definition GO_INSTRUMENT_LABEL :: string where
  "GO_INSTRUMENT_LABEL = ''GO_GSE''"

text \<open>\<open>GOEvidenceCheck.is_validated(codice_sito, anno, strumento_mb)\<close>.\<close>

type_synonym go_evidence_check = "string \<Rightarrow> int \<Rightarrow> pyval \<Rightarrow> bool"

definition default_go_evidence_check :: go_evidence_check where
  "default_go_evidence_check codice_sito anno strumento_mb \<longleftrightarrow> strumento_mb = PStr GO_INSTRUMENT_LABEL"

text \<open>The decision of \<open>_build_mb_record\<close>: factor, tonnes and disclosure text of a row.\<close>

definition scope2_mb_decide ::
    "FactorRecord \<Rightarrow> FactorRecord \<Rightarrow> go_evidence_check \<Rightarrow> string \<Rightarrow> int \<Rightarrow> pyval \<Rightarrow> decimal \<Rightarrow>
     (FactorRecord \<times> decimal \<times> string) res" where
  "scope2_mb_decide zero_factor residual_factor checker codice_sito anno strumento quantita_kwh =
     (let is_go_tagged = (strumento = PStr GO_INSTRUMENT_LABEL) in
      if is_go_tagged
      then if \<not> checker codice_sito anno strumento then Inl GOValidationError
           else Inr (zero_factor, dec_zero,
                     ''Scope 2 MB: GO_GSE validated (QC1-QC8 passed); applied factor '' @
                     fr_factor_id zero_factor @ '' (0 tCO2e/MWh).'')
      else Inr (residual_factor,
                dec_mul (dec_mul (factor_value residual_factor) quantita_kwh) KG_TO_TONNE,
                ''Scope 2 MB: residual mix applied to '' @ dec_str quantita_kwh @
                '' kWh (strumento_mb='' @ py_str strumento @ ''); factor '' @
                fr_factor_id residual_factor @ ''.''))"

definition scope2_mb_build_record ::
    "FactorRecord \<Rightarrow> FactorRecord \<Rightarrow> GWPValues \<Rightarrow> go_evidence_check \<Rightarrow> CalcCtx \<Rightarrow> row \<Rightarrow>
     EmissionArgs list res" where
  "scope2_mb_build_record zero_factor residual_factor g checker ctx row =
     rbind (row_decimal row ''quantita'') (\<lambda>quantita_kwh.
     let strumento = row_opt row ''strumento_mb'' in
     rbind (row_str row ''codice_sito'') (\<lambda>codice_sito.
     rbind (row_int row ''anno'') (\<lambda>anno.
     rbind (scope2_mb_decide zero_factor residual_factor checker codice_sito anno strumento
              quantita_kwh) (\<lambda>(factor, tco2e, disclosure).
     rbind (uuid_or_none (row_opt row ''id'')) (\<lambda>raw_row_id.
     Inr [(emission_args ctx g factor 2 ''MB'' ''market-based'' raw_row_id (Some codice_sito) anno
             tco2e disclosure)
          \<lparr>ea_co2_tonne := Some tco2e, ea_co2_fossil_tonne := Some tco2e\<rparr>])))))"

definition scope2_mb_calculate ::
    "row list \<Rightarrow> go_evidence_check option \<Rightarrow> FactorCatalogPort \<Rightarrow> GWPValues \<Rightarrow> CalcCtx \<Rightarrow>
     EmissionRecord list run" where
  "scope2_mb_calculate raw_rows go_evidence factors g ctx =
     (let checker = (case go_evidence of Some c \<Rightarrow> c | None \<Rightarrow> default_go_evidence_check) in
      mbind (mlift (require_factor factors FACTOR_ID_GO_ZERO (gv_code g) None)) (\<lambda>zero_factor.
      mbind (mlift (require_factor factors FACTOR_ID_RESIDUAL (gv_code g) None)) (\<lambda>residual_factor.
        emit_rows (scope2_mb_build_record zero_factor residual_factor g checker ctx) raw_rows)))"

definition scope2_mb_plan ::
    "row list \<Rightarrow> go_evidence_check option \<Rightarrow> FactorCatalogPort \<Rightarrow> GWPValues \<Rightarrow> CalcCtx \<Rightarrow>
     EmissionArgs list res" where
  "scope2_mb_plan raw_rows go_evidence factors g ctx =
     (let checker = (case go_evidence of Some c \<Rightarrow> c | None \<Rightarrow> default_go_evidence_check) in
      rbind (require_factor factors FACTOR_ID_GO_ZERO (gv_code g) None) (\<lambda>zero_factor.
      rbind (require_factor factors FACTOR_ID_RESIDUAL (gv_code g) None) (\<lambda>residual_factor.
        collect (scope2_mb_build_record zero_factor residual_factor g checker ctx) raw_rows)))"

section \<open>The modules meet the contract\<close>

lemma tag_allowed_scope2: "tag_allowed (2, ''LB'')" "tag_allowed (2, ''MB'')"
  by (simp_all add: tag_allowed_def ALLOWED_SUB_SCOPES_def)

lemma scope2_lb_row_stamped:
  assumes "scope2_lb_row factor g ctx row = Inr as" and "a \<in> set as"
  shows "stamped ctx g {(2, ''LB'')} a"
  using assms
  by (auto simp: scope2_lb_row_def rbind_eq_Inr ALLOWED_METHODOLOGIES_def Let_def)

lemma scope2_mb_row_stamped:
  assumes "scope2_mb_build_record zf rf g checker ctx row = Inr as" and "a \<in> set as"
  shows "stamped ctx g {(2, ''MB'')} a"
  using assms
  by (auto simp: scope2_mb_build_record_def rbind_eq_Inr ALLOWED_METHODOLOGIES_def Let_def)

interpretation lb_m: calc_module
  "scope2_lb_calculate raw_rows factors" "scope2_lb_plan raw_rows factors" "{(2, ''LB'')}"
proof
  fix g ctx
  show "realizes (scope2_lb_calculate raw_rows factors g ctx) (scope2_lb_plan raw_rows factors g ctx)"
    unfolding scope2_lb_calculate_def scope2_lb_plan_def by (auto intro!: realizes_rules)
next
  fix g ctx as a
  assume "scope2_lb_plan raw_rows factors g ctx = Inr as" "a \<in> set as"
  then show "stamped ctx g {(2, ''LB'')} a"
    unfolding scope2_lb_plan_def
    by (auto simp: rbind_eq_Inr dest!: collect_member intro: scope2_lb_row_stamped)
qed (simp add: tag_allowed_scope2)

interpretation mb_m: calc_module
  "scope2_mb_calculate raw_rows go_evidence factors" "scope2_mb_plan raw_rows go_evidence factors"
  "{(2, ''MB'')}"
proof
  fix g ctx
  show "realizes (scope2_mb_calculate raw_rows go_evidence factors g ctx)
      (scope2_mb_plan raw_rows go_evidence factors g ctx)"
    unfolding scope2_mb_calculate_def scope2_mb_plan_def Let_def by (auto intro!: realizes_rules)
next
  fix g ctx as a
  assume "scope2_mb_plan raw_rows go_evidence factors g ctx = Inr as" "a \<in> set as"
  then show "stamped ctx g {(2, ''MB'')} a"
    unfolding scope2_mb_plan_def Let_def
    by (auto simp: rbind_eq_Inr dest!: collect_member intro: scope2_mb_row_stamped)
qed (simp add: tag_allowed_scope2)

end
