(* ===== verification/Calc_Scope3_Activity.thy ===== *)
theory Calc_Scope3_Activity
  imports Calc_Contract
begin

text \<open>
  The Scope 3 modules whose records are a factor times a row's quantity: purchased goods (Cat 1),
  capital goods (Cat 2), upstream transport (Cat 4), waste (Cat 5), commuting (Cat 7), downstream
  transport (Cat 9) and end of life (Cat 12). Each has its sub-category resolver, its loop body,
  \<open>calculate\<close>, its plan and its interpretation of the module contract.
\<close>

text \<open>\<open>for key, factor_id in ids.items(): if key in lowered: return factor_id\<close>.\<close>

fun first_fragment :: "(string \<times> string) list \<Rightarrow> string \<Rightarrow> string option" where
  "first_fragment [] lowered = None"
| "first_fragment ((key, factor_id) # ids) lowered =
     (if str_in key lowered then Some factor_id else first_fragment ids lowered)"

text \<open>\<open>(factor.value or 0) * quantity * KG_TO_TONNE\<close>.\<close>

abbreviation factor_tonnes :: "FactorRecord \<Rightarrow> decimal \<Rightarrow> decimal" where
  "factor_tonnes factor q \<equiv> dec_mul (dec_mul (factor_value factor) q) KG_TO_TONNE"

section \<open>Cat 1: purchased goods and services\<close>

definition MATERIAL_FACTOR_MAP :: "(string \<times> string) list" where
  "MATERIAL_FACTOR_MAP =
     [(''argille'', ''ECOINV_CLAY_V3_10''), (''feldspati'', ''ECOINV_FELDSPAR_V3_10''),
      (''sabbie silicee'', ''ECOINV_SILICA_V3_10''), (''fritte'', ''ECOINV_FRIT_V3_10''),
      (''smalti'', ''ECOINV_FRIT_V3_10''), (''pigmenti'', ''ECOINV_PIGMENT_V3_10''),
      (''additivi'', ''ECOINV_ADDITIVES_V3_10''),
      (''imballaggi cartone'', ''ECOINV_CARDBOARD_V3_10''),
      (''pallet legno'', ''ECOINV_PALLET_V3_10''), (''film plastico'', ''ECOINV_LDPE_V3_10''),
      (''reggette pp'', ''ECOINV_PP_V3_10'')]"

definition SPEND_FACTOR_MAP :: "(string \<times> string) list" where
  "SPEND_FACTOR_MAP = [(''servizi vari'', ''EXIO_SERVICES_NACE_M'')]"

definition BIOGENIC_FACTOR_IDS :: "string list" where
  "BIOGENIC_FACTOR_IDS = [''ECOINV_CARDBOARD_V3_10'', ''ECOINV_PALLET_V3_10'']"

definition cat1_factor_id :: "string \<Rightarrow> string option" where
  "cat1_factor_id sub =
     (case map_of MATERIAL_FACTOR_MAP sub of
        Some f \<Rightarrow> Some f | None \<Rightarrow> map_of SPEND_FACTOR_MAP sub)"

text \<open>The biogenic memo and the fossil column of a record (ADR-007).\<close>

definition cat1_biogenic ::
    "FactorCatalogPort \<Rightarrow> string \<Rightarrow> GWPValues \<Rightarrow> decimal \<Rightarrow> decimal \<Rightarrow>
     (decimal option \<times> decimal option) res" where
  "cat1_biogenic factors factor_id g quantita tco2e_total =
     (if factor_id \<in> set BIOGENIC_FACTOR_IDS
      then rbind (cat_get_biogenic_share factors factor_id (gv_code g)) (\<lambda>bio_per_unit.
             case bio_per_unit of
               None \<Rightarrow> Inr (None, None)
             | Some b \<Rightarrow> Inr (Some (dec_mul (dec_mul b quantita) KG_TO_TONNE), Some tco2e_total))
      else Inr (None, None))"

definition cat1_build_record ::
    "row \<Rightarrow> string \<Rightarrow> FactorCatalogPort \<Rightarrow> GWPValues \<Rightarrow> CalcCtx \<Rightarrow> string \<Rightarrow> EmissionArgs res" where
  "cat1_build_record row factor_id factors g ctx methodology =
     rbind (require_factor factors factor_id (gv_code g) None) (\<lambda>factor.
     rbind (row_decimal row ''quantita'') (\<lambda>quantita.
     let tco2e_total_kg = dec_mul (factor_value factor) quantita;
         tco2e_total = dec_mul tco2e_total_kg KG_TO_TONNE
     in
     rbind (cat1_biogenic factors factor_id g quantita tco2e_total)
       (\<lambda>(co2_biogenic_tonne, co2_fossil_tonne).
     rbind (uuid_or_none (row_opt row ''id'')) (\<lambda>raw_row_id.
     rbind (row_int row ''anno'') (\<lambda>anno.
     Inr ((emission_args ctx g factor 3 ''Cat1'' methodology raw_row_id None anno tco2e_total
             (''Cat 1 '' @ methodology @ '': '' @
              py_str (row_get_default row ''sottocategoria'' (PStr [])) @ '' via '' @ factor_id @
              ''.'' @ (if co2_biogenic_tonne \<noteq> None
                       then '' Biogenic CO2 memo populated (ADR-007).'' else [])))
          \<lparr>ea_co2_biogenic_tonne := co2_biogenic_tonne,
           ea_co2_fossil_tonne := co2_fossil_tonne\<rparr>))))))"

definition cat1_methodology :: "string \<Rightarrow> string" where
  "cat1_methodology factor_id =
     (if str_startswith ''ECOINV_'' factor_id then ''mass-based'' else ''spend-based'')"

definition cat1_row ::
    "FactorCatalogPort \<Rightarrow> GWPValues \<Rightarrow> CalcCtx \<Rightarrow> row \<Rightarrow> EmissionArgs list res" where
  "cat1_row factors g ctx row =
     if_category 1 row
       (rbind (row_str row ''sottocategoria'') (\<lambda>s.
        case cat1_factor_id (str_lower (str_strip s)) of
          None \<Rightarrow> Inr []
        | Some factor_id \<Rightarrow>
          rbind (cat1_build_record row factor_id factors g ctx (cat1_methodology factor_id))
            (\<lambda>a. Inr [a])))"

definition cat1_calculate ::
    "row list \<Rightarrow> FactorCatalogPort \<Rightarrow> GWPValues \<Rightarrow> CalcCtx \<Rightarrow> EmissionRecord list run" where
  "cat1_calculate raw_rows factors g ctx = emit_rows (cat1_row factors g ctx) raw_rows"

definition cat1_plan ::
    "row list \<Rightarrow> FactorCatalogPort \<Rightarrow> GWPValues \<Rightarrow> CalcCtx \<Rightarrow> EmissionArgs list res" where
  "cat1_plan raw_rows factors g ctx = collect (cat1_row factors g ctx) raw_rows"

section \<open>Cat 2: capital goods\<close>

definition CAT2_FACTOR_MAP :: "(string \<times> string) list" where
  "CAT2_FACTOR_MAP =
     [(''impiantistica'', ''EXIO_MACHINERY_NACE_C28''),
      (''materiali di consumo'', ''EXIO_CONSUMABLES_NACE_C27'')]"

definition cat2_row ::
    "FactorCatalogPort \<Rightarrow> GWPValues \<Rightarrow> CalcCtx \<Rightarrow> row \<Rightarrow> EmissionArgs list res" where
  "cat2_row factors g ctx row =
     if_category 2 row
       (rbind (row_str row ''sottocategoria'') (\<lambda>s.
        case map_of CAT2_FACTOR_MAP (str_lower (str_strip s)) of
          None \<Rightarrow> Inr []
        | Some factor_id \<Rightarrow>
          rbind (require_factor factors factor_id (gv_code g) None) (\<lambda>factor.
          rbind (row_decimal row ''quantita'') (\<lambda>spend.
          rbind (uuid_or_none (row_opt row ''id'')) (\<lambda>raw_row_id.
          rbind (row_int row ''anno'') (\<lambda>anno.
          Inr [emission_args ctx g factor 3 ''Cat2'' ''spend-based'' raw_row_id None anno
                 (factor_tonnes factor spend)
                 (''Cat 2 spend-based EXIOBASE: '' @
                  py_str (row_get_default row ''sottocategoria'' (PStr [])) @ '' ('' @
                  dec_str spend @ '' EUR via '' @ factor_id @ '').'')]))))))"

definition cat2_calculate ::
    "row list \<Rightarrow> FactorCatalogPort \<Rightarrow> GWPValues \<Rightarrow> CalcCtx \<Rightarrow> EmissionRecord list run" where
  "cat2_calculate raw_rows factors g ctx = emit_rows (cat2_row factors g ctx) raw_rows"

definition cat2_plan ::
    "row list \<Rightarrow> FactorCatalogPort \<Rightarrow> GWPValues \<Rightarrow> CalcCtx \<Rightarrow> EmissionArgs list res" where
  "cat2_plan raw_rows factors g ctx = collect (cat2_row factors g ctx) raw_rows"

section \<open>Cat 4: upstream transport\<close>

definition CAT4_MODE_FACTOR_IDS :: "(string \<times> string) list" where
  "CAT4_MODE_FACTOR_IDS =
     [(''strada'', ''FREIGHT_HGV_DEFRA_2025''), (''hgv'', ''FREIGHT_HGV_DEFRA_2025''),
      (''camion'', ''FREIGHT_HGV_DEFRA_2025''), (''treno'', ''FREIGHT_RAIL_DEFRA_2025''),
      (''rail'', ''FREIGHT_RAIL_DEFRA_2025''), (''nave'', ''FREIGHT_SEA_DEFRA_2025''),
      (''sea'', ''FREIGHT_SEA_DEFRA_2025''), (''mare'', ''FREIGHT_SEA_DEFRA_2025'')]"

definition cat4_resolve_mode :: "string \<Rightarrow> string option" where
  "cat4_resolve_mode sottocategoria = first_fragment CAT4_MODE_FACTOR_IDS (str_lower sottocategoria)"

definition cat4_row ::
    "FactorCatalogPort \<Rightarrow> GWPValues \<Rightarrow> CalcCtx \<Rightarrow> row \<Rightarrow> EmissionArgs list res" where
  "cat4_row factors g ctx row =
     if_category 4 row
       (rbind (row_str row ''sottocategoria'') (\<lambda>s.
        case cat4_resolve_mode s of
          None \<Rightarrow> Inr []
        | Some factor_id \<Rightarrow>
          rbind (require_factor factors factor_id (gv_code g) None) (\<lambda>factor.
          rbind (row_decimal row ''quantita'') (\<lambda>tkm.
          rbind (uuid_or_none (row_opt row ''id'')) (\<lambda>raw_row_id.
          rbind (row_int row ''anno'') (\<lambda>anno.
          Inr [emission_args ctx g factor 3 ''Cat4'' ''distance-based'' raw_row_id None anno
                 (factor_tonnes factor tkm)
                 (''Cat 4 distance-based: '' @
                  py_str (row_get_default row ''sottocategoria'' (PStr [])) @ '' ('' @
                  dec_str tkm @ '' tkm via '' @ fr_factor_id factor @ '').'')]))))))"

definition cat4_calculate ::
    "row list \<Rightarrow> FactorCatalogPort \<Rightarrow> GWPValues \<Rightarrow> CalcCtx \<Rightarrow> EmissionRecord list run" where
  "cat4_calculate raw_rows factors g ctx = emit_rows (cat4_row factors g ctx) raw_rows"

definition cat4_plan ::
    "row list \<Rightarrow> FactorCatalogPort \<Rightarrow> GWPValues \<Rightarrow> CalcCtx \<Rightarrow> EmissionArgs list res" where
  "cat4_plan raw_rows factors g ctx = collect (cat4_row factors g ctx) raw_rows"

section \<open>Cat 5: waste\<close>

definition cat5_resolve_waste_factor :: "string \<Rightarrow> string option" where
  "cat5_resolve_waste_factor sottocategoria =
     (let label = str_lower sottocategoria;
          is_perilous = (str_in ''pericol'' label \<and> \<not> str_in ''non pericol'' label);
          is_landfill = (str_in ''discarica'' label \<or> str_in ''landfill'' label);
          is_recycle = (str_in ''ricicl'' label \<or> str_in ''recycl'' label)
      in if is_landfill \<and> is_perilous then Some ''WASTE_LANDFILL_PERIC_DEFRA_2025''
         else if is_landfill then Some ''WASTE_LANDFILL_NONPERIC_DEFRA_2025''
         else if is_recycle \<and> is_perilous then Some ''WASTE_RECYCLE_PERIC_DEFRA_2025''
         else if is_recycle then Some ''WASTE_RECYCLE_NONPERIC_DEFRA_2025''
         else None)"

definition cat5_row ::
    "FactorCatalogPort \<Rightarrow> GWPValues \<Rightarrow> CalcCtx \<Rightarrow> row \<Rightarrow> EmissionArgs list res" where
  "cat5_row factors g ctx row =
     if_category 5 row
       (rbind (row_str row ''sottocategoria'') (\<lambda>s.
        case cat5_resolve_waste_factor s of
          None \<Rightarrow> Inr []
        | Some factor_id \<Rightarrow>
          rbind (require_factor factors factor_id (gv_code g) None) (\<lambda>factor.
          rbind (row_decimal row ''quantita'') (\<lambda>tonnes.
          rbind (uuid_or_none (row_opt row ''id'')) (\<lambda>raw_row_id.
          rbind (row_int row ''anno'') (\<lambda>anno.
          Inr [emission_args ctx g factor 3 ''Cat5'' ''mass-based'' raw_row_id None anno
                 (factor_tonnes factor tonnes)
                 (''Cat 5 cut-off (no avoided-emissions credit): '' @
                  py_str (row_get_default row ''sottocategoria'' (PStr [])) @ '' ('' @
                  dec_str tonnes @ '' t via '' @ fr_factor_id factor @ '').'')]))))))"

definition cat5_calculate ::
    "row list \<Rightarrow> FactorCatalogPort \<Rightarrow> GWPValues \<Rightarrow> CalcCtx \<Rightarrow> EmissionRecord list run" where
  "cat5_calculate raw_rows factors g ctx = emit_rows (cat5_row factors g ctx) raw_rows"

definition cat5_plan ::
    "row list \<Rightarrow> FactorCatalogPort \<Rightarrow> GWPValues \<Rightarrow> CalcCtx \<Rightarrow> EmissionArgs list res" where
  "cat5_plan raw_rows factors g ctx = collect (cat5_row factors g ctx) raw_rows"

section \<open>Cat 7: employee commuting\<close>

definition CAT7_FACTOR_ID :: string where
  "CAT7_FACTOR_ID = ''COMMUTE_CAR_DEFRA_2025''"

definition FTE_PER_ANNO :: "(int \<times> int) list" where
  "FTE_PER_ANNO = [(2024, 506), (2025, 484)]"

text \<open>\<open>f"{8_800:,}"\<close>.\<close>

definition KM_PER_FTE_YR_BASELINE_TEXT :: string where
  "KM_PER_FTE_YR_BASELINE_TEXT = ''8,800''"

definition cat7_row ::
    "FactorRecord \<Rightarrow> GWPValues \<Rightarrow> CalcCtx \<Rightarrow> row \<Rightarrow> EmissionArgs list res" where
  "cat7_row factor g ctx row =
     if_category 7 row
       (if str_lower (str_strip (py_str (row_get_default row ''sottocategoria'' (PStr []))))
             \<noteq> ''commuting_auto''
        then Inr []
        else
        rbind (row_decimal row ''quantita'') (\<lambda>km.
        rbind (row_int row ''anno'') (\<lambda>anno.
        let fte = map_of FTE_PER_ANNO anno in
        rbind (uuid_or_none (row_opt row ''id'')) (\<lambda>raw_row_id.
        Inr [emission_args ctx g factor 3 ''Cat7'' ''distance-based'' raw_row_id None anno
               (factor_tonnes factor km)
               (''Cat 7 distance-based commuting: '' @ dec_str km @ '' km via '' @
                fr_factor_id factor @ ''. FTE='' @
                (case fte of Some n \<Rightarrow> int_str n | None \<Rightarrow> ''n/a'') @
                '' (HR official 2026-05-13); km/FTE/yr estimate = '' @
                KM_PER_FTE_YR_BASELINE_TEXT @ '' (methodology baseline).'')]))))"

definition cat7_calculate ::
    "row list \<Rightarrow> FactorCatalogPort \<Rightarrow> GWPValues \<Rightarrow> CalcCtx \<Rightarrow> EmissionRecord list run" where
  "cat7_calculate raw_rows factors g ctx =
     mbind (mlift (require_factor factors CAT7_FACTOR_ID (gv_code g) None)) (\<lambda>factor.
       emit_rows (cat7_row factor g ctx) raw_rows)"

definition cat7_plan ::
    "row list \<Rightarrow> FactorCatalogPort \<Rightarrow> GWPValues \<Rightarrow> CalcCtx \<Rightarrow> EmissionArgs list res" where
  "cat7_plan raw_rows factors g ctx =
     rbind (require_factor factors CAT7_FACTOR_ID (gv_code g) None) (\<lambda>factor.
       collect (cat7_row factor g ctx) raw_rows)"

section \<open>Cat 9: downstream transport\<close>

definition CAT9_MODE_FACTOR_IDS :: "(string \<times> string) list" where
  "CAT9_MODE_FACTOR_IDS =
     [(''strada'', ''FREIGHT_HGV_DEFRA_2025''), (''hgv'', ''FREIGHT_HGV_DEFRA_2025''),
      (''nave'', ''FREIGHT_SEA_DEFRA_2025''), (''sea'', ''FREIGHT_SEA_DEFRA_2025'')]"

definition LOAD_FACTOR_NOTE :: string where
  "LOAD_FACTOR_NOTE =
     ''FR-16 load factor: 27 t per HGV trip; market share % stored as metadata; '' @
     ''tkm derived from proxy sectorial data.''"

definition cat9_resolve_mode :: "string \<Rightarrow> string option" where
  "cat9_resolve_mode sottocategoria = first_fragment CAT9_MODE_FACTOR_IDS (str_lower sottocategoria)"

definition cat9_row ::
    "FactorCatalogPort \<Rightarrow> GWPValues \<Rightarrow> CalcCtx \<Rightarrow> row \<Rightarrow> EmissionArgs list res" where
  "cat9_row factors g ctx row =
     if_category 9 row
       (rbind (row_str row ''sottocategoria'') (\<lambda>s.
        case cat9_resolve_mode s of
          None \<Rightarrow> Inr []
        | Some factor_id \<Rightarrow>
          rbind (require_factor factors factor_id (gv_code g) None) (\<lambda>factor.
          rbind (row_decimal row ''quantita'') (\<lambda>tkm.
          rbind (uuid_or_none (row_opt row ''id'')) (\<lambda>raw_row_id.
          rbind (row_int row ''anno'') (\<lambda>anno.
          Inr [emission_args ctx g factor 3 ''Cat9'' ''distance-based'' raw_row_id None anno
                 (factor_tonnes factor tkm)
                 (''Cat 9 distance-based: '' @
                  py_str (row_get_default row ''sottocategoria'' (PStr [])) @ '' ('' @
                  dec_str tkm @ '' tkm via '' @ fr_factor_id factor @ ''). '' @
                  LOAD_FACTOR_NOTE)]))))))"

definition cat9_calculate ::
    "row list \<Rightarrow> FactorCatalogPort \<Rightarrow> GWPValues \<Rightarrow> CalcCtx \<Rightarrow> EmissionRecord list run" where
  "cat9_calculate raw_rows factors g ctx = emit_rows (cat9_row factors g ctx) raw_rows"

definition cat9_plan ::
    "row list \<Rightarrow> FactorCatalogPort \<Rightarrow> GWPValues \<Rightarrow> CalcCtx \<Rightarrow> EmissionArgs list res" where
  "cat9_plan raw_rows factors g ctx = collect (cat9_row factors g ctx) raw_rows"

section \<open>Cat 12: end of life of sold products\<close>

definition LANDFILL_FACTOR_ID :: string where
  "LANDFILL_FACTOR_ID = ''ECOINV_LANDFILL_INERT_V3_10''"

definition RECYCLE_FACTOR_ID :: string where
  "RECYCLE_FACTOR_ID = ''ECOINV_CDW_RECYCLE_V3_10''"

definition LANDFILL_FRACTION :: decimal where
  "LANDFILL_FRACTION = Dec False 30 (- 2)"

definition RECYCLE_FRACTION :: decimal where
  "RECYCLE_FRACTION = Dec False 70 (- 2)"

definition cat12_row ::
    "FactorRecord \<Rightarrow> FactorRecord \<Rightarrow> GWPValues \<Rightarrow> CalcCtx \<Rightarrow> row \<Rightarrow> EmissionArgs list res" where
  "cat12_row landfill_factor recycle_factor g ctx row =
     if_category 12 row
       (rbind (row_decimal row ''quantita'') (\<lambda>mass_t.
        let landfill_mass = dec_mul mass_t LANDFILL_FRACTION;
            recycle_mass = dec_mul mass_t RECYCLE_FRACTION
        in
        rbind (uuid_or_none (row_opt row ''id'')) (\<lambda>raw_row_id.
        rbind (row_int row ''anno'') (\<lambda>anno.
        Inr [emission_args ctx g landfill_factor 3 ''Cat12'' ''mass-based'' raw_row_id None anno
               (factor_tonnes landfill_factor landfill_mass)
               (''Cat 12 landfill (30%) cut-off: '' @ dec_str landfill_mass @ '' t via '' @
                fr_factor_id landfill_factor @ ''.''),
             emission_args ctx g recycle_factor 3 ''Cat12'' ''mass-based'' raw_row_id None anno
               (factor_tonnes recycle_factor recycle_mass)
               (''Cat 12 recycling (70%) cut-off (no avoided-emissions credit): '' @
                dec_str recycle_mass @ '' t via '' @ fr_factor_id recycle_factor @ ''.'')]))))"

definition cat12_calculate ::
    "row list \<Rightarrow> FactorCatalogPort \<Rightarrow> GWPValues \<Rightarrow> CalcCtx \<Rightarrow> EmissionRecord list run" where
  "cat12_calculate raw_rows factors g ctx =
     mbind (mlift (require_factor factors LANDFILL_FACTOR_ID (gv_code g) None)) (\<lambda>landfill_factor.
     mbind (mlift (require_factor factors RECYCLE_FACTOR_ID (gv_code g) None)) (\<lambda>recycle_factor.
       emit_rows (cat12_row landfill_factor recycle_factor g ctx) raw_rows))"

definition cat12_plan ::
    "row list \<Rightarrow> FactorCatalogPort \<Rightarrow> GWPValues \<Rightarrow> CalcCtx \<Rightarrow> EmissionArgs list res" where
  "cat12_plan raw_rows factors g ctx =
     rbind (require_factor factors LANDFILL_FACTOR_ID (gv_code g) None) (\<lambda>landfill_factor.
     rbind (require_factor factors RECYCLE_FACTOR_ID (gv_code g) None) (\<lambda>recycle_factor.
       collect (cat12_row landfill_factor recycle_factor g ctx) raw_rows))"

section \<open>The modules meet the contract\<close>

lemma tag_allowed_activity:
  "tag_allowed (3, ''Cat1'')" "tag_allowed (3, ''Cat2'')" "tag_allowed (3, ''Cat4'')"
  "tag_allowed (3, ''Cat5'')" "tag_allowed (3, ''Cat7'')" "tag_allowed (3, ''Cat9'')"
  "tag_allowed (3, ''Cat12'')"
  by (simp_all add: tag_allowed_def ALLOWED_SUB_SCOPES_def)

lemma if_category_Inr:
  "if_category n row k = Inr xs \<longleftrightarrow>
     (\<exists>c. py_int (row_get_default row ''categoria_s3'' (PInt 0)) = Inr c \<and>
        (if c = n then k = Inr xs else xs = []))"
  by (auto simp: if_category_def rbind_eq_Inr)

lemmas row_unfold = if_category_Inr rbind_eq_Inr Let_def ALLOWED_METHODOLOGIES_def

lemma cat1_build_stamped:
  assumes "cat1_build_record row factor_id factors g ctx meth = Inr a"
    and "meth \<in> set ALLOWED_METHODOLOGIES"
  shows "stamped ctx g {(3, ''Cat1'')} a"
  using assms unfolding cat1_build_record_def
  by (auto simp: rbind_eq_Inr Let_def simp del: append.simps)

lemma cat1_row_stamped:
  assumes "cat1_row factors g ctx row = Inr as" and "a \<in> set as"
  shows "stamped ctx g {(3, ''Cat1'')} a"
proof -
  from assms obtain factor_id where
    "cat1_build_record row factor_id factors g ctx (cat1_methodology factor_id) = Inr a"
    by (auto simp: cat1_row_def if_category_Inr rbind_eq_Inr split: if_splits option.splits)
  then show ?thesis
    by (rule cat1_build_stamped) (simp add: ALLOWED_METHODOLOGIES_def cat1_methodology_def)
qed

lemma cat2_row_stamped:
  assumes "cat2_row factors g ctx row = Inr as" and "a \<in> set as"
  shows "stamped ctx g {(3, ''Cat2'')} a"
  using assms
  by (auto simp: cat2_row_def row_unfold split: if_splits option.splits)

lemma cat4_row_stamped:
  assumes "cat4_row factors g ctx row = Inr as" and "a \<in> set as"
  shows "stamped ctx g {(3, ''Cat4'')} a"
  using assms
  by (auto simp: cat4_row_def row_unfold split: if_splits option.splits)

lemma cat5_row_stamped:
  assumes "cat5_row factors g ctx row = Inr as" and "a \<in> set as"
  shows "stamped ctx g {(3, ''Cat5'')} a"
  using assms
  by (auto simp: cat5_row_def row_unfold split: if_splits option.splits)

lemma cat7_row_stamped:
  assumes "cat7_row factor g ctx row = Inr as" and "a \<in> set as"
  shows "stamped ctx g {(3, ''Cat7'')} a"
  using assms
  by (auto simp: cat7_row_def row_unfold split: if_splits option.splits)

lemma cat9_row_stamped:
  assumes "cat9_row factors g ctx row = Inr as" and "a \<in> set as"
  shows "stamped ctx g {(3, ''Cat9'')} a"
  using assms
  by (auto simp: cat9_row_def row_unfold split: if_splits option.splits)

lemma cat12_row_stamped:
  assumes "cat12_row lf rf g ctx row = Inr as" and "a \<in> set as"
  shows "stamped ctx g {(3, ''Cat12'')} a"
  using assms
  by (auto simp: cat12_row_def row_unfold split: if_splits option.splits)

interpretation cat1_m: calc_module
  "cat1_calculate raw_rows factors" "cat1_plan raw_rows factors" "{(3, ''Cat1'')}"
  by unfold_locales
    (auto simp: cat1_calculate_def cat1_plan_def rbind_eq_Inr tag_allowed_activity
      intro!: realizes_rules dest!: collect_member intro: cat1_row_stamped)

interpretation cat2_m: calc_module
  "cat2_calculate raw_rows factors" "cat2_plan raw_rows factors" "{(3, ''Cat2'')}"
  by unfold_locales
    (auto simp: cat2_calculate_def cat2_plan_def rbind_eq_Inr tag_allowed_activity
      intro!: realizes_rules dest!: collect_member intro: cat2_row_stamped)

interpretation cat4_m: calc_module
  "cat4_calculate raw_rows factors" "cat4_plan raw_rows factors" "{(3, ''Cat4'')}"
  by unfold_locales
    (auto simp: cat4_calculate_def cat4_plan_def rbind_eq_Inr tag_allowed_activity
      intro!: realizes_rules dest!: collect_member intro: cat4_row_stamped)

interpretation cat5_m: calc_module
  "cat5_calculate raw_rows factors" "cat5_plan raw_rows factors" "{(3, ''Cat5'')}"
  by unfold_locales
    (auto simp: cat5_calculate_def cat5_plan_def rbind_eq_Inr tag_allowed_activity
      intro!: realizes_rules dest!: collect_member intro: cat5_row_stamped)

interpretation cat7_m: calc_module
  "cat7_calculate raw_rows factors" "cat7_plan raw_rows factors" "{(3, ''Cat7'')}"
  by unfold_locales
    (auto simp: cat7_calculate_def cat7_plan_def rbind_eq_Inr tag_allowed_activity
      intro!: realizes_rules dest!: collect_member intro: cat7_row_stamped)

interpretation cat9_m: calc_module
  "cat9_calculate raw_rows factors" "cat9_plan raw_rows factors" "{(3, ''Cat9'')}"
  by unfold_locales
    (auto simp: cat9_calculate_def cat9_plan_def rbind_eq_Inr tag_allowed_activity
      intro!: realizes_rules dest!: collect_member intro: cat9_row_stamped)

interpretation cat12_m: calc_module
  "cat12_calculate raw_rows factors" "cat12_plan raw_rows factors" "{(3, ''Cat12'')}"
  by unfold_locales
    (auto simp: cat12_calculate_def cat12_plan_def rbind_eq_Inr tag_allowed_activity
      intro!: realizes_rules dest!: collect_member intro: cat12_row_stamped)

end
