(* ===== verification/Calc_Scope3_Derived.thy ===== *)
theory Calc_Scope3_Derived
  imports Calc_Contract
begin

text \<open>
  The Scope 3 modules that are not one factor times one row: fuel and energy (Cat 3), computed
  from the Scope 1 and Scope 2 aggregates; business travel (Cat 6) with its bootstrap interval;
  and the declared zero-lines of Cat 11 and of Cat 8, 10, 13, 14 and 15.
\<close>

section \<open>Cat 3: fuel- and energy-related activities\<close>

definition FUEL_WTT_FACTOR_IDS :: "(string \<times> string) list" where
  "FUEL_WTT_FACTOR_IDS =
     [(''GAS_NAT'', ''WTT_GAS_NAT_DEFRA_2025''), (''GASOLIO'', ''WTT_GASOLIO_DEFRA_2025''),
      (''BENZINA'', ''WTT_BENZINA_DEFRA_2025'')]"

definition ELEC_WTT_ID :: string where
  "ELEC_WTT_ID = ''WTT_ELEC_DEFRA_2025''"

definition TND_ELEC_IT_ID :: string where
  "TND_ELEC_IT_ID = ''TND_ELEC_IT_DEFRA_2025''"

text \<open>The aggregates: dictionaries, as association lists with distinct keys.\<close>

type_synonym sigma1 = "((string \<times> int) \<times> decimal) list"
type_synonym sigma2 = "(int \<times> decimal) list"

text \<open>\<open>to_decimal(sigma[key])\<close> for a dictionary of decimals.\<close>

definition sigma_get :: "('k \<times> decimal) list \<Rightarrow> 'k \<Rightarrow> decimal res" where
  "sigma_get sigma k =
     (case map_of sigma k of None \<Rightarrow> Inl (KeyError []) | Some d \<Rightarrow> to_decimal (PDec d))"

definition cat3_fuel_entry ::
    "sigma1 \<Rightarrow> FactorCatalogPort \<Rightarrow> GWPValues \<Rightarrow> CalcCtx \<Rightarrow> string \<times> int \<Rightarrow> EmissionArgs list res" where
  "cat3_fuel_entry sigma_scope1 factors g ctx key =
     (let (combustibile, anno) = key in
      rbind (sigma_get sigma_scope1 key) (\<lambda>sigma.
      case map_of FUEL_WTT_FACTOR_IDS combustibile of
        None \<Rightarrow> Inr []
      | Some factor_id \<Rightarrow>
        rbind (require_factor factors factor_id (gv_code g) None) (\<lambda>factor.
        Inr [emission_args ctx g factor 3 ''Cat3_WTT_FUEL'' ''activity-based'' None None anno
               (dec_mul (dec_mul (factor_value factor) sigma) KG_TO_TONNE)
               (''Cat 3 WTT '' @ combustibile @ '' (FR-11 '' @ utf8_sigma @
                '' Scope 1 source-of-truth): '' @ utf8_sigma @ ''='' @ dec_str sigma @ '' via '' @
                fr_factor_id factor @ ''.'')])))"

definition cat3_fuel_wtt_records ::
    "sigma1 \<Rightarrow> FactorCatalogPort \<Rightarrow> GWPValues \<Rightarrow> CalcCtx \<Rightarrow> EmissionRecord list run" where
  "cat3_fuel_wtt_records sigma_scope1 factors g ctx =
     emit_rows (cat3_fuel_entry sigma_scope1 factors g ctx) (sort (map fst sigma_scope1))"

definition cat3_elec_entry ::
    "sigma2 \<Rightarrow> FactorRecord \<Rightarrow> GWPValues \<Rightarrow> CalcCtx \<Rightarrow> int \<Rightarrow> EmissionArgs list res" where
  "cat3_elec_entry sigma_scope2_kwh factor g ctx anno =
     rbind (sigma_get sigma_scope2_kwh anno) (\<lambda>sigma.
     Inr [emission_args ctx g factor 3 ''Cat3_WTT_ELEC'' ''activity-based'' None None anno
            (dec_mul (dec_mul (factor_value factor) sigma) KG_TO_TONNE)
            (''Cat 3 WTT electricity (LB basis): '' @ utf8_sigma @ ''='' @ dec_str sigma @
             '' kWh via '' @ fr_factor_id factor @ ''.'')])"

definition cat3_electricity_wtt_records ::
    "sigma2 \<Rightarrow> FactorCatalogPort \<Rightarrow> GWPValues \<Rightarrow> CalcCtx \<Rightarrow> EmissionRecord list run" where
  "cat3_electricity_wtt_records sigma_scope2_kwh factors g ctx =
     mbind (mlift (require_factor factors ELEC_WTT_ID (gv_code g) None)) (\<lambda>factor.
       emit_rows (cat3_elec_entry sigma_scope2_kwh factor g ctx) (sort (map fst sigma_scope2_kwh)))"

definition cat3_tnd_entry ::
    "sigma2 \<Rightarrow> FactorRecord \<Rightarrow> GWPValues \<Rightarrow> CalcCtx \<Rightarrow> int \<Rightarrow> EmissionArgs list res" where
  "cat3_tnd_entry sigma_scope2_kwh factor g ctx anno =
     rbind (sigma_get sigma_scope2_kwh anno) (\<lambda>sigma.
     Inr [emission_args ctx g factor 3 ''Cat3_TND'' ''activity-based'' None None anno
            (dec_mul (dec_mul (factor_value factor) sigma) KG_TO_TONNE)
            (''Cat 3 T&D electricity (Italy loss rate): '' @ utf8_sigma @ ''='' @ dec_str sigma @
             '' kWh via '' @ fr_factor_id factor @ ''.'')])"

definition cat3_tnd_records ::
    "sigma2 \<Rightarrow> FactorCatalogPort \<Rightarrow> GWPValues \<Rightarrow> CalcCtx \<Rightarrow> EmissionRecord list run" where
  "cat3_tnd_records sigma_scope2_kwh factors g ctx =
     mbind (mlift (require_factor factors TND_ELEC_IT_ID (gv_code g) None)) (\<lambda>factor.
       emit_rows (cat3_tnd_entry sigma_scope2_kwh factor g ctx) (sort (map fst sigma_scope2_kwh)))"

definition cat3_calculate ::
    "sigma1 \<Rightarrow> sigma2 \<Rightarrow> FactorCatalogPort \<Rightarrow> GWPValues \<Rightarrow> CalcCtx \<Rightarrow> EmissionRecord list run" where
  "cat3_calculate sigma_scope1 sigma_scope2_kwh factors g ctx =
     run_all [cat3_fuel_wtt_records sigma_scope1 factors g ctx,
              cat3_electricity_wtt_records sigma_scope2_kwh factors g ctx,
              cat3_tnd_records sigma_scope2_kwh factors g ctx]"

definition cat3_plan ::
    "sigma1 \<Rightarrow> sigma2 \<Rightarrow> FactorCatalogPort \<Rightarrow> GWPValues \<Rightarrow> CalcCtx \<Rightarrow> EmissionArgs list res" where
  "cat3_plan sigma_scope1 sigma_scope2_kwh factors g ctx =
     collect_all
       [collect (cat3_fuel_entry sigma_scope1 factors g ctx) (sort (map fst sigma_scope1)),
        rbind (require_factor factors ELEC_WTT_ID (gv_code g) None) (\<lambda>factor.
          collect (cat3_elec_entry sigma_scope2_kwh factor g ctx) (sort (map fst sigma_scope2_kwh))),
        rbind (require_factor factors TND_ELEC_IT_ID (gv_code g) None) (\<lambda>factor.
          collect (cat3_tnd_entry sigma_scope2_kwh factor g ctx) (sort (map fst sigma_scope2_kwh)))]"

section \<open>Cat 6: business travel\<close>

definition TRAVEL_FACTOR_IDS :: "(string \<times> string) list" where
  "TRAVEL_FACTOR_IDS =
     [(''voli'', ''TRAVEL_SPEND_FLIGHTS_DEFRA_2025''),
      (''auto noleggio'', ''TRAVEL_SPEND_HIRECAR_DEFRA_2025''),
      (''hotel'', ''TRAVEL_SPEND_HOTEL_DEFRA_2025'')]"

definition BOOTSTRAP_RESAMPLES :: nat where
  "BOOTSTRAP_RESAMPLES = 1000"

text \<open>\<open>for key, factor_id in ids.items(): if key in lowered: return factor_id\<close>.\<close>

fun travel_lookup :: "(string \<times> string) list \<Rightarrow> string \<Rightarrow> string option" where
  "travel_lookup [] lowered = None"
| "travel_lookup ((key, factor_id) # ids) lowered =
     (if str_in key lowered then Some factor_id else travel_lookup ids lowered)"

definition cat6_resolve_factor :: "string \<Rightarrow> string option" where
  "cat6_resolve_factor sottocategoria = travel_lookup TRAVEL_FACTOR_IDS (str_lower sottocategoria)"

text \<open>
  \<open>_bootstrap_ci\<close>. The noise is drawn by the standard library's seeded generator in binary
  floating point: \<open>draw pe i\<close> is the decimal reading of the \<open>i\<close>-th sample
  \<open>pe * (1.0 + rng.gauss(0.0, sigma))\<close>, a parameter of the model. The shortest decimal text of a
  float keeps the order of floats, so clamping and sorting are those of the decimals. The two
  indices are \<open>int(2.5 / 100 * 1000) - 1\<close> and \<open>int(97.5 / 100 * 1000) - 1\<close>.
\<close>

type_synonym sampler = "decimal \<Rightarrow> nat \<Rightarrow> decimal"

definition clamp_sample :: "decimal \<Rightarrow> decimal" where
  "clamp_sample s = (if dec_less s dec_zero then Dec False 0 (- 1) else s)"

definition CI_LOWER_IDX :: nat where
  "CI_LOWER_IDX = max (25 - 1) 0"

definition CI_UPPER_IDX :: nat where
  "CI_UPPER_IDX = min (975 - 1) (BOOTSTRAP_RESAMPLES - 1)"

definition bootstrap_ci :: "sampler \<Rightarrow> decimal \<Rightarrow> decimal \<times> decimal" where
  "bootstrap_ci draw point_estimate =
     (if dec_eq point_estimate dec_zero then (dec_zero, dec_zero)
      else let samples = map (draw point_estimate) [0 ..< BOOTSTRAP_RESAMPLES];
               sorted_samples = sort_key dec_val (map clamp_sample samples)
           in (sorted_samples ! CI_LOWER_IDX, sorted_samples ! CI_UPPER_IDX))"

definition cat6_build_record ::
    "sampler \<Rightarrow> FactorRecord \<Rightarrow> GWPValues \<Rightarrow> CalcCtx \<Rightarrow> row \<Rightarrow> EmissionArgs res" where
  "cat6_build_record draw factor g ctx row =
     rbind (row_decimal row ''quantita'') (\<lambda>spend.
     let tco2e_kg = dec_mul (factor_value factor) spend;
         tco2e = dec_mul tco2e_kg KG_TO_TONNE;
         (lower, upper) = bootstrap_ci draw tco2e
     in
     rbind (uuid_or_none (row_opt row ''id'')) (\<lambda>raw_row_id.
     rbind (row_int row ''anno'') (\<lambda>anno.
     Inr ((emission_args ctx g factor 3 ''Cat6'' ''spend-based'' raw_row_id None anno tco2e
             (''Cat 6 spend-based DEFRA: '' @
              py_str (row_get_default row ''sottocategoria'' (PStr [])) @ '' ('' @ dec_str spend @
              '' EUR via '' @ fr_factor_id factor @
              ''); bootstrap 95% CI from 1000 resamples (seed=42).''))
          \<lparr>ea_uncertainty_band_lower := Some lower, ea_uncertainty_band_upper := Some upper\<rparr>))))"

definition cat6_row ::
    "sampler \<Rightarrow> FactorCatalogPort \<Rightarrow> GWPValues \<Rightarrow> CalcCtx \<Rightarrow> row \<Rightarrow> EmissionArgs list res" where
  "cat6_row draw factors g ctx row =
     if_category 6 row
       (rbind (row_str row ''sottocategoria'') (\<lambda>s.
        case cat6_resolve_factor s of
          None \<Rightarrow> Inr []
        | Some factor_id \<Rightarrow>
          rbind (require_factor factors factor_id (gv_code g) None) (\<lambda>factor.
          rbind (cat6_build_record draw factor g ctx row) (\<lambda>a. Inr [a]))))"

definition cat6_calculate ::
    "sampler \<Rightarrow> row list \<Rightarrow> FactorCatalogPort \<Rightarrow> GWPValues \<Rightarrow> CalcCtx \<Rightarrow> EmissionRecord list run" where
  "cat6_calculate draw raw_rows factors g ctx = emit_rows (cat6_row draw factors g ctx) raw_rows"

definition cat6_plan ::
    "sampler \<Rightarrow> row list \<Rightarrow> FactorCatalogPort \<Rightarrow> GWPValues \<Rightarrow> CalcCtx \<Rightarrow> EmissionArgs list res" where
  "cat6_plan draw raw_rows factors g ctx = collect (cat6_row draw factors g ctx) raw_rows"

section \<open>Cat 11 and the omitted categories: declared zeros\<close>

definition CAT11_RATIONALE :: string where
  "CAT11_RATIONALE =
     ''Omitted '' @ utf8_em_dash @ '' Immaterial: ceramic tiles are passive products with no '' @
     ''operational energy consumption during use phase.''"

definition cat11_zero_calculate :: "int \<Rightarrow> GWPValues \<Rightarrow> CalcCtx \<Rightarrow> EmissionRecord list run" where
  "cat11_zero_calculate anno g ctx =
     emit_rows (\<lambda>_. Inr [zero_line_args ctx g
                (synth_factor ''CAT11_ZERO_OMISSION'' ''FR-18 / MG-06 declared-zero''
                   CAT11_RATIONALE (gv_code g))
                3 ''Cat11_ZERO'' None anno CAT11_RATIONALE]) [()]"

definition cat11_zero_plan :: "int \<Rightarrow> GWPValues \<Rightarrow> CalcCtx \<Rightarrow> EmissionArgs list res" where
  "cat11_zero_plan anno g ctx =
     Inr [zero_line_args ctx g
            (synth_factor ''CAT11_ZERO_OMISSION'' ''FR-18 / MG-06 declared-zero''
               CAT11_RATIONALE (gv_code g))
            3 ''Cat11_ZERO'' None anno CAT11_RATIONALE]"

definition OMITTED_CATEGORIES :: "(string \<times> string \<times> string) list" where
  "OMITTED_CATEGORIES =
     [(''Cat8_ZERO'',
       ''Cat 8 not applicable '' @ utf8_em_dash @
       '' all leased assets, where present, are consolidated within '' @
       ''the operational-control boundary and accounted for in Scope 1 and Scope 2.'',
       ''CAT8_ZERO_OMISSION''),
      (''Cat10_ZERO'',
       ''Cat 10 not applicable '' @ utf8_em_dash @
       '' finished products (gres porcellanato tiles) undergo no '' @
       ''industrial processing between sale and end-use.'',
       ''CAT10_ZERO_OMISSION''),
      (''Cat13_ZERO'',
       ''Cat 13 not applicable '' @ utf8_em_dash @
       '' the company is not a lessor of operational assets.'',
       ''CAT13_ZERO_OMISSION''),
      (''Cat14_ZERO'',
       ''Cat 14 not applicable '' @ utf8_em_dash @ '' the company operates no franchise network.'',
       ''CAT14_ZERO_OMISSION''),
      (''Cat15_ZERO'',
       ''Cat 15 not applicable '' @ utf8_em_dash @
       '' the company is a non-financial undertaking and holds no '' @
       ''investment portfolio in scope of GHG Protocol Cat 15 (OI-8 closed 2026-05-13).'',
       ''CAT15_ZERO_OMISSION'')]"

definition omitted_synth_factor :: "string \<Rightarrow> string \<Rightarrow> string \<Rightarrow> FactorRecord" where
  "omitted_synth_factor factor_id rationale gwp_set =
     synth_factor factor_id ''FR-36 / MG-07 declared-zero'' rationale gwp_set"

definition omitted_zero_entry ::
    "int \<Rightarrow> GWPValues \<Rightarrow> CalcCtx \<Rightarrow> string \<times> string \<times> string \<Rightarrow> EmissionArgs list res" where
  "omitted_zero_entry anno g ctx c =
     (let (sub_scope, rationale, factor_id) = c in
      Inr [zero_line_args ctx g (omitted_synth_factor factor_id rationale (gv_code g)) 3 sub_scope
             None anno rationale])"

definition omitted_zero_calculate :: "int \<Rightarrow> GWPValues \<Rightarrow> CalcCtx \<Rightarrow> EmissionRecord list run" where
  "omitted_zero_calculate anno g ctx = emit_rows (omitted_zero_entry anno g ctx) OMITTED_CATEGORIES"

definition omitted_zero_plan :: "int \<Rightarrow> GWPValues \<Rightarrow> CalcCtx \<Rightarrow> EmissionArgs list res" where
  "omitted_zero_plan anno g ctx = collect (omitted_zero_entry anno g ctx) OMITTED_CATEGORIES"

section \<open>The modules meet the contract\<close>

abbreviation cat3_tags :: "(int \<times> string) set" where
  "cat3_tags \<equiv> {(3, ''Cat3_WTT_FUEL''), (3, ''Cat3_WTT_ELEC''), (3, ''Cat3_TND'')}"

abbreviation omitted_tags :: "(int \<times> string) set" where
  "omitted_tags \<equiv> {(3, ''Cat8_ZERO''), (3, ''Cat10_ZERO''), (3, ''Cat13_ZERO''),
     (3, ''Cat14_ZERO''), (3, ''Cat15_ZERO'')}"

lemma tag_allowed_derived:
  "t \<in> cat3_tags \<Longrightarrow> tag_allowed t" "tag_allowed (3, ''Cat6'')" "tag_allowed (3, ''Cat11_ZERO'')"
  "t \<in> omitted_tags \<Longrightarrow> tag_allowed t"
  by (auto simp: tag_allowed_def ALLOWED_SUB_SCOPES_def)

lemma cat3_entry_stamped:
  "cat3_fuel_entry s1 factors g ctx key = Inr as \<Longrightarrow> a \<in> set as \<Longrightarrow> stamped ctx g cat3_tags a"
  "cat3_elec_entry s2 factor g ctx anno = Inr as \<Longrightarrow> a \<in> set as \<Longrightarrow> stamped ctx g cat3_tags a"
  "cat3_tnd_entry s2 factor g ctx anno = Inr as \<Longrightarrow> a \<in> set as \<Longrightarrow> stamped ctx g cat3_tags a"
  by (auto simp: cat3_fuel_entry_def cat3_elec_entry_def cat3_tnd_entry_def rbind_eq_Inr Let_def
      ALLOWED_METHODOLOGIES_def split: option.splits prod.splits)

lemma cat6_row_stamped:
  assumes "cat6_row draw factors g ctx row = Inr as" and "a \<in> set as"
  shows "stamped ctx g {(3, ''Cat6'')} a"
  using assms
  by (auto simp: cat6_row_def if_category_def cat6_build_record_def rbind_eq_Inr Let_def split_def
      ALLOWED_METHODOLOGIES_def split: option.splits if_splits)

interpretation cat3_m: calc_module
  "cat3_calculate sigma_scope1 sigma_scope2_kwh factors"
  "cat3_plan sigma_scope1 sigma_scope2_kwh factors" cat3_tags
proof
  fix g ctx
  show "realizes (cat3_calculate sigma_scope1 sigma_scope2_kwh factors g ctx)
      (cat3_plan sigma_scope1 sigma_scope2_kwh factors g ctx)"
    unfolding cat3_calculate_def cat3_plan_def cat3_fuel_wtt_records_def
      cat3_electricity_wtt_records_def cat3_tnd_records_def
    by (rule realizes_run_all) (auto intro!: realizes_rules)
next
  fix g ctx as a
  assume "cat3_plan sigma_scope1 sigma_scope2_kwh factors g ctx = Inr as" "a \<in> set as"
  then show "stamped ctx g cat3_tags a"
    unfolding cat3_plan_def
    by (auto simp: rbind_eq_Inr dest!: collect_member dest: cat3_entry_stamped)
qed (rule tag_allowed_derived)

interpretation cat6_m: calc_module
  "cat6_calculate draw raw_rows factors" "cat6_plan draw raw_rows factors" "{(3, ''Cat6'')}"
  by unfold_locales
    (auto simp: cat6_calculate_def cat6_plan_def tag_allowed_derived
      intro!: realizes_rules dest!: collect_member intro: cat6_row_stamped)

interpretation cat11_m: zero_line_module
  "cat11_zero_calculate anno" "cat11_zero_plan anno" "{(3, ''Cat11_ZERO'')}" 1
proof
  fix g ctx
  show "realizes (cat11_zero_calculate anno g ctx) (cat11_zero_plan anno g ctx)"
    using realizes_emit_rows [of "\<lambda>_. cat11_zero_plan anno g ctx" "[()]"]
    by (simp add: cat11_zero_calculate_def cat11_zero_plan_def)
qed (auto simp: cat11_zero_plan_def tag_allowed_derived)

interpretation omitted_m: zero_line_module
  "omitted_zero_calculate anno" "omitted_zero_plan anno" omitted_tags 5
proof
  fix g ctx
  show "realizes (omitted_zero_calculate anno g ctx) (omitted_zero_plan anno g ctx)"
    unfolding omitted_zero_calculate_def omitted_zero_plan_def by (rule realizes_rules)
next
  fix t
  assume "t \<in> omitted_tags"
  then show "tag_allowed t" by (rule tag_allowed_derived)
qed (auto simp: omitted_zero_plan_def omitted_zero_entry_def OMITTED_CATEGORIES_def)

section \<open>The bootstrap interval\<close>

lemma clamp_sample_nonneg: "0 \<le> dec_val (clamp_sample s)"
  by (simp add: clamp_sample_def dec_cmp_value not_less)

lemma bootstrap_ci_ordered:
  assumes "bootstrap_ci draw pe = (lower, upper)"
  shows "0 \<le> dec_val lower \<and> dec_val lower \<le> dec_val upper"
proof (cases "dec_eq pe dec_zero")
  case True
  with assms show ?thesis by (auto simp: bootstrap_ci_def)
next
  case False
  define ss where "ss = sort_key dec_val (map clamp_sample (map (draw pe) [0 ..< BOOTSTRAP_RESAMPLES]))"
  have len: "length ss = BOOTSTRAP_RESAMPLES" by (simp add: ss_def)
  have lu: "lower = ss ! CI_LOWER_IDX" "upper = ss ! CI_UPPER_IDX"
    using assms False by (auto simp: bootstrap_ci_def ss_def Let_def)
  have idx: "CI_LOWER_IDX \<le> CI_UPPER_IDX" "CI_UPPER_IDX < length ss"
    by (simp_all add: CI_LOWER_IDX_def CI_UPPER_IDX_def len BOOTSTRAP_RESAMPLES_def)
  have "sorted (map dec_val ss)" by (simp add: ss_def)
  with idx have "map dec_val ss ! CI_LOWER_IDX \<le> map dec_val ss ! CI_UPPER_IDX"
    by (intro sorted_nth_mono) auto
  then have "dec_val lower \<le> dec_val upper" using idx by (simp add: lu)
  moreover have "lower \<in> set ss" using idx lu by simp
  then have "0 \<le> dec_val lower" by (auto simp: ss_def clamp_sample_nonneg)
  ultimately show ?thesis by simp
qed

end
