(* ===== verification/Calc_Orchestrator.thy ===== *)
theory Calc_Orchestrator
  imports Calc_Scope1 Calc_Scope2 Calc_Scope3_Activity Calc_Scope3_Derived "HOL-Library.AList"
begin

text \<open>
  \<open>application/services/calc_orchestrator.py\<close>: the inputs of a run, the Scope 1 and Scope 2
  aggregates, and \<open>CalcOrchestrator.run\<close>, which extends one list by the sixteen modules in turn
  and finally enforces a single GWP set. The run is shown to realize the concatenation of the
  module plans; the final check never fires.
\<close>

record CalcRunInputs =
  ci_correlation_id :: uuid
  ci_anno :: int
  ci_sites :: "string list"
  ci_scope1_rows :: "row list"
  ci_scope2_rows :: "row list"
  ci_scope3_rows :: "row list"
  ci_created_by :: string
  ci_regulatory_stream :: string
  ci_go_evidence :: "go_evidence_check option"

definition common_ctx :: "CalcRunInputs \<Rightarrow> CalcCtx" where
  "common_ctx inputs =
     \<lparr>cx_correlation_id = ci_correlation_id inputs, cx_created_by = ci_created_by inputs,
      cx_regulatory_stream = ci_regulatory_stream inputs\<rparr>"

section \<open>Aggregates\<close>

text \<open>\<open>sigma[key] = sigma.get(key, Decimal("0")) + qty\<close>.\<close>

definition sigma_add :: "('k \<times> decimal) list \<Rightarrow> 'k \<times> decimal \<Rightarrow> ('k \<times> decimal) list" where
  "sigma_add sigma e =
     AList.update (fst e)
       (dec_add (case map_of sigma (fst e) of None \<Rightarrow> dec_zero | Some s \<Rightarrow> s) (snd e)) sigma"

definition sigma_scope1_entry :: "row \<Rightarrow> ((string \<times> int) \<times> decimal) list res" where
  "sigma_scope1_entry row =
     (if py_str (row_get_default row ''categoria_s1'' (PStr [])) = ''Processo_Decarb'' then Inr []
      else
      rbind (row_str row ''combustibile'') (\<lambda>combustibile.
      rbind (row_int row ''anno'') (\<lambda>anno.
      rbind (row_decimal row ''quantita'') (\<lambda>qty.
      Inr [((combustibile, anno), qty)]))))"

definition sigma_scope1_from_rows :: "row list \<Rightarrow> sigma1 res" where
  "sigma_scope1_from_rows rows =
     rbind (collect sigma_scope1_entry rows) (\<lambda>entries. Inr (foldl sigma_add [] entries))"

definition sigma_scope2_entry :: "row \<Rightarrow> (int \<times> decimal) list res" where
  "sigma_scope2_entry row =
     rbind (row_int row ''anno'') (\<lambda>anno.
     rbind (row_decimal row ''quantita'') (\<lambda>qty. Inr [(anno, qty)]))"

definition sigma_scope2_from_rows :: "row list \<Rightarrow> sigma2 res" where
  "sigma_scope2_from_rows rows =
     rbind (collect sigma_scope2_entry rows) (\<lambda>entries. Inr (foldl sigma_add [] entries))"

section \<open>The run\<close>

definition orchestrator_direct ::
    "FactorCatalogPort \<Rightarrow> GWPValues \<Rightarrow> CalcRunInputs \<Rightarrow> EmissionRecord list run list" where
  "orchestrator_direct catalog g inputs =
     (let ctx = common_ctx inputs in
      [fugitive_zero_calculate (ci_sites inputs) (ci_anno inputs) g ctx,
       scope1_combustion_calculate (ci_scope1_rows inputs) catalog g ctx,
       scope1_process_calculate (ci_scope1_rows inputs) catalog g ctx])"

definition orchestrator_after_sigma ::
    "sampler \<Rightarrow> FactorCatalogPort \<Rightarrow> GWPValues \<Rightarrow> CalcRunInputs \<Rightarrow> sigma1 \<Rightarrow> sigma2 \<Rightarrow>
     EmissionRecord list run list" where
  "orchestrator_after_sigma draw catalog g inputs sigma_s1 sigma_s2 =
     (let ctx = common_ctx inputs; s3 = ci_scope3_rows inputs in
      [scope2_lb_calculate (ci_scope2_rows inputs) catalog g ctx,
       scope2_mb_calculate (ci_scope2_rows inputs) (ci_go_evidence inputs) catalog g ctx,
       cat1_calculate s3 catalog g ctx,
       cat2_calculate s3 catalog g ctx,
       cat3_calculate sigma_s1 sigma_s2 catalog g ctx,
       cat4_calculate s3 catalog g ctx,
       cat5_calculate s3 catalog g ctx,
       cat6_calculate draw s3 catalog g ctx,
       cat7_calculate s3 catalog g ctx,
       cat9_calculate s3 catalog g ctx,
       cat12_calculate s3 catalog g ctx,
       cat11_zero_calculate (ci_anno inputs) g ctx,
       omitted_zero_calculate (ci_anno inputs) g ctx])"

definition orchestrator_modules ::
    "sampler \<Rightarrow> FactorCatalogPort \<Rightarrow> GWPValues \<Rightarrow> CalcRunInputs \<Rightarrow> EmissionRecord list run" where
  "orchestrator_modules draw catalog g inputs =
     mbind (run_all (orchestrator_direct catalog g inputs)) (\<lambda>rows.
     mbind (mbind (mlift (sigma_scope1_from_rows (ci_scope1_rows inputs))) (\<lambda>sigma_s1.
            mbind (mlift (sigma_scope2_from_rows (ci_scope2_rows inputs))) (\<lambda>sigma_s2.
            run_all (orchestrator_after_sigma draw catalog g inputs sigma_s1 sigma_s2))))
       (\<lambda>rows'. mret (rows @ rows')))"

definition orchestrator_run ::
    "sampler \<Rightarrow> FactorCatalogPort \<Rightarrow> GWPValues \<Rightarrow> CalcRunInputs \<Rightarrow> EmissionRecord list run" where
  "orchestrator_run draw catalog g inputs =
     mbind (orchestrator_modules draw catalog g inputs) (\<lambda>rows.
     mbind (mlift (assert_single_gwp_set (map er_gwp_set rows))) (\<lambda>_. mret rows))"

section \<open>The plan of a run\<close>

definition direct_plans ::
    "FactorCatalogPort \<Rightarrow> GWPValues \<Rightarrow> CalcRunInputs \<Rightarrow> EmissionArgs list res list" where
  "direct_plans catalog g inputs =
     (let ctx = common_ctx inputs in
      [fugitive_zero_plan (ci_sites inputs) (ci_anno inputs) g ctx,
       scope1_combustion_plan (ci_scope1_rows inputs) catalog g ctx,
       scope1_process_plan (ci_scope1_rows inputs) catalog g ctx])"

definition after_sigma_plans ::
    "sampler \<Rightarrow> FactorCatalogPort \<Rightarrow> GWPValues \<Rightarrow> CalcRunInputs \<Rightarrow> sigma1 \<Rightarrow> sigma2 \<Rightarrow>
     EmissionArgs list res list" where
  "after_sigma_plans draw catalog g inputs sigma_s1 sigma_s2 =
     (let ctx = common_ctx inputs; s3 = ci_scope3_rows inputs in
      [scope2_lb_plan (ci_scope2_rows inputs) catalog g ctx,
       scope2_mb_plan (ci_scope2_rows inputs) (ci_go_evidence inputs) catalog g ctx,
       cat1_plan s3 catalog g ctx,
       cat2_plan s3 catalog g ctx,
       cat3_plan sigma_s1 sigma_s2 catalog g ctx,
       cat4_plan s3 catalog g ctx,
       cat5_plan s3 catalog g ctx,
       cat6_plan draw s3 catalog g ctx,
       cat7_plan s3 catalog g ctx,
       cat9_plan s3 catalog g ctx,
       cat12_plan s3 catalog g ctx,
       cat11_zero_plan (ci_anno inputs) g ctx,
       omitted_zero_plan (ci_anno inputs) g ctx])"

definition run_plan ::
    "sampler \<Rightarrow> FactorCatalogPort \<Rightarrow> GWPValues \<Rightarrow> CalcRunInputs \<Rightarrow> EmissionArgs list res" where
  "run_plan draw catalog g inputs =
     rbind (collect_all (direct_plans catalog g inputs)) (\<lambda>as.
     rbind (rbind (sigma_scope1_from_rows (ci_scope1_rows inputs)) (\<lambda>sigma_s1.
            rbind (sigma_scope2_from_rows (ci_scope2_rows inputs)) (\<lambda>sigma_s2.
            collect_all (after_sigma_plans draw catalog g inputs sigma_s1 sigma_s2))))
       (\<lambda>bs. Inr (as @ bs)))"

section \<open>What the aggregates hold\<close>

lemma sigma_add_distinct: "distinct (map fst sigma) \<Longrightarrow> distinct (map fst (sigma_add sigma e))"
  unfolding sigma_add_def by (rule distinct_update)

lemma foldl_sigma_distinct:
  "distinct (map fst sigma) \<Longrightarrow> distinct (map fst (foldl sigma_add sigma es))"
  by (induction es arbitrary: sigma) (simp_all add: sigma_add_distinct)

text \<open>The quantities of a key, in row order.\<close>

definition quantities_of :: "'k \<Rightarrow> ('k \<times> decimal) list \<Rightarrow> decimal list" where
  "quantities_of k es = map snd (filter (\<lambda>e. fst e = k) es)"

lemma sigma_lookup:
  "map_of (foldl sigma_add [] es) k =
     (if quantities_of k es = [] then None else Some (sum_decimals (quantities_of k es)))"
proof (induction es rule: rev_induct)
  case Nil
  show ?case by (simp add: quantities_of_def)
next
  case (snoc e es)
  then show ?case
    unfolding foldl_append foldl_Cons foldl_Nil
    by (auto simp: sigma_add_def [of "foldl sigma_add [] es"] update_conv' quantities_of_def sum_decimals_def
        split: option.splits if_splits)
qed

section \<open>The run realizes its plan\<close>

lemma orchestrator_modules_realizes:
  "realizes (orchestrator_modules draw catalog g inputs) (run_plan draw catalog g inputs)"
  unfolding orchestrator_modules_def run_plan_def
proof (rule realizes_append)
  show "realizes (run_all (orchestrator_direct catalog g inputs))
      (collect_all (direct_plans catalog g inputs))"
    by (rule realizes_run_all)
      (simp add: orchestrator_direct_def direct_plans_def Let_def
        fugitive_m.calculate_realizes combustion_m.calculate_realizes process_m.calculate_realizes)
  have "realizes (run_all (orchestrator_after_sigma draw catalog g inputs s1 s2))
      (collect_all (after_sigma_plans draw catalog g inputs s1 s2))" for s1 s2
    by (rule realizes_run_all)
      (simp add: orchestrator_after_sigma_def after_sigma_plans_def Let_def
        lb_m.calculate_realizes mb_m.calculate_realizes cat1_m.calculate_realizes
        cat2_m.calculate_realizes cat3_m.calculate_realizes cat4_m.calculate_realizes
        cat5_m.calculate_realizes cat6_m.calculate_realizes cat7_m.calculate_realizes
        cat9_m.calculate_realizes cat12_m.calculate_realizes cat11_m.calculate_realizes
        omitted_m.calculate_realizes)
  then show "realizes
      (mbind (mlift (sigma_scope1_from_rows (ci_scope1_rows inputs))) (\<lambda>sigma_s1.
       mbind (mlift (sigma_scope2_from_rows (ci_scope2_rows inputs))) (\<lambda>sigma_s2.
       run_all (orchestrator_after_sigma draw catalog g inputs sigma_s1 sigma_s2))))
      (rbind (sigma_scope1_from_rows (ci_scope1_rows inputs)) (\<lambda>sigma_s1.
       rbind (sigma_scope2_from_rows (ci_scope2_rows inputs)) (\<lambda>sigma_s2.
       collect_all (after_sigma_plans draw catalog g inputs sigma_s1 sigma_s2))))"
    by (auto intro!: realizes_rules)
qed

text \<open>All (scope, sub-scope) pairs a run can emit.\<close>

definition run_tags :: "(int \<times> string) set" where
  "run_tags =
     {(1, ''fugitive''), (1, ''combustion''), (1, ''process''), (2, ''LB''), (2, ''MB''),
      (3, ''Cat1''), (3, ''Cat2''), (3, ''Cat4''), (3, ''Cat5''), (3, ''Cat6''), (3, ''Cat7''),
      (3, ''Cat9''), (3, ''Cat12''), (3, ''Cat11_ZERO'')} \<union> cat3_tags \<union> omitted_tags"

lemma run_tags_allowed: "t \<in> run_tags \<Longrightarrow> tag_allowed t"
  by (auto simp: run_tags_def tag_allowed_scope1 tag_allowed_scope2 tag_allowed_activity
      tag_allowed_derived)

lemmas module_conforms =
  fugitive_m.plan_conforms combustion_m.plan_conforms process_m.plan_conforms lb_m.plan_conforms
  mb_m.plan_conforms cat1_m.plan_conforms cat2_m.plan_conforms cat3_m.plan_conforms
  cat4_m.plan_conforms cat5_m.plan_conforms cat6_m.plan_conforms cat7_m.plan_conforms
  cat9_m.plan_conforms cat12_m.plan_conforms cat11_m.plan_conforms omitted_m.plan_conforms

lemma module_plans_conform:
  "p \<in> set (direct_plans catalog g inputs) \<Longrightarrow> conforms (common_ctx inputs) g run_tags p"
  "p \<in> set (after_sigma_plans draw catalog g inputs s1 s2) \<Longrightarrow>
     conforms (common_ctx inputs) g run_tags p"
  unfolding direct_plans_def after_sigma_plans_def Let_def
  by (auto simp: run_tags_def intro!: module_conforms)

lemma run_plan_conforms: "conforms (common_ctx inputs) g run_tags (run_plan draw catalog g inputs)"
proof -
  have "conforms (common_ctx inputs) g run_tags (collect_all (direct_plans catalog g inputs))"
    and "conforms (common_ctx inputs) g run_tags
      (collect_all (after_sigma_plans draw catalog g inputs s1 s2))" for s1 s2
    by (auto intro: conforms_collect_all module_plans_conform)
  then show ?thesis
    unfolding run_plan_def conforms_def by (auto simp: rbind_eq_Inr)
qed

text \<open>A successful plan is the concatenation of the sixteen module plans, in order.\<close>

lemma run_plan_modules:
  assumes "run_plan draw catalog g inputs = Inr as"
  obtains s1 s2 ass where
    "sigma_scope1_from_rows (ci_scope1_rows inputs) = Inr s1"
    "sigma_scope2_from_rows (ci_scope2_rows inputs) = Inr s2"
    "list_all2 (\<lambda>p bs. p = Inr bs)
       (direct_plans catalog g inputs @ after_sigma_plans draw catalog g inputs s1 s2) ass"
    "as = concat ass"
proof -
  obtain xs ys s1 s2 where parts: "collect_all (direct_plans catalog g inputs) = Inr xs"
    "sigma_scope1_from_rows (ci_scope1_rows inputs) = Inr s1"
    "sigma_scope2_from_rows (ci_scope2_rows inputs) = Inr s2"
    "collect_all (after_sigma_plans draw catalog g inputs s1 s2) = Inr ys" "as = xs @ ys"
    using assms by (auto simp: run_plan_def rbind_eq_Inr)
  obtain xss yss where "list_all2 (\<lambda>p bs. p = Inr bs) (direct_plans catalog g inputs) xss"
    "list_all2 (\<lambda>p bs. p = Inr bs) (after_sigma_plans draw catalog g inputs s1 s2) yss"
    "xs = concat xss" "ys = concat yss"
    using collect_all_split [OF parts(1)] collect_all_split [OF parts(4)] by blast
  with parts that [of s1 s2 "xss @ yss"] show ?thesis
    by (simp add: list_all2_appendI)
qed

lemma run_plan_ends:
  assumes "run_plan draw catalog g inputs = Inr as"
  shows "\<exists>fug mid c11 om.
    fugitive_zero_plan (ci_sites inputs) (ci_anno inputs) g (common_ctx inputs) = Inr fug \<and>
    cat11_zero_plan (ci_anno inputs) g (common_ctx inputs) = Inr c11 \<and>
    omitted_zero_plan (ci_anno inputs) g (common_ctx inputs) = Inr om \<and> as = fug @ mid @ c11 @ om"
proof -
  obtain s1 s2 ass where
    "list_all2 (\<lambda>p bs. p = Inr bs)
       (direct_plans catalog g inputs @ after_sigma_plans draw catalog g inputs s1 s2) ass"
    "as = concat ass"
    using run_plan_modules [OF assms] by metis
  then show ?thesis
    unfolding direct_plans_def after_sigma_plans_def Let_def by (auto simp: list_all2_Cons1)
qed

lemma run_plan_nonempty: "run_plan draw catalog g inputs = Inr as \<Longrightarrow> as \<noteq> []"
  unfolding run_plan_def after_sigma_plans_def Let_def
  using cat11_m.plan_total by (auto simp: rbind_eq_Inr cat11_zero_plan_def)

text \<open>The final check passes on every emitted list, so the run realizes the same plan.\<close>

lemma orchestrator_run_realizes:
  "realizes (orchestrator_run draw catalog g inputs) (run_plan draw catalog g inputs)"
proof -
  have "assert_single_gwp_set (map er_gwp_set rs) = Inr (gv_code g)"
    if run: "orchestrator_modules draw catalog g inputs w = Inr (rs, w')" for w rs w'
  proof -
    obtain as where as: "run_plan draw catalog g inputs = Inr as" "list_all2 built as rs"
      using realizes_built [OF orchestrator_modules_realizes run] by blast
    then have "rs \<noteq> []" using run_plan_nonempty [OF as(1)] by auto
    moreover have "er_gwp_set r = gv_code g" if "r \<in> set rs" for r
    proof -
      from that as(2) obtain a where "a \<in> set as" "built a r"
        using list_all2_right by metis
      moreover from this(1) as(1) have "stamped (common_ctx inputs) g run_tags a"
        using run_plan_conforms by (auto simp: conforms_def)
      ultimately show ?thesis by (simp add: built_fields stamped_def)
    qed
    ultimately show ?thesis by (auto simp: assert_single_gwp_set_ok image_iff ex_in_conv)
  qed
  then have "orchestrator_run draw catalog g inputs w = Inr (rs, w') \<longleftrightarrow>
      orchestrator_modules draw catalog g inputs w = Inr (rs, w')" for w rs w'
    by (auto simp: orchestrator_run_def mbind_eq_Inr)
  with orchestrator_modules_realizes show ?thesis
    by (simp add: realizes_def)
qed

text \<open>The orchestrator itself meets the contract of a calculation module.\<close>

interpretation run_m: calc_module
  "\<lambda>g ctx. orchestrator_run draw catalog g
     (inputs\<lparr>ci_correlation_id := cx_correlation_id ctx, ci_created_by := cx_created_by ctx,
             ci_regulatory_stream := cx_regulatory_stream ctx\<rparr>)"
  "\<lambda>g ctx. run_plan draw catalog g
     (inputs\<lparr>ci_correlation_id := cx_correlation_id ctx, ci_created_by := cx_created_by ctx,
             ci_regulatory_stream := cx_regulatory_stream ctx\<rparr>)"
  run_tags
proof
  fix g and ctx :: CalcCtx and as a
  let ?i = "inputs\<lparr>ci_correlation_id := cx_correlation_id ctx,
    ci_created_by := cx_created_by ctx, ci_regulatory_stream := cx_regulatory_stream ctx\<rparr>"
  assume "run_plan draw catalog g ?i = Inr as" "a \<in> set as"
  then show "stamped ctx g run_tags a"
    using run_plan_conforms [of ?i g draw catalog]
    by (simp add: conforms_def common_ctx_def stamped_def)
qed (simp_all add: orchestrator_run_realizes run_tags_allowed)

lemma inputs_of_ctx:
  "inputs\<lparr>ci_correlation_id := cx_correlation_id (common_ctx inputs),
     ci_created_by := cx_created_by (common_ctx inputs),
     ci_regulatory_stream := cx_regulatory_stream (common_ctx inputs)\<rparr> = inputs"
  by (simp add: common_ctx_def)

lemmas run_record_stamps =
  run_m.record_stamps [where inputs = inputs and ctx = "common_ctx inputs" for inputs,
    unfolded inputs_of_ctx]

lemmas run_returns_iff_nonneg =
  run_m.returns_iff_nonneg [where inputs = inputs and ctx = "common_ctx inputs" for inputs,
    unfolded inputs_of_ctx]

end
