(* ===== verification/Demo_Inputs.thy ===== *)
theory Demo_Inputs
  imports Calc_Orchestrator
begin

text \<open>
  A small concrete reporting year: a factor catalogue, one or two rows per scope, and a world of
  identifiers and instants. The witnesses of the properties run the model on it. Its lookups are
  evaluated once here and reused.
\<close>

section \<open>Catalogue, context and world\<close>

definition demo_value :: "string \<Rightarrow> decimal" where
  "demo_value factor_id =
     (if factor_id = ''STOICH_CACO3_IPCC_2006'' then Dec False 4397 (- 4)
      else if factor_id = ''MB_GO_ZERO'' then dec_zero else Dec False 25 (- 1))"

definition demo_factor :: "string \<Rightarrow> string \<Rightarrow> FactorRecord" where
  "demo_factor factor_id gwp_set =
     \<lparr>fr_factor_id = factor_id, fr_version = ''2025'', fr_value = Some (demo_value factor_id),
      fr_unit = ''kg'', fr_source = ''DEFRA'', fr_gwp_set = gwp_set,
      fr_biogenic_co2_kg_per_unit = Some (Dec False 13 (- 1)), fr_vintage = Some ''2025'',
      fr_applicability_note = None, fr_is_tbc = False, fr_is_licence_only = False,
      fr_factor_db_id = Some 7\<rparr>"

definition demo_catalog :: FactorCatalogPort where
  "demo_catalog =
     \<lparr>cat_get = (\<lambda>factor_id gwp_set vintage_year. Inr (demo_factor factor_id gwp_set)),
      cat_get_biogenic_share = (\<lambda>factor_id gwp_set. Inr (Some (Dec False 13 (- 1))))\<rparr>"

definition demo_ctx :: CalcCtx where
  "demo_ctx =
     \<lparr>cx_correlation_id = 42, cx_created_by = ''calc'', cx_regulatory_stream = ''CSRD_ESRS_E1''\<rparr>"

definition demo_world :: world where
  "demo_world = \<lparr>w_uuid = of_nat, w_clock = int, w_uuids = 1, w_ticks = 0\<rparr>"

definition demo_sampler :: sampler where
  "demo_sampler pe i = pe"

section \<open>Rows\<close>

definition demo_gas :: row where
  "demo_gas = [''codice_sito'' \<mapsto> PStr ''IANO'', ''anno'' \<mapsto> PInt 2025,
     ''combustibile'' \<mapsto> PStr ''GAS_NAT'', ''quantita'' \<mapsto> PDec (Dec False 10005 (- 1)),
     ''categoria_s1'' \<mapsto> PStr ''Combustione'']"

definition demo_decarb :: row where
  "demo_decarb = [''codice_sito'' \<mapsto> PStr ''IANO'', ''anno'' \<mapsto> PInt 2025,
     ''combustibile'' \<mapsto> PStr ''CACO3'', ''quantita'' \<mapsto> PInt 200,
     ''categoria_s1'' \<mapsto> PStr ''Processo_Decarb'']"

definition demo_grid :: row where
  "demo_grid = [''codice_sito'' \<mapsto> PStr ''IANO'', ''anno'' \<mapsto> PInt 2025, ''quantita'' \<mapsto> PInt 5000]"

definition demo_go :: row where
  "demo_go = [''codice_sito'' \<mapsto> PStr ''VIANO'', ''anno'' \<mapsto> PInt 2025, ''quantita'' \<mapsto> PInt 3000,
     ''strumento_mb'' \<mapsto> PStr ''GO_GSE'']"

definition demo_pallet :: row where
  "demo_pallet = [''categoria_s3'' \<mapsto> PInt 1, ''sottocategoria'' \<mapsto> PStr ''Pallet legno'',
     ''anno'' \<mapsto> PInt 2025, ''quantita'' \<mapsto> PInt 800]"

definition demo_flights :: row where
  "demo_flights = [''categoria_s3'' \<mapsto> PInt 6, ''sottocategoria'' \<mapsto> PStr ''Voli'',
     ''anno'' \<mapsto> PInt 2025, ''quantita'' \<mapsto> PInt 1200]"

definition demo_tiles :: row where
  "demo_tiles = [''categoria_s3'' \<mapsto> PInt 12, ''sottocategoria'' \<mapsto> PStr ''EoL'',
     ''anno'' \<mapsto> PInt 2025, ''quantita'' \<mapsto> PInt 100]"

definition demo_inputs :: CalcRunInputs where
  "demo_inputs =
     \<lparr>ci_correlation_id = 42, ci_anno = 2025, ci_sites = [''IANO'', ''VIANO''],
      ci_scope1_rows = [demo_gas, demo_decarb], ci_scope2_rows = [demo_grid, demo_go],
      ci_scope3_rows = [demo_pallet, demo_flights, demo_tiles], ci_created_by = ''calc'',
      ci_regulatory_stream = ''CSRD_ESRS_E1'', ci_go_evidence = None\<rparr>"

section \<open>Evaluated lookups\<close>

lemma demo_require [simp]:
  "require_factor demo_catalog factor_id gwp_set vintage = Inr (demo_factor factor_id gwp_set)"
  "cat_get_biogenic_share demo_catalog factor_id gwp_set = Inr (Some (Dec False 13 (- 1)))"
  by (simp_all add: require_factor_def demo_catalog_def demo_factor_def)

lemma demo_factor_fields [simp]:
  "fr_value (demo_factor factor_id gwp_set) = Some (demo_value factor_id)"
  "fr_factor_id (demo_factor factor_id gwp_set) = factor_id"
  by (simp_all add: demo_factor_def)

lemma demo_value_nonneg [simp]: "dec_nonneg (demo_value factor_id)"
  by (simp add: demo_value_def dec_nonneg_def)

lemma demo_ctx_ok [simp]: "ctx_ok demo_ctx AR6" "ctx_ok demo_ctx AR5"
  "common_ctx demo_inputs = demo_ctx"
  by (simp_all add: ctx_ok_def demo_ctx_def AR6_def AR5_def ALLOWED_REGULATORY_STREAMS_def
      ALLOWED_GWP_SETS_def common_ctx_def demo_inputs_def)

lemmas demo_row_defs = demo_gas_def demo_decarb_def demo_grid_def demo_go_def demo_pallet_def
  demo_flights_def demo_tiles_def

lemmas demo_lookup = row_str_def row_int_def row_decimal_def row_get_def row_get_default_def
  uuid_or_none_def dec_of_int_def demo_row_defs

lemma demo_gas_lookup [simp]:
  "row_str demo_gas ''combustibile'' = Inr ''GAS_NAT''" "row_str demo_gas ''codice_sito'' = Inr ''IANO''"
  "row_int demo_gas ''anno'' = Inr 2025" "row_decimal demo_gas ''quantita'' = Inr (Dec False 10005 (- 1))"
  "row_get_default demo_gas ''categoria_s1'' v = PStr ''Combustione''"
  "row_get_default demo_gas ''id'' v = v"
  by (simp_all add: demo_lookup)

lemma demo_decarb_lookup [simp]:
  "row_str demo_decarb ''combustibile'' = Inr ''CACO3''"
  "row_str demo_decarb ''codice_sito'' = Inr ''IANO''" "row_int demo_decarb ''anno'' = Inr 2025"
  "row_decimal demo_decarb ''quantita'' = Inr (Dec False 200 0)"
  "row_get_default demo_decarb ''categoria_s1'' v = PStr ''Processo_Decarb''"
  "row_get_default demo_decarb ''id'' v = v"
  by (simp_all add: demo_lookup)

lemma demo_grid_lookup [simp]:
  "row_str demo_grid ''codice_sito'' = Inr ''IANO''" "row_int demo_grid ''anno'' = Inr 2025"
  "row_decimal demo_grid ''quantita'' = Inr (Dec False 5000 0)"
  "row_get_default demo_grid ''strumento_mb'' v = v" "row_get_default demo_grid ''id'' v = v"
  "row_get_default demo_grid ''voce_s2'' v = v"
  by (simp_all add: demo_lookup)

lemma demo_go_lookup [simp]:
  "row_str demo_go ''codice_sito'' = Inr ''VIANO''" "row_int demo_go ''anno'' = Inr 2025"
  "row_decimal demo_go ''quantita'' = Inr (Dec False 3000 0)"
  "row_get_default demo_go ''strumento_mb'' v = PStr ''GO_GSE''" "row_get_default demo_go ''id'' v = v"
  "row_get_default demo_go ''voce_s2'' v = v"
  by (simp_all add: demo_lookup)

lemma demo_scope3_lookup [simp]:
  "row_get_default demo_pallet ''categoria_s3'' v = PInt 1"
  "row_get_default demo_flights ''categoria_s3'' v = PInt 6"
  "row_get_default demo_tiles ''categoria_s3'' v = PInt 12"
  "row_get_default demo_pallet ''sottocategoria'' v = PStr ''Pallet legno''"
  "row_get_default demo_flights ''sottocategoria'' v = PStr ''Voli''"
  "row_str demo_pallet ''sottocategoria'' = Inr ''Pallet legno''"
  "row_str demo_flights ''sottocategoria'' = Inr ''Voli''"
  "row_int demo_pallet ''anno'' = Inr 2025" "row_int demo_flights ''anno'' = Inr 2025"
  "row_int demo_tiles ''anno'' = Inr 2025"
  "row_decimal demo_pallet ''quantita'' = Inr (Dec False 800 0)"
  "row_decimal demo_flights ''quantita'' = Inr (Dec False 1200 0)"
  "row_decimal demo_tiles ''quantita'' = Inr (Dec False 100 0)"
  "row_get_default demo_pallet ''id'' v = v" "row_get_default demo_flights ''id'' v = v"
  "row_get_default demo_tiles ''id'' v = v"
  by (simp_all add: demo_lookup)

lemma uuid_or_none_PNone [simp]: "uuid_or_none PNone = Inr None"
  by (simp add: uuid_or_none_def)

section \<open>The plans of the modules succeed without a negative amount\<close>

lemma nonneg_emission_args [simp]:
  "nonneg_args (emission_args ctx g f s t meth raw site anno x notes) \<longleftrightarrow> dec_nonneg x"
  "nonneg_args (emission_args ctx g f s t meth raw site anno x notes \<lparr>ea_co2_tonne := v\<rparr>) \<longleftrightarrow>
     dec_nonneg x"
  "nonneg_args (emission_args ctx g f s t meth raw site anno x notes
     \<lparr>ea_co2_tonne := v, ea_co2_fossil_tonne := Some y\<rparr>) \<longleftrightarrow> dec_nonneg x \<and> dec_nonneg y"
  "nonneg_args (emission_args ctx g f s t meth raw site anno x notes
     \<lparr>ea_co2_tonne := v, ea_co2_fossil_tonne := Some y, ea_ch4_tco2e := c, ea_n2o_tco2e := n\<rparr>) \<longleftrightarrow>
     dec_nonneg x \<and> dec_nonneg y"
  "nonneg_args (emission_args ctx g f s t meth raw site anno x notes
     \<lparr>ea_co2_biogenic_tonne := Some z, ea_co2_fossil_tonne := Some y\<rparr>) \<longleftrightarrow>
     dec_nonneg x \<and> dec_nonneg y \<and> dec_nonneg z"
  "nonneg_args (emission_args ctx g f s t meth raw site anno x notes
     \<lparr>ea_uncertainty_band_lower := l, ea_uncertainty_band_upper := u\<rparr>) \<longleftrightarrow> dec_nonneg x"
  by (auto simp: nonneg_args_def emission_args_def)

lemmas nonneg_intros = dec_mul_nonneg dec_add_nonneg dec_or_zero_nonneg

lemma nonneg_consts [simp]:
  "dec_nonneg (Dec False c e)" "dec_nonneg KG_TO_TONNE"
  by (simp_all add: dec_nonneg_def KG_TO_TONNE_def)

lemma nonneg_gwp [simp]: "dec_nonneg (gv_ch4 AR6)" "dec_nonneg (gv_n2o AR6)"
  by (simp_all add: AR6_def)

lemma demo_combustion: "good_plan (scope1_combustion_plan [demo_gas, demo_decarb] demo_catalog AR6 ctx) 1"
  by (auto simp: good_plan_def scope1_combustion_plan_def scope1_combustion_row_def
      scope1_combustion_build_record_def FUEL_FACTOR_IDS_def combustion_amounts_def Let_def
      intro!: nonneg_intros)

lemma demo_process: "good_plan (scope1_process_plan [demo_gas, demo_decarb] demo_catalog AR6 ctx) 1"
  by (auto simp: good_plan_def scope1_process_plan_def scope1_process_factor_def
      PROCESS_FACTOR_ID_def demo_value_def STOICH_VALUE_def dec_eq_def
      scope1_process_row_def PROCESS_CATEGORY_TAG_def AR6_def Let_def intro!: nonneg_intros)

lemma demo_lb: "good_plan (scope2_lb_plan [demo_grid, demo_go] demo_catalog AR6 ctx) 2"
  by (auto simp: good_plan_def scope2_lb_plan_def scope2_lb_row_def Let_def intro!: nonneg_intros)

lemma demo_mb: "good_plan (scope2_mb_plan [demo_grid, demo_go] None demo_catalog AR6 ctx) 2"
  by (auto simp: good_plan_def scope2_mb_plan_def scope2_mb_build_record_def scope2_mb_decide_def Let_def
      GO_INSTRUMENT_LABEL_def default_go_evidence_check_def intro!: nonneg_intros)

lemma demo_cat1_sub: "cat1_factor_id (str_lower (str_strip ''Pallet legno'')) = Some ''ECOINV_PALLET_V3_10''"
  by code_simp

lemma demo_cat6_sub: "cat6_resolve_factor ''Voli'' = Some ''TRAVEL_SPEND_FLIGHTS_DEFRA_2025''"
  by code_simp

lemma demo_cat1:
  "good_plan (cat1_plan [demo_pallet, demo_flights, demo_tiles] demo_catalog AR6 ctx) 1"
  by (auto simp: good_plan_def cat1_plan_def cat1_row_def cat1_build_record_def cat1_biogenic_def if_category_def
      BIOGENIC_FACTOR_IDS_def Let_def demo_cat1_sub intro!: nonneg_intros)

lemma demo_cat6:
  "good_plan (cat6_plan draw [demo_pallet, demo_flights, demo_tiles] demo_catalog AR6 ctx) 1"
  by (auto simp: good_plan_def cat6_plan_def cat6_row_def cat6_build_record_def if_category_def
      demo_cat6_sub Let_def split_def intro!: nonneg_intros)

lemma demo_cat12:
  "good_plan (cat12_plan [demo_pallet, demo_flights, demo_tiles] demo_catalog AR6 ctx) 2"
  by (auto simp: good_plan_def cat12_plan_def cat12_row_def if_category_def Let_def
      LANDFILL_FRACTION_def RECYCLE_FRACTION_def intro!: nonneg_intros)

lemma demo_other_categories:
  "good_plan (cat2_plan [demo_pallet, demo_flights, demo_tiles] demo_catalog AR6 ctx) 0"
  "good_plan (cat4_plan [demo_pallet, demo_flights, demo_tiles] demo_catalog AR6 ctx) 0"
  "good_plan (cat5_plan [demo_pallet, demo_flights, demo_tiles] demo_catalog AR6 ctx) 0"
  "good_plan (cat7_plan [demo_pallet, demo_flights, demo_tiles] demo_catalog AR6 ctx) 0"
  "good_plan (cat9_plan [demo_pallet, demo_flights, demo_tiles] demo_catalog AR6 ctx) 0"
  by (simp_all add: good_plan_def cat2_plan_def cat4_plan_def cat5_plan_def cat7_plan_def
      cat9_plan_def cat2_row_def cat4_row_def cat5_row_def cat7_row_def cat9_row_def
      if_category_def)

lemma demo_sigma1:
  "sigma_scope1_from_rows [demo_gas, demo_decarb] =
     Inr [((''GAS_NAT'', 2025), dec_add dec_zero (Dec False 10005 (- 1)))]"
  by (simp add: sigma_scope1_from_rows_def sigma_scope1_entry_def sigma_add_def)

lemma demo_sigma2:
  "sigma_scope2_from_rows [demo_grid, demo_go] =
     Inr [(2025, dec_add (dec_add dec_zero (Dec False 5000 0)) (Dec False 3000 0))]"
  by (simp add: sigma_scope2_from_rows_def sigma_scope2_entry_def sigma_add_def)

lemma demo_cat3:
  "dec_nonneg x \<Longrightarrow> dec_nonneg y \<Longrightarrow>
   good_plan (cat3_plan [((''GAS_NAT'', 2025), x)] [(2025, y)] demo_catalog AR6 ctx) 3"
  by (auto simp: good_plan_def cat3_plan_def cat3_fuel_entry_def cat3_elec_entry_def
      cat3_tnd_entry_def sigma_get_def FUEL_WTT_FACTOR_IDS_def intro!: nonneg_intros)

text \<open>The whole year can be computed.\<close>

lemma good_collect_all:
  "list_all2 good_plan ps ns \<Longrightarrow> good_plan (collect_all ps) (sum_list ns)"
proof (induction rule: list_all2_induct)
  case Nil
  show ?case by (simp add: good_plan_def)
next
  case (Cons p ps n ns)
  then show ?case by (auto simp: good_plan_def)
qed

lemma good_zero_lines:
  "good_plan (fugitive_zero_plan [''IANO'', ''VIANO''] anno g ctx) 2"
  "good_plan (cat11_zero_plan anno g ctx) 1" "good_plan (omitted_zero_plan anno g ctx) 5"
proof -
  have "nonneg_args (zero_line_args ctx g f s t site anno n)" for f s t site n
    by (simp add: nonneg_args_def zero_line_args_def emission_args_def)
  then show "good_plan (fugitive_zero_plan [''IANO'', ''VIANO''] anno g ctx) 2"
    "good_plan (cat11_zero_plan anno g ctx) 1" "good_plan (omitted_zero_plan anno g ctx) 5"
    by (simp_all add: good_plan_def fugitive_zero_plan_def fugitive_zero_site_def
        cat11_zero_plan_def omitted_zero_plan_def omitted_zero_entry_def OMITTED_CATEGORIES_def)
qed

lemma demo_run_plan: "good_plan (run_plan draw demo_catalog AR6 demo_inputs) 21"
proof -
  let ?s1 = "[((''GAS_NAT'', 2025), dec_add dec_zero (Dec False 10005 (- 1)))]"
  let ?s2 = "[(2025, dec_add (dec_add dec_zero (Dec False 5000 0)) (Dec False 3000 0))]"
  have "good_plan (collect_all (direct_plans demo_catalog AR6 demo_inputs)) (sum_list [2, 1, 1])"
    by (rule good_collect_all)
      (simp add: direct_plans_def demo_inputs_def Let_def good_zero_lines demo_combustion demo_process
        del: One_nat_def)
  moreover have "good_plan (cat3_plan ?s1 ?s2 demo_catalog AR6 ctx) 3" for ctx
    by (rule demo_cat3; intro nonneg_intros nonneg_consts)
  then have "good_plan (collect_all (after_sigma_plans draw demo_catalog AR6 demo_inputs ?s1 ?s2))
      (sum_list [2, 2, 1, 0, 3, 0, 0, 1, 0, 0, 2, 1, 5])"
    by (intro good_collect_all)
      (simp add: after_sigma_plans_def demo_inputs_def Let_def good_zero_lines demo_lb demo_mb
        demo_cat1 demo_cat6 demo_cat12 demo_other_categories del: One_nat_def)
  moreover have "sigma_scope1_from_rows (ci_scope1_rows demo_inputs) = Inr ?s1"
    "sigma_scope2_from_rows (ci_scope2_rows demo_inputs) = Inr ?s2"
    by (simp_all only: demo_inputs_def CalcRunInputs.simps demo_sigma1 demo_sigma2)
  ultimately show ?thesis
    unfolding run_plan_def good_plan_def by auto
qed

lemma demo_run_returns:
  "\<exists>rs w'. orchestrator_run draw demo_catalog AR6 demo_inputs w = Inr (rs, w')"
proof -
  obtain as where "run_plan draw demo_catalog AR6 demo_inputs = Inr as" "\<forall>a\<in>set as. nonneg_args a"
    using demo_run_plan by (auto simp: good_plan_def)
  then show ?thesis
    using run_returns_iff_nonneg [of draw demo_catalog AR6 demo_inputs as w] by simp
qed

lemma demo_run_nonempty:
  assumes "orchestrator_run draw demo_catalog AR6 demo_inputs w = Inr (rs, w')"
  shows "length rs = 21" and "\<exists>r. r \<in> set rs"
proof -
  obtain as where "run_plan draw demo_catalog AR6 demo_inputs = Inr as" "list_all2 built as rs"
    using realizes_built [OF orchestrator_run_realizes assms] by blast
  with demo_run_plan [of draw] show len: "length rs = 21"
    by (auto simp: good_plan_def dest: list_all2_lengthD)
  then show "\<exists>r. r \<in> set rs" by (cases rs) auto
qed

end
