(* ===== verification/Calc_Properties.thy ===== *)
theory Calc_Properties
  imports Demo_Inputs
begin

text \<open>
  The properties of the single calculation modules, stated on their \<open>calculate\<close> functions: what
  each record holds, up to the roundings of decimal arithmetic, and which inputs are refused.
\<close>

section \<open>From a returned record back to its row\<close>

lemma emit_rows_record:
  assumes "emit_rows body rows w = Inr (rs, w')" and "r \<in> set rs"
  shows "\<exists>row ys a. row \<in> set rows \<and> body row = Inr ys \<and> a \<in> set ys \<and> built a r"
proof -
  obtain as where as: "collect body rows = Inr as" "list_all2 built as rs"
    using realizes_built [OF realizes_emit_rows assms(1)] by blast
  obtain a where a: "a \<in> set as" "built a r"
    using list_all2_right [OF as(2) assms(2)] by blast
  with collect_member [OF as(1) a(1)] show ?thesis by blast
qed

text \<open>When each row yields exactly one record, records and rows correspond by position.\<close>

lemma collect_single:
  assumes "collect body rows = Inr as" and "\<And>row ys. body row = Inr ys \<Longrightarrow> \<exists>a. ys = [a]"
  shows "list_all2 (\<lambda>row a. body row = Inr [a]) rows as"
  using assms(1)
proof (induction rows arbitrary: as)
  case Nil
  then show ?case by simp
next
  case (Cons row rows)
  then obtain ys zs where "body row = Inr ys" "collect body rows = Inr zs" "as = ys @ zs"
    by (auto simp: rbind_eq_Inr)
  with assms(2) Cons.IH show ?case by fastforce
qed

lemma emit_rows_single:
  assumes "emit_rows body rows w = Inr (rs, w')" and "\<And>row ys. body row = Inr ys \<Longrightarrow> \<exists>a. ys = [a]"
  shows "list_all2 (\<lambda>row r. \<exists>a. body row = Inr [a] \<and> built a r) rows rs"
proof -
  obtain as where as: "collect body rows = Inr as" "list_all2 built as rs"
    using realizes_built [OF realizes_emit_rows assms(1)] by blast
  with collect_single [OF as(1) assms(2)] show ?thesis
    by (auto simp: list_all2_conv_all_nth)
qed

lemma emission_args_fields [simp]:
  "ea_tco2e (emission_args ctx g f s t meth raw site anno x n) = x"
  "ea_factor (emission_args ctx g f s t meth raw site anno x n) = f"
  "ea_anno (emission_args ctx g f s t meth raw site anno x n) = anno"
  "ea_codice_sito (emission_args ctx g f s t meth raw site anno x n) = site"
  "ea_raw_row_id (emission_args ctx g f s t meth raw site anno x n) = raw"
  "ea_co2_tonne (emission_args ctx g f s t meth raw site anno x n) = None"
  "ea_co2_fossil_tonne (emission_args ctx g f s t meth raw site anno x n) = None"
  "ea_co2_biogenic_tonne (emission_args ctx g f s t meth raw site anno x n) = None"
  "ea_sub_scope (emission_args ctx g f s t meth raw site anno x n) = t"
  by (simp_all add: emission_args_def)

section \<open>Roundings of the module formulas\<close>

lemma rounded_kg: "rounded 0 (1 / 1000) KG_TO_TONNE"
  using rounded_exact [of KG_TO_TONNE] by (simp add: KG_TO_TONNE_def dec_val_Dec power_int_def power_divide)

lemma rounded_factor: "fr_value f = Some v \<Longrightarrow> 0 \<le> dec_val v \<Longrightarrow> rounded 0 (dec_val v) (factor_value f)"
  using rounded_exact [of "dec_or_zero (Some v)"] by (simp add: dec_val_or_zero)

lemma rounded_factor_tonnes:
  assumes "fr_value f = Some v" and "0 \<le> dec_val v" and "0 \<le> dec_val q"
  shows "rounded 2 (dec_val v * dec_val q / 1000) (factor_tonnes f q)"
proof -
  have "rounded (Suc (Suc (0 + 0) + 0)) (dec_val v * dec_val q * (1 / 1000)) (factor_tonnes f q)"
    by (intro rounded_mul rounded_factor rounded_exact rounded_kg assms)
  then show ?thesis by (simp add: numeral_2_eq_2)
qed

lemma rounded_value_tonnes:
  "0 \<le> dec_val v \<Longrightarrow> 0 \<le> dec_val q \<Longrightarrow>
   rounded 2 (dec_val v * dec_val q / 1000) (dec_mul (dec_mul (dec_or_zero (Some v)) q) KG_TO_TONNE)"
  using rounded_factor_tonnes [of "demo_factor [] [] \<lparr>fr_value := Some v\<rparr>" v q] by simp

lemma rounded_combustion:
  assumes "combustion_amounts q f1 f2 f3 gch4 gn2o = (co2, ch4, n2o, tot)"
    and "fr_value f1 = Some v1" "fr_value f2 = Some v2" "fr_value f3 = Some v3"
    and "0 \<le> dec_val v1" "0 \<le> dec_val v2" "0 \<le> dec_val v3" "0 \<le> dec_val q"
    and "0 \<le> dec_val gch4" "0 \<le> dec_val gn2o"
  shows "rounded 5 ((dec_val v1 + dec_val v2 * dec_val gch4 + dec_val v3 * dec_val gn2o)
           * dec_val q / 1000) tot"
proof -
  have co2: "rounded 2 (dec_val v1 * dec_val q / 1000) co2"
    using assms(1) rounded_factor_tonnes [OF assms(2,5,8)]
    by (auto simp: combustion_amounts_def Let_def)
  have ch4: "rounded 3 (dec_val v2 * dec_val q / 1000 * dec_val gch4) ch4"
    using assms(1) rounded_mul [OF rounded_factor_tonnes [OF assms(3,6,8)] rounded_exact [OF assms(9)]]
    by (auto simp: combustion_amounts_def Let_def eval_nat_numeral)
  have n2o: "rounded 3 (dec_val v3 * dec_val q / 1000 * dec_val gn2o) n2o"
    using assms(1) rounded_mul [OF rounded_factor_tonnes [OF assms(4,7,8)] rounded_exact [OF assms(10)]]
    by (auto simp: combustion_amounts_def Let_def eval_nat_numeral)
  have "rounded 4 (dec_val v1 * dec_val q / 1000 + dec_val v2 * dec_val q / 1000 * dec_val gch4)
      (dec_add co2 ch4)"
    using rounded_add [OF rounded_weaken [OF co2, of 3] ch4] by (simp add: eval_nat_numeral)
  from rounded_add [OF this rounded_weaken [OF n2o, of 4]]
  have "rounded 5 (dec_val v1 * dec_val q / 1000 + dec_val v2 * dec_val q / 1000 * dec_val gch4 +
      dec_val v3 * dec_val q / 1000 * dec_val gn2o) (dec_add (dec_add co2 ch4) n2o)"
    by (simp add: eval_nat_numeral)
  moreover have "tot = dec_add (dec_add co2 ch4) n2o"
    using assms(1) by (auto simp: combustion_amounts_def Let_def)
  ultimately show ?thesis by (simp add: field_simps)
qed

section \<open>Scope 1\<close>

definition combustion_source ::
    "row list \<Rightarrow> FactorCatalogPort \<Rightarrow> GWPValues \<Rightarrow> EmissionRecord \<Rightarrow> row \<Rightarrow> decimal \<Rightarrow>
     FactorRecord \<Rightarrow> FactorRecord \<Rightarrow> FactorRecord \<Rightarrow> bool" where
  "combustion_source rows cat g r row q f1 f2 f3 \<longleftrightarrow>
     (\<exists>fuel i1 i2 i3. row \<in> set rows \<and> row_str row ''combustibile'' = Inr fuel \<and>
        map_of FUEL_FACTOR_IDS fuel = Some (i1, i2, i3) \<and> row_decimal row ''quantita'' = Inr q \<and>
        require_factor cat i1 (gv_code g) None = Inr f1 \<and>
        require_factor cat i2 (gv_code g) None = Inr f2 \<and>
        require_factor cat i3 (gv_code g) None = Inr f3)"

lemma combustion_record_source:
  assumes "scope1_combustion_calculate rows cat g ctx w = Inr (rs, w')" and "r \<in> set rs"
  obtains row q f1 f2 f3 co2 ch4 n2o where
    "combustion_source rows cat g r row q f1 f2 f3"
    "combustion_amounts q f1 f2 f3 (gv_ch4 g) (gv_n2o g) = (co2, ch4, n2o, er_tco2e r)"
    "er_co2_tonne r = Some co2" "er_ch4_tco2e r = Some ch4" "er_n2o_tco2e r = Some n2o"
    "er_factor_id r = fr_factor_id f1"
proof -
  obtain row ys a where body: "row \<in> set rows" "scope1_combustion_row cat g ctx row = Inr ys"
    "a \<in> set ys" "built a r"
    using emit_rows_record [of "scope1_combustion_row cat g ctx" rows w rs w' r] assms
    by (auto simp: scope1_combustion_calculate_def)
  then obtain fuel where fuel: "row_str row ''combustibile'' = Inr fuel"
    and a: "scope1_combustion_build_record row fuel cat g ctx = Inr a"
    by (auto simp: scope1_combustion_row_def rbind_eq_Inr split: if_splits)
  from a obtain q i1 i2 i3 f1 f2 f3 where
    parts: "row_decimal row ''quantita'' = Inr q" "map_of FUEL_FACTOR_IDS fuel = Some (i1, i2, i3)"
    "require_factor cat i1 (gv_code g) None = Inr f1" "require_factor cat i2 (gv_code g) None = Inr f2"
    "require_factor cat i3 (gv_code g) None = Inr f3" "ea_factor a = f1"
    "combustion_amounts q f1 f2 f3 (gv_ch4 g) (gv_n2o g) =
       (the (ea_co2_tonne a), the (ea_ch4_tco2e a), the (ea_n2o_tco2e a), ea_tco2e a)"
    "ea_co2_tonne a \<noteq> None" "ea_ch4_tco2e a \<noteq> None" "ea_n2o_tco2e a \<noteq> None"
    unfolding scope1_combustion_build_record_def
    by (auto simp: rbind_eq_Inr Let_def split_def split: option.splits)
  with body(4) obtain co2 ch4 n2o where
    "combustion_amounts q f1 f2 f3 (gv_ch4 g) (gv_n2o g) = (co2, ch4, n2o, er_tco2e r)"
    "er_co2_tonne r = Some co2" "er_ch4_tco2e r = Some ch4" "er_n2o_tco2e r = Some n2o"
    "er_factor_id r = fr_factor_id f1"
    by (auto simp: built_fields)
  moreover have "combustion_source rows cat g r row q f1 f2 f3"
    using parts body(1) fuel by (auto simp: combustion_source_def)
  ultimately show thesis using that by blast
qed

lemma require_factor_value: "require_factor cat i gs v = Inr f \<Longrightarrow> \<exists>x. fr_value f = Some x"
  by (auto simp: require_factor_def rbind_eq_Inr split: if_splits)

text \<open>
  C5. A combustion record comes from a row of a known fuel whose three DEFRA factors were found
  under the run's GWP set, and its total is the sum of its CO2, CH4 and N2O components. When the
  factors, the quantity and the two GWP values are not negative, the total is the exact
  \<open>(co2 + ch4 GWP(ch4) + n2o GWP(n2o)) quantity / 1000\<close> up to five roundings.
\<close>

theorem combustion_record_accuracy:
  assumes "scope1_combustion_calculate rows cat g ctx w = Inr (rs, w')" and "r \<in> set rs"
  shows "\<exists>row q f1 f2 f3 co2 ch4 n2o v1 v2 v3.
    combustion_source rows cat g r row q f1 f2 f3 \<and>
    er_co2_tonne r = Some co2 \<and> er_ch4_tco2e r = Some ch4 \<and> er_n2o_tco2e r = Some n2o \<and>
    er_tco2e r = dec_add (dec_add co2 ch4) n2o \<and>
    fr_value f1 = Some v1 \<and> fr_value f2 = Some v2 \<and> fr_value f3 = Some v3 \<and>
    (0 \<le> dec_val v1 \<and> 0 \<le> dec_val v2 \<and> 0 \<le> dec_val v3 \<and> 0 \<le> dec_val q \<and>
     0 \<le> dec_val (gv_ch4 g) \<and> 0 \<le> dec_val (gv_n2o g) \<longrightarrow>
     rounded 5 ((dec_val v1 + dec_val v2 * dec_val (gv_ch4 g) + dec_val v3 * dec_val (gv_n2o g))
        * dec_val q / 1000) (er_tco2e r))"
proof -
  obtain row q f1 f2 f3 co2 ch4 n2o where src: "combustion_source rows cat g r row q f1 f2 f3"
    and am: "combustion_amounts q f1 f2 f3 (gv_ch4 g) (gv_n2o g) = (co2, ch4, n2o, er_tco2e r)"
    and fields: "er_co2_tonne r = Some co2" "er_ch4_tco2e r = Some ch4" "er_n2o_tco2e r = Some n2o"
    using combustion_record_source [OF assms] by metis
  obtain v1 v2 v3 where v: "fr_value f1 = Some v1" "fr_value f2 = Some v2" "fr_value f3 = Some v3"
    using src unfolding combustion_source_def by (auto dest!: require_factor_value)
  have "er_tco2e r = dec_add (dec_add co2 ch4) n2o"
    using am by (auto simp: combustion_amounts_def Let_def)
  with src fields v rounded_combustion [OF am v] show ?thesis by blast
qed

theorem combustion_record_accuracy_witness:
  "\<exists>rs w' r row q f1 f2 f3 v1 v2 v3.
    scope1_combustion_calculate [demo_gas, demo_decarb] demo_catalog AR6 demo_ctx demo_world =
      Inr (rs, w') \<and> r \<in> set rs \<and>
    combustion_source [demo_gas, demo_decarb] demo_catalog AR6 r row q f1 f2 f3 \<and>
    fr_value f1 = Some v1 \<and> fr_value f2 = Some v2 \<and> fr_value f3 = Some v3 \<and>
    (0 \<le> dec_val v1 \<and> 0 \<le> dec_val v2 \<and> 0 \<le> dec_val v3 \<and> 0 \<le> dec_val q \<longrightarrow>
     rounded 5 ((dec_val v1 + dec_val v2 * dec_val (gv_ch4 AR6) + dec_val v3 * dec_val (gv_n2o AR6))
        * dec_val q / 1000) (er_tco2e r))"
proof -
  let ?calc = "scope1_combustion_calculate [demo_gas, demo_decarb] demo_catalog AR6 demo_ctx"
  obtain rs w' r where "?calc demo_world = Inr (rs, w')" "r \<in> set rs"
    using combustion_m.good_plan_records [OF demo_combustion demo_ctx_ok(1), of demo_world]
    by (metis length_greater_0_conv list.set_intros(1) neq_Nil_conv zero_less_one)
  moreover have "0 \<le> dec_val (gv_ch4 AR6)" "0 \<le> dec_val (gv_n2o AR6)"
    by (simp_all flip: dec_nonneg_value)
  ultimately show ?thesis
    using combustion_record_accuracy [of "[demo_gas, demo_decarb]" demo_catalog AR6 demo_ctx
        demo_world rs w' r] by blast
qed

lemma dec_val_stoich: "dec_val STOICH_VALUE = 4397 / 10000"
  by (simp add: STOICH_VALUE_def dec_val_Dec power_int_def power_divide)

lemma process_row_record:
  assumes "scope1_process_row factor v g ctx row = Inr ys" and "a \<in> set ys" and "built a r"
  shows "py_str (row_get_default row ''categoria_s1'' (PStr [])) = PROCESS_CATEGORY_TAG \<and>
    er_co2_fossil_tonne r = None \<and> er_co2_biogenic_tonne r = None \<and>
    (\<exists>q. row_decimal row ''quantita'' = Inr q \<and> er_co2_tonne r = Some (dec_mul v q) \<and>
      er_tco2e r = dec_mul (dec_mul v q) (gv_co2 g))"
  using assms
  by (auto simp: scope1_process_row_def rbind_eq_Inr Let_def built_fields split: if_splits)

text \<open>
  The process module returns only when the catalogue's stoichiometric factor equals 0.4397;
  with any other pinned value it raises \<open>ValueError\<close> before looking at a row. Each record comes
  from a \<open>Processo_Decarb\<close> row and, for a non-negative mass of carbonate and the CO2 GWP of 1,
  is 0.4397 times that mass up to two roundings, entirely in the CO2 column and in neither the
  fossil nor the biogenic one.
\<close>

theorem process_pinned_factor:
  "(\<forall>f v. require_factor cat PROCESS_FACTOR_ID (gv_code g) None = Inr f \<and> fr_value f = Some v \<and>
       dec_val v \<noteq> 4397 / 10000 \<longrightarrow> scope1_process_calculate rows cat g ctx w = Inl ValueError) \<and>
   (\<forall>rs w'. scope1_process_calculate rows cat g ctx w = Inr (rs, w') \<longrightarrow>
      (\<exists>f v. require_factor cat PROCESS_FACTOR_ID (gv_code g) None = Inr f \<and> fr_value f = Some v \<and>
        dec_val v = 4397 / 10000) \<and>
      (\<forall>r\<in>set rs. er_co2_fossil_tonne r = None \<and> er_co2_biogenic_tonne r = None \<and>
        (\<exists>row q. row \<in> set rows \<and> row_decimal row ''quantita'' = Inr q \<and>
          py_str (row_get_default row ''categoria_s1'' (PStr [])) = PROCESS_CATEGORY_TAG \<and>
          (0 \<le> dec_val q \<and> dec_val (gv_co2 g) = 1 \<longrightarrow>
            rounded 2 (4397 / 10000 * dec_val q) (er_tco2e r)))))"
proof (intro conjI allI impI)
  fix f v
  assume "require_factor cat PROCESS_FACTOR_ID (gv_code g) None = Inr f \<and> fr_value f = Some v \<and>
       dec_val v \<noteq> 4397 / 10000"
  then show "scope1_process_calculate rows cat g ctx w = Inl ValueError"
    by (simp add: scope1_process_calculate_def scope1_process_factor_def dec_cmp_value
        dec_val_stoich mbind_def mlift_def)
next
  fix rs w'
  assume run: "scope1_process_calculate rows cat g ctx w = Inr (rs, w')"
  then obtain f v where f: "scope1_process_factor cat g = Inr (f, v)"
    and emit: "emit_rows (scope1_process_row f v g ctx) rows w = Inr (rs, w')"
    by (auto simp: scope1_process_calculate_def mbind_eq_Inr)
  then have req: "require_factor cat PROCESS_FACTOR_ID (gv_code g) None = Inr f"
    "fr_value f = Some v" "dec_val v = 4397 / 10000"
    by (auto simp: scope1_process_factor_def rbind_eq_Inr dec_cmp_value dec_val_stoich
        split: option.splits if_splits)
  then show "\<exists>f v. require_factor cat PROCESS_FACTOR_ID (gv_code g) None = Inr f \<and>
      fr_value f = Some v \<and> dec_val v = 4397 / 10000" by blast
  show "\<forall>r\<in>set rs. er_co2_fossil_tonne r = None \<and> er_co2_biogenic_tonne r = None \<and>
        (\<exists>row q. row \<in> set rows \<and> row_decimal row ''quantita'' = Inr q \<and>
          py_str (row_get_default row ''categoria_s1'' (PStr [])) = PROCESS_CATEGORY_TAG \<and>
          (0 \<le> dec_val q \<and> dec_val (gv_co2 g) = 1 \<longrightarrow>
            rounded 2 (4397 / 10000 * dec_val q) (er_tco2e r)))"
  proof
    fix r
    assume "r \<in> set rs"
    then obtain row ys a where row: "row \<in> set rows"
      and "scope1_process_row f v g ctx row = Inr ys" "a \<in> set ys" "built a r"
      using emit_rows_record [OF emit] by blast
    note rec = process_row_record [OF this(2-4)]
    then obtain q where q: "row_decimal row ''quantita'' = Inr q"
      "er_tco2e r = dec_mul (dec_mul v q) (gv_co2 g)" by blast
    have "rounded 2 (4397 / 10000 * dec_val q) (er_tco2e r)"
      if "0 \<le> dec_val q \<and> dec_val (gv_co2 g) = 1"
    proof -
      have "rounded (Suc (Suc (0 + 0) + 0)) (dec_val v * dec_val q * dec_val (gv_co2 g))
          (dec_mul (dec_mul v q) (gv_co2 g))"
        using that req(3) by (intro rounded_mul rounded_exact) auto
      then show ?thesis
        unfolding q(2) numeral_2_eq_2 req(3) using that by simp
    qed
    with row rec q(1) show "er_co2_fossil_tonne r = None \<and> er_co2_biogenic_tonne r = None \<and>
        (\<exists>row q. row \<in> set rows \<and> row_decimal row ''quantita'' = Inr q \<and>
          py_str (row_get_default row ''categoria_s1'' (PStr [])) = PROCESS_CATEGORY_TAG \<and>
          (0 \<le> dec_val q \<and> dec_val (gv_co2 g) = 1 \<longrightarrow>
            rounded 2 (4397 / 10000 * dec_val q) (er_tco2e r)))" by blast
  qed
qed

theorem process_pinned_factor_witness:
  "\<exists>rs w' r row q.
    scope1_process_calculate [demo_gas, demo_decarb] demo_catalog AR6 demo_ctx demo_world = Inr (rs, w') \<and>
    r \<in> set rs \<and> row \<in> set [demo_gas, demo_decarb] \<and> row_decimal row ''quantita'' = Inr q \<and>
    er_co2_fossil_tonne r = None"
proof -
  obtain rs w' r where "scope1_process_calculate [demo_gas, demo_decarb] demo_catalog AR6 demo_ctx
      demo_world = Inr (rs, w')" "r \<in> set rs"
    using process_m.good_plan_records [OF demo_process demo_ctx_ok(1), of demo_world]
    by (metis length_greater_0_conv list.set_intros(1) neq_Nil_conv zero_less_one)
  then show ?thesis
    using process_pinned_factor [of demo_catalog AR6 "[demo_gas, demo_decarb]" demo_ctx demo_world]
    by blast
qed

section \<open>Scope 2\<close>

definition lb_record_of :: "FactorRecord \<Rightarrow> row \<Rightarrow> EmissionRecord \<Rightarrow> bool" where
  "lb_record_of f row r \<longleftrightarrow>
     (\<exists>q. row_decimal row ''quantita'' = Inr q \<and> er_sub_scope r = ''LB'' \<and>
       er_factor_id r = fr_factor_id f \<and> er_co2_tonne r = None \<and>
       er_tco2e r = factor_tonnes f q \<and>
       (\<forall>v. fr_value f = Some v \<and> 0 \<le> dec_val v \<and> 0 \<le> dec_val q \<longrightarrow>
          rounded 2 (dec_val v * dec_val q / 1000) (er_tco2e r)))"

lemma lb_row_record:
  "scope2_lb_row f g ctx row = Inr [a] \<Longrightarrow> built a r \<Longrightarrow> lb_record_of f row r"
  by (auto simp: scope2_lb_row_def rbind_eq_Inr Let_def lb_record_of_def built_fields
      rounded_value_tonnes)

text \<open>
  The location-based module returns one record per row, in row order, whatever the row's
  instrument: the row's kWh times the grid factor, in tonnes, up to two roundings for
  non-negative inputs, with no gas split.
\<close>

theorem lb_covers_every_row:
  assumes "scope2_lb_calculate rows cat g ctx w = Inr (rs, w')"
  shows "\<exists>f. require_factor cat LB_FACTOR_ID (gv_code g) None = Inr f \<and>
    list_all2 (lb_record_of f) rows rs"
proof -
  from assms obtain f where f: "require_factor cat LB_FACTOR_ID (gv_code g) None = Inr f"
    and emit: "emit_rows (scope2_lb_row f g ctx) rows w = Inr (rs, w')"
    by (auto simp: scope2_lb_calculate_def mbind_eq_Inr)
  have "list_all2 (\<lambda>row r. \<exists>a. scope2_lb_row f g ctx row = Inr [a] \<and> built a r) rows rs"
    by (rule emit_rows_single [OF emit]) (auto simp: scope2_lb_row_def rbind_eq_Inr Let_def)
  then have "list_all2 (lb_record_of f) rows rs"
    by (rule list.rel_mono_strong) (auto intro: lb_row_record)
  with f show ?thesis by blast
qed

theorem lb_covers_every_row_witness:
  "\<exists>rs w' f. scope2_lb_calculate [demo_grid, demo_go] demo_catalog AR6 demo_ctx demo_world = Inr (rs, w') \<and>
    list_all2 (lb_record_of f) [demo_grid, demo_go] rs"
proof -
  obtain rs w' where "scope2_lb_calculate [demo_grid, demo_go] demo_catalog AR6 demo_ctx demo_world =
      Inr (rs, w')"
    using lb_m.good_plan_records [OF demo_lb demo_ctx_ok(1), of demo_world] by blast
  then show ?thesis
    using lb_covers_every_row [of "[demo_grid, demo_go]" demo_catalog AR6 demo_ctx demo_world rs w']
    by blast
qed

definition mb_record_of ::
    "go_evidence_check \<Rightarrow> FactorRecord \<Rightarrow> FactorRecord \<Rightarrow> row \<Rightarrow> EmissionRecord \<Rightarrow> bool" where
  "mb_record_of checker zf rf row r \<longleftrightarrow>
     (\<exists>q site anno. row_decimal row ''quantita'' = Inr q \<and> row_str row ''codice_sito'' = Inr site \<and>
       row_int row ''anno'' = Inr anno \<and> er_codice_sito r = Some site \<and> er_anno r = anno \<and>
       er_sub_scope r = ''MB'' \<and>
       (if row_opt row ''strumento_mb'' = PStr GO_INSTRUMENT_LABEL
        then checker site anno (PStr GO_INSTRUMENT_LABEL) \<and> er_tco2e r = dec_zero \<and>
             er_factor_id r = fr_factor_id zf
        else er_tco2e r = factor_tonnes rf q \<and> er_factor_id r = fr_factor_id rf))"

lemma mb_decide_cases:
  assumes "scope2_mb_decide zf rf checker site anno strumento q = Inr (fac, tco2e, disc)"
  shows "if strumento = PStr GO_INSTRUMENT_LABEL
     then checker site anno strumento \<and> tco2e = dec_zero \<and> fac = zf
     else tco2e = factor_tonnes rf q \<and> fac = rf"
  using assms by (auto simp: scope2_mb_decide_def Let_def split: if_splits)

lemma mb_row_record:
  assumes "scope2_mb_build_record zf rf g checker ctx row = Inr [a]" and "built a r"
  shows "mb_record_of checker zf rf row r"
proof -
  obtain q site anno fac tco2e disc where
    parts: "row_decimal row ''quantita'' = Inr q" "row_str row ''codice_sito'' = Inr site"
    "row_int row ''anno'' = Inr anno"
    "scope2_mb_decide zf rf checker site anno (row_opt row ''strumento_mb'') q = Inr (fac, tco2e, disc)"
    and fields: "ea_codice_sito a = Some site" "ea_anno a = anno" "ea_sub_scope a = ''MB''"
    "ea_tco2e a = tco2e" "ea_factor a = fac"
    using assms(1) by (auto simp: scope2_mb_build_record_def rbind_eq_Inr Let_def)
  from mb_decide_cases [OF parts(4)] parts show ?thesis
    unfolding mb_record_of_def built_fields [OF assms(2)] fields by (auto split: if_splits)
qed

definition effective_checker :: "go_evidence_check option \<Rightarrow> go_evidence_check" where
  "effective_checker ev = (case ev of Some c \<Rightarrow> c | None \<Rightarrow> default_go_evidence_check)"

text \<open>
  C4. The guarantee-of-origin gate. A market-based run returns one record per row; a row tagged
  \<open>GO_GSE\<close> is booked at exactly zero with the GO factor, and only because the evidence check
  accepted its site and year; every other row is booked at the residual mix.
\<close>

theorem mb_go_gate:
  assumes "scope2_mb_calculate rows ev cat g ctx w = Inr (rs, w')"
  shows "\<exists>zf rf. require_factor cat FACTOR_ID_GO_ZERO (gv_code g) None = Inr zf \<and>
    require_factor cat FACTOR_ID_RESIDUAL (gv_code g) None = Inr rf \<and>
    list_all2 (mb_record_of (effective_checker ev) zf rf) rows rs"
proof -
  from assms obtain zf rf where f: "require_factor cat FACTOR_ID_GO_ZERO (gv_code g) None = Inr zf"
    "require_factor cat FACTOR_ID_RESIDUAL (gv_code g) None = Inr rf"
    and emit: "emit_rows (scope2_mb_build_record zf rf g (effective_checker ev) ctx) rows w = Inr (rs, w')"
    by (auto simp: scope2_mb_calculate_def mbind_eq_Inr Let_def effective_checker_def)
  have "list_all2 (\<lambda>row r. \<exists>a. scope2_mb_build_record zf rf g (effective_checker ev) ctx row = Inr [a] \<and>
      built a r) rows rs"
    by (rule emit_rows_single [OF emit])
      (auto simp: scope2_mb_build_record_def rbind_eq_Inr Let_def)
  then have "list_all2 (mb_record_of (effective_checker ev) zf rf) rows rs"
    by (rule list.rel_mono_strong) (auto intro: mb_row_record)
  with f show ?thesis by blast
qed

theorem mb_go_gate_witness:
  "\<exists>rs w' zf rf. scope2_mb_calculate [demo_grid, demo_go] None demo_catalog AR6 demo_ctx demo_world =
      Inr (rs, w') \<and>
    list_all2 (mb_record_of (effective_checker None) zf rf) [demo_grid, demo_go] rs"
proof -
  obtain rs w' where "scope2_mb_calculate [demo_grid, demo_go] None demo_catalog AR6 demo_ctx demo_world =
      Inr (rs, w')"
    using mb_m.good_plan_records [OF demo_mb demo_ctx_ok(1), of demo_world] by blast
  then show ?thesis
    using mb_go_gate [of "[demo_grid, demo_go]" None demo_catalog AR6 demo_ctx demo_world rs w']
    by blast
qed

lemma emit_rows_fails_after:
  assumes "\<And>w. \<exists>rs w'. emit_rows body before w = Inr (rs, w')" and "body bad = Inl e"
  shows "emit_rows body (before @ bad # after) w = Inl e"
  using assms
proof (induction before arbitrary: w)
  case Nil
  then show ?case by (simp add: emit_rows_def mbind_def mlift_def)
next
  case (Cons x xs)
  let ?step = "\<lambda>row. mbind (mlift (body row)) (for_each (\<lambda>a. mbind (make_emission a) (\<lambda>r. mret [r])))"
  have run: "\<exists>rs w'. mbind (?step x) (\<lambda>ys. mbind (for_each ?step xs) (\<lambda>zs. mret (ys @ zs))) w =
      Inr (rs, w')" for w
    using Cons.prems(1) [of w] by (simp add: emit_rows_def)
  have rest: "\<exists>rs w'. emit_rows body xs w = Inr (rs, w')" for w
  proof -
    have "realizes (emit_rows body xs) (collect body xs)" by (rule realizes_emit_rows)
    moreover obtain w0 rs0 w1 where "emit_rows body xs w0 = Inr (rs0, w1)"
      using run [of w] by (auto simp: mbind_eq_Inr emit_rows_def)
    ultimately obtain as where "collect body xs = Inr as" "\<forall>a\<in>set as. args_ok a"
      by (auto simp: realizes_def)
    then show ?thesis
      using realizes_returns [of "emit_rows body xs" as w] realizes_emit_rows [of body xs]
      by (cases "emit_pure as w") simp
  qed
  obtain ys w1 where "?step x w = Inr (ys, w1)"
    using run [of w] by (auto simp: mbind_eq_Inr)
  with Cons.IH [OF rest Cons.prems(2), of w1] show ?case
    by (simp add: emit_rows_def mbind_def)
qed

text \<open>
  A row tagged \<open>GO_GSE\<close> whose evidence is refused stops the market-based run with
  \<open>GOValidationError\<close> (it is never silently booked at the residual mix), whatever the rows after
  it; the rows before it are irrelevant as long as they can be booked.
\<close>

theorem mb_refused_evidence_blocks:
  assumes "require_factor cat FACTOR_ID_GO_ZERO (gv_code g) None = Inr zf"
    and "require_factor cat FACTOR_ID_RESIDUAL (gv_code g) None = Inr rf"
    and "\<And>w. \<exists>rs w'. scope2_mb_calculate before (Some checker) cat g ctx w = Inr (rs, w')"
    and "row_decimal bad ''quantita'' = Inr q" and "row_str bad ''codice_sito'' = Inr site"
    and "row_int bad ''anno'' = Inr anno"
    and "row_opt bad ''strumento_mb'' = PStr GO_INSTRUMENT_LABEL"
    and "\<not> checker site anno (PStr GO_INSTRUMENT_LABEL)"
  shows "scope2_mb_calculate (before @ bad # after) (Some checker) cat g ctx w = Inl GOValidationError"
proof -
  have before: "\<exists>rs w'. emit_rows (scope2_mb_build_record zf rf g checker ctx) before w = Inr (rs, w')"
    for w
    using assms(3) [of w] assms(1,2) by (auto simp: scope2_mb_calculate_def mbind_eq_Inr)
  have bad: "scope2_mb_build_record zf rf g checker ctx bad = Inl GOValidationError"
    using assms(4-8) by (simp add: scope2_mb_build_record_def scope2_mb_decide_def)
  have "emit_rows (scope2_mb_build_record zf rf g checker ctx) (before @ bad # after) w =
      Inl GOValidationError"
    by (intro emit_rows_fails_after [where bad = bad] before bad)
  with assms(1,2) show ?thesis
    by (simp add: scope2_mb_calculate_def mbind_def mlift_def)
qed

theorem mb_refused_evidence_blocks_witness:
  "scope2_mb_calculate ([] @ demo_go # [demo_grid]) (Some (\<lambda>_ _ _. False)) demo_catalog AR6 demo_ctx
     demo_world = Inl GOValidationError"
  by (rule mb_refused_evidence_blocks [where zf = "demo_factor FACTOR_ID_GO_ZERO (gv_code AR6)"
        and rf = "demo_factor FACTOR_ID_RESIDUAL (gv_code AR6)" and q = "Dec False 3000 0"
        and site = "''VIANO''" and anno = 2025])
    (auto simp: scope2_mb_calculate_def emit_rows_def mbind_eq_Inr GO_INSTRUMENT_LABEL_def)

section \<open>Scope 3\<close>

definition cat1_record_of :: "FactorCatalogPort \<Rightarrow> GWPValues \<Rightarrow> row \<Rightarrow> EmissionRecord \<Rightarrow> bool" where
  "cat1_record_of cat g row r \<longleftrightarrow>
     (\<exists>s fid f q. row_str row ''sottocategoria'' = Inr s \<and>
       cat1_factor_id (str_lower (str_strip s)) = Some fid \<and>
       require_factor cat fid (gv_code g) None = Inr f \<and> row_decimal row ''quantita'' = Inr q \<and>
       er_tco2e r = factor_tonnes f q \<and>
       (\<forall>b. er_co2_biogenic_tonne r = Some b \<longrightarrow>
          fid \<in> {''ECOINV_CARDBOARD_V3_10'', ''ECOINV_PALLET_V3_10''} \<and>
          er_co2_fossil_tonne r = Some (er_tco2e r) \<and>
          (\<exists>u. cat_get_biogenic_share cat fid (gv_code g) = Inr (Some u) \<and>
             b = dec_mul (dec_mul u q) KG_TO_TONNE)))"

lemma cat1_build_record_fields:
  assumes "cat1_build_record row fid cat g ctx meth = Inr a" and "built a r"
  shows "\<exists>f q. require_factor cat fid (gv_code g) None = Inr f \<and> row_decimal row ''quantita'' = Inr q \<and>
       er_tco2e r = factor_tonnes f q \<and>
       (\<forall>b. er_co2_biogenic_tonne r = Some b \<longrightarrow>
          fid \<in> {''ECOINV_CARDBOARD_V3_10'', ''ECOINV_PALLET_V3_10''} \<and>
          er_co2_fossil_tonne r = Some (er_tco2e r) \<and>
          (\<exists>u. cat_get_biogenic_share cat fid (gv_code g) = Inr (Some u) \<and>
             b = dec_mul (dec_mul u q) KG_TO_TONNE))"
proof -
  obtain f q bio fos where
    parts: "require_factor cat fid (gv_code g) None = Inr f" "row_decimal row ''quantita'' = Inr q"
    "cat1_biogenic cat fid g q (factor_tonnes f q) = Inr (bio, fos)"
    and fields: "ea_tco2e a = factor_tonnes f q" "ea_co2_biogenic_tonne a = bio"
      "ea_co2_fossil_tonne a = fos"
    using assms(1) by (auto simp: cat1_build_record_def rbind_eq_Inr Let_def)
  have "\<forall>b. bio = Some b \<longrightarrow> fid \<in> {''ECOINV_CARDBOARD_V3_10'', ''ECOINV_PALLET_V3_10''} \<and>
      fos = Some (factor_tonnes f q) \<and>
      (\<exists>u. cat_get_biogenic_share cat fid (gv_code g) = Inr (Some u) \<and>
         b = dec_mul (dec_mul u q) KG_TO_TONNE)"
    using parts(3) by (auto simp: cat1_biogenic_def rbind_eq_Inr BIOGENIC_FACTOR_IDS_def
        split: option.splits if_splits)
  with parts(1,2) show ?thesis
    unfolding built_fields [OF assms(2)] fields by blast
qed

text \<open>
  Biogenic CO2 is a memo of Cat 1 and never part of the headline figure: every record's
  \<open>tco2e\<close> is the factor value times the quantity, in tonnes, whatever the catalogue says of
  biogenic content; the biogenic column is filled only for cardboard and pallets, from the
  catalogue's biogenic value times the same quantity, and the fossil column then repeats the
  headline figure.
\<close>

theorem cat1_biogenic_memo:
  assumes "cat1_calculate rows cat g ctx w = Inr (rs, w')" and "r \<in> set rs"
  shows "\<exists>row\<in>set rows. cat1_record_of cat g row r"
proof -
  obtain row ys a where row: "row \<in> set rows" "cat1_row cat g ctx row = Inr ys" "a \<in> set ys" "built a r"
    using emit_rows_record assms unfolding cat1_calculate_def by blast
  then obtain s fid where "row_str row ''sottocategoria'' = Inr s"
    "cat1_factor_id (str_lower (str_strip s)) = Some fid"
    and a: "cat1_build_record row fid cat g ctx (cat1_methodology fid) = Inr a"
    by (auto simp: cat1_row_def if_category_Inr rbind_eq_Inr split: if_splits option.splits)
  with cat1_build_record_fields [OF a row(4)] row(1) show ?thesis
    unfolding cat1_record_of_def by blast
qed

theorem cat1_biogenic_memo_witness:
  "\<exists>rs w' r. cat1_calculate [demo_pallet, demo_flights, demo_tiles] demo_catalog AR6 demo_ctx demo_world =
      Inr (rs, w') \<and> r \<in> set rs \<and>
    (\<exists>row\<in>set [demo_pallet, demo_flights, demo_tiles]. cat1_record_of demo_catalog AR6 row r)"
proof -
  obtain rs w' r where "cat1_calculate [demo_pallet, demo_flights, demo_tiles] demo_catalog AR6 demo_ctx
      demo_world = Inr (rs, w')" "r \<in> set rs"
    using cat1_m.good_plan_records [OF demo_cat1 demo_ctx_ok(1), of demo_world]
    by (metis length_greater_0_conv list.set_intros(1) neq_Nil_conv zero_less_one)
  then show ?thesis
    using cat1_biogenic_memo [of "[demo_pallet, demo_flights, demo_tiles]" demo_catalog AR6 demo_ctx
        demo_world rs w' r] by blast
qed

lemma cat6_row_band:
  assumes "cat6_row draw cat g ctx row = Inr ys" and "a \<in> set ys"
  shows "\<exists>l u. bootstrap_ci draw (ea_tco2e a) = (l, u) \<and> ea_uncertainty_band_lower a = Some l \<and>
    ea_uncertainty_band_upper a = Some u"
proof -
  obtain f where "cat6_build_record draw f g ctx row = Inr a"
    using assms by (auto simp: cat6_row_def if_category_Inr rbind_eq_Inr split: if_splits option.splits)
  then show ?thesis
    by (auto simp: cat6_build_record_def rbind_eq_Inr Let_def split_def)
qed

text \<open>
  Every business-travel record carries a confidence interval \<open>0 \<le> lower \<le> upper\<close>, whatever
  the sampler draws; a zero estimate has the interval of zero width at zero.
\<close>

theorem cat6_interval:
  assumes "cat6_calculate draw rows cat g ctx w = Inr (rs, w')" and "r \<in> set rs"
  shows "\<exists>l u. er_uncertainty_band_lower r = Some l \<and> er_uncertainty_band_upper r = Some u \<and>
    0 \<le> dec_val l \<and> dec_val l \<le> dec_val u \<and>
    (dec_val (er_tco2e r) = 0 \<longrightarrow> l = dec_zero \<and> u = dec_zero)"
proof -
  obtain row ys a where row: "row \<in> set rows" "cat6_row draw cat g ctx row = Inr ys" "a \<in> set ys" "built a r"
    using emit_rows_record assms unfolding cat6_calculate_def by blast
  obtain l u where ci: "bootstrap_ci draw (ea_tco2e a) = (l, u)"
    and bands: "ea_uncertainty_band_lower a = Some l" "ea_uncertainty_band_upper a = Some u"
    using cat6_row_band [OF row(2,3)] by blast
  have "dec_val (ea_tco2e a) = 0 \<longrightarrow> l = dec_zero \<and> u = dec_zero"
    using ci by (auto simp: bootstrap_ci_def dec_cmp_value)
  with bootstrap_ci_ordered [OF ci] bands show ?thesis
    unfolding built_fields [OF row(4)] by simp
qed

theorem cat6_interval_witness:
  "\<exists>rs w' r l u. cat6_calculate demo_sampler [demo_pallet, demo_flights, demo_tiles] demo_catalog AR6
      demo_ctx demo_world = Inr (rs, w') \<and> r \<in> set rs \<and>
    er_uncertainty_band_lower r = Some l \<and> er_uncertainty_band_upper r = Some u \<and> dec_val l \<le> dec_val u"
proof -
  obtain rs w' r where "cat6_calculate demo_sampler [demo_pallet, demo_flights, demo_tiles] demo_catalog
      AR6 demo_ctx demo_world = Inr (rs, w')" "r \<in> set rs"
    using cat6_m.good_plan_records [OF demo_cat6 demo_ctx_ok(1), of demo_sampler demo_world]
    by (metis length_greater_0_conv list.set_intros(1) neq_Nil_conv zero_less_one)
  then show ?thesis
    using cat6_interval [of demo_sampler "[demo_pallet, demo_flights, demo_tiles]" demo_catalog AR6
        demo_ctx demo_world rs w' r] by blast
qed

definition is_category :: "int \<Rightarrow> row \<Rightarrow> bool" where
  "is_category n row \<longleftrightarrow> py_int (row_get_default row ''categoria_s3'' (PInt 0)) = Inr n"

definition cat12_pair ::
    "FactorRecord \<Rightarrow> FactorRecord \<Rightarrow> row \<Rightarrow> EmissionRecord \<times> EmissionRecord \<Rightarrow> bool" where
  "cat12_pair lf rf row rr \<longleftrightarrow>
     (\<exists>m. row_decimal row ''quantita'' = Inr m \<and>
       er_factor_id (fst rr) = fr_factor_id lf \<and> er_factor_id (snd rr) = fr_factor_id rf \<and>
       (\<forall>vl vr. fr_value lf = Some vl \<and> fr_value rf = Some vr \<and> 0 \<le> dec_val vl \<and> 0 \<le> dec_val vr \<and>
          0 \<le> dec_val m \<longrightarrow>
          rounded 3 (dec_val vl * (30 / 100 * dec_val m) / 1000) (er_tco2e (fst rr)) \<and>
          rounded 3 (dec_val vr * (70 / 100 * dec_val m) / 1000) (er_tco2e (snd rr))))"

lemma rounded_share_tonnes:
  assumes "rounded 0 share s" and "fr_value f = Some v" and "0 \<le> dec_val v" and "0 \<le> dec_val m"
  shows "rounded 3 (dec_val v * (share * dec_val m) / 1000) (factor_tonnes f (dec_mul m s))"
proof -
  have "rounded (Suc (Suc (0 + Suc (0 + 0)) + 0)) (dec_val v * (dec_val m * share) * (1 / 1000))
      (factor_tonnes f (dec_mul m s))"
    by (intro rounded_mul rounded_factor rounded_exact rounded_kg assms)
  then show ?thesis by (simp add: eval_nat_numeral ac_simps)
qed

lemma rounded_shares:
  "rounded 0 (30 / 100) LANDFILL_FRACTION" "rounded 0 (70 / 100) RECYCLE_FRACTION"
  using rounded_exact [of LANDFILL_FRACTION] rounded_exact [of RECYCLE_FRACTION]
  by (simp_all add: LANDFILL_FRACTION_def RECYCLE_FRACTION_def dec_val_Dec power_int_def power_divide)

lemma cat12_row_pair:
  assumes "cat12_row lf rf g ctx row = Inr ys"
  shows "if is_category 12 row then \<exists>a b. ys = [a, b] \<and>
      (\<forall>r s. built a r \<and> built b s \<longrightarrow> cat12_pair lf rf row (r, s)) else ys = []"
proof (cases "is_category 12 row")
  case False
  with assms show ?thesis
    by (auto simp: cat12_row_def if_category_Inr is_category_def split: if_splits)
next
  case True
  with assms obtain m a b where m: "row_decimal row ''quantita'' = Inr m" and ys: "ys = [a, b]"
    and fields: "ea_tco2e a = factor_tonnes lf (dec_mul m LANDFILL_FRACTION)" "ea_factor a = lf"
      "ea_tco2e b = factor_tonnes rf (dec_mul m RECYCLE_FRACTION)" "ea_factor b = rf"
    by (auto simp: cat12_row_def if_category_Inr is_category_def rbind_eq_Inr Let_def)
  have "cat12_pair lf rf row (r, s)" if "built a r" "built b s" for r s
    unfolding cat12_pair_def fst_conv snd_conv built_fields [OF that(1)] built_fields [OF that(2)] fields
    using m rounded_share_tonnes rounded_shares by blast
  with ys True show ?thesis by auto
qed

lemma cat12_collect_pairs:
  assumes "collect (cat12_row lf rf g ctx) rows = Inr as" and "list_all2 built as rs"
  shows "\<exists>prs. rs = concat (map (\<lambda>(r, s). [r, s]) prs) \<and>
    list_all2 (cat12_pair lf rf) (filter (is_category 12) rows) prs"
  using assms
proof (induction rows arbitrary: as rs)
  case Nil
  then show ?case by simp
next
  case (Cons row rows)
  then obtain ys zs where parts: "cat12_row lf rf g ctx row = Inr ys"
    "collect (cat12_row lf rf g ctx) rows = Inr zs" "as = ys @ zs"
    by (auto simp: rbind_eq_Inr)
  with Cons.prems(2) obtain rs1 rs2 where rs: "rs = rs1 @ rs2" "list_all2 built ys rs1"
    "list_all2 built zs rs2"
    by (auto simp: list_all2_append1)
  obtain prs where prs: "rs2 = concat (map (\<lambda>(r, s). [r, s]) prs)"
    "list_all2 (cat12_pair lf rf) (filter (is_category 12) rows) prs"
    using Cons.IH [OF parts(2) rs(3)] by blast
  show ?case
  proof (cases "is_category 12 row")
    case True
    with cat12_row_pair [OF parts(1)] obtain a b where ab: "ys = [a, b]"
      "\<forall>r s. built a r \<and> built b s \<longrightarrow> cat12_pair lf rf row (r, s)" by auto
    with rs(2) obtain r s where "rs1 = [r, s]" "built a r" "built b s"
      by (auto simp: list_all2_Cons1)
    with ab prs rs(1) True show ?thesis
      by (intro exI [of _ "(r, s) # prs"]) auto
  next
    case False
    with cat12_row_pair [OF parts(1)] rs prs show ?thesis by auto
  qed
qed

text \<open>
  End of life splits each Cat 12 row into exactly two records, landfill then recycling, with
  30% and 70% of the row's mass: their shares add up to the whole mass, and each amount is the
  factor times its share up to three roundings. Rows of other categories give no record.
\<close>

theorem cat12_split:
  assumes "cat12_calculate rows cat g ctx w = Inr (rs, w')"
  shows "\<exists>lf rf prs. require_factor cat LANDFILL_FACTOR_ID (gv_code g) None = Inr lf \<and>
    require_factor cat RECYCLE_FACTOR_ID (gv_code g) None = Inr rf \<and>
    rs = concat (map (\<lambda>(r, s). [r, s]) prs) \<and>
    list_all2 (cat12_pair lf rf) (filter (is_category 12) rows) prs"
proof -
  from assms obtain lf rf where f: "require_factor cat LANDFILL_FACTOR_ID (gv_code g) None = Inr lf"
    "require_factor cat RECYCLE_FACTOR_ID (gv_code g) None = Inr rf"
    and emit: "emit_rows (cat12_row lf rf g ctx) rows w = Inr (rs, w')"
    by (auto simp: cat12_calculate_def mbind_eq_Inr)
  obtain as where "collect (cat12_row lf rf g ctx) rows = Inr as" "list_all2 built as rs"
    using realizes_built [OF realizes_emit_rows emit] by blast
  with f cat12_collect_pairs show ?thesis by blast
qed

theorem cat12_split_witness:
  "\<exists>rs w' lf rf prs. cat12_calculate [demo_pallet, demo_flights, demo_tiles] demo_catalog AR6 demo_ctx
      demo_world = Inr (rs, w') \<and> rs = concat (map (\<lambda>(r, s). [r, s]) prs) \<and>
    list_all2 (cat12_pair lf rf) (filter (is_category 12) [demo_pallet, demo_flights, demo_tiles]) prs"
proof -
  obtain rs w' where "cat12_calculate [demo_pallet, demo_flights, demo_tiles] demo_catalog AR6 demo_ctx
      demo_world = Inr (rs, w')"
    using cat12_m.good_plan_records [OF demo_cat12 demo_ctx_ok(1), of demo_world] by blast
  then show ?thesis
    using cat12_split [of "[demo_pallet, demo_flights, demo_tiles]" demo_catalog AR6 demo_ctx
        demo_world rs w'] by blast
qed

end
