(* ===== verification/Factor_Sql_Adapter.thy ===== *)
theory Factor_Sql_Adapter
  imports Calc_Contract
begin

text \<open>
  \<open>infrastructure/factors/sql_adapter.py\<close>: the factor catalogue table, the two SELECT statements,
  the conversion of a row to a \<open>FactorRecord\<close>, and the adapter object with its per-instance cache.
  The port's promises are the locale \<open>factor_catalog\<close>; the adapter's uncached lookup meets them,
  and the cache is shown to be transparent.
\<close>

section \<open>The catalogue table\<close>

record CatalogRow =
  cr_id :: uuid
  cr_tenant_id :: uuid
  cr_factor_id :: string
  cr_version :: string
  cr_value :: "decimal option"
  cr_unit :: string
  cr_source :: string
  cr_gwp_set :: string
  cr_biogenic_co2_kg_per_unit :: "decimal option"
  cr_vintage :: "string option"
  cr_applicability_note :: "string option"
  cr_is_tbc :: bool
  cr_is_licence_only :: bool
  cr_is_published :: bool
  cr_valid_from :: int
  cr_valid_to :: "int option"

text \<open>
  \<open>ORDER BY valid_from DESC LIMIT 1\<close>. SQL leaves the choice among equal instants open; the model
  takes the first in table order.
\<close>

definition latest :: "CatalogRow list \<Rightarrow> CatalogRow option" where
  "latest rows =
     (case sort_key (\<lambda>r. - cr_valid_from r) rows of [] \<Rightarrow> None | r # _ \<Rightarrow> Some r)"

definition select_factor ::
    "CatalogRow list \<Rightarrow> uuid \<Rightarrow> string \<Rightarrow> string \<Rightarrow> CatalogRow option" where
  "select_factor db tenant_id factor_id gwp_set =
     latest (filter (\<lambda>r. cr_tenant_id r = tenant_id \<and> cr_factor_id r = factor_id \<and>
       cr_gwp_set r = gwp_set \<and> cr_is_published r \<and> cr_valid_to r = None) db)"

definition select_factor_vintage ::
    "CatalogRow list \<Rightarrow> uuid \<Rightarrow> string \<Rightarrow> string \<Rightarrow> int \<Rightarrow> CatalogRow option" where
  "select_factor_vintage db tenant_id factor_id gwp_set vintage_year =
     latest (filter (\<lambda>r. cr_tenant_id r = tenant_id \<and> cr_factor_id r = factor_id \<and>
       cr_gwp_set r = gwp_set \<and> cr_is_published r \<and> cr_vintage r = Some (int_str vintage_year)) db)"

definition decimal_column :: "decimal option \<Rightarrow> decimal option res" where
  "decimal_column v =
     (case v of None \<Rightarrow> Inr None
      | Some d \<Rightarrow> rbind (decimal_of_string (dec_str d)) (\<lambda>x. Inr (Some x)))"

definition row_to_factor_record :: "CatalogRow \<Rightarrow> FactorRecord res" where
  "row_to_factor_record row =
     rbind (decimal_column (cr_value row)) (\<lambda>value.
     rbind (decimal_column (cr_biogenic_co2_kg_per_unit row)) (\<lambda>biogenic.
     rbind (uuid_of_string (uuid_str (cr_id row))) (\<lambda>db_id.
     Inr \<lparr>fr_factor_id = cr_factor_id row, fr_version = cr_version row, fr_value = value,
          fr_unit = cr_unit row, fr_source = cr_source row, fr_gwp_set = cr_gwp_set row,
          fr_biogenic_co2_kg_per_unit = biogenic, fr_vintage = cr_vintage row,
          fr_applicability_note = cr_applicability_note row, fr_is_tbc = cr_is_tbc row,
          fr_is_licence_only = cr_is_licence_only row, fr_factor_db_id = Some db_id\<rparr>)))"

section \<open>The adapter\<close>

type_synonym cache_key = "string \<times> string \<times> int option"

record SqlFactorCatalogAdapter =
  sa_tenant_id :: uuid
  sa_cache :: "(cache_key \<times> FactorRecord) list"

definition adapter_init :: "uuid \<Rightarrow> SqlFactorCatalogAdapter" where
  "adapter_init tenant_id = \<lparr>sa_tenant_id = tenant_id, sa_cache = []\<rparr>"

definition adapter_fetch ::
    "CatalogRow list \<Rightarrow> uuid \<Rightarrow> string \<Rightarrow> string \<Rightarrow> int option \<Rightarrow> FactorRecord res" where
  "adapter_fetch db tenant_id factor_id gwp_set vintage_year =
     (case (case vintage_year of
              Some y \<Rightarrow> select_factor_vintage db tenant_id factor_id gwp_set y
            | None \<Rightarrow> select_factor db tenant_id factor_id gwp_set) of
        None \<Rightarrow> Inl MissingFactorError
      | Some row \<Rightarrow> row_to_factor_record row)"

text \<open>\<open>get\<close>: a miss fetches and stores; a hit reads the cache. An exception leaves the cache as is.\<close>

definition adapter_get ::
    "CatalogRow list \<Rightarrow> cache_key \<Rightarrow> SqlFactorCatalogAdapter \<Rightarrow>
     FactorRecord res \<times> SqlFactorCatalogAdapter" where
  "adapter_get db key a =
     (case map_of (sa_cache a) key of
        Some rec \<Rightarrow> (Inr rec, a)
      | None \<Rightarrow>
        (let (factor_id, gwp_set, vintage_year) = key in
         case adapter_fetch db (sa_tenant_id a) factor_id gwp_set vintage_year of
           Inl e \<Rightarrow> (Inl e, a)
         | Inr rec \<Rightarrow> (Inr rec, a\<lparr>sa_cache := (key, rec) # sa_cache a\<rparr>)))"

definition adapter_get_biogenic_share ::
    "CatalogRow list \<Rightarrow> string \<Rightarrow> string \<Rightarrow> SqlFactorCatalogAdapter \<Rightarrow>
     decimal option res \<times> SqlFactorCatalogAdapter" where
  "adapter_get_biogenic_share db factor_id gwp_set a =
     (case adapter_get db (factor_id, gwp_set, None) a of
        (Inr rec, a') \<Rightarrow> (Inr (fr_biogenic_co2_kg_per_unit rec), a')
      | (Inl e, a') \<Rightarrow> (if e = MissingFactorError then Inr None else Inl e, a'))"

text \<open>A sequence of lookups on one adapter.\<close>

fun adapter_gets ::
    "CatalogRow list \<Rightarrow> cache_key list \<Rightarrow> SqlFactorCatalogAdapter \<Rightarrow>
     FactorRecord res list \<times> SqlFactorCatalogAdapter" where
  "adapter_gets db [] a = ([], a)"
| "adapter_gets db (k # ks) a =
     (let (r, a1) = adapter_get db k a; (rs, a2) = adapter_gets db ks a1 in (r # rs, a2))"

text \<open>The port the calculation modules see while the table does not change.\<close>

definition sql_catalog :: "CatalogRow list \<Rightarrow> uuid \<Rightarrow> FactorCatalogPort" where
  "sql_catalog db tenant_id =
     \<lparr>cat_get = (\<lambda>factor_id gwp_set vintage_year.
        adapter_fetch db tenant_id factor_id gwp_set vintage_year),
      cat_get_biogenic_share = (\<lambda>factor_id gwp_set.
        case adapter_fetch db tenant_id factor_id gwp_set None of
          Inr rec \<Rightarrow> Inr (fr_biogenic_co2_kg_per_unit rec)
        | Inl e \<Rightarrow> if e = MissingFactorError then Inr None else Inl e)\<rparr>"

section \<open>The port's contract\<close>

locale factor_catalog =
  fixes catalog :: FactorCatalogPort
  assumes get_key: "cat_get catalog factor_id gwp_set vintage = Inr f \<Longrightarrow>
      fr_factor_id f = factor_id \<and> fr_gwp_set f = gwp_set"
    and get_share: "cat_get catalog factor_id gwp_set None = Inr f \<Longrightarrow>
      cat_get_biogenic_share catalog factor_id gwp_set = Inr (fr_biogenic_co2_kg_per_unit f)"
    and get_error: "cat_get catalog factor_id gwp_set vintage = Inl e \<Longrightarrow> e = MissingFactorError"
begin

lemma required_factor:
  assumes "require_factor catalog factor_id gwp_set vintage = Inr f"
  shows "fr_factor_id f = factor_id" and "fr_gwp_set f = gwp_set" and "\<exists>v. fr_value f = Some v"
  using assms get_key by (auto simp: require_factor_def rbind_eq_Inr split: if_splits)

lemma required_error:
  assumes "require_factor catalog factor_id gwp_set vintage = Inl e"
  shows "e = MissingFactorError"
  using assms get_error by (auto simp: require_factor_def rbind_eq_Inl split: if_splits)

end

section \<open>The adapter meets the contract\<close>

lemma decimal_column_id [simp]: "decimal_column v = Inr v"
  by (cases v) (simp_all add: decimal_column_def decimal_of_dec_str)

lemma row_to_factor_record_ok:
  "row_to_factor_record row =
     Inr \<lparr>fr_factor_id = cr_factor_id row, fr_version = cr_version row, fr_value = cr_value row,
          fr_unit = cr_unit row, fr_source = cr_source row, fr_gwp_set = cr_gwp_set row,
          fr_biogenic_co2_kg_per_unit = cr_biogenic_co2_kg_per_unit row,
          fr_vintage = cr_vintage row, fr_applicability_note = cr_applicability_note row,
          fr_is_tbc = cr_is_tbc row, fr_is_licence_only = cr_is_licence_only row,
          fr_factor_db_id = Some (cr_id row)\<rparr>"
  by (simp add: row_to_factor_record_def uuid_of_uuid_str)

lemma latest_max:
  assumes "latest rows = Some r"
  shows "r \<in> set rows" and "r' \<in> set rows \<Longrightarrow> cr_valid_from r' \<le> cr_valid_from r"
proof -
  let ?s = "sort_key (\<lambda>r. - cr_valid_from r) rows"
  obtain rest where s: "?s = r # rest"
    using assms by (auto simp: latest_def split: list.splits)
  have set: "set ?s = set rows" by simp
  show "r \<in> set rows" using s set by auto
  have "sorted (map (\<lambda>r. - cr_valid_from r) ?s)" by simp
  then have "\<forall>x\<in>set rest. - cr_valid_from r \<le> - cr_valid_from x" by (simp add: s)
  then show "cr_valid_from r' \<le> cr_valid_from r" if "r' \<in> set rows"
    using that s set by auto
qed

lemma latest_None: "latest rows = None \<longleftrightarrow> rows = []"
proof -
  have "sort_key (\<lambda>r. - cr_valid_from r) rows = [] \<longleftrightarrow> rows = []"
    using length_sort [of "\<lambda>r. - cr_valid_from r" rows] by (metis length_0_conv)
  then show ?thesis by (auto simp: latest_def split: list.splits)
qed

lemma adapter_fetch_row:
  assumes "adapter_fetch db tenant_id factor_id gwp_set vintage = Inr f"
  shows "\<exists>row\<in>set db. cr_tenant_id row = tenant_id \<and> cr_factor_id row = factor_id \<and>
    cr_gwp_set row = gwp_set \<and> cr_is_published row \<and> row_to_factor_record row = Inr f"
  using assms
  by (auto simp: adapter_fetch_def select_factor_def select_factor_vintage_def
      split: option.splits dest!: latest_max(1))

lemma adapter_fetch_error:
  "adapter_fetch db tenant_id factor_id gwp_set vintage = Inl e \<Longrightarrow> e = MissingFactorError"
  by (auto simp: adapter_fetch_def row_to_factor_record_ok split: option.splits)

interpretation sql_port: factor_catalog "sql_catalog db tenant_id"
  by unfold_locales
    (auto simp: sql_catalog_def row_to_factor_record_ok
      dest!: adapter_fetch_row dest: adapter_fetch_error)

section \<open>The cache is transparent\<close>

definition cache_ok :: "CatalogRow list \<Rightarrow> SqlFactorCatalogAdapter \<Rightarrow> bool" where
  "cache_ok db a \<longleftrightarrow>
     (\<forall>fid gs v rec. map_of (sa_cache a) (fid, gs, v) = Some rec \<longrightarrow>
        adapter_fetch db (sa_tenant_id a) fid gs v = Inr rec)"

lemma cache_ok_init: "cache_ok db (adapter_init tenant_id)"
  by (simp add: cache_ok_def adapter_init_def)

lemma adapter_get_ok:
  assumes "cache_ok db a" and "adapter_get db (fid, gs, v) a = (r, a')"
  shows "r = adapter_fetch db (sa_tenant_id a) fid gs v" and "cache_ok db a'"
    and "sa_tenant_id a' = sa_tenant_id a"
  using assms
  by (auto simp: adapter_get_def cache_ok_def split: option.splits sum.splits if_splits)

lemma adapter_gets_ok:
  assumes "cache_ok db a" and "adapter_gets db ks a = (rs, a')"
  shows "rs = map (\<lambda>(fid, gs, v). adapter_fetch db (sa_tenant_id a) fid gs v) ks"
    and "cache_ok db a'" and "sa_tenant_id a' = sa_tenant_id a"
proof -
  have "rs = map (\<lambda>(fid, gs, v). adapter_fetch db (sa_tenant_id a) fid gs v) ks \<and> cache_ok db a' \<and>
      sa_tenant_id a' = sa_tenant_id a"
    using assms
  proof (induction ks arbitrary: a rs)
    case Nil
    then show ?case by simp
  next
    case (Cons k ks)
    obtain fid gs v where k: "k = (fid, gs, v)" by (cases k)
    obtain r a1 rs1 where step: "adapter_get db k a = (r, a1)" "adapter_gets db ks a1 = (rs1, a')"
      "rs = r # rs1"
      using Cons.prems(2) by (auto simp: split_def Let_def prod_eq_iff)
    note one = adapter_get_ok [OF Cons.prems(1) step(1) [unfolded k]]
    from Cons.IH [OF one(2) step(2)] one step(3) k show ?case by simp
  qed
  then show "rs = map (\<lambda>(fid, gs, v). adapter_fetch db (sa_tenant_id a) fid gs v) ks"
    "cache_ok db a'" "sa_tenant_id a' = sa_tenant_id a" by auto
qed

text \<open>
  C7. The cached adapter refines the uncached lookup: on one table, any sequence of lookups on a
  fresh adapter answers each lookup as the SELECT would, errors included (a miss is not cached).
\<close>

theorem adapter_cache_transparent:
  "fst (adapter_gets db keys (adapter_init tenant_id)) =
     map (\<lambda>(factor_id, gwp_set, vintage). adapter_fetch db tenant_id factor_id gwp_set vintage) keys"
  using adapter_gets_ok(1) [OF cache_ok_init, of db keys tenant_id]
  by (simp add: adapter_init_def prod_eq_iff split_def)

definition live_rows :: "CatalogRow list \<Rightarrow> uuid \<Rightarrow> string \<Rightarrow> string \<Rightarrow> CatalogRow list" where
  "live_rows db tenant_id factor_id gwp_set =
     filter (\<lambda>r. cr_tenant_id r = tenant_id \<and> cr_factor_id r = factor_id \<and>
       cr_gwp_set r = gwp_set \<and> cr_is_published r \<and> cr_valid_to r = None) db"

text \<open>
  C8. The lookup without a vintage returns a published, open row of the tenant for that factor and
  GWP set, one that no other such row supersedes by a later \<open>valid_from\<close>, with every column
  carried over exactly; it raises \<open>MissingFactorError\<close> exactly when there is no such row.
\<close>

theorem adapter_fetch_latest:
  "(case adapter_fetch db tenant_id factor_id gwp_set None of
      Inl e \<Rightarrow> e = MissingFactorError \<and> live_rows db tenant_id factor_id gwp_set = []
    | Inr f \<Rightarrow> \<exists>row\<in>set (live_rows db tenant_id factor_id gwp_set).
        (\<forall>other\<in>set (live_rows db tenant_id factor_id gwp_set).
           cr_valid_from other \<le> cr_valid_from row) \<and>
        fr_factor_id f = factor_id \<and> fr_gwp_set f = gwp_set \<and> fr_value f = cr_value row \<and>
        fr_factor_db_id f = Some (cr_id row) \<and> fr_version f = cr_version row)"
proof (cases "select_factor db tenant_id factor_id gwp_set")
  case None
  then have "live_rows db tenant_id factor_id gwp_set = []"
    by (simp add: select_factor_def live_rows_def latest_None)
  with None show ?thesis by (simp add: adapter_fetch_def)
next
  case (Some row)
  then have l: "latest (live_rows db tenant_id factor_id gwp_set) = Some row"
    by (simp add: select_factor_def live_rows_def)
  have "row \<in> set (live_rows db tenant_id factor_id gwp_set)" by (rule latest_max(1) [OF l])
  then have "cr_factor_id row = factor_id" "cr_gwp_set row = gwp_set"
    by (auto simp: live_rows_def)
  with Some latest_max [OF l] show ?thesis
    by (auto simp: adapter_fetch_def row_to_factor_record_ok)
qed

definition demo_catalog_row :: "int \<Rightarrow> decimal \<Rightarrow> CatalogRow" where
  "demo_catalog_row from v =
     \<lparr>cr_id = 7, cr_tenant_id = 1, cr_factor_id = ''MB_GO_ZERO'', cr_version = ''2025'',
      cr_value = Some v, cr_unit = ''kg'', cr_source = ''AIB'', cr_gwp_set = ''AR6'',
      cr_biogenic_co2_kg_per_unit = None, cr_vintage = Some ''2025'', cr_applicability_note = None,
      cr_is_tbc = False, cr_is_licence_only = False, cr_is_published = True, cr_valid_from = from,
      cr_valid_to = None\<rparr>"

theorem adapter_fetch_latest_witness:
  "\<exists>f. adapter_fetch [demo_catalog_row 1 (Dec False 1 0), demo_catalog_row 5 (Dec False 9 0)] 1
         ''MB_GO_ZERO'' ''AR6'' None = Inr f \<and> fr_value f = Some (Dec False 9 0)"
proof -
  let ?db = "[demo_catalog_row 1 (Dec False 1 0), demo_catalog_row 5 (Dec False 9 0)]"
  have live: "live_rows ?db 1 ''MB_GO_ZERO'' ''AR6'' = ?db"
    by (simp add: live_rows_def demo_catalog_row_def)
  show ?thesis
    using adapter_fetch_latest [of ?db 1 "''MB_GO_ZERO''" "''AR6''"] unfolding live
    by (auto simp: demo_catalog_row_def split: sum.splits)
qed

end
