(* ===== verification/Emission_Ledger.thy ===== *)
theory Emission_Ledger
  imports Calc_Helpers
begin

text \<open>
  The two append-only tables a run is persisted to, \<open>calc.emissions_consolidated\<close> and
  \<open>ops.calc_runs\<close>: their rows, the constraints and triggers the migrations put on them
  (\<open>alembic/versions/0002\<close>, \<open>0011\<close>, \<open>0021\<close>, \<open>0023\<close>, \<open>0030\<close>), the correction procedure, direct
  changes of stored rows, and transactions.
  A schema is a record of three checks, so that the persistence code can be verified against any
  store that keeps the identifying columns (locale \<open>emission_store\<close>); \<open>migrated_schema\<close> is the one
  the migrations define. Row-level security and the VARCHAR lengths are not modelled.
\<close>

section \<open>Rows\<close>

record EmissionRow =
  ep_id :: string
  ep_tenant_id :: string
  ep_correlation_id :: string
  ep_raw_row_id :: string
  ep_raw_scope :: int
  ep_scope :: int
  ep_sub_scope :: string
  ep_codice_sito :: "string option"
  ep_anno :: int
  ep_tco2e :: decimal
  ep_co2_tonne :: "decimal option"
  ep_ch4_tco2e :: "decimal option"
  ep_n2o_tco2e :: "decimal option"
  ep_co2_biogenic_tonne :: "decimal option"
  ep_co2_fossil_tonne :: "decimal option"
  ep_factor_id :: string
  ep_factor_version :: string
  ep_factor_source :: string
  ep_gwp_set :: string
  ep_methodology :: string
  ep_regulatory_stream :: string
  ep_calc_timestamp :: datetime
  ep_created_by :: string
  ep_valid_from :: datetime
  ep_valid_to :: "datetime option"
  ep_superseded_by :: "string option"
  ep_reason_code :: "string option"
  ep_disclosure_notes :: "string option"

record CalcRunRow =
  rr_id :: string
  rr_tenant_id :: string
  rr_correlation_id :: string
  rr_anno :: int
  rr_emissions_written :: nat
  rr_duration_ms :: int
  rr_gwp_set :: string
  rr_regulatory_stream :: string
  rr_started_at :: datetime
  rr_finished_at :: datetime
  rr_created_by :: string
  rr_dual_run_id :: "string option"

record ledger =
  lg_emissions :: "EmissionRow list"
  lg_runs :: "CalcRunRow list"

section \<open>The constraints of the migrations\<close>

text \<open>A value stored in a \<open>NUMERIC(18,6)\<close> column: rounded to six places, at most twelve before.\<close>

definition numeric_18_6 :: "decimal \<Rightarrow> decimal res" where
  "numeric_18_6 d =
     (let c = (if - 6 \<le> dexp d then dcoef d * 10 ^ nat (dexp d + 6)
               else round_half_up (dcoef d) (nat (- 6 - dexp d)))
      in if 10 ^ 18 \<le> c then Inl DataError else Inr (Dec (dsign d) c (- 6)))"

definition numeric_column :: "decimal option \<Rightarrow> decimal option res" where
  "numeric_column v =
     (case v of None \<Rightarrow> Inr None | Some d \<Rightarrow> rbind (numeric_18_6 d) (\<lambda>x. Inr (Some x)))"

definition stored_emission :: "EmissionRow \<Rightarrow> EmissionRow res" where
  "stored_emission p =
     rbind (numeric_18_6 (ep_tco2e p)) (\<lambda>tco2e.
     rbind (numeric_column (ep_co2_tonne p)) (\<lambda>co2.
     rbind (numeric_column (ep_ch4_tco2e p)) (\<lambda>ch4.
     rbind (numeric_column (ep_n2o_tco2e p)) (\<lambda>n2o.
     rbind (numeric_column (ep_co2_biogenic_tonne p)) (\<lambda>bio.
     rbind (numeric_column (ep_co2_fossil_tonne p)) (\<lambda>fossil.
     Inr (p\<lparr>ep_tco2e := tco2e, ep_co2_tonne := co2, ep_ch4_tco2e := ch4, ep_n2o_tco2e := n2o,
            ep_co2_biogenic_tonne := bio, ep_co2_fossil_tonne := fossil\<rparr>)))))))"

text \<open>The CHECK constraints of a row.\<close>

definition emission_checks :: "EmissionRow \<Rightarrow> bool" where
  "emission_checks p \<longleftrightarrow>
     ep_raw_scope p \<in> {1, 2, 3} \<and> ep_scope p \<in> {1, 2, 3} \<and>
     2020 \<le> ep_anno p \<and> ep_anno p \<le> 2099 \<and> dec_le dec_zero (ep_tco2e p) \<and>
     ep_gwp_set p \<in> {''AR6'', ''AR5''} \<and>
     (ep_valid_to p = None \<longleftrightarrow> ep_superseded_by p = None) \<and>
     ep_regulatory_stream p \<in> {''CSRD_ESRS_E1'', ''EU_ETS_PHASE_IV''}"

text \<open>The columns of the partial unique index \<open>ux_emissions_active_natural_key\<close>.\<close>

definition natural_key ::
    "EmissionRow \<Rightarrow> string \<times> int \<times> string \<times> string \<times> int \<times> string \<times> string" where
  "natural_key p =
     (ep_tenant_id p, ep_scope p, ep_sub_scope p,
      (case ep_codice_sito p of None \<Rightarrow> [] | Some s \<Rightarrow> s), ep_anno p, ep_regulatory_stream p,
      ep_gwp_set p)"

definition active :: "EmissionRow \<Rightarrow> bool" where
  "active p \<longleftrightarrow> ep_valid_to p = None"

text \<open>
  The columns of the exclusion constraint \<open>excl_emissions_temporal_overlap\<close> on rows that are not
  superseded. Such a row is valid from some instant on without end, so the validity ranges of any two
  of them overlap. A NULL site equals no site.
\<close>

definition overlap_key :: "EmissionRow \<Rightarrow> (string \<times> string \<times> int \<times> string \<times> int) option" where
  "overlap_key p = map_option (\<lambda>site. (ep_tenant_id p, site, ep_scope p, ep_sub_scope p, ep_anno p)) (ep_codice_sito p)"

text \<open>The primary key, the unique index and the exclusion constraint of a row beside the other rows.\<close>

definition emission_unique :: "EmissionRow list \<Rightarrow> EmissionRow \<Rightarrow> bool" where
  "emission_unique others q \<longleftrightarrow>
     ep_id q \<notin> ep_id ` set others \<and>
     (active q \<longrightarrow>
        natural_key q \<notin> natural_key ` {e \<in> set others. active e} \<and>
        (overlap_key q \<noteq> None \<longrightarrow> overlap_key q \<notin> overlap_key ` {e \<in> set others. active e}))"

text \<open>
  The result of inserting one row: the row checks, foreign keys to the tenants and to the factor
  catalogue, the keys, and the self-reference of \<open>superseded_by\<close>.
\<close>

definition insert_emission ::
    "string list \<Rightarrow> string list \<Rightarrow> ledger \<Rightarrow> EmissionRow \<Rightarrow> EmissionRow res" where
  "insert_emission tenants factor_ids db p =
     rbind (stored_emission p) (\<lambda>q.
     if \<not> emission_checks q then Inl IntegrityError
     else if ep_tenant_id q \<notin> set tenants \<or> ep_factor_id q \<notin> set factor_ids then Inl IntegrityError
     else if \<not> emission_unique (lg_emissions db) q then Inl IntegrityError
     else case ep_superseded_by q of
       Some s \<Rightarrow> if s \<in> insert (ep_id q) (ep_id ` set (lg_emissions db)) then Inr q
                 else Inl IntegrityError
     | None \<Rightarrow> Inr q)"

text \<open>
  A run row: the vocabularies of migration 0011, primary key, tenant, no self-pairing, and the foreign key \<open>fk_calc_runs_dual_run_id\<close>.
  The key is checked with the statement when it is not deferrable (as the migration declares it),
  and with the commit otherwise.
\<close>

definition dual_key_ok :: "CalcRunRow list \<Rightarrow> CalcRunRow \<Rightarrow> bool" where
  "dual_key_ok runs r =
     (case rr_dual_run_id r of None \<Rightarrow> True | Some d \<Rightarrow> d \<in> rr_id ` set runs)"

definition insert_run :: "bool \<Rightarrow> string list \<Rightarrow> ledger \<Rightarrow> CalcRunRow \<Rightarrow> CalcRunRow res" where
  "insert_run fk_deferrable tenants db r =
     (if rr_gwp_set r \<notin> {''AR6'', ''AR5''} \<or> rr_regulatory_stream r \<notin> {''CSRD_ESRS_E1'', ''EU_ETS_PHASE_IV''}
      then Inl IntegrityError
      else if rr_tenant_id r \<notin> set tenants \<or> rr_id r \<in> rr_id ` set (lg_runs db) \<or>
         rr_dual_run_id r = Some (rr_id r) then Inl IntegrityError
      else if \<not> fk_deferrable \<and> \<not> dual_key_ok (lg_runs db @ [r]) r then Inl IntegrityError
      else Inr r)"

text \<open>The deferred trigger \<open>ops.enforce_dual_run_reciprocity\<close>, run at commit for each new row.\<close>

definition enforce_dual_run_reciprocity :: "CalcRunRow list \<Rightarrow> CalcRunRow \<Rightarrow> unit res" where
  "enforce_dual_run_reciprocity runs r =
     (case rr_dual_run_id r of
        None \<Rightarrow> Inr ()
      | Some d \<Rightarrow>
        (case find (\<lambda>p. rr_id p = d) runs of
           None \<Rightarrow> Inl IntegrityError
         | Some paired \<Rightarrow>
           if rr_tenant_id paired \<noteq> rr_tenant_id r \<or> rr_anno paired \<noteq> rr_anno r then Inl IntegrityError
           else if rr_regulatory_stream paired = rr_regulatory_stream r then Inl IntegrityError
           else if rr_dual_run_id paired \<noteq> None \<and> rr_dual_run_id paired \<noteq> Some (rr_id r)
             then Inl IntegrityError
           else Inr ()))"

fun check_all :: "('a \<Rightarrow> unit res) \<Rightarrow> 'a list \<Rightarrow> unit res" where
  "check_all f [] = Inr ()"
| "check_all f (x # xs) = rbind (f x) (\<lambda>_. check_all f xs)"

section \<open>Schemas and transactions\<close>

record schema =
  sc_emission :: "ledger \<Rightarrow> EmissionRow \<Rightarrow> EmissionRow res"
  sc_run :: "ledger \<Rightarrow> CalcRunRow \<Rightarrow> CalcRunRow res"
  sc_commit :: "ledger \<Rightarrow> CalcRunRow list \<Rightarrow> unit res"

definition migrated_schema :: "bool \<Rightarrow> string list \<Rightarrow> string list \<Rightarrow> schema" where
  "migrated_schema fk_deferrable tenants factor_ids =
     \<lparr>sc_emission = insert_emission tenants factor_ids,
      sc_run = insert_run fk_deferrable tenants,
      sc_commit = (\<lambda>db new.
        if list_all (dual_key_ok (lg_runs db)) new
        then check_all (enforce_dual_run_reciprocity (lg_runs db)) new else Inl IntegrityError)\<rparr>"

datatype statement = InsertEmissions "EmissionRow list" | InsertCalcRun CalcRunRow

fun exec_emissions :: "schema \<Rightarrow> EmissionRow list \<Rightarrow> ledger \<Rightarrow> ledger res" where
  "exec_emissions sc [] db = Inr db"
| "exec_emissions sc (p # ps) db =
     rbind (sc_emission sc db p) (\<lambda>q.
       exec_emissions sc ps (db\<lparr>lg_emissions := lg_emissions db @ [q]\<rparr>))"

fun exec_statement :: "schema \<Rightarrow> statement \<Rightarrow> ledger \<Rightarrow> ledger res" where
  "exec_statement sc (InsertEmissions ps) db = exec_emissions sc ps db"
| "exec_statement sc (InsertCalcRun r) db =
     rbind (sc_run sc db r) (\<lambda>q. Inr (db\<lparr>lg_runs := lg_runs db @ [q]\<rparr>))"

fun exec_statements :: "schema \<Rightarrow> statement list \<Rightarrow> ledger \<Rightarrow> ledger res" where
  "exec_statements sc [] db = Inr db"
| "exec_statements sc (s # ss) db = rbind (exec_statement sc s db) (exec_statements sc ss)"

text \<open>\<open>session.begin()\<close>: commit when every statement and the deferred checks pass, else roll back.\<close>

definition transaction :: "schema \<Rightarrow> statement list \<Rightarrow> ledger \<Rightarrow> unit res \<times> ledger" where
  "transaction sc stmts db =
     (case exec_statements sc stmts db of
        Inl e \<Rightarrow> (Inl e, db)
      | Inr db' \<Rightarrow>
        (case sc_commit sc db' (drop (length (lg_runs db)) (lg_runs db')) of
           Inl e \<Rightarrow> (Inl e, db)
         | Inr _ \<Rightarrow> (Inr (), db')))"

section \<open>Corrections\<close>

definition CORRECTION_REASONS :: "string list" where
  "CORRECTION_REASONS =
     [''DATA_ERROR'', ''FACTOR_UPDATE'', ''BOUNDARY_CHANGE'', ''METHODOLOGY_REVISION'', ''RESTATEMENT_>5PCT'']"

text \<open>
  \<open>calc.fn_emit_correction\<close>: the only permitted UPDATE. It closes the active predecessor and links
  it to the new row, which the foreign key requires to exist.
\<close>

definition fn_emit_correction ::
    "string \<Rightarrow> string \<Rightarrow> string \<Rightarrow> datetime \<Rightarrow> ledger \<Rightarrow> ledger res" where
  "fn_emit_correction predecessor_id new_id reason_code now db =
     (if reason_code \<notin> set CORRECTION_REASONS then Inl RaiseException
      else if \<not> list_ex (\<lambda>e. ep_id e = predecessor_id \<and> active e) (lg_emissions db)
        then Inl RaiseException
      else if new_id \<notin> ep_id ` set (lg_emissions db) then Inl IntegrityError
      else Inr (db\<lparr>lg_emissions :=
        map (\<lambda>e. if ep_id e = predecessor_id \<and> active e
                 then e\<lparr>ep_valid_to := Some now, ep_superseded_by := Some new_id,
                        ep_reason_code := Some reason_code\<rparr> else e) (lg_emissions db)\<rparr>))"

text \<open>
  The row trigger of the run table, \<open>ops.deny_calc_runs_mutation\<close>: an UPDATE or DELETE raises as soon as
  a row is hit.
\<close>

definition mutate_runs :: "(CalcRunRow \<Rightarrow> bool) \<Rightarrow> ledger \<Rightarrow> ledger res" where
  "mutate_runs hit db = (if list_ex hit (lg_runs db) then Inl RaiseException else Inr db)"

text \<open>
  The row trigger of the emissions table, \<open>ops.deny_emissions_mutation\<close>. \<open>in_correction\<close> says whether the
  session has set \<open>app.correction_in_progress\<close> to true; no new row means a DELETE. Amounts are compared as
  numbers.
\<close>

definition protected_changed :: "EmissionRow \<Rightarrow> EmissionRow \<Rightarrow> bool" where
  "protected_changed old new \<longleftrightarrow>
     ep_id new \<noteq> ep_id old \<or> \<not> dec_eq (ep_tco2e new) (ep_tco2e old) \<or> ep_factor_id new \<noteq> ep_factor_id old \<or>
     ep_factor_version new \<noteq> ep_factor_version old \<or> ep_gwp_set new \<noteq> ep_gwp_set old \<or>
     ep_methodology new \<noteq> ep_methodology old \<or> ep_scope new \<noteq> ep_scope old \<or> ep_anno new \<noteq> ep_anno old \<or>
     ep_codice_sito new \<noteq> ep_codice_sito old"

definition deny_emissions_mutation :: "bool \<Rightarrow> EmissionRow \<Rightarrow> EmissionRow option \<Rightarrow> EmissionRow res" where
  "deny_emissions_mutation in_correction old new =
     (case new of
        None \<Rightarrow> Inl RaiseException
      | Some n \<Rightarrow> if \<not> in_correction \<or> protected_changed old n then Inl RaiseException else Inr n)"

text \<open>
  A direct UPDATE or DELETE statement, row by row: \<open>change\<close> gives nothing for a row that is not hit, else
  the new row or, for a DELETE, none. A new row meets the trigger with its values in the types of the
  columns, then the constraints. The self-reference is checked at the end of the statement.
\<close>

fun update_emissions ::
    "bool \<Rightarrow> string list \<Rightarrow> string list \<Rightarrow> (EmissionRow \<Rightarrow> EmissionRow option option) \<Rightarrow> EmissionRow list \<Rightarrow>
     EmissionRow list \<Rightarrow> EmissionRow list res" where
  "update_emissions in_correction tenants factor_ids change past [] = Inr past"
| "update_emissions in_correction tenants factor_ids change past (e # es) =
     (case change e of
        None \<Rightarrow> update_emissions in_correction tenants factor_ids change (past @ [e]) es
      | Some None \<Rightarrow> rbind (deny_emissions_mutation in_correction e None) (\<lambda>_. Inr past)
      | Some (Some n) \<Rightarrow>
        rbind (stored_emission n) (\<lambda>m.
        rbind (deny_emissions_mutation in_correction e (Some m)) (\<lambda>q.
        if \<not> emission_checks q \<or> ep_tenant_id q \<notin> set tenants \<or> ep_factor_id q \<notin> set factor_ids \<or>
           \<not> emission_unique (past @ es) q then Inl IntegrityError
        else update_emissions in_correction tenants factor_ids change (past @ [q]) es)))"

definition successors_exist :: "EmissionRow list \<Rightarrow> bool" where
  "successors_exist es \<longleftrightarrow> (\<forall>e\<in>set es. pred_option (\<lambda>s. s \<in> ep_id ` set es) (ep_superseded_by e))"

definition mutate_emissions ::
    "bool \<Rightarrow> string list \<Rightarrow> string list \<Rightarrow> (EmissionRow \<Rightarrow> EmissionRow option option) \<Rightarrow> ledger \<Rightarrow> ledger res" where
  "mutate_emissions in_correction tenants factor_ids change db =
     rbind (update_emissions in_correction tenants factor_ids change [] (lg_emissions db)) (\<lambda>es.
     if successors_exist es then Inr (db\<lparr>lg_emissions := es\<rparr>) else Inl IntegrityError)"

section \<open>Transactions append\<close>

lemma exec_emissions_appends:
  "exec_emissions sc ps db = Inr db' \<Longrightarrow>
   \<exists>qs. lg_emissions db' = lg_emissions db @ qs \<and> lg_runs db' = lg_runs db \<and>
     list_all2 (\<lambda>p q. \<exists>d. sc_emission sc d p = Inr q) ps qs"
proof (induction ps arbitrary: db)
  case Nil
  then show ?case by simp
next
  case (Cons p ps)
  then obtain q where q: "sc_emission sc db p = Inr q"
    and "exec_emissions sc ps (db\<lparr>lg_emissions := lg_emissions db @ [q]\<rparr>) = Inr db'"
    by (auto simp: rbind_eq_Inr)
  from Cons.IH [OF this(2)] obtain qs where "lg_emissions db' = lg_emissions db @ [q] @ qs"
    "lg_runs db' = lg_runs db" "list_all2 (\<lambda>p q. \<exists>d. sc_emission sc d p = Inr q) ps qs" by auto
  with q show ?case by (intro exI [of _ "q # qs"]) auto
qed

lemma exec_statements_append_only:
  "exec_statements sc ss db = Inr db' \<Longrightarrow>
   (\<exists>es. lg_emissions db' = lg_emissions db @ es) \<and> (\<exists>rs. lg_runs db' = lg_runs db @ rs)"
proof (induction ss arbitrary: db)
  case Nil
  then show ?case by simp
next
  case (Cons s ss)
  then obtain db1 where step: "exec_statement sc s db = Inr db1" "exec_statements sc ss db1 = Inr db'"
    by (auto simp: rbind_eq_Inr)
  have "(\<exists>es. lg_emissions db1 = lg_emissions db @ es) \<and> (\<exists>rs. lg_runs db1 = lg_runs db @ rs)"
    using step(1) by (cases s) (auto simp: rbind_eq_Inr dest: exec_emissions_appends)
  with Cons.IH [OF step(2)] show ?case by auto
qed

lemma transaction_cases:
  assumes "transaction sc stmts db = (res, db')"
  shows "(\<exists>e. res = Inl e \<and> db' = db) \<or>
    res = Inr () \<and> exec_statements sc stmts db = Inr db' \<and>
      sc_commit sc db' (drop (length (lg_runs db)) (lg_runs db')) = Inr ()"
proof (cases "exec_statements sc stmts db")
  case (Inl e)
  with assms show ?thesis by (auto simp: transaction_def)
next
  case (Inr db1)
  show ?thesis
  proof (cases "sc_commit sc db1 (drop (length (lg_runs db)) (lg_runs db1))")
    case (Inl e)
    with assms \<open>exec_statements sc stmts db = Inr db1\<close> have "res = Inl e \<and> db' = db"
      by (auto simp: transaction_def)
    then show ?thesis by blast
  next
    case (Inr u)
    with assms \<open>exec_statements sc stmts db = Inr db1\<close> show ?thesis
      by (auto simp: transaction_def)
  qed
qed

section \<open>Stores that keep the identifying columns\<close>

text \<open>A store may round the amounts of a row, and nothing else.\<close>

definition without_amounts :: "EmissionRow \<Rightarrow> EmissionRow" where
  "without_amounts p =
     p\<lparr>ep_tco2e := dec_zero, ep_co2_tonne := None, ep_ch4_tco2e := None, ep_n2o_tco2e := None,
       ep_co2_biogenic_tonne := None, ep_co2_fossil_tonne := None\<rparr>"

locale emission_store =
  fixes sc :: schema
  assumes keeps_emission: "sc_emission sc db p = Inr q \<Longrightarrow> without_amounts q = without_amounts p"
    and keeps_run: "sc_run sc db r = Inr r' \<Longrightarrow> r' = r"
begin

lemma stored_rows:
  assumes "exec_emissions sc ps db = Inr db'"
  shows "\<exists>qs. lg_emissions db' = lg_emissions db @ qs \<and> lg_runs db' = lg_runs db \<and>
    map without_amounts qs = map without_amounts ps"
proof -
  obtain qs where "lg_emissions db' = lg_emissions db @ qs" "lg_runs db' = lg_runs db"
    and all: "list_all2 (\<lambda>p q. \<exists>d. sc_emission sc d p = Inr q) ps qs"
    using exec_emissions_appends [OF assms] by blast
  moreover have "map without_amounts qs = map without_amounts ps"
    using all by (induction rule: list_all2_induct) (auto dest: keeps_emission)
  ultimately show ?thesis by blast
qed

lemma stored_run:
  assumes "exec_statement sc (InsertCalcRun r) db = Inr db'"
  shows "lg_runs db' = lg_runs db @ [r] \<and> lg_emissions db' = lg_emissions db"
  using assms by (auto simp: rbind_eq_Inr dest: keeps_run)

end

lemma stored_emission_keeps: "stored_emission p = Inr q \<Longrightarrow> without_amounts q = without_amounts p"
  by (auto simp: stored_emission_def rbind_eq_Inr without_amounts_def)

lemma insert_emission_stored:
  assumes "insert_emission tenants factor_ids db p = Inr q"
  shows "stored_emission p = Inr q" and "emission_checks q" and "ep_factor_id q \<in> set factor_ids"
    and "emission_unique (lg_emissions db) q" and "ep_tenant_id q \<in> set tenants"
  using assms by (auto simp: insert_emission_def rbind_eq_Inr split: if_splits option.splits)

interpretation migrated: emission_store "migrated_schema fk_deferrable tenants factor_ids"
  by unfold_locales
    (auto simp: migrated_schema_def insert_run_def dest: insert_emission_stored(1) stored_emission_keeps
      split: if_splits)

end
