(* ===== verification/Calc_Persistence.thy ===== *)
theory Calc_Persistence
  imports Calc_Orchestrator Factor_Sql_Adapter Emission_Ledger
begin

text \<open>
  \<open>application/services/calc_persistence.py\<close>: loading the raw rows of a year, turning records into
  table rows, and the two entry points \<open>run_calc_and_persist\<close> and \<open>run_dual_track_and_persist\<close>. The
  database is the raw tables, the factor catalogue and the ledger; the ledger's schema is a
  parameter. The milliseconds read from \<open>time.monotonic()\<close> are arguments; logging and the session
  settings of row-level security are left out.
\<close>

section \<open>Inputs\<close>

record RawTables =
  rt_scope1 :: "row list"
  rt_scope2 :: "row list"
  rt_scope3 :: "row list"

definition select_raw :: "string list \<Rightarrow> row list \<Rightarrow> uuid \<Rightarrow> int \<Rightarrow> row list" where
  "select_raw columns table tenant_id anno =
     map (\<lambda>r. r |` set columns)
       (filter (\<lambda>r. r ''tenant_id'' = Some (PUuid tenant_id) \<and> r ''anno'' = Some (PInt anno)) table)"

definition SCOPE1_COLUMNS :: "string list" where
  "SCOPE1_COLUMNS =
     [''id'', ''tenant_id'', ''anno'', ''codice_sito'', ''categoria_s1'', ''combustibile'', ''quantita'',
      ''unita'', ''fonte_dato'', ''qualita_dato'', ''stato_dato'', ''note'', ''provenance'']"

definition SCOPE2_COLUMNS :: "string list" where
  "SCOPE2_COLUMNS =
     [''id'', ''tenant_id'', ''anno'', ''codice_sito'', ''voce_s2'', ''quantita'', ''unita'',
      ''strumento_mb'', ''fonte_dato'', ''qualita_dato'', ''stato_dato'', ''note'', ''provenance'']"

definition SCOPE3_COLUMNS :: "string list" where
  "SCOPE3_COLUMNS =
     [''id'', ''tenant_id'', ''anno'', ''categoria_s3'', ''sottocategoria'', ''metodo'', ''combustibile'',
      ''quantita'', ''unita'', ''fonte_dato'', ''qualita_dato'', ''stato_dato'', ''note'']"

text \<open>\<open>SELECT DISTINCT codice_sito\<close>; the order SQL leaves open is that of the last occurrences.\<close>

definition select_sites :: "row list \<Rightarrow> uuid \<Rightarrow> int \<Rightarrow> string list" where
  "select_sites table tenant_id anno =
     map py_str (remdups (map (\<lambda>r. row_opt r ''codice_sito'')
       (filter (\<lambda>r. r ''tenant_id'' = Some (PUuid tenant_id) \<and> r ''anno'' = Some (PInt anno)) table)))"

definition load_raw_rows ::
    "RawTables \<Rightarrow> uuid \<Rightarrow> int \<Rightarrow> row list \<times> row list \<times> row list \<times> string list" where
  "load_raw_rows raw tenant_id anno =
     (select_raw SCOPE1_COLUMNS (rt_scope1 raw) tenant_id anno,
      select_raw SCOPE2_COLUMNS (rt_scope2 raw) tenant_id anno,
      select_raw SCOPE3_COLUMNS (rt_scope3 raw) tenant_id anno,
      select_sites (rt_scope1 raw) tenant_id anno)"

definition run_inputs ::
    "RawTables \<Rightarrow> uuid \<Rightarrow> int \<Rightarrow> uuid \<Rightarrow> string \<Rightarrow> string \<Rightarrow> CalcRunInputs" where
  "run_inputs raw tenant_id anno correlation_id created_by regulatory_stream =
     (let (scope1_rows, scope2_rows, scope3_rows, sites) = load_raw_rows raw tenant_id anno in
      \<lparr>ci_correlation_id = correlation_id, ci_anno = anno, ci_sites = sites,
       ci_scope1_rows = scope1_rows, ci_scope2_rows = scope2_rows, ci_scope3_rows = scope3_rows,
       ci_created_by = created_by, ci_regulatory_stream = regulatory_stream,
       ci_go_evidence = None\<rparr>)"

section \<open>Rows to insert\<close>

definition emission_to_params :: "uuid \<Rightarrow> EmissionRecord \<Rightarrow> EmissionRow run" where
  "emission_to_params tenant_id r =
     mbind utc_now (\<lambda>now.
     let fk_uuid = (case er_factor_id_uuid r of Some u \<Rightarrow> u | None \<Rightarrow> 0) in
     mret \<lparr>ep_id = uuid_str (er_id r), ep_tenant_id = uuid_str tenant_id,
       ep_correlation_id = uuid_str (er_correlation_id r),
       ep_raw_row_id = uuid_str (case er_raw_row_id r of Some u \<Rightarrow> u | None \<Rightarrow> 0),
       ep_raw_scope = er_scope r, ep_scope = er_scope r, ep_sub_scope = er_sub_scope r,
       ep_codice_sito = er_codice_sito r, ep_anno = er_anno r, ep_tco2e = er_tco2e r,
       ep_co2_tonne = er_co2_tonne r, ep_ch4_tco2e = er_ch4_tco2e r, ep_n2o_tco2e = er_n2o_tco2e r,
       ep_co2_biogenic_tonne = er_co2_biogenic_tonne r, ep_co2_fossil_tonne = er_co2_fossil_tonne r,
       ep_factor_id = uuid_str fk_uuid, ep_factor_version = er_factor_version r,
       ep_factor_source = er_factor_source r, ep_gwp_set = er_gwp_set r,
       ep_methodology = er_methodology r, ep_regulatory_stream = er_regulatory_stream r,
       ep_calc_timestamp = er_calc_timestamp r, ep_created_by = er_created_by r,
       ep_valid_from = (case er_valid_from r of Some t \<Rightarrow> t | None \<Rightarrow> now),
       ep_valid_to = er_valid_to r,
       ep_superseded_by = map_option uuid_str (er_superseded_by r),
       ep_reason_code = er_reason_code r, ep_disclosure_notes = er_disclosure_notes r\<rparr>)"

definition emission_params :: "uuid \<Rightarrow> EmissionRecord list \<Rightarrow> EmissionRow list run" where
  "emission_params tenant_id records =
     for_each (\<lambda>r. mbind (emission_to_params tenant_id r) (\<lambda>p. mret [p])) records"

text \<open>\<open>if records: execute(INSERT, param_list)\<close>.\<close>

definition insert_emissions_stmt :: "EmissionRow list \<Rightarrow> statement list" where
  "insert_emissions_stmt ps = (if ps = [] then [] else [InsertEmissions ps])"

section \<open>Persisting a run\<close>

type_synonym 'a stored = "(exn + 'a \<times> world) \<times> ledger"

record PersistArgs =
  pa_tenant_id :: uuid
  pa_correlation_id :: uuid
  pa_anno :: int
  pa_duration_ms :: int
  pa_started_at :: datetime
  pa_gwp_set :: string
  pa_regulatory_stream :: string
  pa_created_by :: string
  pa_run_id :: "uuid option"
  pa_dual_run_id :: "uuid option"
  pa_calc_timestamp :: "datetime option"

definition calc_run_row :: "PersistArgs \<Rightarrow> uuid \<Rightarrow> nat \<Rightarrow> datetime \<Rightarrow> CalcRunRow" where
  "calc_run_row a run_id written finished =
     \<lparr>rr_id = uuid_str run_id, rr_tenant_id = uuid_str (pa_tenant_id a),
      rr_correlation_id = uuid_str (pa_correlation_id a), rr_anno = pa_anno a,
      rr_emissions_written = written, rr_duration_ms = pa_duration_ms a, rr_gwp_set = pa_gwp_set a,
      rr_regulatory_stream = pa_regulatory_stream a, rr_started_at = pa_started_at a,
      rr_finished_at = finished, rr_created_by = pa_created_by a,
      rr_dual_run_id = map_option uuid_str (pa_dual_run_id a)\<rparr>"

text \<open>Everything \<open>_persist_emissions\<close> computes before and inside its transaction.\<close>

definition persist_statements ::
    "PersistArgs \<Rightarrow> EmissionRecord list \<Rightarrow> (uuid \<times> statement list) run" where
  "persist_statements a records =
     mbind utc_now (\<lambda>finished_at.
     mbind (case pa_run_id a of Some i \<Rightarrow> mret i | None \<Rightarrow> uuid4) (\<lambda>run_id.
     let calc_ts = (case pa_calc_timestamp a of Some t \<Rightarrow> t | None \<Rightarrow> finished_at) in
     mbind (emission_params (pa_tenant_id a) records) (\<lambda>ps.
     mret (run_id, insert_emissions_stmt ps @
                   [InsertCalcRun (calc_run_row a run_id (length records) calc_ts)]))))"

definition commit_statements ::
    "schema \<Rightarrow> ('a \<times> statement list) run \<Rightarrow> ledger \<Rightarrow> world \<Rightarrow> 'a stored" where
  "commit_statements sc m db w =
     (case m w of
        Inl e \<Rightarrow> (Inl e, db)
      | Inr ((x, stmts), w') \<Rightarrow>
        (case transaction sc stmts db of
           (Inl e, db') \<Rightarrow> (Inl e, db')
         | (Inr _, db') \<Rightarrow> (Inr (x, w'), db')))"

definition persist_emissions ::
    "schema \<Rightarrow> PersistArgs \<Rightarrow> EmissionRecord list \<Rightarrow> ledger \<Rightarrow> world \<Rightarrow> uuid stored" where
  "persist_emissions sc a records = commit_statements sc (persist_statements a records)"

record CalcPersistResult =
  cp_emissions_written :: nat
  cp_scope1_count :: nat
  cp_scope2_count :: nat
  cp_scope3_count :: nat
  cp_duration_ms :: int
  cp_correlation_id :: uuid
  cp_run_id :: uuid

definition scope_count :: "int \<Rightarrow> EmissionRecord list \<Rightarrow> nat" where
  "scope_count s records = length (filter (\<lambda>r. er_scope r = s) records)"

definition make_result :: "EmissionRecord list \<Rightarrow> uuid \<Rightarrow> int \<Rightarrow> uuid \<Rightarrow> CalcPersistResult" where
  "make_result records run_id duration_ms correlation_id =
     \<lparr>cp_emissions_written = length records, cp_scope1_count = scope_count 1 records,
      cp_scope2_count = scope_count 2 records, cp_scope3_count = scope_count 3 records,
      cp_duration_ms = duration_ms, cp_correlation_id = correlation_id, cp_run_id = run_id\<rparr>"

text \<open>The database a run reads: raw tables and factor catalogue.\<close>

record source_db =
  sd_raw :: RawTables
  sd_catalog :: "CatalogRow list"

definition run_calc ::
    "sampler \<Rightarrow> source_db \<Rightarrow> uuid \<Rightarrow> int \<Rightarrow> uuid \<Rightarrow> string \<Rightarrow> string \<Rightarrow> string \<Rightarrow>
     EmissionRecord list run" where
  "run_calc draw src tenant_id anno correlation_id gwp_set regulatory_stream created_by =
     (let inputs = run_inputs (sd_raw src) tenant_id anno correlation_id created_by regulatory_stream;
          catalog = sql_catalog (sd_catalog src) tenant_id
      in mbind (mlift (get_gwp_values gwp_set)) (\<lambda>g. orchestrator_run draw catalog g inputs))"

definition run_calc_and_persist ::
    "sampler \<Rightarrow> schema \<Rightarrow> source_db \<Rightarrow> uuid \<Rightarrow> int \<Rightarrow> uuid \<Rightarrow> string \<Rightarrow> string \<Rightarrow> string \<Rightarrow>
     uuid option \<Rightarrow> int \<Rightarrow> ledger \<Rightarrow> world \<Rightarrow> CalcPersistResult stored" where
  "run_calc_and_persist draw sc src tenant_id anno correlation_id gwp_set regulatory_stream created_by
     dual_run_id duration_ms =
     commit_statements sc
       (mbind utc_now (\<lambda>started_at.
        mbind (run_calc draw src tenant_id anno correlation_id gwp_set regulatory_stream created_by)
          (\<lambda>records.
        mbind (persist_statements
          \<lparr>pa_tenant_id = tenant_id, pa_correlation_id = correlation_id, pa_anno = anno,
           pa_duration_ms = duration_ms, pa_started_at = started_at, pa_gwp_set = gwp_set,
           pa_regulatory_stream = regulatory_stream, pa_created_by = created_by, pa_run_id = None,
           pa_dual_run_id = dual_run_id, pa_calc_timestamp = None\<rparr> records) (\<lambda>(run_id, stmts).
        mret (make_result records run_id duration_ms correlation_id, stmts)))))"

section \<open>The dual-track run\<close>

definition persist_dual_statements ::
    "PersistArgs \<Rightarrow> PersistArgs \<Rightarrow> datetime \<Rightarrow> uuid \<Rightarrow> uuid \<Rightarrow> EmissionRecord list \<Rightarrow>
     EmissionRecord list \<Rightarrow> statement list run" where
  "persist_dual_statements csrd ets calc_timestamp csrd_run_id ets_run_id csrd_records ets_records =
     mbind (emission_params (pa_tenant_id csrd) csrd_records) (\<lambda>ps.
     mbind (emission_params (pa_tenant_id ets) ets_records) (\<lambda>qs.
     mret (insert_emissions_stmt ps @ insert_emissions_stmt qs @
       [InsertCalcRun (calc_run_row (csrd\<lparr>pa_dual_run_id := Some ets_run_id\<rparr>) csrd_run_id
          (length csrd_records) calc_timestamp),
        InsertCalcRun (calc_run_row (ets\<lparr>pa_dual_run_id := Some csrd_run_id\<rparr>) ets_run_id
          (length ets_records) calc_timestamp)])))"

record DualTrackPersistResult =
  dp_csrd_result :: CalcPersistResult
  dp_ets_result :: CalcPersistResult
  dp_correlation_id :: uuid
  dp_calc_timestamp :: datetime

definition dual_track_body ::
    "sampler \<Rightarrow> source_db \<Rightarrow> uuid \<Rightarrow> int \<Rightarrow> string \<Rightarrow> string \<Rightarrow> string \<Rightarrow> string \<Rightarrow> string \<Rightarrow>
     int \<Rightarrow> int \<Rightarrow> (DualTrackPersistResult \<times> statement list) run" where
  "dual_track_body draw src tenant_id anno csrd_gwp_set csrd_regulatory_stream ets_gwp_set
     ets_regulatory_stream created_by csrd_duration_ms ets_duration_ms =
     mbind uuid4 (\<lambda>csrd_run_id.
     mbind uuid4 (\<lambda>ets_run_id.
     mbind uuid4 (\<lambda>shared_correlation_id.
     mbind utc_now (\<lambda>shared_calc_timestamp.
     mbind utc_now (\<lambda>started_at.
     let inputs = run_inputs (sd_raw src) tenant_id anno shared_correlation_id created_by;
         catalog = sql_catalog (sd_catalog src) tenant_id;
         args = (\<lambda>gwp stream duration. \<lparr>pa_tenant_id = tenant_id,
           pa_correlation_id = shared_correlation_id, pa_anno = anno, pa_duration_ms = duration,
           pa_started_at = started_at, pa_gwp_set = gwp, pa_regulatory_stream = stream,
           pa_created_by = created_by, pa_run_id = None, pa_dual_run_id = None,
           pa_calc_timestamp = None\<rparr>)
     in
     mbind (mlift (get_gwp_values csrd_gwp_set)) (\<lambda>csrd_gwp.
     mbind (mlift (get_gwp_values ets_gwp_set)) (\<lambda>ets_gwp.
     mbind (orchestrator_run draw catalog csrd_gwp (inputs csrd_regulatory_stream)) (\<lambda>csrd_records.
     mbind (orchestrator_run draw catalog ets_gwp (inputs ets_regulatory_stream)) (\<lambda>ets_records.
     mbind (persist_dual_statements
              (args csrd_gwp_set csrd_regulatory_stream csrd_duration_ms)
              (args ets_gwp_set ets_regulatory_stream ets_duration_ms)
              shared_calc_timestamp csrd_run_id ets_run_id csrd_records ets_records) (\<lambda>stmts.
     mret (\<lparr>dp_csrd_result = make_result csrd_records csrd_run_id csrd_duration_ms shared_correlation_id,
             dp_ets_result = make_result ets_records ets_run_id ets_duration_ms shared_correlation_id,
             dp_correlation_id = shared_correlation_id,
             dp_calc_timestamp = shared_calc_timestamp\<rparr>, stmts)))))))))))"

definition run_dual_track_and_persist ::
    "sampler \<Rightarrow> schema \<Rightarrow> source_db \<Rightarrow> uuid \<Rightarrow> int \<Rightarrow> string \<Rightarrow> string \<Rightarrow> string \<Rightarrow> string \<Rightarrow>
     string \<Rightarrow> int \<Rightarrow> int \<Rightarrow> ledger \<Rightarrow> world \<Rightarrow> DualTrackPersistResult stored" where
  "run_dual_track_and_persist draw sc src tenant_id anno csrd_gwp_set csrd_regulatory_stream
     ets_gwp_set ets_regulatory_stream created_by csrd_duration_ms ets_duration_ms =
     commit_statements sc
       (dual_track_body draw src tenant_id anno csrd_gwp_set csrd_regulatory_stream ets_gwp_set
          ets_regulatory_stream created_by csrd_duration_ms ets_duration_ms)"

end
