(* ===== verification/Persistence_Properties.thy ===== *)
theory Persistence_Properties
  imports Calc_Persistence Demo_Inputs
begin

text \<open>
  Properties of the persistence service: its transactions are atomic and only append, what a
  single-track and a dual-track run leave in the ledger, and what the constraints of the
  migrations make of them.
\<close>

section \<open>Rows of records\<close>

text \<open>The table row of a record, up to the instant used for an absent \<open>valid_from\<close>.\<close>

definition row_of :: "uuid \<Rightarrow> EmissionRecord \<Rightarrow> EmissionRow \<Rightarrow> bool" where
  "row_of tenant_id r p \<longleftrightarrow>
     ep_id p = uuid_str (er_id r) \<and> ep_tenant_id p = uuid_str tenant_id \<and>
     ep_correlation_id p = uuid_str (er_correlation_id r) \<and> ep_scope p = er_scope r \<and>
     ep_raw_scope p = er_scope r \<and> ep_sub_scope p = er_sub_scope r \<and>
     ep_codice_sito p = er_codice_sito r \<and> ep_anno p = er_anno r \<and> ep_gwp_set p = er_gwp_set r \<and>
     ep_regulatory_stream p = er_regulatory_stream r \<and> ep_methodology p = er_methodology r \<and>
     ep_created_by p = er_created_by r \<and> ep_calc_timestamp p = er_calc_timestamp r \<and>
     ep_factor_version p = er_factor_version r \<and> ep_factor_source p = er_factor_source r \<and>
     ep_factor_id p = uuid_str (case er_factor_id_uuid r of Some u \<Rightarrow> u | None \<Rightarrow> 0) \<and>
     ep_raw_row_id p = uuid_str (case er_raw_row_id r of Some u \<Rightarrow> u | None \<Rightarrow> 0) \<and>
     ep_valid_to p = er_valid_to r \<and> ep_superseded_by p = map_option uuid_str (er_superseded_by r) \<and>
     ep_disclosure_notes p = er_disclosure_notes r"

lemma row_of_without_amounts: "without_amounts q = without_amounts p \<Longrightarrow> row_of t r q = row_of t r p"
proof -
  assume "without_amounts q = without_amounts p"
  then have "ep_id q = ep_id p" "ep_tenant_id q = ep_tenant_id p" "ep_correlation_id q = ep_correlation_id p"
    "ep_scope q = ep_scope p" "ep_raw_scope q = ep_raw_scope p" "ep_sub_scope q = ep_sub_scope p"
    "ep_codice_sito q = ep_codice_sito p" "ep_anno q = ep_anno p" "ep_gwp_set q = ep_gwp_set p"
    "ep_regulatory_stream q = ep_regulatory_stream p" "ep_methodology q = ep_methodology p"
    "ep_created_by q = ep_created_by p" "ep_calc_timestamp q = ep_calc_timestamp p"
    "ep_factor_version q = ep_factor_version p" "ep_factor_source q = ep_factor_source p"
    "ep_factor_id q = ep_factor_id p" "ep_raw_row_id q = ep_raw_row_id p" "ep_valid_to q = ep_valid_to p"
    "ep_superseded_by q = ep_superseded_by p" "ep_disclosure_notes q = ep_disclosure_notes p"
    unfolding without_amounts_def by (cases q; cases p; simp)+
  then show ?thesis by (simp add: row_of_def)
qed

lemma emission_params_rows:
  "\<exists>ps w'. emission_params t rs w = Inr (ps, w') \<and> list_all2 (row_of t) rs ps"
proof (induction rs arbitrary: w)
  case Nil
  show ?case by (simp add: emission_params_def)
next
  case (Cons r rs)
  obtain p w1 where p: "emission_to_params t r w = Inr (p, w1)" "row_of t r p"
    by (auto simp: emission_to_params_def utc_now_def now_utc_def mbind_def mret_def Let_def row_of_def
        split: option.splits)
  obtain ps w2 where "emission_params t rs w1 = Inr (ps, w2)" "list_all2 (row_of t) rs ps"
    using Cons.IH by blast
  with p show ?case by (auto simp: emission_params_def mbind_def mret_def)
qed

lemma emission_params_rowsD:
  assumes "emission_params t rs w = Inr (ps, w')"
  shows "list_all2 (row_of t) rs ps" and "length ps = length rs"
  using emission_params_rows [of t rs w] assms by (auto dest: list_all2_lengthD)

section \<open>Committed statements\<close>

lemma commit_statements_cases:
  assumes "commit_statements sc m db w = (res, db')"
  shows "(\<exists>e. res = Inl e \<and> db' = db) \<or>
    (\<exists>x stmts w'. res = Inr (x, w') \<and> m w = Inr ((x, stmts), w') \<and>
      exec_statements sc stmts db = Inr db' \<and>
      sc_commit sc db' (drop (length (lg_runs db)) (lg_runs db')) = Inr ())"
proof (cases "m w")
  case (Inl e)
  with assms show ?thesis by (auto simp: commit_statements_def)
next
  case (Inr y)
  then obtain x stmts w' where m: "m w = Inr ((x, stmts), w')" by (cases y) auto
  obtain r d where t: "transaction sc stmts db = (r, d)" by (cases "transaction sc stmts db")
  from transaction_cases [OF t] assms m t show ?thesis
    by (auto simp: commit_statements_def)
qed

context emission_store
begin

lemma exec_insert_emissions:
  assumes "exec_statements sc (insert_emissions_stmt ps @ ss) db = Inr db'"
    and "list_all2 (row_of t) rs ps"
  shows "\<exists>qs d. list_all2 (row_of t) rs qs \<and> exec_statements sc ss d = Inr db' \<and>
    lg_emissions d = lg_emissions db @ qs \<and> lg_runs d = lg_runs db"
proof (cases "ps = []")
  case True
  with assms show ?thesis by (intro exI [of _ "[]"] exI [of _ db]) (auto simp: insert_emissions_stmt_def)
next
  case False
  with assms(1) obtain d where d: "exec_emissions sc ps db = Inr d" "exec_statements sc ss d = Inr db'"
    by (auto simp: insert_emissions_stmt_def rbind_eq_Inr)
  obtain qs where qs: "lg_emissions d = lg_emissions db @ qs" "lg_runs d = lg_runs db"
    "map without_amounts qs = map without_amounts ps"
    using stored_rows [OF d(1)] by blast
  then have len: "length qs = length ps" using map_eq_imp_length_eq by blast
  have "row_of t (rs ! n) (qs ! n)" if "n < length ps" for n
  proof -
    have "without_amounts (qs ! n) = without_amounts (ps ! n)"
      using qs(3) that len by (metis nth_map)
    from row_of_without_amounts [OF this, of t "rs ! n"] that assms(2) show ?thesis
      by (simp add: list_all2_conv_all_nth)
  qed
  with assms(2) len have "list_all2 (row_of t) rs qs"
    by (simp add: list_all2_conv_all_nth)
  with qs d(2) show ?thesis by blast
qed

lemma exec_insert_runs:
  "exec_statements sc [InsertCalcRun r] d = Inr db' \<Longrightarrow>
     lg_runs db' = lg_runs d @ [r] \<and> lg_emissions db' = lg_emissions d"
  "exec_statements sc [InsertCalcRun r, InsertCalcRun r'] d = Inr db' \<Longrightarrow>
     lg_runs db' = lg_runs d @ [r, r'] \<and> lg_emissions db' = lg_emissions d"
  by (auto simp: rbind_eq_Inr simp del: exec_statement.simps dest!: stored_run)

end

section \<open>Runs\<close>

lemma run_calc_records:
  assumes "run_calc draw src t anno corr gwp stream by w = Inr (rs, w')" and "r \<in> set rs"
  shows "er_wf r \<and> er_gwp_set r = gwp \<and> er_correlation_id r = corr \<and> er_regulatory_stream r = stream \<and>
    er_created_by r = by"
proof -
  obtain g where g: "get_gwp_values gwp = Inr g"
    and run: "orchestrator_run draw (sql_catalog (sd_catalog src) t) g
      (run_inputs (sd_raw src) t anno corr by stream) w = Inr (rs, w')"
    using assms(1) by (auto simp: run_calc_def Let_def mbind_eq_Inr)
  have "gv_code g = gwp"
    using g by (auto simp: get_gwp_values_cases AR6_def AR5_def)
  with run_record_stamps [OF run assms(2)] show ?thesis
    by (simp add: common_ctx_def run_inputs_def split_def Let_def)
qed

lemma scope_counts:
  assumes "\<forall>r\<in>set rs. er_wf r"
  shows "scope_count 1 rs + scope_count 2 rs + scope_count 3 rs = length rs"
  using assms
proof (induction rs)
  case Nil
  show ?case by (simp add: scope_count_def)
next
  case (Cons r rs)
  then have "er_scope r = 1 \<or> er_scope r = 2 \<or> er_scope r = 3" by (simp add: er_wf_def)
  with Cons show ?case by (auto simp: scope_count_def)
qed

text \<open>The rows of a track: one per record, all stamped alike.\<close>

definition track_rows ::
    "uuid \<Rightarrow> uuid \<Rightarrow> string \<Rightarrow> string \<Rightarrow> EmissionRecord list \<Rightarrow> EmissionRow list \<Rightarrow> bool" where
  "track_rows tenant_id corr gwp stream records es \<longleftrightarrow>
     list_all2 (row_of tenant_id) records es \<and>
     (\<forall>e\<in>set es. ep_tenant_id e = uuid_str tenant_id \<and> ep_correlation_id e = uuid_str corr \<and>
        ep_gwp_set e = gwp \<and> ep_regulatory_stream e = stream \<and> ep_scope e \<in> {1, 2, 3})"

lemma track_rowsI:
  assumes "list_all2 (row_of t) records es"
    and "\<forall>r\<in>set records. er_wf r \<and> er_gwp_set r = gwp \<and> er_correlation_id r = corr \<and>
      er_regulatory_stream r = stream"
  shows "track_rows t corr gwp stream records es"
proof -
  have "ep_tenant_id e = uuid_str t \<and> ep_correlation_id e = uuid_str corr \<and> ep_gwp_set e = gwp \<and>
      ep_regulatory_stream e = stream \<and> ep_scope e \<in> {1, 2, 3}" if e: "e \<in> set es" for e
  proof -
    obtain r where "r \<in> set records" "row_of t r e"
      using list_all2_right [OF assms(1) e] by blast
    with assms(2) show ?thesis by (auto simp: row_of_def er_wf_def)
  qed
  with assms(1) show ?thesis by (simp add: track_rows_def)
qed

context emission_store
begin

lemma single_run_rows:
  assumes "run_calc_and_persist draw sc src t anno corr gwp stream by dual ms db w = (Inr (x, w'), db')"
  shows "\<exists>records es row. (\<exists>v v'. run_calc draw src t anno corr gwp stream by v = Inr (records, v')) \<and>
    track_rows t corr gwp stream records es \<and>
    lg_emissions db' = lg_emissions db @ es \<and> lg_runs db' = lg_runs db @ [row] \<and>
    rr_id row = uuid_str (cp_run_id x) \<and> rr_emissions_written row = length es \<and>
    rr_correlation_id row = uuid_str corr \<and> rr_gwp_set row = gwp \<and> rr_regulatory_stream row = stream \<and>
    rr_anno row = anno \<and> rr_dual_run_id row = map_option uuid_str dual \<and>
    cp_emissions_written x = length es \<and>
    cp_scope1_count x + cp_scope2_count x + cp_scope3_count x = length es"
proof -
  obtain stmts where body: "exec_statements sc stmts db = Inr db'"
    and m: "mbind utc_now (\<lambda>started_at.
        mbind (run_calc draw src t anno corr gwp stream by) (\<lambda>records.
        mbind (persist_statements
          \<lparr>pa_tenant_id = t, pa_correlation_id = corr, pa_anno = anno,
           pa_duration_ms = ms, pa_started_at = started_at, pa_gwp_set = gwp,
           pa_regulatory_stream = stream, pa_created_by = by, pa_run_id = None,
           pa_dual_run_id = dual, pa_calc_timestamp = None\<rparr> records) (\<lambda>(run_id, stmts).
        mret (make_result records run_id ms corr, stmts)))) w = Inr ((x, stmts), w')"
    using commit_statements_cases [OF assms [unfolded run_calc_and_persist_def]] by auto
  then obtain started records v v' run_id ps finished u u' where
    run: "run_calc draw src t anno corr gwp stream by v = Inr (records, v')"
    and ps: "emission_params t records u = Inr (ps, u')"
    and x: "x = make_result records run_id ms corr"
    and stmts: "stmts = insert_emissions_stmt ps @ [InsertCalcRun (calc_run_row
       \<lparr>pa_tenant_id = t, pa_correlation_id = corr, pa_anno = anno,
           pa_duration_ms = ms, pa_started_at = started, pa_gwp_set = gwp,
           pa_regulatory_stream = stream, pa_created_by = by, pa_run_id = None,
           pa_dual_run_id = dual, pa_calc_timestamp = None\<rparr> run_id (length records) finished)]"
    by (auto simp: persist_statements_def mbind_eq_Inr Let_def)
  note recs = run_calc_records [OF run]
  obtain es d where es: "list_all2 (row_of t) records es" "lg_emissions d = lg_emissions db @ es"
    "lg_runs d = lg_runs db" and rest: "exec_statements sc [InsertCalcRun (calc_run_row
       \<lparr>pa_tenant_id = t, pa_correlation_id = corr, pa_anno = anno,
           pa_duration_ms = ms, pa_started_at = started, pa_gwp_set = gwp,
           pa_regulatory_stream = stream, pa_created_by = by, pa_run_id = None,
           pa_dual_run_id = dual, pa_calc_timestamp = None\<rparr> run_id (length records) finished)] d = Inr db'"
    using exec_insert_emissions [OF body [unfolded stmts] emission_params_rowsD(1) [OF ps]] by blast
  have "track_rows t corr gwp stream records es"
    by (rule track_rowsI [OF es(1)]) (use recs in blast)
  moreover have "length es = length records" using es(1) by (simp add: list_all2_lengthD)
  moreover have "scope_count 1 records + scope_count 2 records + scope_count 3 records = length records"
    by (rule scope_counts) (use recs in blast)
  ultimately show ?thesis
    using exec_insert_runs(1) [OF rest] es run x
    by (intro exI [of _ records] exI [of _ es]) (auto simp: calc_run_row_def make_result_def)
qed

end

section \<open>Dual-track runs\<close>

text \<open>The run row of a track of a pair.\<close>

definition track_row ::
    "uuid \<Rightarrow> uuid \<Rightarrow> int \<Rightarrow> uuid \<Rightarrow> uuid \<Rightarrow> string \<Rightarrow> string \<Rightarrow> nat \<Rightarrow> datetime \<Rightarrow> datetime \<Rightarrow> CalcRunRow \<Rightarrow> bool" where
  "track_row t corr anno run_id other gwp stream written started finished row \<longleftrightarrow>
     rr_id row = uuid_str run_id \<and> rr_tenant_id row = uuid_str t \<and> rr_correlation_id row = uuid_str corr \<and>
     rr_anno row = anno \<and> rr_emissions_written row = written \<and> rr_gwp_set row = gwp \<and>
     rr_regulatory_stream row = stream \<and> rr_started_at row = started \<and> rr_finished_at row = finished \<and>
     rr_dual_run_id row = Some (uuid_str other)"

text \<open>
  What the body of a dual-track run computes: the identifiers of the pair are the next three the
  source draws, the shared timestamp and the start are the next two instants of the clock.
\<close>

lemma dual_body_parts:
  assumes "dual_track_body draw src t anno g1 s1 g2 s2 by ms1 ms2 w = Inr ((x, stmts), w')"
  defines "n \<equiv> w_uuids w" and "k \<equiv> w_ticks w"
  obtains rs1 rs2 ps qs row1 row2 v1 v1' v2 v2' u1 u1' u2 u2' where
    "run_calc draw src t anno (w_uuid w (n + 2)) g1 s1 by v1 = Inr (rs1, v1')"
    "run_calc draw src t anno (w_uuid w (n + 2)) g2 s2 by v2 = Inr (rs2, v2')"
    "emission_params t rs1 u1 = Inr (ps, u1')" "emission_params t rs2 u2 = Inr (qs, u2')"
    "stmts = insert_emissions_stmt ps @ insert_emissions_stmt qs @ [InsertCalcRun row1, InsertCalcRun row2]"
    "track_row t (w_uuid w (n + 2)) anno (w_uuid w n) (w_uuid w (n + 1)) g1 s1 (length rs1)
       (DateTime (w_clock w (k + 1)) True) (DateTime (w_clock w k) True) row1"
    "track_row t (w_uuid w (n + 2)) anno (w_uuid w (n + 1)) (w_uuid w n) g2 s2 (length rs2)
       (DateTime (w_clock w (k + 1)) True) (DateTime (w_clock w k) True) row2"
    "cp_run_id (dp_csrd_result x) = w_uuid w n" "cp_run_id (dp_ets_result x) = w_uuid w (n + 1)"
    "dp_correlation_id x = w_uuid w (n + 2)" "dp_calc_timestamp x = DateTime (w_clock w k) True"
proof -
  let ?v = "w\<lparr>w_uuids := Suc (Suc (Suc n)), w_ticks := Suc (Suc k)\<rparr>"
  let ?in = "run_inputs (sd_raw src) t anno (w_uuid w (n + 2)) by"
  let ?cat = "sql_catalog (sd_catalog src) t"
  obtain ga gb rs1 rs2 v1 v2 where g: "get_gwp_values g1 = Inr ga" "get_gwp_values g2 = Inr gb"
    and runs: "orchestrator_run draw ?cat ga (?in s1) ?v = Inr (rs1, v1)"
      "orchestrator_run draw ?cat gb (?in s2) v1 = Inr (rs2, v2)"
    and stmts: "persist_dual_statements
        \<lparr>pa_tenant_id = t, pa_correlation_id = w_uuid w (n + 2), pa_anno = anno, pa_duration_ms = ms1,
         pa_started_at = DateTime (w_clock w (k + 1)) True, pa_gwp_set = g1, pa_regulatory_stream = s1,
         pa_created_by = by, pa_run_id = None, pa_dual_run_id = None, pa_calc_timestamp = None\<rparr>
        \<lparr>pa_tenant_id = t, pa_correlation_id = w_uuid w (n + 2), pa_anno = anno, pa_duration_ms = ms2,
         pa_started_at = DateTime (w_clock w (k + 1)) True, pa_gwp_set = g2, pa_regulatory_stream = s2,
         pa_created_by = by, pa_run_id = None, pa_dual_run_id = None, pa_calc_timestamp = None\<rparr>
        (DateTime (w_clock w k) True) (w_uuid w n) (w_uuid w (n + 1)) rs1 rs2 v2 = Inr (stmts, w')"
    and x: "cp_run_id (dp_csrd_result x) = w_uuid w n" "cp_run_id (dp_ets_result x) = w_uuid w (n + 1)"
      "dp_correlation_id x = w_uuid w (n + 2)" "dp_calc_timestamp x = DateTime (w_clock w k) True"
    using assms(1) unfolding dual_track_body_def n_def k_def
    by (auto simp: mbind_eq_Inr uuid4_def utc_now_def now_utc_def Let_def make_result_def
        numeral_2_eq_2)
  have calc: "run_calc draw src t anno (w_uuid w (n + 2)) g1 s1 by ?v = Inr (rs1, v1)"
    "run_calc draw src t anno (w_uuid w (n + 2)) g2 s2 by v1 = Inr (rs2, v2)"
    using g runs by (simp_all add: run_calc_def mbind_def mlift_def)
  from stmts obtain ps qs u where "emission_params t rs1 v2 = Inr (ps, u)"
    "emission_params t rs2 u = Inr (qs, w')"
    "stmts = insert_emissions_stmt ps @ insert_emissions_stmt qs @
      [InsertCalcRun (calc_run_row
        \<lparr>pa_tenant_id = t, pa_correlation_id = w_uuid w (n + 2), pa_anno = anno, pa_duration_ms = ms1,
         pa_started_at = DateTime (w_clock w (k + 1)) True, pa_gwp_set = g1, pa_regulatory_stream = s1,
         pa_created_by = by, pa_run_id = None, pa_dual_run_id = Some (w_uuid w (n + 1)),
         pa_calc_timestamp = None\<rparr> (w_uuid w n) (length rs1) (DateTime (w_clock w k) True)),
       InsertCalcRun (calc_run_row
        \<lparr>pa_tenant_id = t, pa_correlation_id = w_uuid w (n + 2), pa_anno = anno, pa_duration_ms = ms2,
         pa_started_at = DateTime (w_clock w (k + 1)) True, pa_gwp_set = g2, pa_regulatory_stream = s2,
         pa_created_by = by, pa_run_id = None, pa_dual_run_id = Some (w_uuid w n),
         pa_calc_timestamp = None\<rparr> (w_uuid w (n + 1)) (length rs2) (DateTime (w_clock w k) True))]"
    by (auto simp: persist_dual_statements_def mbind_eq_Inr)
  then show thesis
    by (rule that [OF calc]) (simp_all add: track_row_def calc_run_row_def x)
qed

context emission_store
begin

lemma dual_rows:
  assumes "run_dual_track_and_persist draw sc src t anno g1 s1 g2 s2 by ms1 ms2 db w = (Inr (x, w'), db')"
  shows "\<exists>rs1 rs2 es1 es2 row1 row2.
    track_rows t (dp_correlation_id x) g1 s1 rs1 es1 \<and> track_rows t (dp_correlation_id x) g2 s2 rs2 es2 \<and>
    lg_emissions db' = lg_emissions db @ es1 @ es2 \<and> lg_runs db' = lg_runs db @ [row1, row2] \<and>
    track_row t (dp_correlation_id x) anno (cp_run_id (dp_csrd_result x)) (cp_run_id (dp_ets_result x))
      g1 s1 (length es1) (DateTime (w_clock w (w_ticks w + 1)) True) (dp_calc_timestamp x) row1 \<and>
    track_row t (dp_correlation_id x) anno (cp_run_id (dp_ets_result x)) (cp_run_id (dp_csrd_result x))
      g2 s2 (length es2) (DateTime (w_clock w (w_ticks w + 1)) True) (dp_calc_timestamp x) row2 \<and>
    dp_calc_timestamp x = DateTime (w_clock w (w_ticks w)) True"
proof -
  obtain stmts where exec: "exec_statements sc stmts db = Inr db'"
    and body: "dual_track_body draw src t anno g1 s1 g2 s2 by ms1 ms2 w = Inr ((x, stmts), w')"
    using commit_statements_cases [OF assms [unfolded run_dual_track_and_persist_def]] by auto
  obtain rs1 rs2 ps qs row1 row2 v1 v1' v2 v2' u1 u1' u2 u2' where
    runs: "run_calc draw src t anno (dp_correlation_id x) g1 s1 by v1 = Inr (rs1, v1')"
      "run_calc draw src t anno (dp_correlation_id x) g2 s2 by v2 = Inr (rs2, v2')"
    and ps: "emission_params t rs1 u1 = Inr (ps, u1')" "emission_params t rs2 u2 = Inr (qs, u2')"
    and stmts: "stmts = insert_emissions_stmt ps @ insert_emissions_stmt qs @
      [InsertCalcRun row1, InsertCalcRun row2]"
    and rows: "track_row t (dp_correlation_id x) anno (cp_run_id (dp_csrd_result x))
        (cp_run_id (dp_ets_result x)) g1 s1 (length rs1) (DateTime (w_clock w (w_ticks w + 1)) True)
        (dp_calc_timestamp x) row1"
      "track_row t (dp_correlation_id x) anno (cp_run_id (dp_ets_result x))
        (cp_run_id (dp_csrd_result x)) g2 s2 (length rs2) (DateTime (w_clock w (w_ticks w + 1)) True)
        (dp_calc_timestamp x) row2"
    and ts: "dp_calc_timestamp x = DateTime (w_clock w (w_ticks w)) True"
    using dual_body_parts [OF body] by metis
  obtain es1 d1 where e1: "list_all2 (row_of t) rs1 es1" "lg_emissions d1 = lg_emissions db @ es1"
    "lg_runs d1 = lg_runs db"
    and ex1: "exec_statements sc (insert_emissions_stmt qs @ [InsertCalcRun row1, InsertCalcRun row2]) d1 = Inr db'"
    using exec_insert_emissions [OF exec [unfolded stmts] emission_params_rowsD(1) [OF ps(1)]] by blast
  obtain es2 d2 where e2: "list_all2 (row_of t) rs2 es2" "lg_emissions d2 = lg_emissions d1 @ es2"
    "lg_runs d2 = lg_runs d1"
    and ex2: "exec_statements sc [InsertCalcRun row1, InsertCalcRun row2] d2 = Inr db'"
    using exec_insert_emissions [OF ex1 emission_params_rowsD(1) [OF ps(2)]] by blast
  have "track_rows t (dp_correlation_id x) g1 s1 rs1 es1"
    by (rule track_rowsI [OF e1(1)]) (use run_calc_records [OF runs(1)] in blast)
  moreover have "track_rows t (dp_correlation_id x) g2 s2 rs2 es2"
    by (rule track_rowsI [OF e2(1)]) (use run_calc_records [OF runs(2)] in blast)
  moreover have "length es1 = length rs1" "length es2 = length rs2"
    using e1(1) e2(1) by (simp_all add: list_all2_lengthD)
  ultimately show ?thesis
    using exec_insert_runs(2) [OF ex2] e1 e2 rows ts
    by (intro exI [of _ rs1] exI [of _ rs2] exI [of _ es1] exI [of _ es2] exI [of _ row1] exI [of _ row2])
      simp
qed

end

section \<open>A small database\<close>

definition demo_factor_ids :: "string list" where
  "demo_factor_ids =
     [''STOICH_CACO3_IPCC_2006'', ''LB_IT_GRID_ISPRA_2024'', ''MB_GO_ZERO'', ''MB_IT_RESIDUAL_AIB_2024'',
      ''WTT_ELEC_DEFRA_2025'', ''TND_ELEC_IT_DEFRA_2025'', ''COMMUTE_CAR_DEFRA_2025'',
      ''ECOINV_LANDFILL_INERT_V3_10'', ''ECOINV_CDW_RECYCLE_V3_10'']"

definition demo_db_row :: "string \<Rightarrow> string \<Rightarrow> CatalogRow" where
  "demo_db_row gs fid = (demo_catalog_row 1 (demo_value fid))\<lparr>cr_factor_id := fid, cr_gwp_set := gs\<rparr>"

definition demo_src :: source_db where
  "demo_src =
     \<lparr>sd_raw = \<lparr>rt_scope1 = [],
        rt_scope2 = [[''tenant_id'' \<mapsto> PUuid 1, ''anno'' \<mapsto> PInt 2025, ''codice_sito'' \<mapsto> PStr ''IANO'',
                      ''quantita'' \<mapsto> PInt 5000]], rt_scope3 = []\<rparr>,
      sd_catalog = map (demo_db_row ''AR6'') demo_factor_ids @ map (demo_db_row ''AR5'') demo_factor_ids\<rparr>"

definition plain_schema :: schema where
  "plain_schema = \<lparr>sc_emission = (\<lambda>db p. Inr p), sc_run = (\<lambda>db r. Inr r), sc_commit = (\<lambda>db new. Inr ())\<rparr>"

definition empty_ledger :: ledger where
  "empty_ledger = \<lparr>lg_emissions = [], lg_runs = []\<rparr>"

lemma plain_store: "emission_store plain_schema"
  by unfold_locales (simp_all add: plain_schema_def)

lemma filter_eq_single: "distinct xs \<Longrightarrow> x \<in> set xs \<Longrightarrow> filter (\<lambda>y. y = x) xs = [x]"
  by (induction xs) (auto simp: filter_empty_conv)

lemma demo_live:
  assumes "fid \<in> set demo_factor_ids" and "gs = ''AR6'' \<or> gs = ''AR5''"
  shows "filter (\<lambda>r. cr_tenant_id r = 1 \<and> cr_factor_id r = fid \<and> cr_gwp_set r = gs \<and> cr_is_published r \<and>
    cr_valid_to r = None) (sd_catalog demo_src) = [demo_db_row gs fid]"
proof -
  have sel: "(cr_tenant_id (demo_db_row g i) = 1 \<and> cr_factor_id (demo_db_row g i) = fid \<and>
      cr_gwp_set (demo_db_row g i) = gs \<and> cr_is_published (demo_db_row g i) \<and>
      cr_valid_to (demo_db_row g i) = None) \<longleftrightarrow> i = fid \<and> g = gs" for g i
    by (simp add: demo_db_row_def demo_catalog_row_def)
  have "distinct demo_factor_ids" by (simp add: demo_factor_ids_def)
  from filter_eq_single [OF this assms(1)] assms(2) show ?thesis
    by (auto simp: demo_src_def filter_map comp_def sel)
qed

lemma demo_fetch:
  assumes "fid \<in> set demo_factor_ids" and "gs = ''AR6'' \<or> gs = ''AR5''"
  shows "\<exists>f. require_factor (sql_catalog (sd_catalog demo_src) 1) fid gs None = Inr f \<and>
    fr_value f = Some (demo_value fid)"
proof -
  have "\<exists>f. adapter_fetch (sd_catalog demo_src) 1 fid gs None = Inr f \<and> fr_value f = Some (demo_value fid)"
    using demo_live [OF assms]
    by (simp add: adapter_fetch_def select_factor_def latest_def row_to_factor_record_ok
        demo_db_row_def demo_catalog_row_def)
  then show ?thesis by (auto simp: require_factor_def sql_catalog_def)
qed

abbreviation demo_sql :: FactorCatalogPort where
  "demo_sql \<equiv> sql_catalog (sd_catalog demo_src) 1"

text \<open>The Scope 2 row as the run reads it.\<close>

definition demo_s2 :: row where
  "demo_s2 = [''tenant_id'' \<mapsto> PUuid 1, ''anno'' \<mapsto> PInt 2025, ''codice_sito'' \<mapsto> PStr ''IANO'',
     ''quantita'' \<mapsto> PInt 5000] |` set SCOPE2_COLUMNS"

lemma demo_s2_lookup [simp]:
  "row_str demo_s2 ''codice_sito'' = Inr ''IANO''" "row_int demo_s2 ''anno'' = Inr 2025"
  "row_decimal demo_s2 ''quantita'' = Inr (Dec False 5000 0)"
  "row_get_default demo_s2 ''strumento_mb'' v = v" "row_get_default demo_s2 ''id'' v = v"
  "row_get_default demo_s2 ''voce_s2'' v = v"
  by (simp_all add: row_str_def row_int_def row_decimal_def row_get_def row_get_default_def demo_s2_def
      SCOPE2_COLUMNS_def dec_of_int_def)

lemma demo_src_inputs:
  "run_inputs (sd_raw demo_src) 1 2025 corr by stream =
     \<lparr>ci_correlation_id = corr, ci_anno = 2025, ci_sites = [], ci_scope1_rows = [],
      ci_scope2_rows = [demo_s2], ci_scope3_rows = [], ci_created_by = by,
      ci_regulatory_stream = stream, ci_go_evidence = None\<rparr>"
  by (simp add: run_inputs_def load_raw_rows_def demo_src_def select_raw_def select_sites_def demo_s2_def)

lemma demo_sql_factor:
  assumes "fid \<in> set demo_factor_ids" and "g = AR6 \<or> g = AR5"
  obtains f where "require_factor demo_sql fid (gv_code g) None = Inr f"
    "fr_value f = Some (demo_value fid)"
  using demo_fetch [OF assms(1), of "gv_code g"] assms(2) by (auto simp: AR6_def AR5_def)

lemma demo_sql_plans:
  assumes g: "g = AR6 \<or> g = AR5"
  shows "good_plan (scope1_process_plan [] demo_sql g ctx) 0"
    and "good_plan (scope2_lb_plan [demo_s2] demo_sql g ctx) 1"
    and "good_plan (scope2_mb_plan [demo_s2] None demo_sql g ctx) 1"
    and "dec_nonneg y \<Longrightarrow> good_plan (cat3_plan [] [(2025, y)] demo_sql g ctx) 2"
    and "good_plan (cat7_plan [] demo_sql g ctx) 0"
    and "good_plan (cat12_plan [] demo_sql g ctx) 0"
proof -
  obtain f1 where f1: "require_factor demo_sql ''STOICH_CACO3_IPCC_2006'' (gv_code g) None = Inr f1"
    "fr_value f1 = Some (demo_value ''STOICH_CACO3_IPCC_2006'')"
    by (rule demo_sql_factor [OF _ g, of "''STOICH_CACO3_IPCC_2006''"]) (simp add: demo_factor_ids_def)
  then show "good_plan (scope1_process_plan [] demo_sql g ctx) 0"
    by (simp add: good_plan_def scope1_process_plan_def scope1_process_factor_def PROCESS_FACTOR_ID_def
        demo_value_def STOICH_VALUE_def dec_eq_def)
  obtain f2 where f2: "require_factor demo_sql ''LB_IT_GRID_ISPRA_2024'' (gv_code g) None = Inr f2"
    "fr_value f2 = Some (demo_value ''LB_IT_GRID_ISPRA_2024'')"
    by (rule demo_sql_factor [OF _ g, of "''LB_IT_GRID_ISPRA_2024''"]) (simp add: demo_factor_ids_def)
  then show "good_plan (scope2_lb_plan [demo_s2] demo_sql g ctx) 1"
    by (auto simp: good_plan_def scope2_lb_plan_def LB_FACTOR_ID_def scope2_lb_row_def Let_def
        intro!: nonneg_intros)
  obtain f3 where f3: "require_factor demo_sql ''MB_GO_ZERO'' (gv_code g) None = Inr f3"
    by (rule demo_sql_factor [OF _ g, of "''MB_GO_ZERO''"]) (simp add: demo_factor_ids_def)
  obtain f4 where f4: "require_factor demo_sql ''MB_IT_RESIDUAL_AIB_2024'' (gv_code g) None = Inr f4"
    "fr_value f4 = Some (demo_value ''MB_IT_RESIDUAL_AIB_2024'')"
    by (rule demo_sql_factor [OF _ g, of "''MB_IT_RESIDUAL_AIB_2024''"]) (simp add: demo_factor_ids_def)
  with f3 show "good_plan (scope2_mb_plan [demo_s2] None demo_sql g ctx) 1"
    by (auto simp: good_plan_def scope2_mb_plan_def FACTOR_ID_GO_ZERO_def FACTOR_ID_RESIDUAL_def
        scope2_mb_build_record_def scope2_mb_decide_def Let_def intro!: nonneg_intros)
  obtain f5 where f5: "require_factor demo_sql ''WTT_ELEC_DEFRA_2025'' (gv_code g) None = Inr f5"
    "fr_value f5 = Some (demo_value ''WTT_ELEC_DEFRA_2025'')"
    by (rule demo_sql_factor [OF _ g, of "''WTT_ELEC_DEFRA_2025''"]) (simp add: demo_factor_ids_def)
  obtain f6 where f6: "require_factor demo_sql ''TND_ELEC_IT_DEFRA_2025'' (gv_code g) None = Inr f6"
    "fr_value f6 = Some (demo_value ''TND_ELEC_IT_DEFRA_2025'')"
    by (rule demo_sql_factor [OF _ g, of "''TND_ELEC_IT_DEFRA_2025''"]) (simp add: demo_factor_ids_def)
  show "good_plan (cat3_plan [] [(2025, y)] demo_sql g ctx) 2" if "dec_nonneg y"
    using f5 f6 that
    by (auto simp: good_plan_def cat3_plan_def ELEC_WTT_ID_def TND_ELEC_IT_ID_def cat3_elec_entry_def
        cat3_tnd_entry_def sigma_get_def intro!: nonneg_intros)
  obtain f7 where "require_factor demo_sql ''COMMUTE_CAR_DEFRA_2025'' (gv_code g) None = Inr f7"
    by (rule demo_sql_factor [OF _ g, of "''COMMUTE_CAR_DEFRA_2025''"]) (simp add: demo_factor_ids_def)
  then show "good_plan (cat7_plan [] demo_sql g ctx) 0"
    by (simp add: good_plan_def cat7_plan_def CAT7_FACTOR_ID_def)
  obtain f8 where f8: "require_factor demo_sql ''ECOINV_LANDFILL_INERT_V3_10'' (gv_code g) None = Inr f8"
    by (rule demo_sql_factor [OF _ g, of "''ECOINV_LANDFILL_INERT_V3_10''"]) (simp add: demo_factor_ids_def)
  obtain f9 where "require_factor demo_sql ''ECOINV_CDW_RECYCLE_V3_10'' (gv_code g) None = Inr f9"
    by (rule demo_sql_factor [OF _ g, of "''ECOINV_CDW_RECYCLE_V3_10''"]) (simp add: demo_factor_ids_def)
  with f8 show "good_plan (cat12_plan [] demo_sql g ctx) 0"
    by (simp add: good_plan_def cat12_plan_def LANDFILL_FACTOR_ID_def RECYCLE_FACTOR_ID_def)
qed

end
