(* ===== verification/Ledger_Invariants.thy ===== *)
theory Ledger_Invariants
  imports Emission_Ledger
begin

text \<open>
  The ledger as a state machine: its steps are committed transactions, calls of the correction
  procedure, and direct UPDATE or DELETE statements, with or without the session variable that
  opens the trigger. The invariants of the reachable ledgers are
  proved by induction on the steps, one preservation lemma per operation.
\<close>

section \<open>Invariants\<close>

text \<open>Keys, row checks and references of the emissions table.\<close>

definition site_row :: "EmissionRow \<Rightarrow> bool" where
  "site_row e \<longleftrightarrow> active e \<and> overlap_key e \<noteq> None"

definition rows_inv :: "string list \<Rightarrow> string list \<Rightarrow> EmissionRow list \<Rightarrow> bool" where
  "rows_inv tenants factor_ids es \<longleftrightarrow>
     distinct (map ep_id es) \<and> distinct (map natural_key (filter active es)) \<and>
     distinct (map overlap_key (filter site_row es)) \<and>
     (\<forall>e\<in>set es. emission_checks e \<and> ep_tenant_id e \<in> set tenants \<and> ep_factor_id e \<in> set factor_ids)"

definition emissions_inv :: "string list \<Rightarrow> string list \<Rightarrow> EmissionRow list \<Rightarrow> bool" where
  "emissions_inv tenants factor_ids es \<longleftrightarrow>
     rows_inv tenants factor_ids es \<and> (\<forall>e\<in>set es. \<forall>s. ep_superseded_by e = Some s \<longrightarrow> s \<in> ep_id ` set es)"

text \<open>A run row and the row it is paired with.\<close>

definition paired_ok :: "CalcRunRow list \<Rightarrow> CalcRunRow \<Rightarrow> bool" where
  "paired_ok runs r \<longleftrightarrow>
     (\<forall>d. rr_dual_run_id r = Some d \<longrightarrow>
        (\<exists>p\<in>set runs. rr_id p = d \<and> rr_tenant_id p = rr_tenant_id r \<and> rr_anno p = rr_anno r \<and>
           rr_regulatory_stream p \<noteq> rr_regulatory_stream r \<and>
           (rr_dual_run_id p = None \<or> rr_dual_run_id p = Some (rr_id r))))"

definition runs_inv :: "string list \<Rightarrow> CalcRunRow list \<Rightarrow> bool" where
  "runs_inv tenants runs \<longleftrightarrow>
     distinct (map rr_id runs) \<and>
     (\<forall>r\<in>set runs. rr_tenant_id r \<in> set tenants \<and> rr_dual_run_id r \<noteq> Some (rr_id r))"

definition ledger_inv :: "string list \<Rightarrow> string list \<Rightarrow> ledger \<Rightarrow> bool" where
  "ledger_inv tenants factor_ids db \<longleftrightarrow>
     emissions_inv tenants factor_ids (lg_emissions db) \<and> runs_inv tenants (lg_runs db) \<and>
     (\<forall>r\<in>set (lg_runs db). paired_ok (lg_runs db) r)"

lemma paired_ok_mono: "paired_ok runs r \<Longrightarrow> set runs \<subseteq> set runs' \<Longrightarrow> paired_ok runs' r"
  unfolding paired_ok_def by blast

section \<open>Transactions\<close>

lemma rows_inv_middle:
  assumes "rows_inv tenants factor_ids (past @ es)" and "emission_unique (past @ es) q" and "emission_checks q"
    and "ep_tenant_id q \<in> set tenants" and "ep_factor_id q \<in> set factor_ids"
  shows "rows_inv tenants factor_ids (past @ q # es)"
proof -
  have key: "active q \<Longrightarrow> natural_key q \<notin> natural_key ` set (filter active (past @ es))"
    and overlap: "site_row q \<Longrightarrow> overlap_key q \<notin> overlap_key ` set (filter site_row (past @ es))"
    using assms(2) by (auto simp: emission_unique_def site_row_def)
  have "distinct (map natural_key (filter active (past @ q # es)))" if "active q"
    using assms(1) key [OF that] by (auto simp: rows_inv_def)
  moreover have "distinct (map overlap_key (filter site_row (past @ q # es)))" if "site_row q"
    using assms(1) overlap [OF that] by (auto simp: rows_inv_def)
  moreover have "distinct (map ep_id (past @ q # es))"
    using assms(1,2) by (auto simp: rows_inv_def emission_unique_def)
  moreover have "distinct (map natural_key (filter active (past @ q # es)))" if "\<not> active q"
    using assms(1) that by (simp add: rows_inv_def)
  moreover have "distinct (map overlap_key (filter site_row (past @ q # es)))" if "\<not> site_row q"
    using assms(1) that by (simp add: rows_inv_def)
  ultimately show ?thesis
    using assms(1,3-5) unfolding rows_inv_def by (auto simp del: map_append filter_append filter.simps distinct_append)
qed

lemma rows_inv_delete: "rows_inv tenants factor_ids (past @ e # es) \<Longrightarrow> rows_inv tenants factor_ids (past @ es)"
  by (auto simp: rows_inv_def split: if_splits)

lemma insert_emission_inv:
  assumes "emissions_inv tenants factor_ids (lg_emissions db)"
    and "insert_emission tenants factor_ids db p = Inr q"
  shows "emissions_inv tenants factor_ids (lg_emissions db @ [q])"
proof -
  have "\<forall>s. ep_superseded_by q = Some s \<longrightarrow> s \<in> insert (ep_id q) (ep_id ` set (lg_emissions db))"
    using assms(2) by (auto simp: insert_emission_def rbind_eq_Inr split: if_splits option.splits)
  moreover have "rows_inv tenants factor_ids (lg_emissions db @ [q])"
    using assms(1) insert_emission_stored [OF assms(2)]
    by (intro rows_inv_middle [where es = "[]"]) (simp_all add: emissions_inv_def)
  ultimately show ?thesis using assms(1) by (auto simp: emissions_inv_def)
qed

lemma exec_emissions_inv:
  "exec_emissions (migrated_schema fk tenants factor_ids) ps db = Inr db' \<Longrightarrow>
   emissions_inv tenants factor_ids (lg_emissions db) \<Longrightarrow>
   emissions_inv tenants factor_ids (lg_emissions db') \<and> lg_runs db' = lg_runs db"
proof (induction ps arbitrary: db)
  case Nil
  then show ?case by simp
next
  case (Cons p ps)
  then obtain q where q: "insert_emission tenants factor_ids db p = Inr q"
    and rest: "exec_emissions (migrated_schema fk tenants factor_ids) ps
      (db\<lparr>lg_emissions := lg_emissions db @ [q]\<rparr>) = Inr db'"
    by (auto simp: rbind_eq_Inr migrated_schema_def)
  from Cons.IH [OF rest] insert_emission_inv [OF Cons.prems(2) q] show ?case by simp
qed

lemma insert_run_inv:
  "runs_inv tenants (lg_runs db) \<Longrightarrow> insert_run fk tenants db r = Inr q \<Longrightarrow>
   runs_inv tenants (lg_runs db @ [q])"
  by (auto simp: runs_inv_def insert_run_def split: if_splits)

lemma exec_statements_inv:
  "exec_statements (migrated_schema fk tenants factor_ids) ss db = Inr db' \<Longrightarrow>
   emissions_inv tenants factor_ids (lg_emissions db) \<Longrightarrow> runs_inv tenants (lg_runs db) \<Longrightarrow>
   emissions_inv tenants factor_ids (lg_emissions db') \<and> runs_inv tenants (lg_runs db')"
proof (induction ss arbitrary: db)
  case Nil
  then show ?case by simp
next
  case (Cons s ss)
  then obtain db1 where step: "exec_statement (migrated_schema fk tenants factor_ids) s db = Inr db1"
    "exec_statements (migrated_schema fk tenants factor_ids) ss db1 = Inr db'"
    by (auto simp: rbind_eq_Inr)
  have "emissions_inv tenants factor_ids (lg_emissions db1) \<and> runs_inv tenants (lg_runs db1)"
  proof (cases s)
    case (InsertEmissions ps)
    with step(1) Cons.prems exec_emissions_inv show ?thesis by fastforce
  next
    case (InsertCalcRun r)
    with step(1) Cons.prems(2,3) show ?thesis
      by (auto simp: rbind_eq_Inr migrated_schema_def intro: insert_run_inv)
  qed
  with Cons.IH [OF step(2)] show ?case by blast
qed

lemma reciprocity_paired:
  assumes "enforce_dual_run_reciprocity runs r = Inr ()"
  shows "paired_ok runs r"
  unfolding paired_ok_def
proof (intro allI impI)
  fix d
  assume d: "rr_dual_run_id r = Some d"
  with assms obtain p where p: "find (\<lambda>p. rr_id p = d) runs = Some p"
    by (auto simp: enforce_dual_run_reciprocity_def split: option.splits)
  then have "p \<in> set runs" "rr_id p = d"
    by (auto simp: find_Some_iff)
  with assms d p show "\<exists>p\<in>set runs. rr_id p = d \<and> rr_tenant_id p = rr_tenant_id r \<and>
      rr_anno p = rr_anno r \<and> rr_regulatory_stream p \<noteq> rr_regulatory_stream r \<and>
      (rr_dual_run_id p = None \<or> rr_dual_run_id p = Some (rr_id r))"
    by (intro bexI [of _ p]) (auto simp: enforce_dual_run_reciprocity_def split: if_splits)
qed

lemma check_all_Inr: "check_all f xs = Inr () \<longleftrightarrow> (\<forall>x\<in>set xs. f x = Inr ())"
  by (induction xs) (auto simp: rbind_eq_Inr)

lemma transaction_inv:
  assumes "transaction (migrated_schema fk tenants factor_ids) stmts db = (Inr (), db')"
    and "ledger_inv tenants factor_ids db"
  shows "ledger_inv tenants factor_ids db'"
proof -
  have exec: "exec_statements (migrated_schema fk tenants factor_ids) stmts db = Inr db'"
    and commit: "sc_commit (migrated_schema fk tenants factor_ids) db'
      (drop (length (lg_runs db)) (lg_runs db')) = Inr ()"
    using transaction_cases [OF assms(1)] by auto
  obtain rs where rs: "lg_runs db' = lg_runs db @ rs"
    using exec_statements_append_only [OF exec] by blast
  have "\<forall>r\<in>set rs. paired_ok (lg_runs db') r"
    using commit rs by (auto simp: migrated_schema_def check_all_Inr intro: reciprocity_paired split: if_splits)
  moreover have "paired_ok (lg_runs db') r" if "r \<in> set (lg_runs db)" for r
    using assms(2) that rs by (auto simp: ledger_inv_def intro: paired_ok_mono)
  ultimately show ?thesis
    using exec_statements_inv [OF exec] assms(2) rs by (auto simp: ledger_inv_def)
qed

section \<open>Corrections\<close>

definition close_row :: "string \<Rightarrow> string \<Rightarrow> string \<Rightarrow> datetime \<Rightarrow> EmissionRow \<Rightarrow> EmissionRow" where
  "close_row predecessor_id new_id reason_code now e =
     (if ep_id e = predecessor_id \<and> active e
      then e\<lparr>ep_valid_to := Some now, ep_superseded_by := Some new_id, ep_reason_code := Some reason_code\<rparr>
      else e)"

lemma fn_emit_correction_Inr:
  "fn_emit_correction predecessor_id new_id reason_code now db = Inr db' \<longleftrightarrow>
     reason_code \<in> set CORRECTION_REASONS \<and>
     (\<exists>e\<in>set (lg_emissions db). ep_id e = predecessor_id \<and> active e) \<and>
     new_id \<in> ep_id ` set (lg_emissions db) \<and>
     db' = db\<lparr>lg_emissions := map (close_row predecessor_id new_id reason_code now) (lg_emissions db)\<rparr>"
proof -
  have "close_row predecessor_id new_id reason_code now =
      (\<lambda>e. if ep_id e = predecessor_id \<and> active e
           then e\<lparr>ep_valid_to := Some now, ep_superseded_by := Some new_id,
                  ep_reason_code := Some reason_code\<rparr> else e)"
    by (rule ext) (simp add: close_row_def)
  then show ?thesis
    by (auto simp: fn_emit_correction_def list_ex_iff)
qed

lemma close_row_simps [simp]:
  "ep_id (close_row i n c t e) = ep_id e" "natural_key (close_row i n c t e) = natural_key e"
  "overlap_key (close_row i n c t e) = overlap_key e"
  "active (close_row i n c t e) \<longleftrightarrow> active e \<and> ep_id e \<noteq> i"
  "ep_tenant_id (close_row i n c t e) = ep_tenant_id e" "ep_factor_id (close_row i n c t e) = ep_factor_id e"
  by (auto simp: close_row_def natural_key_def overlap_key_def active_def)

lemma close_row_checks: "emission_checks e \<Longrightarrow> emission_checks (close_row i n c t e)"
  by (simp add: close_row_def emission_checks_def)

lemma close_row_site [simp]: "site_row (close_row i n c t e) \<longleftrightarrow> site_row e \<and> ep_id e \<noteq> i"
  by (auto simp: site_row_def)

lemma close_rows_keys:
  "map natural_key (filter active (map (close_row i n c t) es)) =
   map natural_key (filter (\<lambda>e. ep_id e \<noteq> i) (filter active es))"
  "map overlap_key (filter site_row (map (close_row i n c t) es)) =
   map overlap_key (filter (\<lambda>e. ep_id e \<noteq> i) (filter site_row es))"
  by (induction es) auto

lemma close_rows_inv:
  assumes "emissions_inv tenants factor_ids es" and "n \<in> ep_id ` set es"
  shows "emissions_inv tenants factor_ids (map (close_row i n c t) es)"
proof -
  have ids: "map ep_id (map (close_row i n c t) es) = map ep_id es" by simp
  then have ids': "ep_id ` set (map (close_row i n c t) es) = ep_id ` set es"
    by (metis list.set_map)
  have "distinct (map natural_key (filter active (map (close_row i n c t) es)))"
    "distinct (map overlap_key (filter site_row (map (close_row i n c t) es)))"
    using assms(1) unfolding close_rows_keys emissions_inv_def rows_inv_def by (blast intro: distinct_map_filter)+
  moreover have "s \<in> ep_id ` set es" if "e \<in> set es" "ep_superseded_by (close_row i n c t e) = Some s" for e s
    using that assms by (auto simp: close_row_def emissions_inv_def split: if_splits)
  ultimately show ?thesis
    using assms(1) close_row_checks unfolding emissions_inv_def rows_inv_def ids ids' by auto
qed

lemma correction_inv:
  "fn_emit_correction i n c t db = Inr db' \<Longrightarrow> ledger_inv tenants factor_ids db \<Longrightarrow>
   ledger_inv tenants factor_ids db'"
  by (auto simp: fn_emit_correction_Inr ledger_inv_def intro!: close_rows_inv)

section \<open>Direct changes\<close>

text \<open>The columns the trigger protects even when the session variable is set.\<close>

definition protected_kept :: "EmissionRow \<Rightarrow> EmissionRow \<Rightarrow> bool" where
  "protected_kept e e' \<longleftrightarrow>
     ep_id e' = ep_id e \<and> dec_val (ep_tco2e e') = dec_val (ep_tco2e e) \<and> ep_factor_id e' = ep_factor_id e \<and>
     ep_factor_version e' = ep_factor_version e \<and> ep_gwp_set e' = ep_gwp_set e \<and> ep_methodology e' = ep_methodology e \<and>
     ep_scope e' = ep_scope e \<and> ep_anno e' = ep_anno e \<and> ep_codice_sito e' = ep_codice_sito e"

lemma protected_kept_iff: "\<not> protected_changed e e' \<longleftrightarrow> protected_kept e e'"
  by (auto simp: protected_changed_def protected_kept_def dec_cmp_value)

lemma protected_kept_refl [simp]: "protected_kept e e"
  by (simp add: protected_kept_def)

lemma protected_kept_trans: "protected_kept e e1 \<Longrightarrow> protected_kept e1 e2 \<Longrightarrow> protected_kept e e2"
  by (simp add: protected_kept_def)

lemma deny_Inr:
  "deny_emissions_mutation in_correction e new = Inr q \<longleftrightarrow> new = Some q \<and> in_correction \<and> protected_kept e q"
  by (auto simp: deny_emissions_mutation_def simp flip: protected_kept_iff split: option.splits if_splits)

lemma update_emissions_Inr:
  assumes "update_emissions in_correction tenants factor_ids change past es = Inr es'"
  shows "\<exists>new. es' = past @ new \<and> list_all2 protected_kept es new \<and> (\<not> in_correction \<longrightarrow> new = es)"
  using assms
proof (induction es arbitrary: past)
  case (Cons e es)
  obtain q where q: "protected_kept e q" "\<not> in_correction \<longrightarrow> q = e"
    and rest: "update_emissions in_correction tenants factor_ids change (past @ [q]) es = Inr es'"
  proof (cases "change e")
    case None
    with Cons.prems that [of e] show thesis by simp
  next
    case (Some new)
    with Cons.prems that show thesis by (auto simp: rbind_eq_Inr deny_Inr split: option.splits if_splits)
  qed
  from Cons.IH [OF rest] q show ?case by auto
qed simp

lemma update_emissions_inv:
  assumes "update_emissions in_correction tenants factor_ids change past es = Inr es'"
    and "rows_inv tenants factor_ids (past @ es)"
  shows "rows_inv tenants factor_ids es'"
  using assms
proof (induction es arbitrary: past)
  case (Cons e es)
  from Cons.prems(1) obtain q where
    q: "q = e \<or> emission_unique (past @ es) q \<and> emission_checks q \<and> ep_tenant_id q \<in> set tenants \<and> ep_factor_id q \<in> set factor_ids"
    and rest: "update_emissions in_correction tenants factor_ids change (past @ [q]) es = Inr es'"
    by (cases "change e") (auto simp: rbind_eq_Inr deny_Inr split: option.splits if_splits)
  have "rows_inv tenants factor_ids (past @ q # es)"
    using q Cons.prems(2) rows_inv_middle [OF rows_inv_delete [OF Cons.prems(2)]] by blast
  with Cons.IH [OF rest] show ?case by simp
qed simp

lemma mutation_inv:
  "mutate_emissions in_correction tenants factor_ids change db = Inr db' \<Longrightarrow> ledger_inv tenants factor_ids db \<Longrightarrow>
   ledger_inv tenants factor_ids db'"
  using update_emissions_inv [of in_correction tenants factor_ids change "[]" "lg_emissions db"]
  by (fastforce simp: mutate_emissions_def ledger_inv_def emissions_inv_def successors_exist_def rbind_eq_Inr split: if_splits)

section \<open>The state machine\<close>

text \<open>\<open>guc\<close> says whether a session may set \<open>app.correction_in_progress\<close> itself.\<close>

inductive ledger_step :: "bool \<Rightarrow> bool \<Rightarrow> string list \<Rightarrow> string list \<Rightarrow> ledger \<Rightarrow> ledger \<Rightarrow> bool"
  for guc fk tenants factor_ids where
  commit: "transaction (migrated_schema fk tenants factor_ids) stmts db = (Inr (), db') \<Longrightarrow>
     ledger_step guc fk tenants factor_ids db db'"
| correct: "fn_emit_correction predecessor_id new_id reason_code now db = Inr db' \<Longrightarrow>
     ledger_step guc fk tenants factor_ids db db'"
| mutate_run: "mutate_runs hit db = Inr db' \<Longrightarrow> ledger_step guc fk tenants factor_ids db db'"
| mutate_emission: "in_correction \<longrightarrow> guc \<Longrightarrow> mutate_emissions in_correction tenants factor_ids change db = Inr db' \<Longrightarrow>
     ledger_step guc fk tenants factor_ids db db'"

inductive_cases ledger_stepE: "ledger_step guc fk tenants factor_ids db db'"

lemma ledger_step_inv:
  "ledger_step guc fk tenants factor_ids db db' \<Longrightarrow> ledger_inv tenants factor_ids db \<Longrightarrow>
   ledger_inv tenants factor_ids db'"
  by (erule ledger_stepE)
    (auto simp: mutate_runs_def intro: transaction_inv correction_inv mutation_inv split: if_splits)

lemma reachable_inv:
  assumes "(ledger_step guc fk tenants factor_ids)\<^sup>*\<^sup>* db db'" and "ledger_inv tenants factor_ids db"
  shows "ledger_inv tenants factor_ids db'"
  using assms by (induction rule: rtranclp_induct) (auto intro: ledger_step_inv)

subsection \<open>History\<close>

text \<open>What a later version of a row may differ in: nothing once it is closed, else its closing.\<close>

definition row_later :: "EmissionRow \<Rightarrow> EmissionRow \<Rightarrow> bool" where
  "row_later e e' \<longleftrightarrow>
     e' = e \<or>
     active e \<and> (\<exists>t n c. c \<in> set CORRECTION_REASONS \<and>
       e' = e\<lparr>ep_valid_to := Some t, ep_superseded_by := Some n, ep_reason_code := Some c\<rparr>)"

definition ledger_later :: "ledger \<Rightarrow> ledger \<Rightarrow> bool" where
  "ledger_later db db' \<longleftrightarrow>
     (\<exists>es new. lg_emissions db' = es @ new \<and> list_all2 row_later (lg_emissions db) es) \<and>
     (\<exists>runs. lg_runs db' = lg_runs db @ runs)"

lemma row_later_refl [simp]: "row_later e e"
  by (simp add: row_later_def)

lemma row_later_stream: "row_later e e' \<Longrightarrow> ep_regulatory_stream e' = ep_regulatory_stream e"
  by (auto simp: row_later_def)

lemma row_later_trans: "row_later e e1 \<Longrightarrow> row_later e1 e2 \<Longrightarrow> row_later e e2"
  by (auto simp: row_later_def active_def)

lemma rows_later_refl [simp]: "list_all2 row_later es es"
  by (rule list_all2_refl) simp

lemma ledger_later_append:
  "lg_emissions db' = lg_emissions db @ new \<Longrightarrow> lg_runs db' = lg_runs db @ runs \<Longrightarrow> ledger_later db db'"
  using rows_later_refl [of "lg_emissions db"] unfolding ledger_later_def by blast

lemma ledger_later_refl [simp]: "ledger_later db db"
  by (rule ledger_later_append [of _ _ "[]" "[]"]) simp_all

lemma ledger_later_trans:
  assumes "ledger_later db db1" and "ledger_later db1 db2"
  shows "ledger_later db db2"
proof -
  obtain es new where 1: "lg_emissions db1 = es @ new" "list_all2 row_later (lg_emissions db) es"
    using assms(1) by (auto simp: ledger_later_def)
  obtain es' new' where 2: "lg_emissions db2 = es' @ new'" "list_all2 row_later (es @ new) es'"
    using assms(2) 1(1) by (auto simp: ledger_later_def)
  then obtain us vs where "es' = us @ vs" "list_all2 row_later es us"
    by (auto simp: list_all2_append1)
  moreover have "list_all2 row_later (lg_emissions db) us"
    by (rule list_all2_trans [OF _ 1(2) \<open>list_all2 row_later es us\<close>]) (rule row_later_trans)
  ultimately show ?thesis
    using 2(1) assms by (auto simp: ledger_later_def)
qed

lemma correction_rows_later:
  assumes "fn_emit_correction i n c t db = Inr db'"
  shows "list_all2 row_later (lg_emissions db) (lg_emissions db') \<and> lg_runs db' = lg_runs db"
proof -
  have "\<forall>e. row_later e (close_row i n c t e)"
    using assms by (auto simp: row_later_def close_row_def fn_emit_correction_Inr)
  with assms show ?thesis by (auto simp: list_all2_conv_all_nth fn_emit_correction_Inr)
qed

lemma transaction_appends:
  assumes "transaction (migrated_schema fk tenants factor_ids) stmts db = (Inr (), db')"
  obtains new runs where "lg_emissions db' = lg_emissions db @ new" and "lg_runs db' = lg_runs db @ runs"
  using assms exec_statements_append_only by (blast dest: transaction_cases)

lemma ledger_step_later:
  assumes "ledger_step False fk tenants factor_ids db db'"
  shows "ledger_later db db'"
  using assms
proof cases
  case (commit stmts)
  from transaction_appends [OF this] show ?thesis by (blast intro: ledger_later_append)
next
  case (correct i n c t)
  with correction_rows_later show ?thesis unfolding ledger_later_def by (metis append_Nil2)
next
  case (mutate_emission in_correction change)
  then show ?thesis
    by (auto simp: mutate_emissions_def rbind_eq_Inr dest!: update_emissions_Inr split: if_splits)
qed (simp add: mutate_runs_def split: if_splits)

lemma reachable_later: "(ledger_step False fk tenants factor_ids)\<^sup>*\<^sup>* db db' \<Longrightarrow> ledger_later db db'"
  by (induction rule: rtranclp_induct) (auto intro: ledger_later_trans ledger_step_later)

text \<open>What no session can change: the protected columns, the order of the rows, and the run rows.\<close>

definition ledger_protected :: "ledger \<Rightarrow> ledger \<Rightarrow> bool" where
  "ledger_protected db db' \<longleftrightarrow>
     (\<exists>es new. lg_emissions db' = es @ new \<and> list_all2 protected_kept (lg_emissions db) es) \<and>
     (\<exists>runs. lg_runs db' = lg_runs db @ runs)"

lemma row_later_protected: "row_later e e' \<Longrightarrow> protected_kept e e'"
  by (auto simp: row_later_def protected_kept_def)

lemma ledger_later_protected: "ledger_later db db' \<Longrightarrow> ledger_protected db db'"
  unfolding ledger_later_def ledger_protected_def by (blast intro: list_all2_mono row_later_protected)

lemma ledger_protected_trans:
  assumes "ledger_protected db db1" and "ledger_protected db1 db2"
  shows "ledger_protected db db2"
proof -
  obtain es new where 1: "lg_emissions db1 = es @ new" "list_all2 protected_kept (lg_emissions db) es"
    using assms(1) by (auto simp: ledger_protected_def)
  obtain us vs new' where 2: "lg_emissions db2 = (us @ vs) @ new'" "list_all2 protected_kept es us"
    using assms(2) 1(1) by (auto simp: ledger_protected_def list_all2_append1)
  have "list_all2 protected_kept (lg_emissions db) us"
    by (rule list_all2_trans [OF _ 1(2) 2(2)]) (rule protected_kept_trans)
  then show ?thesis using 2(1) assms by (auto simp: ledger_protected_def)
qed

lemma ledger_step_protected:
  assumes "ledger_step guc fk tenants factor_ids db db'"
  shows "ledger_protected db db'"
  using assms
proof cases
  case (mutate_emission in_correction change)
  then obtain es where "lg_emissions db' = es" "lg_runs db' = lg_runs db" "list_all2 protected_kept (lg_emissions db) es"
    by (auto simp: mutate_emissions_def rbind_eq_Inr dest!: update_emissions_Inr split: if_splits)
  then show ?thesis unfolding ledger_protected_def by (metis append_Nil2)
qed (auto intro!: ledger_later_protected ledger_step_later intro: ledger_step.intros)

lemma reachable_protected: "(ledger_step guc fk tenants factor_ids)\<^sup>*\<^sup>* db db' \<Longrightarrow> ledger_protected db db'"
  by (induction rule: rtranclp_induct)
    (auto intro: ledger_protected_trans ledger_step_protected ledger_later_protected)

end
