(* ===== verification/Ledger_Properties.thy ===== *)
theory Ledger_Properties
  imports Persistence_Properties Ledger_Invariants
begin

text \<open>
  The theorems about persisted runs and about the reachable ledgers, with their witnesses on the
  small database of \<open>Persistence_Properties\<close>.
\<close>

section \<open>Runs on the small database\<close>

lemma no_sites: "good_plan (fugitive_zero_plan [] anno g ctx) 0"
  by (simp add: good_plan_def fugitive_zero_plan_def)

lemma no_rows:
  "good_plan (scope1_combustion_plan [] cat g ctx) 0" "good_plan (cat1_plan [] cat g ctx) 0"
  "good_plan (cat2_plan [] cat g ctx) 0" "good_plan (cat4_plan [] cat g ctx) 0"
  "good_plan (cat5_plan [] cat g ctx) 0" "good_plan (cat6_plan draw [] cat g ctx) 0"
  "good_plan (cat9_plan [] cat g ctx) 0"
  by (simp_all add: good_plan_def scope1_combustion_plan_def cat1_plan_def cat2_plan_def cat4_plan_def
      cat5_plan_def cat6_plan_def cat9_plan_def)

lemma demo_src_plan:
  assumes g: "g = AR6 \<or> g = AR5"
  shows "good_plan (run_plan draw demo_sql g (run_inputs (sd_raw demo_src) 1 2025 corr by stream)) 10"
proof -
  let ?in = "run_inputs (sd_raw demo_src) 1 2025 corr by stream"
  let ?s2 = "[(2025, dec_add dec_zero (Dec False 5000 0))]"
  note plans = demo_sql_plans [OF g]
  have "good_plan (collect_all (direct_plans demo_sql g ?in)) (sum_list [0, 0, 0])"
    by (rule good_collect_all) (simp add: direct_plans_def demo_src_inputs Let_def no_sites no_rows plans)
  moreover have "dec_nonneg (dec_add dec_zero (Dec False 5000 0))"
    by (intro nonneg_intros nonneg_consts)
  then have "good_plan (collect_all (after_sigma_plans draw demo_sql g ?in [] ?s2))
      (sum_list [1, 1, 0, 0, 2, 0, 0, 0, 0, 0, 0, 1, 5])"
    by (intro good_collect_all)
      (simp add: after_sigma_plans_def demo_src_inputs Let_def no_rows plans good_zero_lines
        del: One_nat_def)
  moreover have "sigma_scope1_from_rows (ci_scope1_rows ?in) = Inr []"
    by (simp add: demo_src_inputs sigma_scope1_from_rows_def)
  moreover have "sigma_scope2_from_rows (ci_scope2_rows ?in) = Inr ?s2"
    by (simp add: demo_src_inputs sigma_scope2_from_rows_def sigma_scope2_entry_def sigma_add_def)
  ultimately show ?thesis
    unfolding run_plan_def good_plan_def by auto
qed

lemma demo_src_run:
  assumes "gs = ''AR6'' \<or> gs = ''AR5''" and "stream \<in> set ALLOWED_REGULATORY_STREAMS"
  shows "\<exists>rs w'. run_calc draw demo_src 1 2025 corr gs stream by w = Inr (rs, w') \<and> length rs = 10"
proof -
  obtain g where g: "get_gwp_values gs = Inr g" "g = AR6 \<or> g = AR5"
    using assms(1) by (auto simp: get_gwp_values_cases)
  let ?in = "run_inputs (sd_raw demo_src) 1 2025 corr by stream"
  obtain as where as: "run_plan draw demo_sql g ?in = Inr as" "\<forall>a\<in>set as. nonneg_args a" "length as = 10"
    using demo_src_plan [OF g(2), of draw corr "by" stream] by (auto simp: good_plan_def)
  have "ctx_ok (common_ctx ?in) g"
    using g(2) assms(2) by (auto simp: ctx_ok_def common_ctx_def demo_src_inputs AR6_def AR5_def ALLOWED_GWP_SETS_def)
  then obtain rs w' where run: "orchestrator_run draw demo_sql g ?in w = Inr (rs, w')"
    using run_returns_iff_nonneg [OF as(1)] as(2) by blast
  then have "length rs = 10"
    using realizes_built [OF orchestrator_run_realizes run] as by (auto dest: list_all2_lengthD)
  with run g(1) show ?thesis
    by (auto simp: run_calc_def Let_def mbind_def mlift_def)
qed

lemma plain_exec: "\<exists>db'. exec_statements plain_schema ss db = Inr db'"
proof (induction ss arbitrary: db)
  case Nil
  show ?case by simp
next
  case (Cons s ss)
  have "\<exists>db'. exec_emissions plain_schema ps db = Inr db'" for ps
    by (induction ps arbitrary: db) (simp_all add: plain_schema_def)
  then have "\<exists>db1. exec_statement plain_schema s db = Inr db1"
    by (cases s) (simp_all add: plain_schema_def)
  with Cons.IH show ?case by auto
qed

lemma plain_commit:
  assumes "m w = Inr ((x, stmts), w')"
  shows "\<exists>db'. commit_statements plain_schema m db w = (Inr (x, w'), db')"
proof -
  obtain d where "exec_statements plain_schema stmts db = Inr d" using plain_exec by blast
  then have "transaction plain_schema stmts db = (Inr (), d)"
    by (simp add: transaction_def plain_schema_def)
  with assms show ?thesis by (simp add: commit_statements_def)
qed

lemma emission_params_total: "returns (emission_params t rs) (\<lambda>_. True)"
  unfolding returns_def using emission_params_rows by blast

lemma returns_utc_now: "returns utc_now (\<lambda>_. True)"
  by (simp add: returns_def utc_now_def now_utc_def)

lemma persist_statements_total: "pa_run_id a = None \<Longrightarrow> returns (persist_statements a rs) (\<lambda>_. True)"
  unfolding persist_statements_def Let_def
  by (auto intro!: returns_mbind [OF returns_utc_now] returns_mbind [OF returns_uuid4]
      returns_mbind [OF emission_params_total] returns_mret)

lemma demo_run_calc_returns:
  "gs = ''AR6'' \<or> gs = ''AR5'' \<Longrightarrow> stream \<in> set ALLOWED_REGULATORY_STREAMS \<Longrightarrow>
   returns (run_calc draw demo_src 1 2025 corr gs stream by) (\<lambda>_. True)"
  unfolding returns_def using demo_src_run by blast

lemma demo_single_persisted:
  assumes "gs = ''AR6'' \<or> gs = ''AR5''" and "stream \<in> set ALLOWED_REGULATORY_STREAMS"
  shows "\<exists>x w' db'. run_calc_and_persist draw plain_schema demo_src 1 2025 corr gs stream by dual ms db w =
    (Inr (x, w'), db')"
proof -
  let ?m = "mbind utc_now (\<lambda>started_at.
        mbind (run_calc draw demo_src 1 2025 corr gs stream by) (\<lambda>records.
        mbind (persist_statements
          \<lparr>pa_tenant_id = 1, pa_correlation_id = corr, pa_anno = 2025,
           pa_duration_ms = ms, pa_started_at = started_at, pa_gwp_set = gs,
           pa_regulatory_stream = stream, pa_created_by = by, pa_run_id = None,
           pa_dual_run_id = dual, pa_calc_timestamp = None\<rparr> records) (\<lambda>(run_id, stmts).
        mret (make_result records run_id ms corr, stmts))))"
  have "returns ?m (\<lambda>_. True)"
    by (auto intro!: returns_mbind [OF returns_utc_now] returns_mbind [OF demo_run_calc_returns [OF assms]]
        returns_mbind [where Q = "\<lambda>_. True" and m = "persist_statements _ _"] returns_mret
        persist_statements_total)
  then obtain x stmts w' where "?m w = Inr ((x, stmts), w')"
    by (auto simp: returns_def) (metis surj_pair)
  from plain_commit [of ?m, OF this] show ?thesis
    unfolding run_calc_and_persist_def by metis
qed

lemma dual_body_returns:
  assumes "get_gwp_values g1 = Inr ga" and "get_gwp_values g2 = Inr gb"
    and "\<And>corr. returns (run_calc draw src t anno corr g1 s1 by) (\<lambda>_. True)"
    and "\<And>corr. returns (run_calc draw src t anno corr g2 s2 by) (\<lambda>_. True)"
  shows "returns (dual_track_body draw src t anno g1 s1 g2 s2 by ms1 ms2) (\<lambda>_. True)"
proof -
  have "returns (orchestrator_run draw (sql_catalog (sd_catalog src) t) ga
      (run_inputs (sd_raw src) t anno corr by s1)) (\<lambda>_. True)"
    "returns (orchestrator_run draw (sql_catalog (sd_catalog src) t) gb
      (run_inputs (sd_raw src) t anno corr by s2)) (\<lambda>_. True)" for corr
    using assms(3) [of corr] assms(4) [of corr] assms(1,2)
    by (simp_all add: run_calc_def Let_def returns_def mbind_def mlift_def)
  moreover have "returns (persist_dual_statements a b t i j rs ss) (\<lambda>_. True)" for a b t i j rs ss
    unfolding persist_dual_statements_def
    by (auto intro!: returns_mbind [OF emission_params_total] returns_mret)
  ultimately show ?thesis
    unfolding dual_track_body_def Let_def
    by (auto intro!: returns_mbind [OF returns_utc_now] returns_mbind [OF returns_uuid4]
        returns_mbind_mlift [OF assms(1)] returns_mbind_mlift [OF assms(2)]
        returns_mbind [where Q = "\<lambda>_. True" and m = "orchestrator_run _ _ _ _"]
        returns_mbind [where Q = "\<lambda>_. True" and m = "persist_dual_statements _ _ _ _ _ _ _"] returns_mret)
qed

section \<open>Persisted runs\<close>

text \<open>
  C10. What a single-track run leaves in a store that keeps the identifying columns: one row per
  record of the run, in order, under the run's tenant, correlation identifier, GWP set and
  stream, and one run row whose count, identifier and pairing are those of the call; the three
  scope counts of the result add up to the rows written.
\<close>

theorem single_run_ledger:
  assumes "emission_store sc"
    and "run_calc_and_persist draw sc src t anno corr gwp stream by dual ms db w = (Inr (x, w'), db')"
  shows "\<exists>records es row. (\<exists>v v'. run_calc draw src t anno corr gwp stream by v = Inr (records, v')) \<and>
    track_rows t corr gwp stream records es \<and>
    lg_emissions db' = lg_emissions db @ es \<and> lg_runs db' = lg_runs db @ [row] \<and>
    rr_id row = uuid_str (cp_run_id x) \<and> rr_emissions_written row = length es \<and>
    rr_correlation_id row = uuid_str corr \<and> rr_gwp_set row = gwp \<and> rr_regulatory_stream row = stream \<and>
    rr_anno row = anno \<and> rr_dual_run_id row = map_option uuid_str dual \<and>
    cp_emissions_written x = length es \<and>
    cp_scope1_count x + cp_scope2_count x + cp_scope3_count x = length es"
  by (rule emission_store.single_run_rows [OF assms])

theorem single_run_ledger_witness:
  "\<exists>x w' db' es row. run_calc_and_persist demo_sampler plain_schema demo_src 1 2025 9 ''AR6'' ''CSRD_ESRS_E1''
       ''tester'' None 5 empty_ledger demo_world = (Inr (x, w'), db') \<and>
     lg_emissions db' = es \<and> lg_runs db' = [row] \<and> rr_emissions_written row = length es"
proof -
  obtain x w' db' where run: "run_calc_and_persist demo_sampler plain_schema demo_src 1 2025 9 ''AR6''
      ''CSRD_ESRS_E1'' ''tester'' None 5 empty_ledger demo_world = (Inr (x, w'), db')"
    using demo_single_persisted [of "''AR6''" "''CSRD_ESRS_E1''"]
    by (fastforce simp: ALLOWED_REGULATORY_STREAMS_def)
  from single_run_ledger [OF plain_store run] run show ?thesis
    by (auto simp: empty_ledger_def)
qed

section \<open>Reachable ledgers\<close>

lemma empty_ledger_inv: "ledger_inv tenants factor_ids empty_ledger"
  by (simp add: ledger_inv_def emissions_inv_def rows_inv_def runs_inv_def empty_ledger_def)

text \<open>Two rows of the same site and year, inserted in one transaction, and a correction of the first.\<close>

definition demo_emission :: "string \<Rightarrow> string \<Rightarrow> EmissionRow" where
  "demo_emission i sub_scope =
     \<lparr>ep_id = i, ep_tenant_id = ''T'', ep_correlation_id = ''C'', ep_raw_row_id = ''R'', ep_raw_scope = 1,
      ep_scope = 1, ep_sub_scope = sub_scope, ep_codice_sito = Some ''IANO'', ep_anno = 2025,
      ep_tco2e = Dec False 15 (- 1), ep_co2_tonne = None, ep_ch4_tco2e = None, ep_n2o_tco2e = None,
      ep_co2_biogenic_tonne = None, ep_co2_fossil_tonne = None, ep_factor_id = ''F'',
      ep_factor_version = ''1'', ep_factor_source = ''DEFRA'', ep_gwp_set = ''AR6'',
      ep_methodology = ''activity-based'', ep_regulatory_stream = ''CSRD_ESRS_E1'',
      ep_calc_timestamp = DateTime 0 True, ep_created_by = ''t'', ep_valid_from = DateTime 0 True,
      ep_valid_to = None, ep_superseded_by = None, ep_reason_code = None, ep_disclosure_notes = None\<rparr>"

definition demo_stored :: "string \<Rightarrow> string \<Rightarrow> EmissionRow" where
  "demo_stored i sub_scope = (demo_emission i sub_scope)\<lparr>ep_tco2e := Dec False 1500000 (- 6)\<rparr>"

definition demo_ledger :: ledger where
  "demo_ledger = \<lparr>lg_emissions = [demo_stored ''a'' ''combustion'', demo_stored ''b'' ''process''], lg_runs = []\<rparr>"

definition demo_corrected :: ledger where
  "demo_corrected = demo_ledger\<lparr>lg_emissions :=
     map (close_row ''a'' ''b'' ''DATA_ERROR'' (DateTime 1 True)) (lg_emissions demo_ledger)\<rparr>"

lemma demo_insert:
  "stored_emission (demo_emission i s) = Inr (demo_stored i s)"
  "emission_checks (demo_stored i s)" "active (demo_stored i s)"
  "natural_key (demo_stored i s) = (''T'', 1, s, ''IANO'', 2025, ''CSRD_ESRS_E1'', ''AR6'')"
  "ep_tenant_id (demo_stored i s) = ''T''" "ep_factor_id (demo_stored i s) = ''F''"
  "ep_id (demo_stored i s) = i" "ep_superseded_by (demo_stored i s) = None"
  "overlap_key (demo_stored i s) = Some (''T'', ''IANO'', 1, s, 2025)"
  by (simp_all add: stored_emission_def demo_emission_def demo_stored_def numeric_18_6_def numeric_column_def
      emission_checks_def active_def natural_key_def overlap_key_def dec_le_def dec_scaled_def dec_int_def)

lemma demo_transaction:
  "transaction (migrated_schema False [''T''] [''F''])
     [InsertEmissions [demo_emission ''a'' ''combustion'', demo_emission ''b'' ''process'']] empty_ledger =
   (Inr (), demo_ledger)"
  by (auto simp: transaction_def migrated_schema_def insert_emission_def emission_unique_def demo_insert empty_ledger_def
      demo_ledger_def)

lemma demo_correction:
  "fn_emit_correction ''a'' ''b'' ''DATA_ERROR'' (DateTime 1 True) demo_ledger = Inr demo_corrected"
  by (simp add: fn_emit_correction_Inr demo_corrected_def CORRECTION_REASONS_def demo_ledger_def demo_insert)

lemma demo_reachable: "(ledger_step guc False [''T''] [''F''])\<^sup>*\<^sup>* empty_ledger demo_corrected"
  using ledger_step.commit [OF demo_transaction] ledger_step.correct [OF demo_correction]
  by (meson r_into_rtranclp rtranclp.rtrancl_into_rtrancl)

text \<open>
  C12. Invariant of every ledger reachable from the empty one by committed transactions, corrections
  and direct mutations, also of sessions that set \<open>app.correction_in_progress\<close>: row identifiers are unique
  in both tables, at most one active row has a given natural key, and at most one a given tenant,
  site, scope, sub-scope and year; every emission passes the row checks (a row is closed exactly when
  it is superseded) and refers to existing tenants, factors and successors, and every paired run
  points to a run of the same tenant and year and another stream.
\<close>

theorem reachable_ledger_inv:
  assumes "(ledger_step guc fk tenants factor_ids)\<^sup>*\<^sup>* empty_ledger db"
  shows "ledger_inv tenants factor_ids db"
  by (rule reachable_inv [OF assms empty_ledger_inv])

theorem reachable_ledger_inv_witness:
  "ledger_inv [''T''] [''F''] demo_corrected \<and> length (lg_emissions demo_corrected) = 2"
  using reachable_ledger_inv [OF demo_reachable [of True]] by (simp add: demo_corrected_def demo_ledger_def)

text \<open>An UPDATE of a session that has set the variable itself: it moves the first row to another stream.\<close>

definition demo_ets :: EmissionRow where
  "demo_ets = (demo_stored ''a'' ''combustion'')\<lparr>ep_regulatory_stream := ''EU_ETS_PHASE_IV''\<rparr>"

definition demo_rewrite :: "EmissionRow \<Rightarrow> EmissionRow option option" where
  "demo_rewrite e = (if ep_id e = ''a'' then Some (Some (e\<lparr>ep_regulatory_stream := ''EU_ETS_PHASE_IV''\<rparr>)) else None)"

definition demo_rewritten :: ledger where
  "demo_rewritten = demo_ledger\<lparr>lg_emissions := [demo_ets, demo_stored ''b'' ''process'']\<rparr>"

lemma demo_ets_row:
  "stored_emission demo_ets = Inr demo_ets" "emission_checks demo_ets" "active demo_ets"
  "natural_key demo_ets = (''T'', 1, ''combustion'', ''IANO'', 2025, ''EU_ETS_PHASE_IV'', ''AR6'')"
  "overlap_key demo_ets = Some (''T'', ''IANO'', 1, ''combustion'', 2025)" "ep_tenant_id demo_ets = ''T''"
  "ep_factor_id demo_ets = ''F''" "ep_id demo_ets = ''a''" "ep_superseded_by demo_ets = None"
  "\<not> protected_changed (demo_stored ''a'' ''combustion'') demo_ets"
  by (simp_all add: stored_emission_def demo_ets_def demo_emission_def demo_stored_def numeric_18_6_def numeric_column_def
      emission_checks_def active_def natural_key_def overlap_key_def dec_le_def dec_scaled_def dec_int_def
      protected_changed_def dec_eq_def)

lemma demo_mutation:
  "mutate_emissions True [''T''] [''F''] demo_rewrite demo_ledger = Inr demo_rewritten"
  "mutate_emissions False [''T''] [''F''] demo_rewrite demo_ledger = Inl RaiseException"
proof -
  have change: "demo_rewrite (demo_stored ''a'' ''combustion'') = Some (Some demo_ets)" "demo_rewrite (demo_stored ''b'' ''process'') = None"
    by (simp_all add: demo_rewrite_def demo_insert demo_ets_def)
  have "emission_unique [demo_stored ''b'' ''process''] demo_ets"
    by (auto simp: emission_unique_def demo_insert demo_ets_row)
  then show "mutate_emissions True [''T''] [''F''] demo_rewrite demo_ledger = Inr demo_rewritten"
    "mutate_emissions False [''T''] [''F''] demo_rewrite demo_ledger = Inl RaiseException"
    by (simp_all add: mutate_emissions_def demo_ledger_def demo_rewritten_def change demo_insert demo_ets_row
        deny_emissions_mutation_def successors_exist_def)
qed

text \<open>
  C13. How far history is protected. Between two reachable states no emission row disappears or changes
  place, and its identifier, amount, factor, factor version, GWP set, methodology, scope, year and site
  stay as they were; run rows are never changed; new rows come last. Where no session sets
  \<open>app.correction_in_progress\<close> itself, every other column stays too, except that an active row may have
  been closed once, with a closing instant, a successor and an admissible reason.
\<close>

theorem ledger_history:
  assumes "(ledger_step guc fk tenants factor_ids)\<^sup>*\<^sup>* db db'"
  shows "ledger_protected db db' \<and> (\<not> guc \<longrightarrow> ledger_later db db')"
  using reachable_protected [OF assms] reachable_later assms by (cases guc) simp_all

theorem ledger_history_witness:
  "ledger_later demo_ledger demo_corrected \<and> lg_emissions demo_corrected \<noteq> lg_emissions demo_ledger \<and>
   ledger_protected demo_ledger demo_rewritten \<and> \<not> ledger_later demo_ledger demo_rewritten"
proof -
  have "ledger_later demo_ledger demo_corrected"
    using ledger_history [of False False "[''T'']" "[''F'']"] ledger_step.correct [OF demo_correction]
    by (meson r_into_rtranclp)
  moreover have "lg_emissions demo_corrected \<noteq> lg_emissions demo_ledger"
    by (simp add: demo_corrected_def demo_ledger_def close_row_def demo_insert)
      (simp add: demo_stored_def demo_emission_def)
  moreover have "ledger_protected demo_ledger demo_rewritten"
    using ledger_history [of True False "[''T'']" "[''F'']"] ledger_step.mutate_emission [OF _ demo_mutation(1), of True]
    by (meson r_into_rtranclp)
  moreover have "\<not> ledger_later demo_ledger demo_rewritten"
  proof
    assume "ledger_later demo_ledger demo_rewritten"
    then have "row_later (demo_stored ''a'' ''combustion'') demo_ets"
      by (auto simp: ledger_later_def demo_ledger_def demo_rewritten_def list_all2_Cons1)
    from row_later_stream [OF this] show False by (simp add: demo_ets_def demo_stored_def demo_emission_def)
  qed
  ultimately show ?thesis by blast
qed

lemma close_rows_active_ids:
  "map ep_id (filter active (map (close_row i n c t) es)) = removeAll i (map ep_id (filter active es))"
  by (induction es) auto

text \<open>
  C14. A correction closes exactly its predecessor: the active rows afterwards are those before
  without it, and no further correction of the same predecessor succeeds. In a ledger that meets
  the invariant the successor cannot be an active row with the predecessor's natural key.
\<close>

theorem correction_closes_predecessor:
  assumes "fn_emit_correction i n c t db = Inr db'" and "ledger_inv tenants factor_ids db"
  shows "map ep_id (filter active (lg_emissions db')) =
      removeAll i (map ep_id (filter active (lg_emissions db))) \<and>
    (\<forall>n' c' t'. fn_emit_correction i n' c' t' db' = Inl RaiseException) \<and>
    (\<forall>e\<in>set (lg_emissions db). \<forall>f\<in>set (lg_emissions db).
       ep_id e = i \<and> ep_id f = n \<and> i \<noteq> n \<and> active f \<longrightarrow> natural_key e \<noteq> natural_key f)"
proof (intro conjI)
  have db': "lg_emissions db' = map (close_row i n c t) (lg_emissions db)"
    and pred: "\<exists>e\<in>set (lg_emissions db). ep_id e = i \<and> active e"
    using assms(1) by (auto simp: fn_emit_correction_Inr)
  show "map ep_id (filter active (lg_emissions db')) = removeAll i (map ep_id (filter active (lg_emissions db)))"
    unfolding db' by (rule close_rows_active_ids)
  show "\<forall>n' c' t'. fn_emit_correction i n' c' t' db' = Inl RaiseException"
    by (auto simp: fn_emit_correction_def db' list_ex_iff)
  have ids: "inj_on ep_id (set (lg_emissions db))"
    and keys: "inj_on natural_key {e \<in> set (lg_emissions db). active e}"
    using assms(2) by (auto simp: ledger_inv_def emissions_inv_def rows_inv_def distinct_map)
  show "\<forall>e\<in>set (lg_emissions db). \<forall>f\<in>set (lg_emissions db).
       ep_id e = i \<and> ep_id f = n \<and> i \<noteq> n \<and> active f \<longrightarrow> natural_key e \<noteq> natural_key f"
  proof (intro ballI impI notI)
    fix e f
    assume "e \<in> set (lg_emissions db)" "f \<in> set (lg_emissions db)" and key: "natural_key e = natural_key f"
      and ef: "ep_id e = i \<and> ep_id f = n \<and> i \<noteq> n \<and> active f"
    moreover from this pred ids have "active e" by (metis inj_onD)
    ultimately have "e = f" using inj_onD [OF keys key] by blast
    with ef show False by (simp only:) blast
  qed
qed

theorem correction_closes_predecessor_witness:
  "map ep_id (filter active (lg_emissions demo_corrected)) = [''b''] \<and>
   fn_emit_correction ''a'' ''b'' ''DATA_ERROR'' (DateTime 2 True) demo_corrected = Inl RaiseException"
proof -
  have "ledger_inv [''T''] [''F''] demo_ledger"
    by (rule transaction_inv [OF demo_transaction empty_ledger_inv])
  from correction_closes_predecessor [OF demo_correction this] show ?thesis
    by (simp add: demo_ledger_def demo_insert)
qed

end
