(* ===== verification/Schema_Conflicts.thy ===== *)
theory Schema_Conflicts
  imports Ledger_Properties Calc_Properties
begin

text \<open>
  What the constraints of the migrations make of the runs the calculation layer produces: runs the
  schema can never accept, because of the foreign key of the pairing, of the foreign key to the
  factor catalogue, of the unique index on active rows, and of the exclusion constraint on them.
\<close>

section \<open>Errors of the migrated schema\<close>

definition db_error :: "exn \<Rightarrow> bool" where
  "db_error e \<longleftrightarrow> e = IntegrityError \<or> e = DataError"

lemma numeric_error: "numeric_18_6 d = Inl e \<Longrightarrow> e = DataError"
  by (auto simp: numeric_18_6_def Let_def split: if_splits)

lemma numeric_column_error: "numeric_column v = Inl e \<Longrightarrow> e = DataError"
  by (auto simp: numeric_column_def rbind_eq_Inl dest: numeric_error split: option.splits)

lemma stored_emission_error: "stored_emission p = Inl e \<Longrightarrow> e = DataError"
  unfolding stored_emission_def rbind_eq_Inl by (auto dest: numeric_error numeric_column_error)

lemma insert_emission_error: "insert_emission tenants factor_ids db p = Inl e \<Longrightarrow> db_error e"
  unfolding insert_emission_def rbind_eq_Inl db_error_def
  by (auto dest: stored_emission_error split: if_splits option.splits)

lemma insert_run_error: "insert_run fk tenants db r = Inl e \<Longrightarrow> db_error e"
  by (auto simp: insert_run_def db_error_def split: if_splits)

lemma exec_emissions_error:
  "exec_emissions (migrated_schema fk tenants factor_ids) ps db = Inl e \<Longrightarrow> db_error e"
  by (induction ps arbitrary: db)
    (auto simp: rbind_eq_Inl migrated_schema_def dest: insert_emission_error)

lemma exec_statements_error:
  "exec_statements (migrated_schema fk tenants factor_ids) ss db = Inl e \<Longrightarrow> db_error e"
proof (induction ss arbitrary: db)
  case Nil
  then show ?case by simp
next
  case (Cons s ss)
  have "db_error e" if "exec_statement (migrated_schema fk tenants factor_ids) s db = Inl e"
    using that by (cases s)
      (auto simp: rbind_eq_Inl migrated_schema_def dest: insert_run_error
        exec_emissions_error [unfolded migrated_schema_def])
  with Cons show ?case by (auto simp: rbind_eq_Inl)
qed

lemma reciprocity_error: "enforce_dual_run_reciprocity runs r = Inl e \<Longrightarrow> db_error e"
  by (auto simp: enforce_dual_run_reciprocity_def db_error_def split: if_splits option.splits)

lemma check_all_error: "check_all f xs = Inl e \<Longrightarrow> \<exists>x\<in>set xs. f x = Inl e"
  by (induction xs) (auto simp: rbind_eq_Inl)

lemma migrated_commit_error:
  "sc_commit (migrated_schema fk tenants factor_ids) db new = Inl e \<Longrightarrow> db_error e"
  by (auto simp: migrated_schema_def db_error_def split: if_splits
      dest!: check_all_error reciprocity_error [unfolded db_error_def])

lemma transaction_error:
  "transaction (migrated_schema fk tenants factor_ids) ss db = (Inl e, db') \<Longrightarrow> db_error e"
  by (auto simp: transaction_def split: sum.splits
      dest: exec_statements_error migrated_commit_error)

text \<open>A commit that cannot succeed fails with an error of the database when the run itself succeeds.\<close>

lemma commit_rejected:
  assumes "\<And>x w' db'. commit_statements (migrated_schema fk tenants factor_ids) m db w \<noteq> (Inr (x, w'), db')"
  shows "\<exists>e. commit_statements (migrated_schema fk tenants factor_ids) m db w = (Inl e, db) \<and>
    ((\<exists>y. m w = Inr y) \<longrightarrow> db_error e)"
proof -
  obtain res db' where c: "commit_statements (migrated_schema fk tenants factor_ids) m db w = (res, db')"
    by fastforce
  with assms commit_statements_cases [OF c] obtain e where e: "res = Inl e" "db' = db" by auto
  moreover have "db_error e" if "m w = Inr ((x, stmts), w')" for x stmts w'
    using c e that
    by (auto simp: commit_statements_def split: prod.splits sum.splits dest: transaction_error)
  ultimately show ?thesis using c by (metis surj_pair)
qed

section \<open>New rows\<close>

text \<open>The rows a transaction adds: known factors, and keys no active row has.\<close>

definition new_rows_ok :: "string list \<Rightarrow> EmissionRow list \<Rightarrow> EmissionRow list \<Rightarrow> bool" where
  "new_rows_ok factor_ids old new \<longleftrightarrow>
     (\<forall>q\<in>set new. ep_factor_id q \<in> set factor_ids) \<and> distinct (map natural_key (filter active new)) \<and>
     natural_key ` set (filter active new) \<inter> natural_key ` set (filter active old) = {} \<and>
     overlap_key ` set (filter site_row new) \<inter> overlap_key ` set (filter site_row old) = {}"

lemma new_rows_ok_append:
  "new_rows_ok factor_ids old xs \<Longrightarrow> new_rows_ok factor_ids (old @ xs) ys \<Longrightarrow>
   new_rows_ok factor_ids old (xs @ ys)"
  unfolding new_rows_ok_def by (auto simp: image_Un)

lemma insert_emission_new:
  assumes "insert_emission tenants factor_ids db p = Inr q"
  shows "new_rows_ok factor_ids (lg_emissions db) [q]"
  using insert_emission_stored [OF assms] by (auto simp: new_rows_ok_def emission_unique_def site_row_def)

lemma exec_emissions_new:
  "exec_emissions (migrated_schema fk tenants factor_ids) ps db = Inr db' \<Longrightarrow>
   \<exists>qs. lg_emissions db' = lg_emissions db @ qs \<and> new_rows_ok factor_ids (lg_emissions db) qs"
proof (induction ps arbitrary: db)
  case Nil
  then show ?case by (simp add: new_rows_ok_def)
next
  case (Cons p ps)
  then obtain q where q: "insert_emission tenants factor_ids db p = Inr q"
    and rest: "exec_emissions (migrated_schema fk tenants factor_ids) ps
      (db\<lparr>lg_emissions := lg_emissions db @ [q]\<rparr>) = Inr db'"
    by (auto simp: rbind_eq_Inr migrated_schema_def)
  from Cons.IH [OF rest] obtain qs where "lg_emissions db' = lg_emissions db @ [q] @ qs"
    "new_rows_ok factor_ids (lg_emissions db @ [q]) qs" by auto
  with new_rows_ok_append [OF insert_emission_new [OF q]] show ?case by blast
qed

lemma exec_statements_new:
  "exec_statements (migrated_schema fk tenants factor_ids) ss db = Inr db' \<Longrightarrow>
   \<exists>qs. lg_emissions db' = lg_emissions db @ qs \<and> new_rows_ok factor_ids (lg_emissions db) qs"
proof (induction ss arbitrary: db)
  case Nil
  then show ?case by (simp add: new_rows_ok_def)
next
  case (Cons s ss)
  then obtain d where d: "exec_statement (migrated_schema fk tenants factor_ids) s db = Inr d"
    "exec_statements (migrated_schema fk tenants factor_ids) ss d = Inr db'"
    by (auto simp: rbind_eq_Inr)
  have "\<exists>xs. lg_emissions d = lg_emissions db @ xs \<and> new_rows_ok factor_ids (lg_emissions db) xs"
    using d(1) by (cases s) (auto simp: rbind_eq_Inr new_rows_ok_def [of _ _ "[]"] dest: exec_emissions_new)
  then obtain xs where xs: "lg_emissions d = lg_emissions db @ xs" "new_rows_ok factor_ids (lg_emissions db) xs"
    by blast
  moreover from Cons.IH [OF d(2)] obtain ys where "lg_emissions db' = lg_emissions d @ ys"
    "new_rows_ok factor_ids (lg_emissions d) ys" by blast
  ultimately show ?case
    using new_rows_ok_append [of factor_ids "lg_emissions db" xs ys] by auto
qed

lemma single_run_new_rows:
  assumes "run_calc_and_persist draw (migrated_schema fk tenants factor_ids) src t anno corr gwp stream by
    dual ms db w = (Inr (x, w'), db')"
  shows "\<exists>records es v v'. run_calc draw src t anno corr gwp stream by v = Inr (records, v') \<and>
    list_all2 (row_of t) records es \<and> new_rows_ok factor_ids (lg_emissions db) es"
proof -
  obtain records es v v' where "run_calc draw src t anno corr gwp stream by v = Inr (records, v')"
    "list_all2 (row_of t) records es" "lg_emissions db' = lg_emissions db @ es"
    using migrated.single_run_rows [OF assms] by (auto simp: track_rows_def)
  moreover obtain stmts where "exec_statements (migrated_schema fk tenants factor_ids) stmts db = Inr db'"
    using commit_statements_cases [OF assms [unfolded run_calc_and_persist_def]] by auto
  ultimately show ?thesis
    using exec_statements_new by fastforce
qed

lemma single_body_returns:
  assumes "returns (run_calc draw src t anno corr gwp stream by) (\<lambda>_. True)"
  shows "returns (mbind utc_now (\<lambda>started_at.
        mbind (run_calc draw src t anno corr gwp stream by) (\<lambda>records.
        mbind (persist_statements
          \<lparr>pa_tenant_id = t, pa_correlation_id = corr, pa_anno = anno,
           pa_duration_ms = ms, pa_started_at = started_at, pa_gwp_set = gwp,
           pa_regulatory_stream = stream, pa_created_by = by, pa_run_id = None,
           pa_dual_run_id = dual, pa_calc_timestamp = None\<rparr> records) (\<lambda>(run_id, stmts).
        mret (make_result records run_id ms corr, stmts))))) (\<lambda>_. True)"
  by (auto intro!: returns_mbind [OF returns_utc_now] returns_mbind [OF assms]
      returns_mbind [where Q = "\<lambda>_. True" and m = "persist_statements _ _"] returns_mret persist_statements_total)

lemma single_run_rejected:
  assumes "\<And>x w' db'. run_calc_and_persist draw (migrated_schema fk tenants factor_ids) src t anno corr gwp
    stream by dual ms db w \<noteq> (Inr (x, w'), db')"
  shows "\<exists>e. run_calc_and_persist draw (migrated_schema fk tenants factor_ids) src t anno corr gwp stream by
      dual ms db w = (Inl e, db) \<and>
    (returns (run_calc draw src t anno corr gwp stream by) (\<lambda>_. True) \<longrightarrow> db_error e)"
  using commit_rejected [OF assms [unfolded run_calc_and_persist_def]] single_body_returns
  unfolding run_calc_and_persist_def returns_def by blast

section \<open>Parts of a plan\<close>

lemma collect_defined: "collect body xs = Inr as \<Longrightarrow> x \<in> set xs \<Longrightarrow> \<exists>ys. body x = Inr ys"
  by (induction xs arbitrary: as) (auto simp: rbind_eq_Inr)

lemma collect_infix:
  "collect body xs = Inr as \<Longrightarrow> x \<in> set xs \<Longrightarrow> body x = Inr ys \<Longrightarrow> \<exists>us vs. as = us @ ys @ vs"
proof (induction xs arbitrary: as)
  case Nil
  then show ?case by simp
next
  case (Cons z xs)
  then obtain bs cs where parts: "body z = Inr bs" "collect body xs = Inr cs" "as = bs @ cs"
    by (auto simp: rbind_eq_Inr)
  show ?case
  proof (cases "x = z")
    case True
    with parts Cons.prems show ?thesis by (intro exI [of _ "[]"] exI [of _ cs]) auto
  next
    case False
    with Cons.prems Cons.IH [OF parts(2)] obtain us vs where "cs = us @ ys @ vs" by auto
    with parts show ?thesis by (intro exI [of _ "bs @ us"] exI [of _ vs]) auto
  qed
qed

lemma concat_infix: "xs \<in> set xss \<Longrightarrow> \<exists>us vs. concat xss = us @ xs @ vs"
  by (metis concat.simps(2) concat_append in_set_conv_decomp)

lemma run_plan_infix:
  assumes "run_plan draw catalog g inputs = Inr as"
  shows "\<exists>bs us vs. cat12_plan (ci_scope3_rows inputs) catalog g (common_ctx inputs) = Inr bs \<and> as = us @ bs @ vs"
proof -
  obtain s1 s2 ass where
    "list_all2 (\<lambda>p bs. p = Inr bs)
       (direct_plans catalog g inputs @ after_sigma_plans draw catalog g inputs s1 s2) ass"
    and as: "as = concat ass"
    using run_plan_modules [OF assms] by metis
  then obtain bs where "bs \<in> set ass" "cat12_plan (ci_scope3_rows inputs) catalog g (common_ctx inputs) = Inr bs"
    unfolding direct_plans_def after_sigma_plans_def Let_def by (auto simp: list_all2_Cons1)
  with concat_infix [of bs ass] as show ?thesis by blast
qed

lemma run_calc_plan:
  assumes "run_calc draw src t anno corr gwp stream by v = Inr (records, v')"
  obtains g as where "get_gwp_values gwp = Inr g"
    "run_plan draw (sql_catalog (sd_catalog src) t) g (run_inputs (sd_raw src) t anno corr by stream) = Inr as"
    "list_all2 built as records"
proof -
  obtain g where g: "get_gwp_values gwp = Inr g"
    and run: "orchestrator_run draw (sql_catalog (sd_catalog src) t) g
      (run_inputs (sd_raw src) t anno corr by stream) v = Inr (records, v')"
    using assms by (auto simp: run_calc_def Let_def mbind_eq_Inr)
  from realizes_built [OF orchestrator_run_realizes run] g that show thesis by blast
qed

lemma built_row_defaults:
  "built a r \<Longrightarrow> er_factor_id_uuid r = fr_factor_db_id (ea_factor a) \<and> er_valid_to r = None"
  by (auto simp: built_def emission_of_def)

lemma run_calc_synthetic:
  assumes "run_calc draw src t anno corr gwp stream by v = Inr (records, v')"
  shows "\<exists>r\<in>set records. er_factor_id_uuid r = None"
proof -
  let ?in = "run_inputs (sd_raw src) t anno corr by stream"
  obtain g as where plan: "run_plan draw (sql_catalog (sd_catalog src) t) g ?in = Inr as"
    "list_all2 built as records"
    using run_calc_plan [OF assms] by metis
  obtain fug mid c11 om where "cat11_zero_plan (ci_anno ?in) g (common_ctx ?in) = Inr c11"
    "as = fug @ mid @ c11 @ om"
    using run_plan_ends [OF plan(1)] by blast
  then have "\<exists>a\<in>set as. fr_factor_db_id (ea_factor a) = None"
    by (auto simp: cat11_zero_plan_def zero_line_args_def emission_args_def synth_factor_def bex_Un)
  then obtain a where a: "a \<in> set as" "fr_factor_db_id (ea_factor a) = None" by blast
  obtain r where "r \<in> set records" "built a r"
    using list_all2_left [OF plan(2) a(1)] by blast
  with a(2) built_row_defaults show ?thesis by metis
qed

section \<open>Runs the schema rejects\<close>

text \<open>
  C16. The zero-lines every run emits carry no catalogue row, so their foreign key is the nil
  identifier: unless the factor catalogue holds a row with that identifier, the migrated schema
  rejects every single-track run and the ledger stays as it was, with an error of the database
  whenever the calculation itself succeeds.
\<close>

theorem zero_lines_violate_factor_key:
  assumes "uuid_str 0 \<notin> set factor_ids"
  shows "\<exists>e. run_calc_and_persist draw (migrated_schema fk tenants factor_ids) src t anno corr gwp stream by
      dual ms db w = (Inl e, db) \<and>
    (returns (run_calc draw src t anno corr gwp stream by) (\<lambda>_. True) \<longrightarrow> db_error e)"
proof -
  have no: "run_calc_and_persist draw (migrated_schema fk tenants factor_ids) src t anno corr gwp stream by
      dual ms db w \<noteq> (Inr (x, w'), db')" for x w' db'
  proof
    assume "run_calc_and_persist draw (migrated_schema fk tenants factor_ids) src t anno corr gwp stream by
      dual ms db w = (Inr (x, w'), db')"
    from single_run_new_rows [OF this] obtain records es v v' where
      run: "run_calc draw src t anno corr gwp stream by v = Inr (records, v')"
      and rows: "list_all2 (row_of t) records es" and ok: "new_rows_ok factor_ids (lg_emissions db) es"
      by blast
    obtain r where r: "r \<in> set records" "er_factor_id_uuid r = None"
      using run_calc_synthetic [OF run] by blast
    then obtain p where "p \<in> set es" "row_of t r p"
      using list_all2_left [OF rows] by blast
    with r ok assms show False by (auto simp: row_of_def new_rows_ok_def)
  qed
  show ?thesis
    by (rule single_run_rejected [OF no])
qed

theorem zero_lines_violate_factor_key_witness:
  "\<exists>e. run_calc_and_persist demo_sampler (migrated_schema True [uuid_str 1] [uuid_str 7]) demo_src 1 2025 9
      ''AR6'' ''CSRD_ESRS_E1'' ''tester'' None 5 empty_ledger demo_world = (Inl e, empty_ledger) \<and> db_error e"
proof -
  have "uuid_str 0 \<notin> set [uuid_str 7]" by (simp add: uuid_str_inj)
  moreover have "returns (run_calc demo_sampler demo_src 1 2025 9 ''AR6'' ''CSRD_ESRS_E1'' ''tester'') (\<lambda>_. True)"
    by (rule demo_run_calc_returns) (simp_all add: ALLOWED_REGULATORY_STREAMS_def)
  ultimately show ?thesis
    using zero_lines_violate_factor_key [of "[uuid_str 7]" demo_sampler True "[uuid_str 1]" demo_src 1 2025 9
        "''AR6''" "''CSRD_ESRS_E1''" "''tester''" None 5 empty_ledger demo_world] by blast
qed

lemma dual_insert_needs_pair:
  assumes "run_dual_track_and_persist draw (migrated_schema False tenants factor_ids) src t anno g1 s1 g2 s2
    by ms1 ms2 db w = (Inr (x, w'), db')"
  shows "uuid_str (w_uuid w (w_uuids w + 1)) \<in> insert (uuid_str (w_uuid w (w_uuids w))) (rr_id ` set (lg_runs db))"
proof -
  let ?sc = "migrated_schema False tenants factor_ids"
  obtain stmts where exec: "exec_statements ?sc stmts db = Inr db'"
    and body: "dual_track_body draw src t anno g1 s1 g2 s2 by ms1 ms2 w = Inr ((x, stmts), w')"
    using commit_statements_cases [OF assms [unfolded run_dual_track_and_persist_def]] by auto
  obtain rs1 rs2 ps qs row1 row2 c k k' u1 u1' u2 u2' where
    ps: "emission_params t rs1 u1 = Inr (ps, u1')" "emission_params t rs2 u2 = Inr (qs, u2')"
    and stmts: "stmts = insert_emissions_stmt ps @ insert_emissions_stmt qs @
      [InsertCalcRun row1, InsertCalcRun row2]"
    and row: "track_row t c anno (w_uuid w (w_uuids w)) (w_uuid w (w_uuids w + 1)) g1 s1 (length rs1) k k' row1"
    using dual_body_parts [OF body] by metis
  obtain d1 where d1: "lg_runs d1 = lg_runs db"
    "exec_statements ?sc (insert_emissions_stmt qs @ [InsertCalcRun row1, InsertCalcRun row2]) d1 = Inr db'"
    using migrated.exec_insert_emissions [OF exec [unfolded stmts] emission_params_rowsD(1) [OF ps(1)]] by blast
  obtain d2 where d2: "lg_runs d2 = lg_runs db" "exec_statements ?sc [InsertCalcRun row1, InsertCalcRun row2] d2 = Inr db'"
    using migrated.exec_insert_emissions [OF d1(2) emission_params_rowsD(1) [OF ps(2)]] d1(1) by auto
  then have "\<exists>q. insert_run False tenants d2 row1 = Inr q"
    by (auto simp: rbind_eq_Inr migrated_schema_def)
  with row d2(1) show ?thesis
    by (auto simp: insert_run_def dual_key_ok_def track_row_def split: if_splits)
qed

text \<open>
  C15. The foreign key of \<open>dual_run_id\<close> is not deferrable in the migrations, and the first of the
  two run rows is inserted while the second does not exist: when the identifier drawn for the
  second row is new, every dual-track run is rejected and the ledger stays as it was, with an
  error of the database whenever both calculations succeed.
\<close>

theorem dual_track_rejected:
  assumes "w_uuid w (w_uuids w + 1) \<noteq> w_uuid w (w_uuids w)"
    and "uuid_str (w_uuid w (w_uuids w + 1)) \<notin> rr_id ` set (lg_runs db)"
  shows "\<exists>e. run_dual_track_and_persist draw (migrated_schema False tenants factor_ids) src t anno g1 s1 g2 s2
      by ms1 ms2 db w = (Inl e, db) \<and>
    (returns (dual_track_body draw src t anno g1 s1 g2 s2 by ms1 ms2) (\<lambda>_. True) \<longrightarrow> db_error e)"
proof -
  have "run_dual_track_and_persist draw (migrated_schema False tenants factor_ids) src t anno g1 s1 g2 s2
      by ms1 ms2 db w \<noteq> (Inr (x, w'), db')" for x w' db'
  proof
    assume "run_dual_track_and_persist draw (migrated_schema False tenants factor_ids) src t anno g1 s1 g2 s2
      by ms1 ms2 db w = (Inr (x, w'), db')"
    from dual_insert_needs_pair [OF this] assms show False by (auto simp: uuid_str_inj)
  qed
  from commit_rejected [OF this [unfolded run_dual_track_and_persist_def]] show ?thesis
    unfolding run_dual_track_and_persist_def returns_def by blast
qed

theorem dual_track_rejected_witness:
  "\<exists>e. run_dual_track_and_persist demo_sampler (migrated_schema False [uuid_str 1] [uuid_str 0, uuid_str 7])
      demo_src 1 2025 ''AR6'' ''CSRD_ESRS_E1'' ''AR5'' ''EU_ETS_PHASE_IV'' ''tester'' 5 6 empty_ledger demo_world =
        (Inl e, empty_ledger) \<and> db_error e"
proof -
  have "returns (dual_track_body demo_sampler demo_src 1 2025 ''AR6'' ''CSRD_ESRS_E1'' ''AR5'' ''EU_ETS_PHASE_IV''
      ''tester'' 5 6) (\<lambda>_. True)"
    by (rule dual_body_returns [of _ AR6 _ AR5])
      (simp_all add: get_gwp_values_cases demo_run_calc_returns ALLOWED_REGULATORY_STREAMS_def)
  moreover have "w_uuid demo_world (w_uuids demo_world + 1) \<noteq> w_uuid demo_world (w_uuids demo_world)"
    by (simp add: demo_world_def)
  ultimately show ?thesis
    using dual_track_rejected [of demo_world empty_ledger demo_sampler "[uuid_str 1]" "[uuid_str 0, uuid_str 7]"
        demo_src 1 2025 "''AR6''" "''CSRD_ESRS_E1''" "''AR5''" "''EU_ETS_PHASE_IV''" "''tester''" 5 6]
    by (simp add: empty_ledger_def)
qed

section \<open>Two records of one row\<close>

lemma cat12_row_keys:
  assumes "cat12_row lf rf g ctx row = Inr ys" and "is_category 12 row"
  shows "\<exists>a b. ys = [a, b] \<and> ea_scope a = ea_scope b \<and> ea_sub_scope a = ea_sub_scope b \<and>
    ea_codice_sito a = ea_codice_sito b \<and> ea_anno a = ea_anno b \<and>
    ea_regulatory_stream a = ea_regulatory_stream b \<and> ea_gwp_set a = ea_gwp_set b"
  using assms
  by (auto simp: cat12_row_def if_category_Inr is_category_def rbind_eq_Inr Let_def emission_args_def)

lemma same_natural_key:
  assumes "row_of t r p" and "row_of t s q" and "built a r" and "built b s"
    and "ea_scope a = ea_scope b" "ea_sub_scope a = ea_sub_scope b" "ea_codice_sito a = ea_codice_sito b"
      "ea_anno a = ea_anno b" "ea_regulatory_stream a = ea_regulatory_stream b" "ea_gwp_set a = ea_gwp_set b"
  shows "natural_key p = natural_key q" and "active p" and "active q"
  using assms(1,2,5-) built_fields [OF assms(3)] built_fields [OF assms(4)]
    built_row_defaults [OF assms(3)] built_row_defaults [OF assms(4)]
  by (simp_all add: row_of_def natural_key_def active_def)

lemma cat12_rows_clash:
  assumes "run_calc draw src t anno corr gwp stream by v = Inr (records, v')"
    and "row \<in> set (select_raw SCOPE3_COLUMNS (rt_scope3 (sd_raw src)) t anno)" and "is_category 12 row"
    and "list_all2 (row_of t) records es"
  shows "\<not> distinct (map natural_key (filter active es))"
proof -
  let ?in = "run_inputs (sd_raw src) t anno corr by stream"
  have row: "row \<in> set (ci_scope3_rows ?in)"
    using assms(2) by (simp add: run_inputs_def load_raw_rows_def)
  obtain g as where plan: "run_plan draw (sql_catalog (sd_catalog src) t) g ?in = Inr as"
    "list_all2 built as records"
    using run_calc_plan [OF assms(1)] by metis
  obtain bs us vs where bs: "cat12_plan (ci_scope3_rows ?in) (sql_catalog (sd_catalog src) t) g (common_ctx ?in) = Inr bs"
    "as = us @ bs @ vs"
    using run_plan_infix [OF plan(1)] by blast
  then obtain lf rf where coll: "collect (cat12_row lf rf g (common_ctx ?in)) (ci_scope3_rows ?in) = Inr bs"
    by (auto simp: cat12_plan_def rbind_eq_Inr)
  obtain ys where "cat12_row lf rf g (common_ctx ?in) row = Inr ys"
    using coll row by (auto dest: collect_defined)
  with cat12_row_keys assms(3) obtain a b where ab: "cat12_row lf rf g (common_ctx ?in) row = Inr [a, b]"
    "ea_scope a = ea_scope b" "ea_sub_scope a = ea_sub_scope b" "ea_codice_sito a = ea_codice_sito b"
    "ea_anno a = ea_anno b" "ea_regulatory_stream a = ea_regulatory_stream b" "ea_gwp_set a = ea_gwp_set b"
    by blast
  obtain us' vs' where "as = us' @ [a, b] @ vs'"
    using collect_infix [OF coll row, of "[a, b]"] ab(1) bs(2) by (metis append.assoc)
  with plan(2) obtain rs1 r s rs2 where rs: "records = rs1 @ [r, s] @ rs2" "built a r" "built b s"
    by (auto simp: list_all2_append1 list_all2_Cons1)
  with assms(4) obtain es1 p q es2 where es: "es = es1 @ [p, q] @ es2" "row_of t r p" "row_of t s q"
    by (auto simp: list_all2_append1 list_all2_Cons1)
  from same_natural_key [OF es(2,3) rs(2,3) ab(2-)] es(1) show ?thesis by simp
qed

text \<open>
  The two records Cat 12 derives from one row (landfill and recycling) have the same natural
  key, and at most one active row may have it: when the tenant has a Cat 12 row in the year, the
  migrated schema rejects every single-track run and the ledger stays as it was.
\<close>

theorem cat12_rows_rejected:
  assumes "row \<in> set (select_raw SCOPE3_COLUMNS (rt_scope3 (sd_raw src)) t anno)" and "is_category 12 row"
  shows "\<exists>e. run_calc_and_persist draw (migrated_schema fk tenants factor_ids) src t anno corr gwp stream by
      dual ms db w = (Inl e, db) \<and>
    (returns (run_calc draw src t anno corr gwp stream by) (\<lambda>_. True) \<longrightarrow> db_error e)"
proof (rule single_run_rejected)
  fix x w' db'
  show "run_calc_and_persist draw (migrated_schema fk tenants factor_ids) src t anno corr gwp stream by
      dual ms db w \<noteq> (Inr (x, w'), db')"
  proof
    assume "run_calc_and_persist draw (migrated_schema fk tenants factor_ids) src t anno corr gwp stream by
      dual ms db w = (Inr (x, w'), db')"
    from single_run_new_rows [OF this] obtain records es v v' where
      "run_calc draw src t anno corr gwp stream by v = Inr (records, v')"
      "list_all2 (row_of t) records es" and ok: "new_rows_ok factor_ids (lg_emissions db) es"
      by blast
    with cat12_rows_clash assms have "\<not> distinct (map natural_key (filter active es))" by blast
    with ok show False by (simp add: new_rows_ok_def)
  qed
qed

theorem cat12_rows_rejected_witness:
  "\<exists>e. run_calc_and_persist demo_sampler (migrated_schema True [uuid_str 1] [uuid_str 0, uuid_str 7])
      (demo_src\<lparr>sd_raw := \<lparr>rt_scope1 = [], rt_scope2 = [],
        rt_scope3 = [[''tenant_id'' \<mapsto> PUuid 1, ''anno'' \<mapsto> PInt 2025, ''categoria_s3'' \<mapsto> PInt 12,
                      ''quantita'' \<mapsto> PInt 40]]\<rparr>\<rparr>) 1 2025 9
      ''AR6'' ''CSRD_ESRS_E1'' ''tester'' None 5 empty_ledger demo_world = (Inl e, empty_ledger)"
proof -
  let ?raw = "[''tenant_id'' \<mapsto> PUuid 1, ''anno'' \<mapsto> PInt 2025, ''categoria_s3'' \<mapsto> PInt 12,
    ''quantita'' \<mapsto> PInt 40]"
  let ?src = "demo_src\<lparr>sd_raw := \<lparr>rt_scope1 = [], rt_scope2 = [], rt_scope3 = [?raw]\<rparr>\<rparr>"
  have "?raw |` set SCOPE3_COLUMNS \<in> set (select_raw SCOPE3_COLUMNS (rt_scope3 (sd_raw ?src)) 1 2025)"
    by (simp add: select_raw_def)
  moreover have "is_category 12 (?raw |` set SCOPE3_COLUMNS)"
    by (simp add: is_category_def row_get_default_def SCOPE3_COLUMNS_def)
  ultimately show ?thesis
    using cat12_rows_rejected [of "?raw |` set SCOPE3_COLUMNS" ?src 1 2025 demo_sampler True "[uuid_str 1]"
        "[uuid_str 0, uuid_str 7]" 9 "''AR6''" "''CSRD_ESRS_E1''" "''tester''" None 5 empty_ledger demo_world]
    by blast
qed

section \<open>Two streams of one site\<close>

lemma run_plan_lb:
  assumes "run_plan draw catalog g inputs = Inr as"
  shows "\<exists>bs. scope2_lb_plan (ci_scope2_rows inputs) catalog g (common_ctx inputs) = Inr bs \<and> set bs \<subseteq> set as"
proof -
  obtain s1 s2 ass where
    "list_all2 (\<lambda>p bs. p = Inr bs)
       (direct_plans catalog g inputs @ after_sigma_plans draw catalog g inputs s1 s2) ass"
    and as: "as = concat ass"
    using run_plan_modules [OF assms] by metis
  then obtain bs where "bs \<in> set ass" "scope2_lb_plan (ci_scope2_rows inputs) catalog g (common_ctx inputs) = Inr bs"
    unfolding direct_plans_def after_sigma_plans_def Let_def by (auto simp: list_all2_Cons1)
  with as show ?thesis by auto
qed

lemma lb_record:
  assumes "run_calc draw src t anno corr gwp stream by v = Inr (records, v')"
    and "row \<in> set (select_raw SCOPE2_COLUMNS (rt_scope2 (sd_raw src)) t anno)" and "row_str row ''codice_sito'' = Inr site"
  shows "\<exists>r\<in>set records. er_scope r = 2 \<and> er_sub_scope r = ''LB'' \<and> er_codice_sito r = Some site \<and> er_anno r = anno \<and>
    er_valid_to r = None"
proof -
  let ?in = "run_inputs (sd_raw src) t anno corr by stream"
  have row: "row \<in> set (ci_scope2_rows ?in)" using assms(2) by (simp add: run_inputs_def load_raw_rows_def)
  have year: "row_int row ''anno'' = Inr anno"
    using assms(2) by (auto simp: select_raw_def SCOPE2_COLUMNS_def row_int_def row_get_def)
  obtain g as where plan: "run_plan draw (sql_catalog (sd_catalog src) t) g ?in = Inr as" "list_all2 built as records"
    using run_calc_plan [OF assms(1)] by metis
  obtain bs factor where bs: "collect (scope2_lb_row factor g (common_ctx ?in)) (ci_scope2_rows ?in) = Inr bs" "set bs \<subseteq> set as"
    using run_plan_lb [OF plan(1)] by (auto simp: scope2_lb_plan_def rbind_eq_Inr)
  obtain ys where ys: "scope2_lb_row factor g (common_ctx ?in) row = Inr ys" using collect_defined [OF bs(1) row] by blast
  then obtain a where a: "ys = [a]" "ea_scope a = 2" "ea_sub_scope a = ''LB''" "ea_codice_sito a = Some site" "ea_anno a = anno"
    by (auto simp: scope2_lb_row_def rbind_eq_Inr assms(3) year Let_def emission_args_def)
  then have "a \<in> set bs" using collect_infix [OF bs(1) row, of ys] ys by auto
  then have "a \<in> set as" using bs(2) by blast
  then obtain r where "r \<in> set records" "built a r" using list_all2_left [OF plan(2)] by blast
  then show ?thesis using built_fields built_row_defaults a by (intro bexI [of _ r]) auto
qed

text \<open>
  C11. The exclusion constraint of migration 0030 does not look at the regulatory stream or the GWP
  set. Once the ledger holds an active location-based row of a site and year, whatever its stream, the
  migrated schema rejects every later run of that year with electricity of the site, of whatever stream
  and GWP set, so the second of two regulatory streams is never stored; the ledger stays as it was.
\<close>

theorem second_stream_rejected:
  assumes "row \<in> set (select_raw SCOPE2_COLUMNS (rt_scope2 (sd_raw src)) t anno)" and "row_str row ''codice_sito'' = Inr site"
    and "e \<in> set (lg_emissions db)" and "active e" and "ep_tenant_id e = uuid_str t" and "ep_scope e = 2"
    and "ep_sub_scope e = ''LB''" and "ep_codice_sito e = Some site" and "ep_anno e = anno"
  shows "\<exists>err. run_calc_and_persist draw (migrated_schema fk tenants factor_ids) src t anno corr gwp stream by
      dual ms db w = (Inl err, db) \<and>
    (returns (run_calc draw src t anno corr gwp stream by) (\<lambda>_. True) \<longrightarrow> db_error err)"
proof (rule single_run_rejected)
  fix x w' db'
  show "run_calc_and_persist draw (migrated_schema fk tenants factor_ids) src t anno corr gwp stream by
      dual ms db w \<noteq> (Inr (x, w'), db')"
  proof
    assume "run_calc_and_persist draw (migrated_schema fk tenants factor_ids) src t anno corr gwp stream by
      dual ms db w = (Inr (x, w'), db')"
    from single_run_new_rows [OF this] obtain records es v v' where
      run: "run_calc draw src t anno corr gwp stream by v = Inr (records, v')"
      and rows: "list_all2 (row_of t) records es" and ok: "new_rows_ok factor_ids (lg_emissions db) es"
      by blast
    obtain r where r: "r \<in> set records" "er_scope r = 2" "er_sub_scope r = ''LB''" "er_codice_sito r = Some site" "er_anno r = anno"
        "er_valid_to r = None"
      using lb_record [OF run assms(1,2)] by blast
    obtain p where p: "p \<in> set es" "row_of t r p" using list_all2_left [OF rows r(1)] by blast
    have "overlap_key p = overlap_key e" "site_row p" "site_row e"
      using p(2) r(2-) assms(4-9) by (simp_all add: row_of_def overlap_key_def site_row_def active_def)
    with ok p(1) assms(3) show False unfolding new_rows_ok_def by (auto simp: disjoint_iff)
  qed
qed

text \<open>The location-based row of another stream and GWP set, as an earlier run has left it.\<close>

definition demo_lb_emission :: EmissionRow where
  "demo_lb_emission = (demo_stored ''a'' ''LB'')\<lparr>ep_tenant_id := uuid_str 1, ep_scope := 2, ep_regulatory_stream := ''EU_ETS_PHASE_IV'',
     ep_gwp_set := ''AR5''\<rparr>"

theorem second_stream_rejected_witness:
  "\<exists>err. run_calc_and_persist demo_sampler (migrated_schema False [uuid_str 1] [uuid_str 0, uuid_str 7]) demo_src 1 2025 9
      ''AR6'' ''CSRD_ESRS_E1'' ''tester'' None 5 \<lparr>lg_emissions = [demo_lb_emission], lg_runs = []\<rparr> demo_world =
        (Inl err, \<lparr>lg_emissions = [demo_lb_emission], lg_runs = []\<rparr>) \<and> db_error err"
proof -
  let ?row = "[''tenant_id'' \<mapsto> PUuid 1, ''anno'' \<mapsto> PInt 2025, ''codice_sito'' \<mapsto> PStr ''IANO'', ''quantita'' \<mapsto> PInt 5000] |` set SCOPE2_COLUMNS"
  let ?db = "\<lparr>lg_emissions = [demo_lb_emission], lg_runs = []\<rparr>"
  have "?row \<in> set (select_raw SCOPE2_COLUMNS (rt_scope2 (sd_raw demo_src)) 1 2025)" "row_str ?row ''codice_sito'' = Inr ''IANO''"
    by (simp_all add: select_raw_def demo_src_def SCOPE2_COLUMNS_def row_str_def row_get_def)
  moreover have "demo_lb_emission \<in> set (lg_emissions ?db)" "active demo_lb_emission" "ep_tenant_id demo_lb_emission = uuid_str 1"
    "ep_scope demo_lb_emission = 2" "ep_sub_scope demo_lb_emission = ''LB''" "ep_codice_sito demo_lb_emission = Some ''IANO''"
    "ep_anno demo_lb_emission = 2025"
    by (simp_all add: demo_lb_emission_def demo_stored_def demo_emission_def active_def)
  moreover have "returns (run_calc demo_sampler demo_src 1 2025 9 ''AR6'' ''CSRD_ESRS_E1'' ''tester'') (\<lambda>_. True)"
    by (rule demo_run_calc_returns) (simp_all add: ALLOWED_REGULATORY_STREAMS_def)
  ultimately show ?thesis
    using second_stream_rejected [of ?row demo_src 1 2025 "''IANO''" demo_lb_emission ?db demo_sampler False "[uuid_str 1]"
        "[uuid_str 0, uuid_str 7]" 9 "''AR6''" "''CSRD_ESRS_E1''" "''tester''" None 5 demo_world] by blast
qed

end
