(* ===== verification/Py_Division.thy ===== *)
theory Py_Division
  imports Py_Decimal
begin

text \<open>
  The division of decimals: it returns whenever the divisor is not zero, and its result is the
  quotient up to two roundings (the sticky digit of an inexact quotient, and the rounding to the
  context). Also the differences and comparisons the reporting services use.
\<close>

section \<open>The quotient\<close>

lemma div_strip_value:
  "div_strip k c e = (c', e') \<Longrightarrow> of_nat c' * (10::rat) powi e' = of_nat c * 10 powi e"
proof (induction k c e rule: div_strip.induct)
  case (1 c e)
  then show ?case by simp
next
  case (2 k c e)
  show ?case
  proof (cases "c mod 10 = 0")
    case True
    then have c: "(of_nat c :: rat) = of_nat (c div 10) * 10"
      by (metis mult.commute mult_div_mod_eq add_0_right of_nat_mult of_nat_numeral)
    from True "2.prems" have "of_nat c' * (10::rat) powi e' = of_nat (c div 10) * 10 powi (e + 1)"
      using "2.IH" by simp
    with c show ?thesis by (simp add: power_int_add)
  next
    case False
    with "2.prems" show ?thesis by simp
  qed
qed

lemma scaled_quotient_large:
  assumes "a \<noteq> 0" and "b \<noteq> 0"
    and shift: "shift = int (ndigits b) - int (ndigits a) + int dec_prec + 1"
    and n: "n = (if 0 \<le> shift then a * 10 ^ nat shift else a)"
    and m: "m = (if 0 \<le> shift then b else b * 10 ^ nat (- shift))"
  shows "10 ^ dec_prec * m \<le> n"
proof -
  have lo: "10 ^ (ndigits a - 1) \<le> a" and hi: "b \<le> 10 ^ ndigits b"
    using ndigits_lower [OF assms(1)] ndigits_upper [of b] by simp_all
  have pos: "0 < ndigits a" by simp
  show ?thesis
  proof (cases "0 \<le> shift")
    case True
    then have "ndigits a - 1 + nat shift = dec_prec + ndigits b" using shift pos by linarith
    then have "10 ^ dec_prec * 10 ^ ndigits b = (10::nat) ^ (ndigits a - 1) * 10 ^ nat shift"
      by (simp flip: power_add)
    moreover have "10 ^ dec_prec * b \<le> 10 ^ dec_prec * 10 ^ ndigits b" using hi by simp
    moreover have "(10::nat) ^ (ndigits a - 1) * 10 ^ nat shift \<le> a * 10 ^ nat shift" using lo by simp
    ultimately have "10 ^ dec_prec * b \<le> a * 10 ^ nat shift" by linarith
    with True n m show ?thesis by simp
  next
    case False
    then have e: "ndigits a - 1 = dec_prec + ndigits b + nat (- shift)" using shift pos by linarith
    have "10 ^ dec_prec * (b * 10 ^ nat (- shift)) \<le> 10 ^ dec_prec * (10 ^ ndigits b * 10 ^ nat (- shift))"
      using hi by simp
    also have "\<dots> = 10 ^ (ndigits a - 1)" unfolding e by (simp add: power_add)
    finally show ?thesis using False n m lo by (simp del: power_add)
  qed
qed

text \<open>The rational the scaled integer quotient stands for.\<close>

lemma scaled_quotient_value:
  assumes "b \<noteq> 0"
    and n: "n = (if 0 \<le> shift then a * 10 ^ nat shift else a)"
    and m: "m = (if 0 \<le> shift then b else b * 10 ^ nat (- shift))"
  shows "(of_nat n / of_nat m :: rat) * 10 powi (e - shift) = of_nat a / of_nat b * 10 powi e"
proof (cases "0 \<le> shift")
  case True
  then have "(10::rat) powi e = 10 ^ nat shift * 10 powi (e - shift)"
    using powi_split [of "e - shift" e] by simp
  with True assms show ?thesis by simp
next
  case False
  then have "(10::rat) powi (e - shift) = 10 ^ nat (- shift) * 10 powi e"
    using powi_split [of e "e - shift"] by simp
  with False assms show ?thesis by simp
qed

lemma quotient_sticky:
  assumes "10 ^ dec_prec * m \<le> n" and "0 < m" and "q' = n div m \<or> q' = n div m + 1"
  shows "\<bar>of_nat q' - of_nat n / of_nat m :: rat\<bar> \<le> of_nat n / of_nat m * dec_ulp"
proof -
  let ?x = "of_nat n / of_nat m :: rat"
  have split: "(of_nat n :: rat) = of_nat (n div m) * of_nat m + of_nat (n mod m)"
    by (metis div_mult_mod_eq of_nat_add of_nat_mult)
  have md: "(of_nat (n mod m) :: rat) < of_nat m" using assms(2) by simp
  have "of_nat (n div m) \<le> ?x" "?x < of_nat (n div m) + 1"
    using assms(2) split md by (simp_all add: field_simps)
  with assms(3) have "\<bar>of_nat q' - ?x\<bar> \<le> 1" by auto
  moreover have "(10::rat) ^ dec_prec * of_nat m \<le> of_nat n"
    using assms(1) by (metis of_nat_le_iff of_nat_mult of_nat_numeral of_nat_power)
  then have "(10::rat) ^ dec_prec \<le> ?x" using assms(2) by (simp add: field_simps)
  then have "10 ^ dec_prec * dec_ulp \<le> ?x * dec_ulp"
    using dec_ulp_bounds by (intro mult_right_mono) simp_all
  then have "1 \<le> ?x * dec_ulp" by (simp add: dec_ulp_def)
  ultimately show ?thesis by linarith
qed

lemma dec_div_fix:
  assumes "dcoef b \<noteq> 0"
  obtains c where "dec_div a b = Inr (dec_fix c)" and "dsign c = (dsign a \<noteq> dsign b)"
    and "\<bar>of_nat (dcoef c) * 10 powi dexp c - of_nat (dcoef a) / of_nat (dcoef b) * 10 powi (dexp a - dexp b)\<bar>
      \<le> of_nat (dcoef a) / of_nat (dcoef b) * 10 powi (dexp a - dexp b) * dec_ulp"
proof (cases "dcoef a = 0")
  case True
  show thesis
    by (rule that [of "Dec (dsign a \<noteq> dsign b) 0 (dexp a - dexp b)"])
      (use True assms in \<open>simp_all add: dec_div_def Let_def\<close>)
next
  case False
  define shift where "shift = int (ndigits (dcoef b)) - int (ndigits (dcoef a)) + int dec_prec + 1"
  define n where "n = (if 0 \<le> shift then dcoef a * 10 ^ nat shift else dcoef a)"
  define m where "m = (if 0 \<le> shift then dcoef b else dcoef b * 10 ^ nat (- shift))"
  define e where "e = dexp a - dexp b - shift"
  let ?s = "dsign a \<noteq> dsign b" and ?x = "of_nat n / of_nat m :: rat"
  note large = scaled_quotient_large [OF False assms shift_def n_def m_def]
  note quot = scaled_quotient_value [OF assms n_def m_def, of "dexp a - dexp b", folded e_def]
  have m: "0 < m" using assms by (simp add: m_def)
  have near: "\<bar>of_nat q' * 10 powi e - ?x * 10 powi e\<bar> \<le> ?x * 10 powi e * dec_ulp"
    if "q' = n div m \<or> q' = n div m + 1" for q' :: nat
  proof -
    have "\<bar>of_nat q' * 10 powi e - ?x * 10 powi e\<bar> = \<bar>of_nat q' - ?x\<bar> * 10 powi e"
      unfolding left_diff_distrib [symmetric] abs_mult by simp
    also have "\<dots> \<le> ?x * dec_ulp * 10 powi e"
      using quotient_sticky [OF large m that] by (intro mult_right_mono) simp_all
    finally show ?thesis by (simp add: ac_simps)
  qed
  note near = near [unfolded quot]
  show thesis
  proof (cases "n mod m = 0")
    case False
    let ?c = "Dec ?s (if n div m mod 5 = 0 then n div m + 1 else n div m) e"
    show thesis
    proof (rule that [of ?c])
      show "dec_div a b = Inr (dec_fix ?c)"
        unfolding dec_div_def Let_def shift_def [symmetric] n_def [symmetric] m_def [symmetric] e_def [symmetric]
        using \<open>dcoef a \<noteq> 0\<close> assms False by simp
    qed (unfold decimal.sel, rule refl, rule near, simp)
  next
    case True
    obtain q' e' where strip: "div_strip (nat (dexp a - dexp b - e)) (n div m) e = (q', e')" by fastforce
    show thesis
    proof (rule that [of "Dec ?s q' e'"])
      show "dec_div a b = Inr (dec_fix (Dec ?s q' e'))"
        unfolding dec_div_def Let_def shift_def [symmetric] n_def [symmetric] m_def [symmetric] e_def [symmetric]
        using \<open>dcoef a \<noteq> 0\<close> assms True strip by simp
    qed (unfold decimal.sel div_strip_value [OF strip], rule refl, rule near, simp)
  qed
qed

section \<open>Accuracy\<close>

lemma dec_div_returns: "dec_val b \<noteq> 0 \<Longrightarrow> \<exists>d. dec_div a b = Inr d"
  using dec_div_fix [of b a] by (metis dec_val_zero_iff)

lemma dec_div_zero: "dec_val b = 0 \<Longrightarrow> \<exists>e. dec_div a b = Inl e"
  by (simp add: dec_div_def dec_val_zero_iff)

lemma relative_bounds:
  fixes c x u :: rat
  assumes "\<bar>c - x\<bar> \<le> x * u"
  shows "x * (1 - u) \<le> c" and "c \<le> x * (1 + u)"
  using assms by (simp_all add: algebra_simps abs_le_iff)

lemma rounded_div:
  assumes "rounded k x a" and "0 < dec_val b" and "dec_div a b = Inr d"
  shows "rounded (Suc (Suc k)) (x / dec_val b) d"
proof -
  have nz: "dcoef b \<noteq> 0" using assms(2) dec_val_zero_iff [of b] by auto
  have a: "0 \<le> dec_val a" using assms(1) by (rule rounded_nonneg)
  obtain c where c: "dec_div a b = Inr (dec_fix c)" "dsign c = (dsign a \<noteq> dsign b)"
    and err: "\<bar>of_nat (dcoef c) * 10 powi dexp c - of_nat (dcoef a) / of_nat (dcoef b) * 10 powi (dexp a - dexp b)\<bar>
      \<le> of_nat (dcoef a) / of_nat (dcoef b) * 10 powi (dexp a - dexp b) * dec_ulp"
    using dec_div_fix [OF nz] .
  let ?x = "of_nat (dcoef a) / of_nat (dcoef b) * 10 powi (dexp a - dexp b) :: rat"
  have b: "\<not> dsign b" using assms(2) nz dec_nonneg_value [of b] by (auto simp: dec_nonneg_def)
  have sa: "\<not> dsign a \<or> dcoef a = 0" using a dec_nonneg_value [of a] by (simp add: dec_nonneg_def)
  have q: "dec_val a / dec_val b = ?x"
    using sa b nz by (auto simp: dec_val_alt [of a] dec_val_alt [of b] power_int_diff)
  have vc: "dec_val c = of_nat (dcoef c) * 10 powi dexp c"
  proof (cases "dsign a")
    case True
    with sa err have "dcoef c = 0" by (auto simp: mult_le_0_iff)
    then show ?thesis by (simp add: dec_val_alt)
  next
    case False
    with b c(2) show ?thesis by (simp add: dec_val_alt)
  qed
  have u: "0 \<le> 1 - dec_ulp" "0 \<le> 1 + dec_ulp" using dec_ulp_bounds by simp_all
  have lo: "dec_val a / dec_val b * (1 - dec_ulp) \<le> dec_val c"
    and hi: "dec_val c \<le> dec_val a / dec_val b * (1 + dec_ulp)"
    using relative_bounds [OF err] unfolding vc q by simp_all
  from assms(1) have x: "0 \<le> x" "x * (1 - dec_ulp) ^ k \<le> dec_val a" "dec_val a \<le> x * (1 + dec_ulp) ^ k"
    by (auto simp: rounded_def)
  have "x / dec_val b * (1 - dec_ulp) ^ k \<le> dec_val a / dec_val b"
    "dec_val a / dec_val b \<le> x / dec_val b * (1 + dec_ulp) ^ k"
    using x(2,3) assms(2) by (simp_all add: divide_right_mono)
  then have "x / dec_val b * (1 - dec_ulp) ^ k * (1 - dec_ulp) \<le> dec_val c"
    "dec_val c \<le> x / dec_val b * (1 + dec_ulp) ^ k * (1 + dec_ulp)"
    using mult_right_mono [OF _ u(1)] mult_right_mono [OF _ u(2)] lo hi by (meson order_trans)+
  then have "rounded (Suc k) (x / dec_val b) c"
    using x(1) assms(2) by (simp add: rounded_def ac_simps)
  from rounded_fix [OF this] c(1) assms(3) show ?thesis by simp
qed

end
