(* ===== verification/Intensity_Service.thy ===== *)
theory Intensity_Service
  imports Calc_Helpers Py_Division
begin

text \<open>
  The intensity ratios: \<open>domain/entities/intensity_metric.py\<close> and
  \<open>application/services/intensity_service.py\<close>. The confirmation date is the text \<open>str(date)\<close>
  gives; identifiers are drawn from the world, one per metric.
\<close>

section \<open>The metric\<close>

definition ALLOWED_KPI_CODES :: "string list" where
  "ALLOWED_KPI_CODES = [''KPI-09'', ''KPI-10'', ''KPI-11'']"

definition ALLOWED_SCOPE2_VARIANTS :: "string list" where
  "ALLOWED_SCOPE2_VARIANTS = [''LB'', ''MB'']"

record IntensityMetric =
  im_correlation_id :: uuid
  im_kpi_code :: string
  im_anno :: int
  im_scope2_variant :: string
  im_numerator_tco2e :: decimal
  im_denominator_value :: decimal
  im_denominator_unit :: string
  im_intensity_value :: decimal
  im_gwp_set :: string
  im_regulatory_stream :: string
  im_calc_timestamp :: datetime
  im_created_by :: string
  im_id :: uuid
  im_disclosure_notes :: "string option"

definition im_post_init :: "IntensityMetric \<Rightarrow> unit res" where
  "im_post_init m =
     (if im_kpi_code m \<notin> set ALLOWED_KPI_CODES then Inl ValueError
      else if im_scope2_variant m \<notin> set ALLOWED_SCOPE2_VARIANTS then Inl ValueError
      else if im_gwp_set m \<notin> set ALLOWED_GWP_SETS then Inl InvalidGWPSetError
      else if dec_le (im_denominator_value m) dec_zero then Inl InvalidIntensityDenominatorError
      else if dec_less (im_numerator_tco2e m) dec_zero then Inl ValueError
      else if \<not> tz_aware (im_calc_timestamp m) then Inl NaiveTimestampError
      else Inr ())"

section \<open>The service\<close>

record IntensityReferenceInputs =
  ir_anno :: int
  ir_production_tonnes :: decimal
  ir_revenue_meur :: decimal
  ir_fte :: int
  ir_hr_confirmation_date :: string

text \<open>The arguments every metric of a call shares.\<close>

record IntensityCtx =
  ix_correlation_id :: uuid
  ix_gwp_set :: string
  ix_regulatory_stream :: string
  ix_created_by :: string

definition intensity_sum_total :: "EmissionRecord list \<Rightarrow> int \<Rightarrow> string \<Rightarrow> decimal" where
  "intensity_sum_total emissions anno scope2_variant =
     foldl (\<lambda>total e.
       if er_anno e \<noteq> anno then total
       else if er_scope e = 2 \<and> er_sub_scope e \<noteq> scope2_variant then total
       else dec_add total (er_tco2e e)) dec_zero emissions"

definition intensity_notes :: "IntensityReferenceInputs \<Rightarrow> string \<Rightarrow> string" where
  "intensity_notes ref variant =
     ''FTE='' @ int_str (ir_fte ref) @ '' (HR official '' @ ir_hr_confirmation_date ref @
     ''); scope2_variant='' @ variant @ ''.''"

definition intensity_metric ::
    "IntensityCtx \<Rightarrow> datetime \<Rightarrow> string \<Rightarrow> decimal \<Rightarrow> IntensityReferenceInputs \<Rightarrow>
     string \<Rightarrow> decimal \<Rightarrow> string \<Rightarrow> IntensityMetric run" where
  "intensity_metric ctx ts variant numerator ref kpi_code denominator unit =
     mbind (mlift (dec_div numerator denominator)) (\<lambda>intensity_value.
     mbind uuid4 (\<lambda>i.
     let m = \<lparr>im_correlation_id = ix_correlation_id ctx, im_kpi_code = kpi_code, im_anno = ir_anno ref,
              im_scope2_variant = variant, im_numerator_tco2e = numerator,
              im_denominator_value = denominator, im_denominator_unit = unit,
              im_intensity_value = intensity_value, im_gwp_set = ix_gwp_set ctx,
              im_regulatory_stream = ix_regulatory_stream ctx, im_calc_timestamp = ts,
              im_created_by = ix_created_by ctx, im_id = i,
              im_disclosure_notes = Some (intensity_notes ref variant)\<rparr>
     in mbind (mlift (im_post_init m)) (\<lambda>_. mret m)))"

definition intensity_build_kpis ::
    "IntensityCtx \<Rightarrow> datetime \<Rightarrow> IntensityReferenceInputs \<Rightarrow> string \<Rightarrow> decimal \<Rightarrow>
     IntensityMetric list run" where
  "intensity_build_kpis ctx ts ref variant numerator =
     (let fte_dec = dec_of_int (ir_fte ref);
          metric = intensity_metric ctx ts variant numerator ref
      in if dec_le (ir_production_tonnes ref) dec_zero then mlift (Inl InvalidIntensityDenominatorError)
         else if dec_le (ir_revenue_meur ref) dec_zero then mlift (Inl InvalidIntensityDenominatorError)
         else if dec_le fte_dec dec_zero then mlift (Inl InvalidIntensityDenominatorError)
         else
           mbind (metric ''KPI-09'' (ir_production_tonnes ref) ''t'') (\<lambda>m1.
           mbind (metric ''KPI-10'' (ir_revenue_meur ref) ''M EUR'') (\<lambda>m2.
           mbind (metric ''KPI-11'' fte_dec ''FTE'') (\<lambda>m3.
           mret [m1, m2, m3]))))"

definition intensity_selected :: "IntensityCtx \<Rightarrow> EmissionRecord list \<Rightarrow> EmissionRecord list" where
  "intensity_selected ctx emissions =
     filter (\<lambda>e. er_gwp_set e = ix_gwp_set ctx \<and> er_regulatory_stream e = ix_regulatory_stream ctx) emissions"

definition compute_intensities ::
    "EmissionRecord list \<Rightarrow> IntensityReferenceInputs list \<Rightarrow> IntensityCtx \<Rightarrow> datetime option \<Rightarrow>
     IntensityMetric list run" where
  "compute_intensities emissions references ctx calc_timestamp =
     mbind (case calc_timestamp of Some t \<Rightarrow> mret t | None \<Rightarrow> utc_now) (\<lambda>ts.
     let em_list = intensity_selected ctx emissions in
     for_each (\<lambda>ref. for_each (\<lambda>variant.
       intensity_build_kpis ctx ts ref variant (intensity_sum_total em_list (ir_anno ref) variant))
       [''LB'', ''MB'']) references)"

section \<open>Totals\<close>

text \<open>The emissions that enter the numerator of a variant.\<close>

definition intensity_counted :: "int \<Rightarrow> string \<Rightarrow> EmissionRecord \<Rightarrow> bool" where
  "intensity_counted anno variant e \<longleftrightarrow>
     er_anno e = anno \<and> (er_scope e = 2 \<longrightarrow> er_sub_scope e = variant)"

lemma sum_total_filter:
  "intensity_sum_total es anno v = sum_decimals (map er_tco2e (filter (intensity_counted anno v) es))"
proof -
  have "foldl (\<lambda>total e. if er_anno e \<noteq> anno then total
      else if er_scope e = 2 \<and> er_sub_scope e \<noteq> v then total else dec_add total (er_tco2e e)) d es =
    foldl dec_add d (map er_tco2e (filter (intensity_counted anno v) es))" for d
    by (induction es arbitrary: d) (auto simp: intensity_counted_def)
  then show ?thesis
    by (simp add: intensity_sum_total_def sum_decimals_def)
qed

lemma foldl_nonneg:
  "dec_nonneg d \<Longrightarrow> \<forall>x\<in>set xs. dec_nonneg x \<Longrightarrow> dec_nonneg (foldl dec_add d xs)"
  by (induction xs arbitrary: d) (auto intro: dec_add_nonneg)

lemma sum_total_nonneg:
  assumes "\<forall>e\<in>set es. er_wf e"
  shows "0 \<le> dec_val (intensity_sum_total es anno v)"
proof -
  have "\<forall>x\<in>set (map er_tco2e (filter (intensity_counted anno v) es)). dec_nonneg x"
    using assms by (auto simp: er_wf_def dec_nonneg_value)
  then have "dec_nonneg (intensity_sum_total es anno v)"
    unfolding sum_total_filter sum_decimals_def by (intro foldl_nonneg) (simp_all add: dec_nonneg_def)
  then show ?thesis by (simp add: dec_nonneg_value)
qed

section \<open>Results\<close>

definition reference_ok :: "IntensityReferenceInputs \<Rightarrow> bool" where
  "reference_ok ref \<longleftrightarrow>
     0 < dec_val (ir_production_tonnes ref) \<and> 0 < dec_val (ir_revenue_meur ref) \<and> 0 < ir_fte ref"

text \<open>A metric of a reference year and a variant over the selected emissions.\<close>

definition metric_of ::
    "EmissionRecord list \<Rightarrow> IntensityReferenceInputs \<Rightarrow> string \<Rightarrow> string \<times> decimal \<Rightarrow> IntensityMetric \<Rightarrow> bool" where
  "metric_of em ref variant kd m \<longleftrightarrow>
     im_kpi_code m = fst kd \<and> im_anno m = ir_anno ref \<and> im_scope2_variant m = variant \<and>
     im_numerator_tco2e m =
       sum_decimals (map er_tco2e (filter (intensity_counted (ir_anno ref) variant) em)) \<and>
     im_denominator_value m = snd kd \<and>
     rounded 2 (dec_val (im_numerator_tco2e m) / dec_val (snd kd)) (im_intensity_value m)"

definition kpi_denominators :: "IntensityReferenceInputs \<Rightarrow> (string \<times> decimal) list" where
  "kpi_denominators ref =
     [(''KPI-09'', ir_production_tonnes ref), (''KPI-10'', ir_revenue_meur ref),
      (''KPI-11'', dec_of_int (ir_fte ref))]"

lemma returns_metric:
  assumes "0 < dec_val den" and "kpi \<in> set ALLOWED_KPI_CODES" and "variant \<in> set ALLOWED_SCOPE2_VARIANTS"
    and "ix_gwp_set ctx \<in> set ALLOWED_GWP_SETS" and "tz_aware ts" and "\<forall>e\<in>set em. er_wf e"
  shows "returns (intensity_metric ctx ts variant (intensity_sum_total em (ir_anno ref) variant) ref kpi den unit)
    (metric_of em ref variant (kpi, den))"
proof -
  let ?n = "intensity_sum_total em (ir_anno ref) variant"
  have n: "0 \<le> dec_val ?n" by (rule sum_total_nonneg [OF assms(6)])
  obtain d where d: "dec_div ?n den = Inr d" using assms(1) dec_div_returns [of den ?n] by auto
  have "rounded 2 (dec_val ?n / dec_val den) d"
    using rounded_div [OF rounded_exact [OF n] assms(1) d] by (simp add: eval_nat_numeral)
  then show ?thesis
    unfolding intensity_metric_def Let_def d using assms n
    by (intro returns_mbind_mlift [OF refl] returns_mbind [OF returns_uuid4] returns_mret)
      (auto simp: im_post_init_def dec_cmp_value metric_of_def sum_total_filter intro!: returns_mbind_mlift returns_mret)
qed

lemma returns_build_kpis:
  assumes "reference_ok ref" and "variant \<in> set ALLOWED_SCOPE2_VARIANTS"
    and "ix_gwp_set ctx \<in> set ALLOWED_GWP_SETS" and "tz_aware ts" and "\<forall>e\<in>set em. er_wf e"
  shows "returns (intensity_build_kpis ctx ts ref variant (intensity_sum_total em (ir_anno ref) variant))
    (list_all2 (metric_of em ref variant) (kpi_denominators ref))"
proof -
  have pos: "0 < dec_val (ir_production_tonnes ref)" "0 < dec_val (ir_revenue_meur ref)"
    "0 < dec_val (dec_of_int (ir_fte ref))"
    using assms(1) by (simp_all add: reference_ok_def)
  note metric = returns_metric [OF _ _ assms(2-5)]
  show ?thesis
    unfolding intensity_build_kpis_def Let_def using pos
    by (auto simp: dec_cmp_value kpi_denominators_def ALLOWED_KPI_CODES_def
        intro!: returns_mbind [OF metric [OF pos(1)]] returns_mbind [OF metric [OF pos(2)]]
          returns_mbind [OF metric [OF pos(3)]] returns_mret)
qed

lemma fails_build_kpis:
  "\<not> reference_ok ref \<Longrightarrow> fails (intensity_build_kpis ctx ts ref variant n) InvalidIntensityDenominatorError"
  unfolding intensity_build_kpis_def Let_def
  by (auto simp: reference_ok_def dec_cmp_value intro: fails_mlift)

lemma fails_for_each:
  assumes "\<And>x. x \<in> set before \<Longrightarrow> returns (body x) (\<lambda>_. True)" and "fails (body bad) e"
  shows "fails (for_each body (before @ bad # after)) e"
  using assms(1)
proof (induction before)
  case Nil
  show ?case using assms(2) by (simp add: fails_mbind)
next
  case (Cons x xs)
  then have "returns (body x) (\<lambda>_. True)" "fails (for_each body (xs @ bad # after)) e" by auto
  then show ?case by (auto intro: fails_mbind_after [of "body x"] fails_mbind)
qed

text \<open>The rows of a call: per reference year and variant the three indicators.\<close>

definition intensity_lines :: "IntensityReferenceInputs list \<Rightarrow> (IntensityReferenceInputs \<times> string \<times> string \<times> decimal) list" where
  "intensity_lines refs =
     concat (map (\<lambda>ref. concat (map (\<lambda>v. map (\<lambda>kd. (ref, v, kd)) (kpi_denominators ref)) [''LB'', ''MB''])) refs)"

lemma list_all2_concat: "list_all2 (list_all2 P) xss yss \<Longrightarrow> list_all2 P (concat xss) (concat yss)"
  by (induction rule: list_all2_induct) (auto intro: list_all2_appendI)

lemma returns_reference:
  assumes "reference_ok ref" and "ix_gwp_set ctx \<in> set ALLOWED_GWP_SETS" and "tz_aware ts" and "\<forall>e\<in>set em. er_wf e"
  shows "returns (for_each (\<lambda>variant. intensity_build_kpis ctx ts ref variant
      (intensity_sum_total em (ir_anno ref) variant)) [''LB'', ''MB''])
    (list_all2 (\<lambda>(ref, v, kd) m. metric_of em ref v kd m)
       (concat (map (\<lambda>v. map (\<lambda>kd. (ref, v, kd)) (kpi_denominators ref)) [''LB'', ''MB''])))"
proof (rule returns_mono [OF returns_for_each])
  fix variant
  assume "variant \<in> set [''LB'', ''MB'']"
  then show "returns (intensity_build_kpis ctx ts ref variant (intensity_sum_total em (ir_anno ref) variant))
      (list_all2 (metric_of em ref variant) (kpi_denominators ref))"
    by (intro returns_build_kpis assms) (auto simp: ALLOWED_SCOPE2_VARIANTS_def)
next
  fix zs
  assume "\<exists>yss. zs = concat yss \<and>
    list_all2 (\<lambda>v. list_all2 (metric_of em ref v) (kpi_denominators ref)) [''LB'', ''MB''] yss"
  then show "list_all2 (\<lambda>(ref, v, kd) m. metric_of em ref v kd m)
       (concat (map (\<lambda>v. map (\<lambda>kd. (ref, v, kd)) (kpi_denominators ref)) [''LB'', ''MB''])) zs"
    by (auto simp: list_all2_Cons1 list_all2_map1 intro!: list_all2_appendI)
qed

lemma returns_references:
  assumes "\<forall>ref\<in>set refs. reference_ok ref" and "ix_gwp_set ctx \<in> set ALLOWED_GWP_SETS" and "tz_aware ts"
    and "\<forall>e\<in>set em. er_wf e"
  shows "returns (for_each (\<lambda>ref. for_each (\<lambda>variant. intensity_build_kpis ctx ts ref variant
      (intensity_sum_total em (ir_anno ref) variant)) [''LB'', ''MB'']) refs)
    (list_all2 (\<lambda>(ref, v, kd) m. metric_of em ref v kd m) (intensity_lines refs))"
proof (rule returns_mono [OF returns_for_each])
  fix ref
  assume "ref \<in> set refs"
  with assms show "returns (for_each (\<lambda>variant. intensity_build_kpis ctx ts ref variant
      (intensity_sum_total em (ir_anno ref) variant)) [''LB'', ''MB''])
    (list_all2 (\<lambda>(ref, v, kd) m. metric_of em ref v kd m)
       (concat (map (\<lambda>v. map (\<lambda>kd. (ref, v, kd)) (kpi_denominators ref)) [''LB'', ''MB''])))"
    by (intro returns_reference) auto
next
  fix zs
  assume "\<exists>yss. zs = concat yss \<and> list_all2 (\<lambda>ref. list_all2 (\<lambda>(ref, v, kd) m. metric_of em ref v kd m)
       (concat (map (\<lambda>v. map (\<lambda>kd. (ref, v, kd)) (kpi_denominators ref)) [''LB'', ''MB'']))) refs yss"
  then show "list_all2 (\<lambda>(ref, v, kd) m. metric_of em ref v kd m) (intensity_lines refs) zs"
    unfolding intensity_lines_def by (auto simp: list_all2_map1 intro!: list_all2_concat simp del: concat.simps list.map)
qed

lemma fails_references:
  assumes "\<exists>ref\<in>set refs. \<not> reference_ok ref" and "ix_gwp_set ctx \<in> set ALLOWED_GWP_SETS" and "tz_aware ts"
    and "\<forall>e\<in>set em. er_wf e"
  shows "fails (for_each (\<lambda>ref. for_each (\<lambda>variant. intensity_build_kpis ctx ts ref variant
      (intensity_sum_total em (ir_anno ref) variant)) [''LB'', ''MB'']) refs) InvalidIntensityDenominatorError"
proof -
  obtain before bad after where refs: "refs = before @ bad # after" "\<not> reference_ok bad"
    "\<forall>ref\<in>set before. reference_ok ref"
    using assms(1) split_list_first_prop [of refs "\<lambda>r. \<not> reference_ok r"] by blast
  show ?thesis
    unfolding refs(1)
  proof (rule fails_for_each)
    fix ref
    assume "ref \<in> set before"
    with refs(3) have ok: "reference_ok ref" by blast
    show "returns (for_each (\<lambda>variant. intensity_build_kpis ctx ts ref variant
        (intensity_sum_total em (ir_anno ref) variant)) [''LB'', ''MB'']) (\<lambda>_. True)"
      by (rule returns_mono [OF returns_reference [OF ok assms(2-4)]]) simp
  next
    show "fails (for_each (\<lambda>variant. intensity_build_kpis ctx ts bad variant
        (intensity_sum_total em (ir_anno bad) variant)) [''LB'', ''MB'']) InvalidIntensityDenominatorError"
      using fails_build_kpis [OF refs(2)] by (simp add: fails_mbind)
  qed
qed

end
