(* ===== verification/Recalculation_Policy.thy ===== *)
theory Recalculation_Policy
  imports Py_Division
begin

text \<open>
  \<open>application/services/recalculation_policy.py\<close>: the threshold that triggers a recalculation of
  the base year.
\<close>

section \<open>The policy\<close>

definition THRESHOLD_PCT :: decimal where
  "THRESHOLD_PCT = Dec False 5 (- 2)"

definition BASE_YEAR :: int where
  "BASE_YEAR = 2024"

record RecalculationDecision =
  rd_triggered :: bool
  rd_base_year :: int
  rd_old_total_tco2e :: decimal
  rd_new_total_tco2e :: decimal
  rd_relative_delta :: decimal
  rd_threshold_pct :: decimal
  rd_reason_code :: "string option"
  rd_notify_roles :: "string list"

definition relative_delta :: "decimal \<Rightarrow> decimal \<Rightarrow> decimal res" where
  "relative_delta old new =
     (if dec_eq old dec_zero then Inr (if dec_eq new dec_zero then dec_zero else Dec False 1 0)
      else dec_div (dec_abs (dec_sub new old)) old)"

definition recalculation_evaluate ::
    "decimal \<Rightarrow> decimal \<Rightarrow> string option \<Rightarrow> RecalculationDecision res" where
  "recalculation_evaluate old_total_tco2e new_total_tco2e reason_code =
     (if dec_less old_total_tco2e dec_zero then Inl ValueError
      else if dec_less new_total_tco2e dec_zero then Inl ValueError
      else rbind (relative_delta old_total_tco2e new_total_tco2e) (\<lambda>rel_delta.
        let triggered = dec_less THRESHOLD_PCT rel_delta in
        Inr \<lparr>rd_triggered = triggered, rd_base_year = BASE_YEAR, rd_old_total_tco2e = old_total_tco2e,
             rd_new_total_tco2e = new_total_tco2e, rd_relative_delta = rel_delta,
             rd_threshold_pct = THRESHOLD_PCT,
             rd_reason_code = (if triggered then reason_code else None),
             rd_notify_roles = (if triggered then [''admin'', ''editor''] else [])\<rparr>))"

section \<open>Accuracy of the delta\<close>

lemma dec_val_negate [simp]: "dec_val (dec_negate d) = - dec_val d"
  by (simp add: dec_negate_def dec_val_alt)

lemma rounded_abs_fix:
  assumes "dec_val c = x"
  shows "rounded 2 \<bar>x\<bar> (dec_abs (dec_fix c))"
proof -
  let ?c = "Dec False (dcoef c) (dexp c)"
  have mag: "dcoef (dec_fix d) = dcoef (dec_fix (Dec s (dcoef d) (dexp d))) \<and>
      dexp (dec_fix d) = dexp (dec_fix (Dec s (dcoef d) (dexp d)))" for d s
    by (simp add: dec_fix_def Let_def)
  have "Dec False (dcoef (dec_fix c)) (dexp (dec_fix c)) = dec_fix ?c"
    using mag [of c False] dsign_dec_fix [of ?c] by (metis decimal.collapse decimal.sel(1))
  then have "dec_abs (dec_fix c) = dec_fix (dec_fix ?c)" by (simp add: dec_abs_def)
  moreover have "dec_val ?c = \<bar>x\<bar>"
    using assms by (auto simp: dec_val_alt abs_mult)
  then have "rounded 0 \<bar>x\<bar> ?c" by (simp add: rounded_def)
  then have "rounded (Suc (Suc 0)) \<bar>x\<bar> (dec_fix (dec_fix ?c))" by (intro rounded_fix)
  ultimately show ?thesis by (simp add: numeral_2_eq_2)
qed

lemma rounded_abs_sub: "rounded 2 \<bar>dec_val a - dec_val b\<bar> (dec_abs (dec_sub a b))"
proof -
  obtain c where "dec_add a (dec_negate b) = dec_fix c" "dec_val c = dec_val a + dec_val (dec_negate b)"
    by (rule dec_add_fix)
  with rounded_abs_fix [of c] show ?thesis by (simp add: dec_sub_def)
qed

lemma relative_delta_rounded:
  assumes "0 < dec_val old"
  shows "\<exists>d. relative_delta old new = Inr d \<and> rounded 4 (\<bar>dec_val new - dec_val old\<bar> / dec_val old) d"
proof -
  obtain d where d: "dec_div (dec_abs (dec_sub new old)) old = Inr d"
    using assms dec_div_returns [of old] by auto
  from rounded_div [OF rounded_abs_sub assms d]
  have "rounded 4 (\<bar>dec_val new - dec_val old\<bar> / dec_val old) d" by (simp add: eval_nat_numeral)
  with d assms show ?thesis by (simp add: relative_delta_def dec_cmp_value)
qed

text \<open>
  C17. The base-year policy. It rejects negative totals and decides otherwise. From a positive old
  total it triggers when the relative change exceeds 5 percent by more than four roundings, and
  does not trigger when the change is at most 5 percent less four roundings; from a zero total it
  triggers exactly when the new total is positive, with a relative change of 1 (the docstring of
  \<open>RecalculationDecision\<close> says that the relative change is 0 whenever the old total is, so that nothing
  would trigger; the code has 0 only for two zero totals). Reason and roles are set only when triggered.
\<close>

theorem recalculation_threshold:
  "(dec_val old < 0 \<or> dec_val new < 0 \<longrightarrow> recalculation_evaluate old new reason = Inl ValueError) \<and>
   (0 \<le> dec_val old \<and> 0 \<le> dec_val new \<longrightarrow>
     (\<exists>r. recalculation_evaluate old new reason = Inr r \<and>
       (dec_val old = 0 \<longrightarrow> rd_triggered r = (0 < dec_val new) \<and>
          dec_val (rd_relative_delta r) = (if 0 < dec_val new then 1 else 0)) \<and>
       (0 < dec_val old \<longrightarrow>
          (5 / 100 < \<bar>dec_val new - dec_val old\<bar> / dec_val old * (1 - dec_ulp) ^ 4 \<longrightarrow> rd_triggered r) \<and>
          (\<bar>dec_val new - dec_val old\<bar> / dec_val old * (1 + dec_ulp) ^ 4 \<le> 5 / 100 \<longrightarrow> \<not> rd_triggered r)) \<and>
       rd_reason_code r = (if rd_triggered r then reason else None) \<and>
       rd_notify_roles r = (if rd_triggered r then [''admin'', ''editor''] else [])))"
proof (intro conjI impI)
  assume "dec_val old < 0 \<or> dec_val new < 0"
  then show "recalculation_evaluate old new reason = Inl ValueError"
    by (auto simp: recalculation_evaluate_def dec_cmp_value)
next
  assume nn: "0 \<le> dec_val old \<and> 0 \<le> dec_val new"
  have thr: "dec_val THRESHOLD_PCT = 5 / 100" by (simp add: THRESHOLD_PCT_def dec_val_Dec power_int_def power_divide)
  show "\<exists>r. recalculation_evaluate old new reason = Inr r \<and>
       (dec_val old = 0 \<longrightarrow> rd_triggered r = (0 < dec_val new) \<and>
          dec_val (rd_relative_delta r) = (if 0 < dec_val new then 1 else 0)) \<and>
       (0 < dec_val old \<longrightarrow>
          (5 / 100 < \<bar>dec_val new - dec_val old\<bar> / dec_val old * (1 - dec_ulp) ^ 4 \<longrightarrow> rd_triggered r) \<and>
          (\<bar>dec_val new - dec_val old\<bar> / dec_val old * (1 + dec_ulp) ^ 4 \<le> 5 / 100 \<longrightarrow> \<not> rd_triggered r)) \<and>
       rd_reason_code r = (if rd_triggered r then reason else None) \<and>
       rd_notify_roles r = (if rd_triggered r then [''admin'', ''editor''] else [])"
  proof (cases "dec_val old = 0")
    case True
    with nn thr show ?thesis
      by (auto simp: recalculation_evaluate_def relative_delta_def dec_cmp_value Let_def dec_val_Dec)
  next
    case False
    with nn have pos: "0 < dec_val old" by simp
    obtain d where d: "relative_delta old new = Inr d"
      "rounded 4 (\<bar>dec_val new - dec_val old\<bar> / dec_val old) d"
      using relative_delta_rounded [OF pos] by blast
    then have "\<bar>dec_val new - dec_val old\<bar> / dec_val old * (1 - dec_ulp) ^ 4 \<le> dec_val d"
      "dec_val d \<le> \<bar>dec_val new - dec_val old\<bar> / dec_val old * (1 + dec_ulp) ^ 4"
      by (simp_all add: rounded_def)
    then have "5 / 100 < \<bar>dec_val new - dec_val old\<bar> / dec_val old * (1 - dec_ulp) ^ 4 \<longrightarrow> dec_less THRESHOLD_PCT d"
      "\<bar>dec_val new - dec_val old\<bar> / dec_val old * (1 + dec_ulp) ^ 4 \<le> 5 / 100 \<longrightarrow> \<not> dec_less THRESHOLD_PCT d"
      unfolding dec_cmp_value thr by linarith+
    moreover have "\<not> dec_less old dec_zero" "\<not> dec_less new dec_zero"
      using nn by (simp_all add: dec_cmp_value)
    ultimately show ?thesis
      using d(1) False by (simp add: recalculation_evaluate_def Let_def)
  qed
qed

theorem recalculation_threshold_witness:
  "\<exists>r. recalculation_evaluate (Dec False 1000 0) (Dec False 1100 0) (Some ''STRUCTURAL_CHANGE'') = Inr r \<and>
     rd_triggered r \<and> rd_reason_code r = Some ''STRUCTURAL_CHANGE''"
proof -
  have "(5::rat) / 100 < \<bar>dec_val (Dec False 1100 0) - dec_val (Dec False 1000 0)\<bar> / dec_val (Dec False 1000 0) * (1 - dec_ulp) ^ 4"
    by (simp add: dec_val_Dec dec_ulp_def dec_prec_def power_divide)
  with recalculation_threshold [of "Dec False 1000 0" "Dec False 1100 0" "Some ''STRUCTURAL_CHANGE''"]
  show ?thesis by (auto simp: dec_val_Dec)
qed

end
