(* ===== verification/Yoy_Stats.thy ===== *)
theory Yoy_Stats
  imports Recalculation_Policy Calc_Helpers
begin

text \<open>
  \<open>application/services/yoy_stats.py\<close>: the year-over-year deltas of each key of a history and the
  outlier threshold. The mean and the sample deviation of binary floats (\<open>statistics.fmean\<close> and
  \<open>statistics.stdev\<close>, read back as decimals) are the parameter \<open>stats\<close>, Python's \<open>sorted\<close> on the
  keys is the parameter \<open>sort_keys\<close>; a dictionary is an association list.
\<close>

type_synonym 'k history = "(int \<times> ('k \<times> decimal) list) list"

record 'k YoYStatsBaseline =
  yb_key :: 'k
  yb_sample_size :: nat
  yb_mean_pct :: decimal
  yb_sigma_pct :: decimal
  yb_is_reliable :: bool

definition HUNDRED :: decimal where
  "HUNDRED = Dec False 100 0"

definition pct_change :: "decimal \<Rightarrow> decimal \<Rightarrow> decimal res" where
  "pct_change prev_d next_d =
     rbind (dec_div (dec_sub next_d prev_d) prev_d) (\<lambda>q. Inr (dec_mul q HUNDRED))"

text \<open>The delta of a key between two consecutive years of the history, if it is defined.\<close>

definition yoy_pair :: "'k history \<Rightarrow> 'k \<Rightarrow> int \<times> int \<Rightarrow> decimal list res" where
  "yoy_pair hist k ys =
     (case (map_of hist (fst ys), map_of hist (snd ys)) of
        (Some prev_map, Some next_map) \<Rightarrow>
          (case (map_of prev_map k, map_of next_map k) of
             (Some prev_d, Some next_d) \<Rightarrow>
               if dec_eq prev_d dec_zero then Inr []
               else rbind (pct_change prev_d next_d) (\<lambda>p. Inr [p])
           | _ \<Rightarrow> Inr [])
      | _ \<Rightarrow> Inl (KeyError []))"

definition years_sorted :: "'k history \<Rightarrow> int list" where
  "years_sorted hist = sort (map fst hist)"

definition yoy_deltas :: "'k history \<Rightarrow> 'k \<Rightarrow> decimal list res" where
  "yoy_deltas hist k = collect (yoy_pair hist k) (zip (years_sorted hist) (tl (years_sorted hist)))"

definition yoy_baseline ::
    "(decimal list \<Rightarrow> decimal \<times> decimal) \<Rightarrow> nat \<Rightarrow> 'k \<Rightarrow> decimal list \<Rightarrow> 'k YoYStatsBaseline" where
  "yoy_baseline stats min_sample k deltas =
     (let n = length deltas;
          (mean_pct, sigma_pct) =
            (if n = 0 then (dec_zero, dec_zero)
             else if n < 2 then (hd deltas, dec_zero)
             else stats deltas)
      in \<lparr>yb_key = k, yb_sample_size = n, yb_mean_pct = mean_pct, yb_sigma_pct = sigma_pct,
          yb_is_reliable = (min_sample \<le> n)\<rparr>)"

definition compute_yoy_baseline ::
    "(decimal list \<Rightarrow> decimal \<times> decimal) \<Rightarrow> ('k list \<Rightarrow> 'k list res) \<Rightarrow> 'k history \<Rightarrow> nat \<Rightarrow>
     ('k \<times> 'k YoYStatsBaseline) list res" where
  "compute_yoy_baseline stats sort_keys hist min_sample =
     (if hist = [] then Inr []
      else
        rbind (collect (\<lambda>k. rbind (yoy_deltas hist k) (\<lambda>ds. Inr [(k, ds)]))
                 (remdups (concat (map (\<lambda>h. map fst (snd h)) hist)))) (\<lambda>deltas_by_key.
        rbind (sort_keys (map fst deltas_by_key)) (\<lambda>ks.
        collect (\<lambda>k. Inr [(k, yoy_baseline stats min_sample k
          (case map_of deltas_by_key k of Some ds \<Rightarrow> ds | None \<Rightarrow> []))]) ks)))"

definition threshold_pct :: "'k YoYStatsBaseline option \<Rightarrow> decimal \<Rightarrow> decimal \<Rightarrow> decimal" where
  "threshold_pct baseline sigma_multiplier fallback_pct =
     (case baseline of
        Some b \<Rightarrow> if yb_is_reliable b
                  then dec_add (dec_abs (yb_mean_pct b)) (dec_mul sigma_multiplier (yb_sigma_pct b))
                  else fallback_pct
      | None \<Rightarrow> fallback_pct)"

section \<open>Lemmas\<close>

lemma pct_change_returns: "dec_val p \<noteq> 0 \<Longrightarrow> \<exists>d. pct_change p n = Inr d"
  using dec_div_returns [of p "dec_sub n p"] by (auto simp: pct_change_def)

lemma yoy_pair_returns:
  "fst ys \<in> fst ` set hist \<Longrightarrow> snd ys \<in> fst ` set hist \<Longrightarrow> \<exists>ds. yoy_pair hist k ys = Inr ds"
proof -
  assume "fst ys \<in> fst ` set hist" "snd ys \<in> fst ` set hist"
  then obtain a b where "map_of hist (fst ys) = Some a" "map_of hist (snd ys) = Some b"
    by (metis map_of_eq_None_iff not_Some_eq)
  moreover have "\<exists>ds. (if dec_eq p dec_zero then Inr [] else rbind (pct_change p n) (\<lambda>p. Inr [p])) = Inr ds" for p n
    using pct_change_returns [of p n] by (auto simp: dec_cmp_value)
  ultimately show ?thesis
    by (cases "map_of a k"; cases "map_of b k") (auto simp: yoy_pair_def)
qed

lemma collect_returns: "(\<And>x. x \<in> set xs \<Longrightarrow> \<exists>ys. f x = Inr ys) \<Longrightarrow> \<exists>ys. collect f xs = Inr ys"
proof (induction xs)
  case Nil
  show ?case by simp
next
  case (Cons x xs)
  then obtain ys zs where "f x = Inr ys" "collect f xs = Inr zs" by (metis list.set_intros)
  then show ?case by simp
qed

lemma yoy_deltas_returns: "\<exists>ds. yoy_deltas hist k = Inr ds"
  unfolding yoy_deltas_def
proof (rule collect_returns)
  fix ys
  assume "ys \<in> set (zip (years_sorted hist) (tl (years_sorted hist)))"
  then have "fst ys \<in> set (years_sorted hist)" "snd ys \<in> set (tl (years_sorted hist))"
    by (metis prod.collapse set_zip_leftD, metis prod.collapse set_zip_rightD)
  moreover have "set (tl (years_sorted hist)) \<subseteq> fst ` set hist"
    by (metis list.set_map list.set_sel(2) set_sort subsetI tl_Nil years_sorted_def list.set(1) empty_iff)
  ultimately show "\<exists>ds. yoy_pair hist k ys = Inr ds"
    by (intro yoy_pair_returns) (auto simp: years_sorted_def)
qed

text \<open>A baseline of a successful call is reliable exactly when enough deltas were observed.\<close>

lemma yoy_baseline_entry:
  assumes "compute_yoy_baseline stats sort_keys hist min_sample = Inr bs" and "(k, b) \<in> set bs"
  shows "yb_key b = k \<and> yb_is_reliable b = (min_sample \<le> yb_sample_size b)"
proof (cases "hist = []")
  case True
  with assms show ?thesis by (simp add: compute_yoy_baseline_def)
next
  case False
  with assms obtain dk ks where "collect (\<lambda>k. Inr [(k, yoy_baseline stats min_sample k
      (case map_of dk k of Some ds \<Rightarrow> ds | None \<Rightarrow> []))]) ks = Inr bs"
    by (auto simp: compute_yoy_baseline_def rbind_eq_Inr)
  from collect_member [OF this assms(2)] show ?thesis
    by (auto simp: yoy_baseline_def Let_def split_def)
qed

end
