(* ===== verification/Reconciliation_Service.thy ===== *)
theory Reconciliation_Service
  imports Yoy_Stats
begin

text \<open>
  \<open>application/services/reconciliation_service.py\<close>: the comparison of a frozen snapshot with the
  current emissions. Rows are dictionaries; a site other than \<open>None\<close> or a text is outside the
  model. The history is keyed by scope, sub-scope and site.
\<close>

section \<open>Keys\<close>

type_synonym recon_key = "int \<times> string \<times> string option \<times> int"
type_synonym recon_key3 = "int \<times> string \<times> string option"

definition ALL_CAUSES :: "string list" where
  "ALL_CAUSES =
     [''factor_update'', ''data_correction'', ''methodology'', ''unknown'', ''new_row'', ''withdrawn_row'']"

fun site_of :: "pyval \<Rightarrow> string option res" where
  "site_of PNone = Inr None"
| "site_of (PStr s) = Inr (Some s)"
| "site_of _ = Inl Unmodelled"

definition recon_key_of :: "row \<Rightarrow> recon_key res" where
  "recon_key_of row =
     rbind (row_int row ''scope'') (\<lambda>scope.
     rbind (row_str row ''sub_scope'') (\<lambda>sub_scope.
     rbind (site_of (row_opt row ''codice_sito'')) (\<lambda>site.
     rbind (row_int row ''anno'') (\<lambda>anno.
     Inr (scope, sub_scope, site, anno)))))"

definition key3 :: "recon_key \<Rightarrow> recon_key3" where
  "key3 k = (fst k, fst (snd k), fst (snd (snd k)))"

text \<open>
  Python's \<open>sorted\<close> on keys with an optional site: comparing \<open>None\<close> with a text raises, and that
  comparison is made as soon as two keys agree on what precedes the site.
\<close>

definition sites_comparable :: "(int \<times> string \<times> string option) list \<Rightarrow> bool" where
  "sites_comparable ks =
     list_all (\<lambda>a. list_all (\<lambda>b. fst a = fst b \<and> fst (snd a) = fst (snd b) \<longrightarrow>
       (snd (snd a) = None) = (snd (snd b) = None)) ks) ks"

definition order_key :: "recon_key \<Rightarrow> int \<times> string \<times> string \<times> int" where
  "order_key k =
     (case k of (scope, sub_scope, site, anno) \<Rightarrow>
        (scope, sub_scope, (case site of None \<Rightarrow> [] | Some s \<Rightarrow> s), anno))"

definition sorted_keys :: "recon_key list \<Rightarrow> recon_key list res" where
  "sorted_keys ks = (if sites_comparable (map key3 ks) then Inr (sort_key order_key ks) else Inl TypeError)"

definition order_key3 :: "recon_key3 \<Rightarrow> int \<times> string \<times> string" where
  "order_key3 k =
     (case k of (scope, sub_scope, site) \<Rightarrow> (scope, sub_scope, case site of None \<Rightarrow> [] | Some s \<Rightarrow> s))"

definition sorted_keys3 :: "recon_key3 list \<Rightarrow> recon_key3 list res" where
  "sorted_keys3 ks = (if sites_comparable ks then Inr (sort_key order_key3 ks) else Inl TypeError)"

text \<open>\<open>by_key[_key(row)] = row\<close> over the rows, in order: the last row of a key wins.\<close>

fun index_rows :: "row list \<Rightarrow> (recon_key \<times> row) list res" where
  "index_rows [] = Inr []"
| "index_rows (r # rs) =
     rbind (recon_key_of r) (\<lambda>k. rbind (index_rows rs) (\<lambda>m.
       Inr (if k \<in> fst ` set m then m else (k, r) # m)))"

section \<open>Deltas\<close>

record ReconciliationDelta =
  rc_key :: recon_key
  rc_prior_tco2e :: "decimal option"
  rc_current_tco2e :: "decimal option"
  rc_abs_delta :: decimal
  rc_pct_delta :: "decimal option"
  rc_cause_category :: string
  rc_material :: bool
  rc_threshold_pct_used :: decimal

record ReconciliationResult =
  rs_total_prior :: decimal
  rs_total_current :: decimal
  rs_total_abs_delta :: decimal
  rs_total_delta_pct :: "decimal option"
  rs_rows :: "ReconciliationDelta list"
  rs_material_count :: nat
  rs_restatement_required :: bool
  rs_cause_breakdown :: "(string \<times> decimal) list"

fun as_decimal :: "pyval \<Rightarrow> decimal option res" where
  "as_decimal PNone = Inr None"
| "as_decimal (PDec d) = Inr (Some d)"
| "as_decimal v = rbind (decimal_of_string (py_str v)) (\<lambda>d. Inr (Some d))"

definition tco2e_of :: "row option \<Rightarrow> decimal option res" where
  "tco2e_of r = (case r of None \<Rightarrow> Inr None | Some row \<Rightarrow> as_decimal (row_opt row ''tco2e''))"

definition recon_pct :: "decimal option \<Rightarrow> decimal option \<Rightarrow> decimal option res" where
  "recon_pct prior current =
     (case prior of
        None \<Rightarrow> Inr None
      | Some p \<Rightarrow>
        if dec_eq p dec_zero then Inr None
        else let cur = (case current of Some c \<Rightarrow> c | None \<Rightarrow> dec_zero) in
          rbind (dec_div (dec_sub cur p) p) (\<lambda>q. Inr (Some (dec_mul q (Dec False 100 0)))))"

definition infer_cause :: "row option \<Rightarrow> row option \<Rightarrow> bool \<Rightarrow> string" where
  "infer_cause prior current methodology_flagged =
     (if methodology_flagged then ''methodology''
      else case (prior, current) of
        (None, Some _) \<Rightarrow> ''new_row''
      | (Some _, None) \<Rightarrow> ''withdrawn_row''
      | (Some p, Some c) \<Rightarrow>
          if row_opt p ''factor_version'' \<noteq> row_opt c ''factor_version'' then ''factor_update''
          else ''data_correction''
      | (None, None) \<Rightarrow> ''unknown'')"

definition py_min :: "decimal \<Rightarrow> decimal \<Rightarrow> decimal" where
  "py_min a b = (if dec_less b a then b else a)"

definition recon_threshold :: "(recon_key3 \<times> recon_key3 YoYStatsBaseline) list \<Rightarrow> decimal \<Rightarrow> recon_key \<Rightarrow> decimal" where
  "recon_threshold baselines materiality_pct k =
     (case map_of baselines (key3 k) of
        Some b \<Rightarrow> if yb_is_reliable b
          then py_min (threshold_pct (Some b) (Dec False 2 0) materiality_pct) materiality_pct
          else materiality_pct
      | None \<Rightarrow> materiality_pct)"

definition recon_material :: "decimal option \<Rightarrow> decimal \<Rightarrow> decimal \<Rightarrow> decimal \<Rightarrow> bool" where
  "recon_material pct_delta abs_delta row_threshold materiality_tco2e =
     (case pct_delta of
        Some p \<Rightarrow> dec_less row_threshold (dec_abs p) \<and> dec_le materiality_tco2e (dec_abs abs_delta)
      | None \<Rightarrow> dec_le materiality_tco2e (dec_abs abs_delta))"

definition recon_row ::
    "(recon_key \<times> row) list \<Rightarrow> (recon_key \<times> row) list \<Rightarrow> recon_key list \<Rightarrow>
     (recon_key3 \<times> recon_key3 YoYStatsBaseline) list \<Rightarrow> decimal \<Rightarrow> decimal \<Rightarrow> recon_key \<Rightarrow>
     ReconciliationDelta res" where
  "recon_row prior_by_key current_by_key methodology_set baselines materiality_pct materiality_tco2e k =
     (let prior_row = map_of prior_by_key k; cur_row = map_of current_by_key k in
      rbind (tco2e_of prior_row) (\<lambda>prior_tco2e.
      rbind (tco2e_of cur_row) (\<lambda>current_tco2e.
      let prior_math = (case prior_tco2e of Some d \<Rightarrow> d | None \<Rightarrow> dec_zero);
          current_math = (case current_tco2e of Some d \<Rightarrow> d | None \<Rightarrow> dec_zero);
          abs_delta = dec_sub current_math prior_math
      in rbind (recon_pct prior_tco2e current_tco2e) (\<lambda>pct_delta.
         let row_threshold = recon_threshold baselines materiality_pct k in
         Inr \<lparr>rc_key = k, rc_prior_tco2e = prior_tco2e, rc_current_tco2e = current_tco2e,
              rc_abs_delta = abs_delta, rc_pct_delta = pct_delta,
              rc_cause_category = infer_cause prior_row cur_row (k \<in> set methodology_set),
              rc_material = recon_material pct_delta abs_delta row_threshold materiality_tco2e,
              rc_threshold_pct_used = row_threshold\<rparr>))))"

definition single_row_tripped :: "decimal \<Rightarrow> decimal \<Rightarrow> ReconciliationDelta \<Rightarrow> bool" where
  "single_row_tripped single_row_threshold materiality_tco2e d =
     (case rc_pct_delta d of
        Some p \<Rightarrow> dec_less single_row_threshold (dec_abs p) \<and>
                  dec_le materiality_tco2e (dec_abs (rc_abs_delta d))
      | None \<Rightarrow> False)"

definition or_zero :: "decimal option \<Rightarrow> decimal" where
  "or_zero v = (case v of Some d \<Rightarrow> d | None \<Rightarrow> dec_zero)"

definition add_cause :: "(string \<times> decimal) list \<Rightarrow> ReconciliationDelta \<Rightarrow> (string \<times> decimal) list" where
  "add_cause m d =
     (let c = rc_cause_category d; v = dec_add (or_zero (map_of m c)) (dec_abs (rc_abs_delta d))
      in if c \<in> fst ` set m then map (\<lambda>e. if fst e = c then (c, v) else e) m else m @ [(c, v)])"

definition recon_summary :: "decimal \<Rightarrow> decimal \<Rightarrow> ReconciliationDelta list \<Rightarrow> ReconciliationResult res" where
  "recon_summary materiality_pct materiality_tco2e rows =
     (let total_prior = sum_decimals (map (\<lambda>d. or_zero (rc_prior_tco2e d)) rows);
          total_current = sum_decimals (map (\<lambda>d. or_zero (rc_current_tco2e d)) rows);
          single_row_threshold = dec_mul materiality_pct (Dec False 2 0)
      in rbind (if dec_eq total_prior dec_zero then Inr None
                else rbind (dec_div (dec_sub total_current total_prior) total_prior)
                       (\<lambda>q. Inr (Some (dec_mul q (Dec False 100 0))))) (\<lambda>total_delta_pct.
         let aggregate_trip = (case total_delta_pct of Some p \<Rightarrow> dec_less materiality_pct (dec_abs p) | None \<Rightarrow> False)
         in Inr \<lparr>rs_total_prior = total_prior, rs_total_current = total_current,
                 rs_total_abs_delta = dec_sub total_current total_prior,
                 rs_total_delta_pct = total_delta_pct, rs_rows = rows,
                 rs_material_count = length (filter rc_material rows),
                 rs_restatement_required = (aggregate_trip \<or>
                   list_ex (single_row_tripped single_row_threshold materiality_tco2e) rows),
                 rs_cause_breakdown = foldl add_cause (map (\<lambda>c. (c, dec_zero)) ALL_CAUSES) rows\<rparr>))"

definition reconcile ::
    "(decimal list \<Rightarrow> decimal \<times> decimal) \<Rightarrow> row list \<Rightarrow> row list \<Rightarrow> decimal \<Rightarrow> decimal \<Rightarrow> recon_key list \<Rightarrow>
     recon_key3 history \<Rightarrow> ReconciliationResult res" where
  "reconcile stats snapshot_emissions current_emissions materiality_pct materiality_tco2e methodology_flags
     historical_by_year =
     rbind (index_rows snapshot_emissions) (\<lambda>prior_by_key.
     rbind (index_rows current_emissions) (\<lambda>current_by_key.
     rbind (compute_yoy_baseline stats sorted_keys3 historical_by_year 3) (\<lambda>baselines.
     rbind (sorted_keys (remdups (map fst prior_by_key @ map fst current_by_key))) (\<lambda>all_keys.
     rbind (collect (\<lambda>k. rbind (recon_row prior_by_key current_by_key methodology_flags baselines
                                  materiality_pct materiality_tco2e k) (\<lambda>d. Inr [d])) all_keys) (\<lambda>rows.
     recon_summary materiality_pct materiality_tco2e rows)))))"

section \<open>Lemmas\<close>

lemma collect_mapped:
  "collect (\<lambda>x. rbind (f x) (\<lambda>y. Inr [y])) xs = Inr ys \<Longrightarrow> list_all2 (\<lambda>x y. f x = Inr y) xs ys"
proof (induction xs arbitrary: ys)
  case Nil
  then show ?case by simp
next
  case (Cons x xs)
  then show ?case by (auto simp: rbind_eq_Inr)
qed

lemma index_rows_distinct: "index_rows rows = Inr m \<Longrightarrow> distinct (map fst m)"
  by (induction rows arbitrary: m) (auto simp: rbind_eq_Inr split: if_splits)

lemma index_rows_keys:
  "index_rows rows = Inr m \<Longrightarrow> k \<in> fst ` set m \<longleftrightarrow> (\<exists>r\<in>set rows. recon_key_of r = Inr k)"
proof (induction rows arbitrary: m)
  case Nil
  then show ?case by simp
next
  case (Cons r rs)
  then obtain k1 m1 where "recon_key_of r = Inr k1" "index_rows rs = Inr m1"
    "m = (if k1 \<in> fst ` set m1 then m1 else (k1, r) # m1)"
    by (auto simp: rbind_eq_Inr)
  with Cons.IH [of m1] show ?case by (auto split: if_splits)
qed

text \<open>The row kept for a key is its last one.\<close>

lemma index_rows_last:
  assumes "index_rows rows = Inr m"
  shows "map_of m k = (case filter (\<lambda>r. recon_key_of r = Inr k) rows of [] \<Rightarrow> None | rs \<Rightarrow> Some (last rs))"
  using assms
proof (induction rows arbitrary: m)
  case Nil
  then show ?case by simp
next
  case (Cons r rs)
  then obtain k1 m1 where parts: "recon_key_of r = Inr k1" "index_rows rs = Inr m1"
    "m = (if k1 \<in> fst ` set m1 then m1 else (k1, r) # m1)"
    by (auto simp: rbind_eq_Inr)
  note IH = Cons.IH [OF parts(2)]
  have keys: "k1 \<in> fst ` set m1 \<longleftrightarrow> filter (\<lambda>r. recon_key_of r = Inr k1) rs \<noteq> []"
    using index_rows_keys [OF parts(2), of k1] by (auto simp: filter_empty_conv)
  show ?case
  proof (cases "k = k1")
    case True
    with IH keys parts show ?thesis
      by (cases "filter (\<lambda>r. recon_key_of r = Inr k1) rs") auto
  next
    case False
    with IH parts show ?thesis by auto
  qed
qed

lemma py_min_le: "dec_val (py_min a b) \<le> dec_val b"
  by (simp add: py_min_def dec_cmp_value)

lemma recon_threshold_le: "dec_val (recon_threshold bs mp k) \<le> dec_val mp"
  by (auto simp: recon_threshold_def py_min_le split: option.split)

lemma sites_comparable_mem:
  "sites_comparable ks \<Longrightarrow> (s, t, a) \<in> set ks \<Longrightarrow> (s, t, b) \<in> set ks \<Longrightarrow> (a = None) = (b = None)"
  unfolding sites_comparable_def list_all_iff by (metis fst_conv snd_conv)

lemma order_key_inj:
  assumes "sites_comparable (map key3 ks)"
  shows "inj_on order_key (set ks)"
proof (rule inj_onI)
  fix a b
  assume "a \<in> set ks" "b \<in> set ks" and eq: "order_key a = order_key b"
  obtain s t x y where a: "a = (s, t, x, y)" by (metis prod_cases4)
  obtain s' t' x' y' where b: "b = (s', t', x', y')" by (metis prod_cases4)
  from eq have st: "s' = s" "t' = t" "y' = y"
    and site: "(case x of None \<Rightarrow> [] | Some s \<Rightarrow> s) = (case x' of None \<Rightarrow> [] | Some s \<Rightarrow> s)"
    by (simp_all add: a b order_key_def)
  have "key3 a \<in> set (map key3 ks)" "key3 b \<in> set (map key3 ks)"
    using \<open>a \<in> set ks\<close> \<open>b \<in> set ks\<close> by simp_all
  then have "(s, t, x) \<in> set (map key3 ks)" "(s, t, x') \<in> set (map key3 ks)"
    using st by (simp_all add: a b key3_def)
  from sites_comparable_mem [OF assms this] site have "x = x'" by (cases x; cases x') auto
  with st show "a = b" by (simp add: a b)
qed

lemma recon_summary_returns: "\<exists>res. recon_summary mp mt rows = Inr res"
proof -
  let ?p = "sum_decimals (map (\<lambda>d. or_zero (rc_prior_tco2e d)) rows)"
  let ?c = "sum_decimals (map (\<lambda>d. or_zero (rc_current_tco2e d)) rows)"
  have "\<exists>x. (if dec_eq ?p dec_zero then Inr None
      else rbind (dec_div (dec_sub ?c ?p) ?p) (\<lambda>q. Inr (Some (dec_mul q (Dec False 100 0))))) = Inr x"
    using dec_div_returns [of ?p "dec_sub ?c ?p"] by (auto simp: dec_cmp_value)
  then show ?thesis by (auto simp: recon_summary_def Let_def)
qed

lemma recon_summary_fields:
  assumes "recon_summary mp mt rows = Inr res"
  shows "rs_rows res = rows" "rs_total_prior res = sum_decimals (map (\<lambda>d. or_zero (rc_prior_tco2e d)) rows)"
    "rs_total_current res = sum_decimals (map (\<lambda>d. or_zero (rc_current_tco2e d)) rows)"
    "rs_material_count res = length (filter rc_material rows)"
  using assms unfolding recon_summary_def Let_def rbind_eq_Inr by auto

lemma recon_pct_returns: "\<exists>x. recon_pct p c = Inr x"
proof (cases p)
  case None
  then show ?thesis by (simp add: recon_pct_def)
next
  case (Some d)
  then show ?thesis
    using dec_div_returns [of d "dec_sub (case c of Some x \<Rightarrow> x | None \<Rightarrow> dec_zero) d"]
    by (auto simp: recon_pct_def Let_def dec_cmp_value)
qed

lemma recon_row_returns:
  assumes "tco2e_of (map_of pm k) = Inr p" and "tco2e_of (map_of cm k) = Inr c"
  shows "\<exists>d. recon_row pm cm ms bs mp mt k = Inr d"
  using assms recon_pct_returns [of p c] by (auto simp: recon_row_def Let_def)

end
