(* ===== verification/Sbti_Service.thy ===== *)
theory Sbti_Service
  imports Recalculation_Policy
begin

text \<open>
  Science-based targets: \<open>domain/entities/sbti_target.py\<close> and \<open>application/services/sbti_service.py\<close>.
  A dictionary of observations is an association list from years to amounts.
\<close>

section \<open>Targets\<close>

definition SBTI_ALLOWED_SCOPES :: "string list" where
  "SBTI_ALLOWED_SCOPES =
     [''S1'', ''S2_LB'', ''S2_MB'', ''S3'', ''S1+S2_LB'', ''S1+S2_MB'', ''S1+S2_MB+S3'']"

definition SBTI_ALLOWED_ALIGNMENT :: "string list" where
  "SBTI_ALLOWED_ALIGNMENT = [''1.5C'', ''WB2C'', ''2C'']"

definition SBTI_ALLOWED_METHODOLOGIES :: "string list" where
  "SBTI_ALLOWED_METHODOLOGIES =
     [''SBTi_ACA'', ''SDA'', ''GEVA'', ''SBTi_NetZero'', ''supplier_engagement'', ''custom'']"

definition SBTI_ALLOWED_STATUS :: "string list" where
  "SBTI_ALLOWED_STATUS = [''none'', ''committed'', ''targets_set'', ''validated'']"

record SbtiTarget =
  st_target_id :: uuid
  st_tenant_id :: uuid
  st_name :: string
  st_scope_coverage :: string
  st_baseline_year :: int
  st_baseline_tco2e :: decimal
  st_target_year :: int
  st_target_tco2e :: decimal
  st_reduction_pct :: decimal
  st_alignment :: string
  st_methodology :: string
  st_sbti_approval_status :: string
  st_sbti_validation_date :: "string option"
  st_created_by :: string
  st_created_at :: datetime
  st_is_active :: bool

definition st_post_init :: "SbtiTarget \<Rightarrow> unit res" where
  "st_post_init s =
     (if st_scope_coverage s \<notin> set SBTI_ALLOWED_SCOPES then Inl ValueError
      else if st_alignment s \<notin> set SBTI_ALLOWED_ALIGNMENT then Inl ValueError
      else if st_methodology s \<notin> set SBTI_ALLOWED_METHODOLOGIES then Inl ValueError
      else if st_sbti_approval_status s \<notin> set SBTI_ALLOWED_STATUS then Inl ValueError
      else if st_target_year s \<le> st_baseline_year s then Inl ValueError
      else if dec_le (st_baseline_tco2e s) dec_zero then Inl ValueError
      else if dec_less (st_target_tco2e s) dec_zero then Inl ValueError
      else if dec_less (st_baseline_tco2e s) (st_target_tco2e s) then Inl ValueError
      else if st_sbti_approval_status s = ''validated'' \<and> st_sbti_validation_date s = None
        then Inl ValueError
      else Inr ())"

section \<open>Trajectories\<close>

datatype TargetStatus = ON_TRACK | SLIGHTLY_OFF | OFF_TRACK | NO_DATA

record TrajectoryPoint =
  tp_year :: int
  tp_trajectory_tco2e :: decimal
  tp_actual_tco2e :: "decimal option"

definition trajectory_value :: "decimal \<Rightarrow> decimal \<Rightarrow> decimal \<Rightarrow> int \<Rightarrow> int \<Rightarrow> decimal" where
  "trajectory_value baseline_tco2e target_tco2e delta_per_year years offset =
     (if offset = 0 then baseline_tco2e
      else if offset = years then target_tco2e
      else dec_sub baseline_tco2e (dec_mul delta_per_year (dec_of_int offset)))"

definition compute_trajectory :: "int \<Rightarrow> decimal \<Rightarrow> int \<Rightarrow> decimal \<Rightarrow> TrajectoryPoint list res" where
  "compute_trajectory baseline_year baseline_tco2e target_year target_tco2e =
     (if target_year \<le> baseline_year then Inl ValueError
      else if dec_less target_tco2e dec_zero \<or> dec_le baseline_tco2e dec_zero then Inl ValueError
      else
        let years = target_year - baseline_year in
        rbind (dec_div (dec_sub baseline_tco2e target_tco2e) (dec_of_int years)) (\<lambda>delta_per_year.
        Inr (map (\<lambda>offset. \<lparr>tp_year = baseline_year + offset,
               tp_trajectory_tco2e =
                 trajectory_value baseline_tco2e target_tco2e delta_per_year years offset,
               tp_actual_tco2e = None\<rparr>) [0..years])))"

definition annotate_actuals :: "TrajectoryPoint list \<Rightarrow> (int \<times> decimal) list \<Rightarrow> TrajectoryPoint list" where
  "annotate_actuals trajectory actual_by_year =
     map (\<lambda>pt. pt\<lparr>tp_actual_tco2e := map_of actual_by_year (tp_year pt)\<rparr>) trajectory"

definition latest_year_with_data :: "(int \<times> decimal) list \<Rightarrow> int option" where
  "latest_year_with_data actual_by_year =
     (if actual_by_year = [] then None else Some (foldl max (fst (hd actual_by_year)) (map fst (tl actual_by_year))))"

definition status_of_delta :: "decimal \<Rightarrow> decimal \<Rightarrow> decimal \<Rightarrow> TargetStatus" where
  "status_of_delta delta_pct on_track_band_pct slightly_off_band_pct =
     (if dec_le delta_pct on_track_band_pct then ON_TRACK
      else if dec_le delta_pct slightly_off_band_pct then SLIGHTLY_OFF else OFF_TRACK)"

definition assess_against :: "decimal \<Rightarrow> decimal \<Rightarrow> decimal \<Rightarrow> decimal \<Rightarrow> TargetStatus res" where
  "assess_against actual traj on_track_band_pct slightly_off_band_pct =
     rbind (dec_div (dec_sub actual traj) traj) (\<lambda>q.
     Inr (status_of_delta (dec_mul q (Dec False 100 0)) on_track_band_pct slightly_off_band_pct))"

definition assess_status ::
    "SbtiTarget \<Rightarrow> (int \<times> decimal) list \<Rightarrow> decimal \<Rightarrow> decimal \<Rightarrow> TargetStatus res" where
  "assess_status target actual_by_year on_track_band_pct slightly_off_band_pct =
     (case latest_year_with_data actual_by_year of
        None \<Rightarrow> Inr NO_DATA
      | Some latest_year \<Rightarrow>
        if latest_year < st_baseline_year target then Inr NO_DATA
        else rbind (compute_trajectory (st_baseline_year target) (st_baseline_tco2e target)
                      (st_target_year target) (st_target_tco2e target)) (\<lambda>trajectory.
          case map_of (map (\<lambda>pt. (tp_year pt, tp_trajectory_tco2e pt)) trajectory) latest_year of
            None \<Rightarrow> Inr NO_DATA
          | Some traj_at_latest \<Rightarrow>
            if dec_le traj_at_latest dec_zero then Inr NO_DATA
            else case map_of actual_by_year latest_year of
                None \<Rightarrow> Inl (KeyError [])
              | Some actual \<Rightarrow> assess_against actual traj_at_latest on_track_band_pct slightly_off_band_pct))"

section \<open>Lemmas\<close>

lemma st_post_init_ok:
  "st_post_init s = Inr () \<Longrightarrow>
   st_baseline_year s < st_target_year s \<and> 0 < dec_val (st_baseline_tco2e s) \<and>
   0 \<le> dec_val (st_target_tco2e s) \<and> dec_val (st_target_tco2e s) \<le> dec_val (st_baseline_tco2e s)"
  by (auto simp: st_post_init_def dec_cmp_value split: if_splits)

lemma foldl_max: "foldl max x ys = Max (set (x # ys))" for x :: int
proof (induction ys arbitrary: x)
  case Nil
  show ?case by simp
next
  case (Cons y ys)
  then show ?case by (cases "ys = []") (simp_all add: max.assoc)
qed

lemma latest_year: "latest_year_with_data xs = (if xs = [] then None else Some (Max (fst ` set xs)))"
  by (cases xs) (simp_all add: latest_year_with_data_def foldl_max)

lemma map_of_years:
  "map_of (map (\<lambda>n. (b + n, f n)) [0..s]) y = (if b \<le> y \<and> y \<le> b + s then Some (f (y - b)) else None)"
  for b s y :: int
proof -
  have "map_of (map (\<lambda>n. (b + n, f n)) ns) y = (if y - b \<in> set ns then Some (f (y - b)) else None)" for ns
    by (induction ns) auto
  then show ?thesis by auto
qed

lemma map_add_upto: "map ((+) b) [0..n] = [b..b + n]" for b n :: int
  by (rule nth_equalityI) (auto simp: nth_upto)

lemma sub_fix: obtains c where "dec_sub a b = dec_fix c" and "dec_val c = dec_val a - dec_val b"
  using dec_add_fix [of a "dec_negate b"] by (auto simp: dec_sub_def)

lemma rounded_sub_exact:
  assumes "dec_val b \<le> dec_val a"
  shows "rounded 1 (dec_val a - dec_val b) (dec_sub a b)"
proof -
  obtain c where "dec_sub a b = dec_fix c" "dec_val c = dec_val a - dec_val b" by (rule sub_fix)
  with assms rounded_fix [OF rounded_exact [of c]] show ?thesis by simp
qed

lemma ulp_fourth: "(1 + dec_ulp) ^ 4 \<le> 1 + 5 * dec_ulp" "1 - 5 * dec_ulp \<le> (1 - dec_ulp) ^ 4"
  by (simp_all add: dec_ulp_def dec_prec_def power_divide)

lemma rounded_fourth:
  assumes "rounded 4 x d" and "x \<le> b"
  shows "\<bar>dec_val d - x\<bar> \<le> b * (5 * dec_ulp)"
proof -
  from assms(1) have x: "0 \<le> x" and b: "x * (1 - dec_ulp) ^ 4 \<le> dec_val d" "dec_val d \<le> x * (1 + dec_ulp) ^ 4"
    by (auto simp: rounded_def)
  have "x * (1 - 5 * dec_ulp) \<le> dec_val d" "dec_val d \<le> x * (1 + 5 * dec_ulp)"
    using mult_left_mono [OF ulp_fourth(1) x] mult_left_mono [OF ulp_fourth(2) x] b by linarith+
  then have "\<bar>dec_val d - x\<bar> \<le> x * (5 * dec_ulp)" by (simp add: algebra_simps abs_le_iff)
  moreover have "x * (5 * dec_ulp) \<le> b * (5 * dec_ulp)"
    using assms(2) dec_ulp_bounds by (intro mult_right_mono) simp_all
  ultimately show ?thesis by linarith
qed

lemma trajectory_point_accuracy:
  assumes "0 < years" and "0 \<le> offset" and "offset \<le> years"
    and "0 \<le> dec_val t" and "dec_val t \<le> dec_val b" and "0 < dec_val b"
    and "dec_div (dec_sub b t) (dec_of_int years) = Inr delta"
  shows "\<bar>dec_val (trajectory_value b t delta years offset) -
      (dec_val b - (dec_val b - dec_val t) * of_int offset / of_int years)\<bar> \<le> dec_val b * (10 * dec_ulp)"
proof (cases "offset = 0 \<or> offset = years")
  case True
  with assms(1,6) dec_ulp_bounds show ?thesis by (auto simp: trajectory_value_def)
next
  case False
  let ?x = "(dec_val b - dec_val t) * of_int offset / of_int years"
  let ?p = "dec_mul delta (dec_of_int offset)"
  have "rounded 3 ((dec_val b - dec_val t) / of_int years) delta"
    using rounded_div [OF rounded_sub_exact [OF assms(5)] _ assms(7)] assms(1) by (simp add: eval_nat_numeral)
  from rounded_mul [OF this rounded_exact [of "dec_of_int offset"]] assms(2)
  have p: "rounded 4 ?x ?p" by (simp add: eval_nat_numeral)
  have "(dec_val b - dec_val t) * of_int offset \<le> dec_val b * of_int years"
    using assms by (intro mult_mono) simp_all
  then have xb: "?x \<le> dec_val b" using assms(1) by (simp add: field_simps)
  have pe: "\<bar>dec_val ?p - ?x\<bar> \<le> dec_val b * (5 * dec_ulp)" by (rule rounded_fourth [OF p xb])
  obtain c where c: "dec_sub b ?p = dec_fix c" "dec_val c = dec_val b - dec_val ?p" by (rule sub_fix)
  have "0 \<le> ?x" using p by (simp add: rounded_def)
  then have "\<bar>dec_val c\<bar> \<le> dec_val b + dec_val b * (5 * dec_ulp)"
    using c(2) pe xb by linarith
  moreover have "dec_val b * (5 * dec_ulp) \<le> dec_val b * 1"
    using assms(6) by (intro mult_left_mono) (simp_all add: dec_ulp_def dec_prec_def)
  ultimately have "\<bar>dec_val c\<bar> \<le> dec_val b * 5" by linarith
  then have "\<bar>dec_val c\<bar> * dec_ulp \<le> dec_val b * (5 * dec_ulp)"
    using dec_ulp_bounds mult_right_mono [of "\<bar>dec_val c\<bar>" "dec_val b * 5" dec_ulp] by simp
  then have fe: "\<bar>dec_val (dec_fix c) - dec_val c\<bar> \<le> dec_val b * (5 * dec_ulp)"
    using dec_fix_error [of c] by (simp add: dec_ulp_def)
  have tri: "\<bar>f - (y - x)\<bar> \<le> e + e" if "\<bar>p - x\<bar> \<le> e" "v = y - p" "\<bar>f - v\<bar> \<le> e" for f y x p v e :: rat
    using that by linarith
  have "\<bar>dec_val (dec_sub b ?p) - (dec_val b - ?x)\<bar> \<le> dec_val b * (5 * dec_ulp) + dec_val b * (5 * dec_ulp)"
    unfolding c(1) by (rule tri [OF pe c(2) fe])
  with False show ?thesis by (simp add: trajectory_value_def mult.commute [of dec_ulp])
qed

lemma compute_trajectory_Inr:
  assumes "by < ty" and "0 \<le> dec_val t" and "0 < dec_val b"
  obtains delta where "dec_div (dec_sub b t) (dec_of_int (ty - by)) = Inr delta"
    "compute_trajectory by b ty t = Inr (map (\<lambda>offset. \<lparr>tp_year = by + offset,
       tp_trajectory_tco2e = trajectory_value b t delta (ty - by) offset, tp_actual_tco2e = None\<rparr>) [0..ty - by])"
proof -
  have "dec_val (dec_of_int (ty - by)) \<noteq> 0" using assms(1) unfolding dec_val_of_int by simp
  then obtain delta where "dec_div (dec_sub b t) (dec_of_int (ty - by)) = Inr delta"
    using dec_div_returns by blast
  with assms that show thesis by (simp add: compute_trajectory_def Let_def dec_cmp_value)
qed

section \<open>Properties\<close>

text \<open>
  C19. The trajectory of a reduction target returns and has one point per year from the baseline
  year to the target year, in order; the two end points are the given amounts exactly, and every
  point is the straight line between them up to ten roundings of the baseline amount.
\<close>

theorem trajectory_linear:
  assumes "baseline_year < target_year" and "0 < dec_val b" and "0 \<le> dec_val t" and "dec_val t \<le> dec_val b"
  shows "\<exists>pts. compute_trajectory baseline_year b target_year t = Inr pts \<and>
    map tp_year pts = [baseline_year..target_year] \<and>
    tp_trajectory_tco2e (hd pts) = b \<and> tp_trajectory_tco2e (last pts) = t \<and>
    (\<forall>pt\<in>set pts. \<bar>dec_val (tp_trajectory_tco2e pt) - (dec_val b - (dec_val b - dec_val t) *
       of_int (tp_year pt - baseline_year) / of_int (target_year - baseline_year))\<bar> \<le> dec_val b * (10 * dec_ulp))"
proof -
  let ?n = "target_year - baseline_year"
  obtain delta where d: "dec_div (dec_sub b t) (dec_of_int ?n) = Inr delta"
    and tr: "compute_trajectory baseline_year b target_year t = Inr (map (\<lambda>offset. \<lparr>tp_year = baseline_year + offset,
       tp_trajectory_tco2e = trajectory_value b t delta ?n offset, tp_actual_tco2e = None\<rparr>) [0..?n])"
    using compute_trajectory_Inr [OF assms(1,3,2)] .
  let ?pts = "map (\<lambda>offset. \<lparr>tp_year = baseline_year + offset,
       tp_trajectory_tco2e = trajectory_value b t delta ?n offset, tp_actual_tco2e = None\<rparr>) [0..?n]"
  have "map tp_year ?pts = [baseline_year..target_year]"
    using map_add_upto [of baseline_year ?n] by (simp add: comp_def)
  moreover have "tp_trajectory_tco2e (hd ?pts) = b"
    using assms(1) upto_rec1 [of 0 ?n] by (simp add: trajectory_value_def)
  moreover have "tp_trajectory_tco2e (last ?pts) = t"
    using assms(1) upto_rec2 [of 0 ?n] by (simp add: trajectory_value_def)
  moreover have "\<forall>pt\<in>set ?pts. \<bar>dec_val (tp_trajectory_tco2e pt) - (dec_val b - (dec_val b - dec_val t) *
       of_int (tp_year pt - baseline_year) / of_int ?n)\<bar> \<le> dec_val b * (10 * dec_ulp)"
    using trajectory_point_accuracy [OF _ _ _ assms(3,4,2) d] assms(1) by auto
  ultimately show ?thesis using tr by blast
qed

theorem trajectory_linear_witness:
  "\<exists>pts. compute_trajectory 2024 (Dec False 1000 0) 2030 (Dec False 580 0) = Inr pts \<and>
     map tp_year pts = [2024..2030] \<and> tp_trajectory_tco2e (last pts) = Dec False 580 0"
  using trajectory_linear [of 2024 2030 "Dec False 1000 0" "Dec False 580 0"] by (auto simp: dec_val_Dec)

definition target_trajectory :: "SbtiTarget \<Rightarrow> decimal \<Rightarrow> int \<Rightarrow> decimal" where
  "target_trajectory s delta y = trajectory_value (st_baseline_tco2e s) (st_target_tco2e s) delta
     (st_target_year s - st_baseline_year s) (y - st_baseline_year s)"

lemma assess_status_eval:
  assumes "st_post_init s = Inr ()" and "latest_year_with_data obs = Some y"
  shows "\<exists>delta actual. map_of obs y = Some actual \<and> assess_status s obs on off =
    (if y < st_baseline_year s \<or> st_target_year s < y then Inr NO_DATA
     else if dec_le (target_trajectory s delta y) dec_zero then Inr NO_DATA
     else assess_against actual (target_trajectory s delta y) on off)"
proof -
  note ok = st_post_init_ok [OF assms(1)]
  have "obs \<noteq> []" "y = Max (fst ` set obs)" using assms(2) by (simp_all add: latest_year split: if_splits)
  then have "y \<in> fst ` set obs" by (simp add: Max_in)
  then obtain actual where act: "map_of obs y = Some actual"
    by (metis (no_types) image_iff map_of_eq_None_iff not_Some_eq)
  obtain delta where "compute_trajectory (st_baseline_year s) (st_baseline_tco2e s) (st_target_year s) (st_target_tco2e s) =
      Inr (map (\<lambda>offset. \<lparr>tp_year = st_baseline_year s + offset,
       tp_trajectory_tco2e = trajectory_value (st_baseline_tco2e s) (st_target_tco2e s) delta
         (st_target_year s - st_baseline_year s) offset, tp_actual_tco2e = None\<rparr>)
         [0..st_target_year s - st_baseline_year s])"
    using ok by (metis compute_trajectory_Inr)
  with act have "assess_status s obs on off =
    (if y < st_baseline_year s \<or> st_target_year s < y then Inr NO_DATA
     else if dec_le (target_trajectory s delta y) dec_zero then Inr NO_DATA
     else assess_against actual (target_trajectory s delta y) on off)"
    by (simp add: assess_status_def assms(2) comp_def map_of_years target_trajectory_def)
  with act show ?thesis by blast
qed

lemma assess_against_returns: "\<not> dec_le traj dec_zero \<Longrightarrow> \<exists>st. assess_against actual traj on off = Inr st"
  using dec_div_returns [of traj "dec_sub actual traj"] by (auto simp: assess_against_def dec_cmp_value)

text \<open>
  The status of a valid target never fails. Without observations, or when the latest one is
  before the baseline year or after the target year, there is no data; otherwise the latest
  observation alone is compared with the trajectory of its year, whose value must be positive.
\<close>

theorem target_status_total:
  assumes "st_post_init s = Inr ()"
  shows "(\<exists>st. assess_status s obs on off = Inr st) \<and>
    (obs = [] \<or> Max (fst ` set obs) < st_baseline_year s \<or> st_target_year s < Max (fst ` set obs) \<longrightarrow>
       assess_status s obs on off = Inr NO_DATA) \<and>
    (obs \<noteq> [] \<and> Max (fst ` set obs) = st_target_year s \<and> 0 < dec_val (st_target_tco2e s) \<longrightarrow>
       (\<exists>actual. map_of obs (st_target_year s) = Some actual \<and>
          assess_status s obs on off = assess_against actual (st_target_tco2e s) on off))"
proof (cases "obs = []")
  case True
  then show ?thesis by (simp add: assess_status_def latest_year)
next
  case False
  define y where "y = Max (fst ` set obs)"
  with False have "latest_year_with_data obs = Some y" by (simp add: latest_year)
  from assess_status_eval [OF assms this, of on off] obtain delta actual where
    act: "map_of obs y = Some actual" and st: "assess_status s obs on off =
      (if y < st_baseline_year s \<or> st_target_year s < y then Inr NO_DATA
       else if dec_le (target_trajectory s delta y) dec_zero then Inr NO_DATA
       else assess_against actual (target_trajectory s delta y) on off)" by blast
  have "target_trajectory s delta (st_target_year s) = st_target_tco2e s"
    using st_post_init_ok [OF assms] by (simp add: target_trajectory_def trajectory_value_def)
  with act st assess_against_returns [of "target_trajectory s delta y" actual on off] show ?thesis
    unfolding y_def [symmetric] using st_post_init_ok [OF assms] by (auto simp: False dec_cmp_value)
qed

definition demo_target :: SbtiTarget where
  "demo_target =
     \<lparr>st_target_id = 1, st_tenant_id = 2, st_name = ''near-term'', st_scope_coverage = ''S1+S2_MB'',
      st_baseline_year = 2024, st_baseline_tco2e = Dec False 1000 0, st_target_year = 2030,
      st_target_tco2e = Dec False 580 0, st_reduction_pct = Dec False 42 0, st_alignment = ''1.5C'',
      st_methodology = ''SBTi_ACA'', st_sbti_approval_status = ''committed'', st_sbti_validation_date = None,
      st_created_by = ''u'', st_created_at = DateTime 0 True, st_is_active = True\<rparr>"

theorem target_status_total_witness:
  "st_post_init demo_target = Inr () \<and>
   (\<exists>st. assess_status demo_target [(2025, Dec False 900 0)] (Dec False 5 0) (Dec False 10 0) = Inr st) \<and>
   assess_status demo_target [(2025, Dec False 900 0), (2031, Dec False 9 0)] (Dec False 5 0) (Dec False 10 0) =
     Inr NO_DATA"
proof -
  have ok: "st_post_init demo_target = Inr ()"
    by (simp add: st_post_init_def demo_target_def SBTI_ALLOWED_SCOPES_def SBTI_ALLOWED_ALIGNMENT_def
        SBTI_ALLOWED_METHODOLOGIES_def SBTI_ALLOWED_STATUS_def dec_cmp_value dec_val_Dec)
  then show ?thesis
    using target_status_total [OF ok, of "[(2025, Dec False 900 0)]"]
      target_status_total [OF ok, of "[(2025, Dec False 900 0), (2031, Dec False 9 0)]"]
    by (simp add: demo_target_def)
qed

end
