(* ===== verification/Reporting_Properties.thy ===== *)
theory Reporting_Properties
  imports Intensity_Service Reconciliation_Service Sbti_Service Demo_Inputs
begin

text \<open>
  The theorems about the reporting services: intensity ratios and the reconciliation of a snapshot
  with the current emissions.
\<close>

section \<open>Intensity ratios\<close>

text \<open>
  C18. Over well-formed emissions, with an admissible GWP set and an aware timestamp, the service
  returns exactly when every reference year has positive denominators: then it returns, per year
  and Scope 2 variant, the three indicators in order, each the numerator over its denominator up
  to two roundings, where the numerator is the sum of the selected records of that year without
  the Scope 2 records of the other variant. A non-positive denominator is the domain error.
\<close>

theorem intensities_complete:
  assumes "\<forall>e\<in>set emissions. er_wf e" and "ix_gwp_set ctx \<in> set ALLOWED_GWP_SETS"
    and "\<forall>t. ts = Some t \<longrightarrow> tz_aware t"
  shows "if \<forall>ref\<in>set refs. reference_ok ref
    then \<exists>ms w'. compute_intensities emissions refs ctx ts w = Inr (ms, w') \<and>
      list_all2 (\<lambda>(ref, variant, kd) m. metric_of (intensity_selected ctx emissions) ref variant kd m)
        (intensity_lines refs) ms
    else compute_intensities emissions refs ctx ts w = Inl InvalidIntensityDenominatorError"
proof -
  let ?em = "intensity_selected ctx emissions"
  have em: "\<forall>e\<in>set ?em. er_wf e" using assms(1) by (simp add: intensity_selected_def)
  have time: "returns (case ts of Some t \<Rightarrow> mret t | None \<Rightarrow> utc_now) tz_aware"
    using assms(3) returns_now_utc by (auto simp: utc_now_def split: option.split intro: returns_mret)
  show ?thesis
  proof (cases "\<forall>ref\<in>set refs. reference_ok ref")
    case True
    have "returns (compute_intensities emissions refs ctx ts)
        (list_all2 (\<lambda>(ref, variant, kd) m. metric_of ?em ref variant kd m) (intensity_lines refs))"
      unfolding compute_intensities_def Let_def
      by (rule returns_mbind [OF time]) (rule returns_references [OF True assms(2) _ em])
    with True show ?thesis by (simp add: returns_def)
  next
    case False
    then have bad: "\<exists>ref\<in>set refs. \<not> reference_ok ref" by blast
    have "fails (compute_intensities emissions refs ctx ts) InvalidIntensityDenominatorError"
      unfolding compute_intensities_def Let_def
      by (rule fails_mbind_after [OF time]) (rule fails_references [OF bad assms(2) _ em])
    with False show ?thesis by (simp only: if_False failsD)
  qed
qed

definition demo_reference :: "int \<Rightarrow> IntensityReferenceInputs" where
  "demo_reference fte =
     \<lparr>ir_anno = 2025, ir_production_tonnes = Dec False 400000 0, ir_revenue_meur = Dec False 1205 (- 1),
      ir_fte = fte, ir_hr_confirmation_date = ''2026-01-31''\<rparr>"

definition demo_intensity_ctx :: IntensityCtx where
  "demo_intensity_ctx =
     \<lparr>ix_correlation_id = 3, ix_gwp_set = ''AR6'', ix_regulatory_stream = ''CSRD_ESRS_E1'',
      ix_created_by = ''intensity_service''\<rparr>"

theorem intensities_complete_witness:
  "\<exists>rs w' ms w''. orchestrator_run demo_sampler demo_catalog AR6 demo_inputs demo_world = Inr (rs, w') \<and>
     compute_intensities rs [demo_reference 484] demo_intensity_ctx None w' = Inr (ms, w'') \<and> length ms = 6 \<and>
     compute_intensities rs [demo_reference 0] demo_intensity_ctx None w' = Inl InvalidIntensityDenominatorError"
proof -
  obtain rs w' where run: "orchestrator_run demo_sampler demo_catalog AR6 demo_inputs demo_world = Inr (rs, w')"
    using demo_run_returns by blast
  then have wf: "\<forall>e\<in>set rs. er_wf e" using run_record_stamps by blast
  have g: "ix_gwp_set demo_intensity_ctx \<in> set ALLOWED_GWP_SETS"
    by (simp add: demo_intensity_ctx_def ALLOWED_GWP_SETS_def)
  have ok: "reference_ok (demo_reference 484)" "\<not> reference_ok (demo_reference 0)"
    by (simp_all add: reference_ok_def demo_reference_def dec_val_Dec)
  have len: "length (intensity_lines [demo_reference 484]) = 6"
    by (simp add: intensity_lines_def kpi_denominators_def)
  obtain ms w'' where "compute_intensities rs [demo_reference 484] demo_intensity_ctx None w' = Inr (ms, w'')"
    "length ms = 6"
    using intensities_complete [OF wf g, of None "[demo_reference 484]" w'] ok(1) len
    by (auto dest: list_all2_lengthD)
  moreover have "compute_intensities rs [demo_reference 0] demo_intensity_ctx None w' =
      Inl InvalidIntensityDenominatorError"
    using intensities_complete [OF wf g, of None "[demo_reference 0]" w'] ok(2) by simp
  ultimately show ?thesis using run by blast
qed

section \<open>Reconciliation\<close>

text \<open>The last row of a list with a given key.\<close>

definition last_row_of :: "row list \<Rightarrow> recon_key \<Rightarrow> row option" where
  "last_row_of rows k =
     (case filter (\<lambda>r. recon_key_of r = Inr k) rows of [] \<Rightarrow> None | rs \<Rightarrow> Some (last rs))"

definition recon_row_ok ::
    "row list \<Rightarrow> row list \<Rightarrow> decimal \<Rightarrow> decimal \<Rightarrow> ReconciliationDelta \<Rightarrow> bool" where
  "recon_row_ok snapshot current mp mt d \<longleftrightarrow>
     tco2e_of (last_row_of snapshot (rc_key d)) = Inr (rc_prior_tco2e d) \<and>
     tco2e_of (last_row_of current (rc_key d)) = Inr (rc_current_tco2e d) \<and>
     rc_abs_delta d = dec_sub (or_zero (rc_current_tco2e d)) (or_zero (rc_prior_tco2e d)) \<and>
     dec_val (rc_threshold_pct_used d) \<le> dec_val mp \<and>
     (rc_material d \<longrightarrow> dec_val mt \<le> dec_val (dec_abs (rc_abs_delta d))) \<and>
     (recon_material (rc_pct_delta d) (rc_abs_delta d) mp mt \<longrightarrow> rc_material d)"

lemma recon_row_fields:
  assumes "index_rows snapshot = Inr pm" and "index_rows current = Inr cm"
    and "recon_row pm cm ms bs mp mt k = Inr d"
  shows "rc_key d = k \<and> recon_row_ok snapshot current mp mt d"
proof -
  have idx: "map_of pm k = last_row_of snapshot k" "map_of cm k = last_row_of current k"
    using index_rows_last [OF assms(1)] index_rows_last [OF assms(2)] by (simp_all add: last_row_of_def)
  obtain p c pd where parts: "tco2e_of (last_row_of snapshot k) = Inr p" "tco2e_of (last_row_of current k) = Inr c"
    "recon_pct p c = Inr pd"
    and d: "d = \<lparr>rc_key = k, rc_prior_tco2e = p, rc_current_tco2e = c,
        rc_abs_delta = dec_sub (or_zero c) (or_zero p), rc_pct_delta = pd,
        rc_cause_category = infer_cause (last_row_of snapshot k) (last_row_of current k) (k \<in> set ms),
        rc_material = recon_material pd (dec_sub (or_zero c) (or_zero p)) (recon_threshold bs mp k) mt,
        rc_threshold_pct_used = recon_threshold bs mp k\<rparr>"
    using assms(3) by (auto simp: recon_row_def Let_def rbind_eq_Inr idx or_zero_def)
  show ?thesis
    using parts recon_threshold_le [of bs mp k]
    by (auto simp: d recon_row_ok_def recon_material_def dec_cmp_value split: option.splits)
qed

text \<open>
  C21. A reconciliation has one row per key of either side, in strictly increasing key order; its
  amounts are those of the last row with that key on each side and its delta their difference; a
  material row reaches the absolute floor; a history can only lower a row's threshold, so every
  row that is material under the static threshold is material; the totals are the sums over the
  rows, and the count is that of the material rows.
\<close>

theorem reconcile_rows:
  assumes "reconcile stats snapshot current mp mt ms hist = Inr res"
  shows "sorted_wrt (\<lambda>a b. order_key a < order_key b) (map rc_key (rs_rows res)) \<and>
    (\<forall>k. k \<in> set (map rc_key (rs_rows res)) \<longleftrightarrow> (\<exists>r\<in>set snapshot \<union> set current. recon_key_of r = Inr k)) \<and>
    (\<forall>d\<in>set (rs_rows res). recon_row_ok snapshot current mp mt d) \<and>
    rs_total_prior res = sum_decimals (map (\<lambda>d. or_zero (rc_prior_tco2e d)) (rs_rows res)) \<and>
    rs_total_current res = sum_decimals (map (\<lambda>d. or_zero (rc_current_tco2e d)) (rs_rows res)) \<and>
    rs_material_count res = length (filter rc_material (rs_rows res))"
proof -
  obtain pm cm bs ks rows where idx: "index_rows snapshot = Inr pm" "index_rows current = Inr cm"
    and keys: "sorted_keys (remdups (map fst pm @ map fst cm)) = Inr ks"
    and rows: "collect (\<lambda>k. rbind (recon_row pm cm ms bs mp mt k) (\<lambda>d. Inr [d])) ks = Inr rows"
    and sum: "recon_summary mp mt rows = Inr res"
    using assms by (auto simp: reconcile_def rbind_eq_Inr)
  let ?all = "remdups (map fst pm @ map fst cm)"
  have cmp: "sites_comparable (map key3 ?all)" and ks: "ks = sort_key order_key ?all"
    using keys by (auto simp: sorted_keys_def split: if_splits)
  have "list_all2 (\<lambda>k d. rc_key d = k \<and> recon_row_ok snapshot current mp mt d) ks rows"
    using collect_mapped [OF rows] by (rule list_all2_mono) (rule recon_row_fields [OF idx])
  then have rk: "map rc_key rows = ks" and ok: "\<forall>d\<in>set rows. recon_row_ok snapshot current mp mt d"
    by (induction rule: list_all2_induct) auto
  have "distinct (map order_key ks)"
    using order_key_inj [OF cmp] by (simp add: ks distinct_map)
  moreover have "sorted (map order_key ks)" by (simp add: ks)
  ultimately have strict: "sorted_wrt (\<lambda>a b. order_key a < order_key b) ks"
    by (simp add: strict_sorted_iff flip: sorted_wrt_map)
  have "k \<in> set ks \<longleftrightarrow> (\<exists>r\<in>set snapshot \<union> set current. recon_key_of r = Inr k)" for k
    using index_rows_keys [OF idx(1), of k] index_rows_keys [OF idx(2), of k] by (auto simp: ks)
  with strict rk ok show ?thesis
    unfolding recon_summary_fields [OF sum] by blast
qed

definition demo_recon_row :: "pyval \<Rightarrow> int \<Rightarrow> row" where
  "demo_recon_row site v =
     [''scope'' \<mapsto> PInt 1, ''sub_scope'' \<mapsto> PStr ''combustion'', ''codice_sito'' \<mapsto> site, ''anno'' \<mapsto> PInt 2025,
      ''tco2e'' \<mapsto> PDec (Dec False (nat v) 0)]"

lemma demo_recon_key:
  "recon_key_of (demo_recon_row (PStr s) v) = Inr (1, ''combustion'', Some s, 2025)"
  "recon_key_of (demo_recon_row PNone v) = Inr (1, ''combustion'', None, 2025)"
  "row_opt (demo_recon_row site v) ''tco2e'' = PDec (Dec False (nat v) 0)"
  by (simp_all add: recon_key_of_def demo_recon_row_def row_int_def row_str_def row_get_def row_get_default_def)

theorem reconcile_rows_witness:
  "\<exists>res. reconcile (\<lambda>_. (dec_zero, dec_zero)) [demo_recon_row (PStr ''IANO'') 0] [demo_recon_row (PStr ''IANO'') 400]
       (Dec False 5 0) (Dec False 100 0) [] [] = Inr res \<and>
     set (map rc_key (rs_rows res)) = {(1, ''combustion'', Some ''IANO'', 2025)}"
proof -
  let ?k = "(1, ''combustion'', Some ''IANO'', 2025) :: recon_key"
  obtain d where "recon_row [(?k, demo_recon_row (PStr ''IANO'') 0)] [(?k, demo_recon_row (PStr ''IANO'') 400)] [] []
      (Dec False 5 0) (Dec False 100 0) ?k = Inr d"
    using recon_row_returns [of "[(?k, demo_recon_row (PStr ''IANO'') 0)]" ?k _
        "[(?k, demo_recon_row (PStr ''IANO'') 400)]" _ "[]" "[]"]
    by (fastforce simp: tco2e_of_def demo_recon_key)
  then have "\<exists>res. reconcile (\<lambda>_. (dec_zero, dec_zero)) [demo_recon_row (PStr ''IANO'') 0]
      [demo_recon_row (PStr ''IANO'') 400] (Dec False 5 0) (Dec False 100 0) [] [] = Inr res"
    using recon_summary_returns [of "Dec False 5 0" "Dec False 100 0" "[d]"]
    by (simp add: reconcile_def demo_recon_key compute_yoy_baseline_def sorted_keys_def sites_comparable_def)
  then obtain res where res: "reconcile (\<lambda>_. (dec_zero, dec_zero)) [demo_recon_row (PStr ''IANO'') 0]
      [demo_recon_row (PStr ''IANO'') 400] (Dec False 5 0) (Dec False 100 0) [] [] = Inr res" by blast
  then have "k \<in> set (map rc_key (rs_rows res)) \<longleftrightarrow> k = ?k" for k
    using reconcile_rows [OF res] by (simp only: set_simps bex_Un bex_simps demo_recon_key) auto
  then have "set (map rc_key (rs_rows res)) = {?k}" by blast
  with res show ?thesis by blast
qed

text \<open>
  A site-level row and a company-level row (no site) of the same scope and sub-scope, on
  either side, cannot be sorted: the reconciliation raises \<open>TypeError\<close> instead of a result.
\<close>

theorem reconcile_mixed_sites:
  assumes "index_rows snapshot = Inr pm" and "index_rows current = Inr cm"
    and "compute_yoy_baseline stats sorted_keys3 hist 3 = Inr bs"
    and "r1 \<in> set snapshot \<union> set current" and "recon_key_of r1 = Inr (s, t, None, y1)"
    and "r2 \<in> set snapshot \<union> set current" and "recon_key_of r2 = Inr (s, t, Some site, y2)"
  shows "reconcile stats snapshot current mp mt ms hist = Inl TypeError"
proof -
  let ?all = "remdups (map fst pm @ map fst cm)"
  have "(s, t, None, y1) \<in> set ?all" "(s, t, Some site, y2) \<in> set ?all"
    using assms(4-7) index_rows_keys [OF assms(1)] index_rows_keys [OF assms(2)] by auto
  then have "key3 (s, t, None, y1) \<in> set (map key3 ?all)" "key3 (s, t, Some site, y2) \<in> set (map key3 ?all)"
    unfolding set_map by (blast intro: imageI)+
  then have "(s, t, None) \<in> set (map key3 ?all)" "(s, t, Some site) \<in> set (map key3 ?all)"
    by (simp_all only: key3_def fst_conv snd_conv)
  then have "\<not> sites_comparable (map key3 ?all)" using sites_comparable_mem by blast
  with assms(1-3) show ?thesis by (simp add: reconcile_def sorted_keys_def)
qed

theorem reconcile_mixed_sites_witness:
  "reconcile (\<lambda>_. (dec_zero, dec_zero)) [demo_recon_row PNone 5] [demo_recon_row (PStr ''IANO'') 4]
     (Dec False 5 0) (Dec False 100 0) [] [] = Inl TypeError"
  by (rule reconcile_mixed_sites [of "[demo_recon_row PNone 5]" _ "[demo_recon_row (PStr ''IANO'') 4]" _ _ _ _
        "demo_recon_row PNone 5" 1 "''combustion''" 2025 "demo_recon_row (PStr ''IANO'') 4" "''IANO''" 2025])
    (simp_all add: demo_recon_key compute_yoy_baseline_def)

end
