(* ===== verification/Hotspot_Service.thy ===== *)
theory Hotspot_Service
  imports Yoy_Stats Calc_Orchestrator "HOL-Library.Multiset"
begin

text \<open>
  \<open>application/services/hotspot_service.py\<close> and \<open>domain/value_objects/scope3_categories.py\<close>: the
  ranking of the Scope 3 categories. Timestamps of records are compared by their instant (a
  well-formed record has an aware timestamp).
\<close>

section \<open>Labels\<close>

definition S3_CATEGORY_LABELS :: "(string \<times> string) list" where
  "S3_CATEGORY_LABELS =
     [(''Cat1'', ''1 - Beni e servizi acquistati''), (''Cat2'', ''2 - Beni capitali''),
      (''Cat3'', ''3 - Combustibili/energia WTT+T&D''), (''Cat4'', ''4 - Trasporto upstream''),
      (''Cat5'', ''5 - Rifiuti in operazioni''), (''Cat6'', ''6 - Viaggi di lavoro''),
      (''Cat7'', ''7 - Pendolarismo dipendenti''), (''Cat9'', ''9 - Trasporto downstream''),
      (''Cat11'', ''11 - Uso dei prodotti venduti (Omesso - Immateriale)''),
      (''Cat12'', ''12 - Fine vita prodotti venduti'')]"

definition label_for :: "string \<Rightarrow> string" where
  "label_for sub_scope = (case map_of S3_CATEGORY_LABELS sub_scope of Some l \<Rightarrow> l | None \<Rightarrow> sub_scope)"

section \<open>The ranking\<close>

definition CONCENTRATION_THRESHOLD :: decimal where "CONCENTRATION_THRESHOLD = Dec False 80 0"
definition CONCENTRATION_TOP_N :: nat where "CONCENTRATION_TOP_N = 5"
definition YOY_SIGMA_MULTIPLIER :: decimal where "YOY_SIGMA_MULTIPLIER = Dec False 2 0"
definition YOY_FALLBACK_PCT :: decimal where "YOY_FALLBACK_PCT = Dec False 20 0"

record HotspotEntry =
  he_rank :: nat
  he_sub_scope :: string
  he_category_label :: string
  he_tco2e :: decimal
  he_pct_of_scope3 :: decimal
  he_cumulative_pct :: decimal
  he_yoy_delta_pct :: "decimal option"
  he_flag_high_concentration :: bool
  he_flag_yoy_outlier :: bool
  he_outlier_threshold_pct :: decimal
  he_gwp_set :: string
  he_calc_timestamp :: datetime
  he_factor_sources :: "string set"

text \<open>\<open>totals[k] = totals.get(k, 0) + v\<close> over the Scope 3 records.\<close>

definition aggregate_scope3 :: "EmissionRecord list option \<Rightarrow> (string \<times> decimal) list" where
  "aggregate_scope3 emissions =
     (case emissions of
        None \<Rightarrow> []
      | Some rs \<Rightarrow> foldl sigma_add []
          (map (\<lambda>r. (er_sub_scope r, er_tco2e r)) (filter (\<lambda>r. er_scope r = 3) rs)))"

definition rank_totals :: "(string \<times> decimal) list \<Rightarrow> (string \<times> decimal) list" where
  "rank_totals totals = sort_key (\<lambda>kv. (- dec_val (snd kv), fst kv)) totals"

definition yoy_of :: "(string \<times> decimal) list \<Rightarrow> string \<times> decimal \<Rightarrow> decimal option res" where
  "yoy_of prior_totals kv =
     (case map_of prior_totals (fst kv) of
        None \<Rightarrow> Inr None
      | Some prior_value \<Rightarrow>
        if dec_le prior_value dec_zero then Inr None
        else rbind (pct_change prior_value (snd kv)) (\<lambda>p. Inr (Some p)))"

text \<open>\<open>(value / scope3_total) * 100\<close>.\<close>

definition share_pct :: "decimal \<Rightarrow> decimal \<Rightarrow> decimal res" where
  "share_pct value scope3_total =
     rbind (dec_div value scope3_total) (\<lambda>q. Inr (dec_mul q HUNDRED))"

record HotspotTrace =
  ht_flag :: bool
  ht_gwp_set :: string
  ht_calc_timestamp :: datetime
  ht_factor_sources :: "string set"

fun hotspot_entries ::
    "HotspotTrace \<Rightarrow> (string \<times> decimal) list \<Rightarrow> (string \<times> string YoYStatsBaseline) list \<Rightarrow> decimal \<Rightarrow>
     nat \<Rightarrow> decimal \<Rightarrow> (string \<times> decimal) list \<Rightarrow> HotspotEntry list res" where
  "hotspot_entries tr prior_totals baselines scope3_total rank cumulative [] = Inr []"
| "hotspot_entries tr prior_totals baselines scope3_total rank cumulative (kv # rest) =
     rbind (share_pct (snd kv) scope3_total) (\<lambda>pct.
     let cumulative' = dec_add cumulative pct;
         row_threshold = threshold_pct (map_of baselines (fst kv)) YOY_SIGMA_MULTIPLIER YOY_FALLBACK_PCT
     in rbind (yoy_of prior_totals kv) (\<lambda>yoy.
        rbind (hotspot_entries tr prior_totals baselines scope3_total (Suc rank) cumulative' rest) (\<lambda>es.
        Inr (\<lparr>he_rank = rank, he_sub_scope = fst kv, he_category_label = label_for (fst kv),
              he_tco2e = snd kv, he_pct_of_scope3 = pct, he_cumulative_pct = cumulative',
              he_yoy_delta_pct = yoy, he_flag_high_concentration = ht_flag tr,
              he_flag_yoy_outlier = (case yoy of Some y \<Rightarrow> dec_less row_threshold (dec_abs y) | None \<Rightarrow> False),
              he_outlier_threshold_pct = row_threshold, he_gwp_set = ht_gwp_set tr,
              he_calc_timestamp = ht_calc_timestamp tr, he_factor_sources = ht_factor_sources tr\<rparr> # es))))"

definition trace_gwp_set :: "EmissionRecord list \<Rightarrow> string" where
  "trace_gwp_set rs = (case remdups (map er_gwp_set rs) of [g] \<Rightarrow> g | _ \<Rightarrow> [])"

definition earliest :: "datetime \<Rightarrow> EmissionRecord list \<Rightarrow> datetime" where
  "earliest now rs =
     (case map er_calc_timestamp rs of
        [] \<Rightarrow> now
      | t # ts \<Rightarrow> foldl (\<lambda>m x. if instant x < instant m then x else m) t ts)"

definition py_take :: "int \<Rightarrow> 'a list \<Rightarrow> 'a list" where
  "py_take n xs = (if 0 \<le> n then take (nat n) xs else take (length xs - nat (- n)) xs)"

definition hotspot_body ::
    "(decimal list \<Rightarrow> decimal \<times> decimal) \<Rightarrow> EmissionRecord list \<Rightarrow> (string \<times> decimal) list \<Rightarrow>
     EmissionRecord list option \<Rightarrow> int \<Rightarrow> string history \<Rightarrow> datetime \<Rightarrow> HotspotEntry list res" where
  "hotspot_body stats current_records current_totals emissions_prior top_n historical_by_year now =
     (let prior_totals = aggregate_scope3 emissions_prior;
          ranked = rank_totals current_totals;
          scope3_total = sum_decimals (map snd ranked)
      in if dec_le scope3_total dec_zero then Inr []
         else
           rbind (share_pct (sum_decimals (map snd (take CONCENTRATION_TOP_N ranked))) scope3_total)
             (\<lambda>concentration_pct.
           rbind (compute_yoy_baseline stats (\<lambda>ks. Inr (sort ks)) historical_by_year 3) (\<lambda>baselines.
           rbind (hotspot_entries
                    \<lparr>ht_flag = dec_less CONCENTRATION_THRESHOLD concentration_pct,
                     ht_gwp_set = trace_gwp_set current_records,
                     ht_calc_timestamp = earliest now current_records,
                     ht_factor_sources = er_factor_source ` set current_records\<rparr>
                    prior_totals baselines scope3_total 1 dec_zero ranked) (\<lambda>entries.
           Inr (py_take top_n entries)))))"

definition compute_hotspots ::
    "(decimal list \<Rightarrow> decimal \<times> decimal) \<Rightarrow> EmissionRecord list \<Rightarrow> EmissionRecord list option \<Rightarrow> int \<Rightarrow>
     string history \<Rightarrow> HotspotEntry list run" where
  "compute_hotspots stats emissions_current emissions_prior top_n historical_by_year =
     (let current_records = filter (\<lambda>r. er_scope r = 3) emissions_current;
          current_totals = aggregate_scope3 (Some current_records)
      in if current_totals = [] then mret []
         else mbind now_utc (\<lambda>now. mlift (hotspot_body stats current_records current_totals emissions_prior
                top_n historical_by_year now)))"

section \<open>Totals\<close>

definition amounts_of :: "string \<Rightarrow> EmissionRecord list \<Rightarrow> decimal list" where
  "amounts_of s rs = map er_tco2e (filter (\<lambda>r. er_scope r = 3 \<and> er_sub_scope r = s) rs)"

lemma aggregate_lookup:
  "map_of (aggregate_scope3 (Some rs)) s =
     (if amounts_of s rs = [] then None else Some (sum_decimals (amounts_of s rs)))"
proof -
  have "quantities_of s (map (\<lambda>r. (er_sub_scope r, er_tco2e r)) (filter (\<lambda>r. er_scope r = 3) rs)) = amounts_of s rs"
    by (simp add: quantities_of_def amounts_of_def filter_map comp_def conj_commute)
  then show ?thesis by (simp add: aggregate_scope3_def sigma_lookup)
qed

lemma aggregate_distinct: "distinct (map fst (aggregate_scope3 rs))"
  by (simp add: aggregate_scope3_def foldl_sigma_distinct split: option.split)

lemma rank_totals_props:
  assumes "distinct (map fst m)"
  shows "set (rank_totals m) = set m" "distinct (map fst (rank_totals m))"
    "sorted_wrt (\<lambda>a b. dec_val (snd b) < dec_val (snd a) \<or> dec_val (snd a) = dec_val (snd b) \<and> fst a < fst b) (rank_totals m)"
proof -
  let ?f = "\<lambda>kv :: string \<times> decimal. (- dec_val (snd kv), fst kv)"
  show s: "set (rank_totals m) = set m" by (simp add: rank_totals_def)
  have "mset (rank_totals m) = mset m" by (simp add: rank_totals_def)
  then have "mset (map fst (rank_totals m)) = mset (map fst m)" by (simp only: mset_map)
  with assms show d: "distinct (map fst (rank_totals m))" by (metis mset_eq_imp_distinct_iff)
  have "sorted (map ?f (rank_totals m))" by (simp add: rank_totals_def)
  then have "sorted_wrt (\<lambda>a b. ?f a \<le> ?f b) (rank_totals m)" by (simp add: sorted_wrt_map)
  moreover have "sorted_wrt (\<lambda>a b. fst a \<noteq> fst b) (rank_totals m)"
    using d by (auto simp: sorted_wrt_iff_nth_less distinct_conv_nth)
  ultimately have "sorted_wrt (\<lambda>a b. ?f a \<le> ?f b \<and> fst a \<noteq> fst b) (rank_totals m)"
    by (simp add: sorted_wrt_iff_nth_less)
  then show "sorted_wrt (\<lambda>a b. dec_val (snd b) < dec_val (snd a) \<or> dec_val (snd a) = dec_val (snd b) \<and> fst a < fst b) (rank_totals m)"
    by (rule sorted_wrt_mono_rel [rotated]) (auto simp: less_eq_prod_def)
qed

end
