(* ===== verification/Hotspot_Properties.thy ===== *)
theory Hotspot_Properties
  imports Hotspot_Service Demo_Inputs
begin

text \<open>
  The ranking of the Scope 3 categories: completeness, order and shares of the hot-spot table.
\<close>

section \<open>Sums of amounts\<close>

lemma rounded_foldl_add:
  assumes "\<forall>d\<in>set ds. 0 \<le> dec_val d" and "rounded n x a"
  shows "rounded (n + length ds) (x + sum_list (map dec_val ds)) (foldl dec_add a ds)"
  using assms
proof (induction ds arbitrary: n x a)
  case Nil
  then show ?case by simp
next
  case (Cons d ds)
  have "rounded n (dec_val d) d"
    using Cons.prems(1) rounded_weaken [OF rounded_exact [of d]] by simp
  then have "rounded (Suc n) (x + dec_val d) (dec_add a d)" by (rule rounded_add [OF Cons.prems(2)])
  from Cons.IH [OF _ this] Cons.prems(1) show ?case by (simp add: ac_simps)
qed

lemma rounded_sum_decimals:
  "\<forall>d\<in>set ds. 0 \<le> dec_val d \<Longrightarrow> rounded (length ds) (sum_list (map dec_val ds)) (sum_decimals ds)"
  using rounded_foldl_add [of ds 0 0 dec_zero] by (simp add: sum_decimals_def rounded_zero)

lemma sum_decimals_positive:
  assumes "\<forall>d\<in>set ds. 0 \<le> dec_val d"
  shows "0 < dec_val (sum_decimals ds) \<longleftrightarrow> (\<exists>d\<in>set ds. 0 < dec_val d)"
proof -
  have r: "rounded (length ds) (sum_list (map dec_val ds)) (sum_decimals ds)"
    using assms by (rule rounded_sum_decimals)
  have z: "sum_list (map dec_val ds) = 0 \<longleftrightarrow> (\<forall>d\<in>set ds. dec_val d = 0)"
    using assms by (subst sum_list_nonneg_eq_0_iff) auto
  have "dec_val (sum_decimals ds) = 0 \<longleftrightarrow> sum_list (map dec_val ds) = 0"
  proof
    assume "dec_val (sum_decimals ds) = 0"
    with r have "sum_list (map dec_val ds) * (1 - dec_ulp) ^ length ds \<le> 0" "0 \<le> sum_list (map dec_val ds)"
      by (auto simp: rounded_def)
    moreover have "(0::rat) < (1 - dec_ulp) ^ length ds" using dec_ulp_bounds by simp
    ultimately show "sum_list (map dec_val ds) = 0" by (metis mult_pos_pos not_le order_le_less)
  next
    assume "sum_list (map dec_val ds) = 0"
    with r show "dec_val (sum_decimals ds) = 0" by (simp add: rounded_zero)
  qed
  with z rounded_nonneg [OF r] assms show ?thesis by (metis order_le_less less_irrefl)
qed

section \<open>The entries\<close>

lemma yoy_of_returns: "\<exists>y. yoy_of prior_totals kv = Inr y"
proof (cases "map_of prior_totals (fst kv)")
  case None
  then show ?thesis by (simp add: yoy_of_def)
next
  case (Some v)
  then show ?thesis
    using pct_change_returns [of v "snd kv"] by (cases "dec_le v dec_zero") (auto simp: yoy_of_def dec_cmp_value)
qed

lemma share_pct_rounded:
  assumes "0 \<le> dec_val v" and "0 < dec_val tot"
  shows "\<exists>p. share_pct v tot = Inr p \<and> rounded 3 (dec_val v / dec_val tot * 100) p"
proof -
  obtain q where q: "dec_div v tot = Inr q" using dec_div_returns [of tot v] assms(2) by auto
  then have "rounded 2 (dec_val v / dec_val tot) q"
    using rounded_div [OF rounded_exact [OF assms(1)] assms(2)] by (simp add: numeral_2_eq_2)
  moreover have "rounded 0 100 HUNDRED"
    using rounded_exact [of HUNDRED] by (simp add: HUNDRED_def dec_val_Dec)
  ultimately have "rounded (Suc (2 + 0)) (dec_val v / dec_val tot * 100) (dec_mul q HUNDRED)"
    by (rule rounded_mul)
  with q show ?thesis by (simp add: share_pct_def numeral_3_eq_3 numeral_2_eq_2)
qed

text \<open>What an entry says about its category.\<close>

definition entry_of :: "bool \<Rightarrow> decimal \<Rightarrow> string \<times> decimal \<Rightarrow> HotspotEntry \<Rightarrow> bool" where
  "entry_of flag tot kv e \<longleftrightarrow>
     he_sub_scope e = fst kv \<and> he_category_label e = label_for (fst kv) \<and> he_tco2e e = snd kv \<and>
     he_flag_high_concentration e = flag \<and>
     rounded 3 (dec_val (snd kv) / dec_val tot * 100) (he_pct_of_scope3 e)"


lemma hotspot_entries_returns:
  assumes "0 < dec_val tot" and "\<forall>kv\<in>set kvs. 0 \<le> dec_val (snd kv)"
  shows "\<exists>es. hotspot_entries tr prior_totals bs tot rank cumulative kvs = Inr es \<and>
    list_all2 (entry_of (ht_flag tr) tot) kvs es \<and> map he_rank es = [rank ..< rank + length kvs] \<and>
    (\<forall>i < length es. he_cumulative_pct (es ! i) =
       foldl dec_add cumulative (map he_pct_of_scope3 (take (Suc i) es)))"
  using assms(2)
proof (induction kvs arbitrary: rank cumulative)
  case Nil
  show ?case by simp
next
  case (Cons kv kvs)
  obtain p where p: "share_pct (snd kv) tot = Inr p" "rounded 3 (dec_val (snd kv) / dec_val tot * 100) p"
    using share_pct_rounded [OF _ assms(1), of "snd kv"] Cons.prems by auto
  obtain y where y: "yoy_of prior_totals kv = Inr y" using yoy_of_returns by blast
  obtain es where es: "hotspot_entries tr prior_totals bs tot (Suc rank) (dec_add cumulative p) kvs = Inr es"
    "list_all2 (entry_of (ht_flag tr) tot) kvs es" "map he_rank es = [Suc rank ..< Suc rank + length kvs]"
    "\<forall>i < length es. he_cumulative_pct (es ! i) =
       foldl dec_add (dec_add cumulative p) (map he_pct_of_scope3 (take (Suc i) es))"
    using Cons.IH [of "Suc rank" "dec_add cumulative p"] Cons.prems by auto
  have up: "[rank ..< rank + length (kv # kvs)] = rank # [Suc rank ..< Suc rank + length kvs]"
    by (simp add: upt_conv_Cons del: upt_Suc)
  show ?case
    unfolding up using es p(2) by (auto simp: p(1) y Let_def entry_of_def [of _ _ kv] nth_Cons split: nat.split)
qed

lemma collect_pairs_total:
  "(\<And>x. \<exists>y. f x = Inr y) \<Longrightarrow> \<exists>ys. collect (\<lambda>x. rbind (f x) (\<lambda>y. Inr [(x, y)])) xs = Inr ys"
  by (rule collect_returns) (metis rbind_simps(1))

lemma baseline_returns: "\<exists>bs. compute_yoy_baseline stats (\<lambda>ks. Inr (sort ks)) hist n = Inr bs"
proof (cases "hist = []")
  case False
  obtain dk where "collect (\<lambda>k. rbind (yoy_deltas hist k) (\<lambda>ds. Inr [(k, ds)]))
      (remdups (concat (map (\<lambda>h. map fst (snd h)) hist))) = Inr dk"
    using collect_pairs_total [of "yoy_deltas hist", OF yoy_deltas_returns] by blast
  moreover have "\<exists>bs. collect (\<lambda>k. Inr [(k, yoy_baseline stats n k
      (case map_of dk k of Some ds \<Rightarrow> ds | None \<Rightarrow> []))]) (sort (map fst dk)) = Inr bs"
    by (rule collect_returns) simp
  ultimately show ?thesis using False by (simp add: compute_yoy_baseline_def)
qed (simp add: compute_yoy_baseline_def)

text \<open>
  The complete table: one entry per category with a Scope 3 record, ranked from one, in strictly
  decreasing order (equal amounts by name).
\<close>

definition hotspot_table :: "EmissionRecord list \<Rightarrow> HotspotEntry list \<Rightarrow> bool" where
  "hotspot_table rs es \<longleftrightarrow>
     he_sub_scope ` set es = er_sub_scope ` {r \<in> set rs. er_scope r = 3} \<and>
     map he_rank es = [1 ..< 1 + length es] \<and>
     sorted_wrt (\<lambda>a b. dec_val (he_tco2e b) < dec_val (he_tco2e a) \<or>
       dec_val (he_tco2e a) = dec_val (he_tco2e b) \<and> he_sub_scope a < he_sub_scope b) es \<and>
     (\<forall>e\<in>set es. he_tco2e e = sum_decimals (amounts_of (he_sub_scope e) rs) \<and>
        he_category_label e = label_for (he_sub_scope e) \<and>
        rounded 3 (dec_val (he_tco2e e) / dec_val (sum_decimals (map he_tco2e es)) * 100) (he_pct_of_scope3 e)) \<and>
     (\<forall>i < length es. he_cumulative_pct (es ! i) = sum_decimals (map he_pct_of_scope3 (take (Suc i) es)))"

lemma aggregate_nonneg:
  assumes "\<forall>e\<in>set rs. er_wf e" and "kv \<in> set (aggregate_scope3 (Some rs))"
  shows "snd kv = sum_decimals (amounts_of (fst kv) rs)" "amounts_of (fst kv) rs \<noteq> []"
    "\<forall>d\<in>set (amounts_of (fst kv) rs). 0 \<le> dec_val d" "0 \<le> dec_val (snd kv)"
proof -
  have "map_of (aggregate_scope3 (Some rs)) (fst kv) = Some (snd kv)"
    using assms(2) aggregate_distinct by (metis map_of_is_SomeI prod.collapse)
  then show v: "snd kv = sum_decimals (amounts_of (fst kv) rs)" and "amounts_of (fst kv) rs \<noteq> []"
    by (simp_all add: aggregate_lookup split: if_splits)
  show nn: "\<forall>d\<in>set (amounts_of (fst kv) rs). 0 \<le> dec_val d"
    using assms(1) by (auto simp: amounts_of_def er_wf_def)
  show "0 \<le> dec_val (snd kv)" unfolding v using rounded_sum_decimals [OF nn] by (rule rounded_nonneg)
qed

lemma aggregate_keys: "fst ` set (aggregate_scope3 (Some rs)) = er_sub_scope ` {r \<in> set rs. er_scope r = 3}"
proof -
  have "s \<in> fst ` set (aggregate_scope3 (Some rs)) \<longleftrightarrow> amounts_of s rs \<noteq> []" for s
    using map_of_eq_None_iff [of "aggregate_scope3 (Some rs)" s] by (auto simp: aggregate_lookup)
  moreover have "amounts_of s rs \<noteq> [] \<longleftrightarrow> s \<in> er_sub_scope ` {r \<in> set rs. er_scope r = 3}" for s
    by (auto simp: amounts_of_def filter_empty_conv)
  ultimately show ?thesis by blast
qed

lemma entry_of_columns:
  "list_all2 (entry_of flag tot) kvs es \<Longrightarrow>
     kvs = map (\<lambda>e. (he_sub_scope e, he_tco2e e)) es \<and>
     (\<forall>e\<in>set es. entry_of flag tot (he_sub_scope e, he_tco2e e) e)"
  by (induction rule: list_all2_induct) (auto simp: entry_of_def)

lemma hotspot_table_entries:
  assumes "list_all2 (entry_of flag (sum_decimals (map snd kvs))) kvs es"
    and "sorted_wrt (\<lambda>a b. dec_val (snd b) < dec_val (snd a) \<or>
      dec_val (snd a) = dec_val (snd b) \<and> fst a < fst b) kvs"
    and "fst ` set kvs = er_sub_scope ` {r \<in> set rs. er_scope r = 3}"
    and "map he_rank es = [1 ..< 1 + length kvs]"
    and "\<forall>i < length es. he_cumulative_pct (es ! i) =
      foldl dec_add dec_zero (map he_pct_of_scope3 (take (Suc i) es))"
    and "\<forall>kv\<in>set kvs. snd kv = sum_decimals (amounts_of (fst kv) rs)"
  shows "hotspot_table rs es"
proof -
  let ?tot = "sum_decimals (map snd kvs)"
  have kvs: "kvs = map (\<lambda>e. (he_sub_scope e, he_tco2e e)) es"
    and ok: "\<forall>e\<in>set es. entry_of flag ?tot (he_sub_scope e, he_tco2e e) e"
    using entry_of_columns [OF assms(1)] by blast+
  have tot: "?tot = sum_decimals (map he_tco2e es)" by (simp add: kvs comp_def)
  show ?thesis
    unfolding hotspot_table_def tot [symmetric] using assms(2-6) ok
    by (auto simp: kvs sorted_wrt_map image_image entry_of_def sum_decimals_def [of "map he_pct_of_scope3 _"])
qed

lemma aggregate_filter: "aggregate_scope3 (Some (filter (\<lambda>r. er_scope r = 3) rs)) = aggregate_scope3 (Some rs)"
  by (simp add: aggregate_scope3_def)

lemma hotspot_body_table:
  assumes "\<forall>e\<in>set rs. er_wf e"
  shows "\<exists>es. hotspot_body stats crs (aggregate_scope3 (Some rs)) prior top_n hist now = Inr (py_take top_n es) \<and>
    (if \<exists>r\<in>set rs. er_scope r = 3 \<and> 0 < dec_val (er_tco2e r) then hotspot_table rs es else es = [])"
proof -
  let ?kvs = "rank_totals (aggregate_scope3 (Some rs))"
  let ?tot = "sum_decimals (map snd ?kvs)"
  note ranked = rank_totals_props [OF aggregate_distinct, of "Some rs"]
  have amt: "snd kv = sum_decimals (amounts_of (fst kv) rs)" "0 \<le> dec_val (snd kv)"
    "\<forall>d\<in>set (amounts_of (fst kv) rs). 0 \<le> dec_val d" if "kv \<in> set ?kvs" for kv
    using aggregate_nonneg [OF assms, of kv] that ranked(1) by simp_all
  have keys: "fst ` set ?kvs = er_sub_scope ` {r \<in> set rs. er_scope r = 3}"
    using ranked(1) aggregate_keys by simp
  have "0 < dec_val ?tot \<longleftrightarrow> (\<exists>kv\<in>set ?kvs. 0 < dec_val (snd kv))"
    using sum_decimals_positive [of "map snd ?kvs"] amt(2) by simp
  also have "\<dots> \<longleftrightarrow> (\<exists>kv\<in>set ?kvs. \<exists>d\<in>set (amounts_of (fst kv) rs). 0 < dec_val d)"
    using amt sum_decimals_positive by (intro bex_cong refl) metis
  also have "\<dots> \<longleftrightarrow> (\<exists>s\<in>fst ` set ?kvs. \<exists>d\<in>set (amounts_of s rs). 0 < dec_val d)" by blast
  also have "\<dots> \<longleftrightarrow> (\<exists>r\<in>set rs. er_scope r = 3 \<and> 0 < dec_val (er_tco2e r))"
    unfolding keys by (auto simp: amounts_of_def)
  finally have pos: "0 < dec_val ?tot \<longleftrightarrow> (\<exists>r\<in>set rs. er_scope r = 3 \<and> 0 < dec_val (er_tco2e r))" .
  show ?thesis
  proof (cases "0 < dec_val ?tot")
    case False
    then have "hotspot_body stats crs (aggregate_scope3 (Some rs)) prior top_n hist now = Inr (py_take top_n [])"
      by (simp add: hotspot_body_def Let_def dec_cmp_value py_take_def)
    moreover have none: "\<not> (\<exists>r\<in>set rs. er_scope r = 3 \<and> 0 < dec_val (er_tco2e r))" using False pos by blast
    ultimately show ?thesis unfolding if_not_P [OF none] by blast
  next
    case True
    have "0 \<le> dec_val (sum_decimals (map snd (take CONCENTRATION_TOP_N ?kvs)))"
      using amt(2) by (intro rounded_nonneg [OF rounded_sum_decimals]) (auto dest: in_set_takeD)
    then obtain c where c: "share_pct (sum_decimals (map snd (take CONCENTRATION_TOP_N ?kvs))) ?tot = Inr c"
      using share_pct_rounded [OF _ True] by blast
    obtain bs where bs: "compute_yoy_baseline stats (\<lambda>ks. Inr (sort ks)) hist 3 = Inr bs"
      using baseline_returns by blast
    let ?tr = "\<lparr>ht_flag = dec_less CONCENTRATION_THRESHOLD c, ht_gwp_set = trace_gwp_set crs,
        ht_calc_timestamp = earliest now crs, ht_factor_sources = er_factor_source ` set crs\<rparr>"
    obtain es where es: "hotspot_entries ?tr (aggregate_scope3 prior) bs ?tot 1 dec_zero ?kvs = Inr es"
      "list_all2 (entry_of (ht_flag ?tr) ?tot) ?kvs es" "map he_rank es = [1 ..< 1 + length ?kvs]"
      "\<forall>i < length es. he_cumulative_pct (es ! i) = foldl dec_add dec_zero (map he_pct_of_scope3 (take (Suc i) es))"
      using hotspot_entries_returns [OF True] amt(2) by blast
    have body: "hotspot_body stats crs (aggregate_scope3 (Some rs)) prior top_n hist now = Inr (py_take top_n es)"
      using True c bs es(1) by (simp add: hotspot_body_def Let_def dec_cmp_value)
    have "hotspot_table rs es"
      using hotspot_table_entries [OF es(2) ranked(3) keys es(3) es(4)] amt(1) by simp
    with body True pos show ?thesis by auto
  qed
qed

text \<open>
  C20. The hot-spot ranking of well-formed emissions always returns. It is the first \<open>top_n\<close> lines of
  the complete table: one line per Scope 3 category, ranked from one, by strictly decreasing
  amount and then by name, each amount the sum of the category's records, each share the
  percentage of the total up to three roundings and each cumulative share the running sum. The
  table is empty exactly when no Scope 3 record has a positive amount.
\<close>

theorem hotspots_ranked:
  assumes "\<forall>e\<in>set rs. er_wf e"
  shows "\<exists>es w'. compute_hotspots stats rs prior top_n hist w = Inr (py_take top_n es, w') \<and>
    (if \<exists>r\<in>set rs. er_scope r = 3 \<and> 0 < dec_val (er_tco2e r) then hotspot_table rs es else es = [])"
proof (cases "aggregate_scope3 (Some rs) = []")
  case True
  then have "\<not> (\<exists>r\<in>set rs. er_scope r = 3)" using aggregate_keys [of rs] by auto
  moreover have "compute_hotspots stats rs prior top_n hist w = Inr (py_take top_n [], w)"
    using True by (simp add: compute_hotspots_def Let_def aggregate_filter mret_def py_take_def)
  ultimately show ?thesis by (intro exI [of _ "[]"] exI [of _ w]) auto
next
  case False
  obtain now w' where now: "now_utc w = Inr (now, w')" using returnsD [OF returns_now_utc, of w] by blast
  let ?crs = "filter (\<lambda>r. er_scope r = 3) rs"
  obtain es where body: "hotspot_body stats ?crs (aggregate_scope3 (Some rs)) prior top_n hist now = Inr (py_take top_n es)"
    and tab: "if \<exists>r\<in>set rs. er_scope r = 3 \<and> 0 < dec_val (er_tco2e r) then hotspot_table rs es else es = []"
    using hotspot_body_table [OF assms] by blast
  have "compute_hotspots stats rs prior top_n hist w = Inr (py_take top_n es, w')"
    using False now body by (simp add: compute_hotspots_def Let_def aggregate_filter mbind_def mlift_def)
  with tab show ?thesis by blast
qed

definition demo_cat_record :: "string \<Rightarrow> nat \<Rightarrow> EmissionRecord" where
  "demo_cat_record cat v =
     \<lparr>er_correlation_id = 42, er_raw_row_id = None, er_scope = 3, er_sub_scope = cat, er_codice_sito = None,
      er_anno = 2025, er_tco2e = Dec False v 0, er_factor_id = ''f'', er_factor_version = ''v'',
      er_factor_source = ''DEFRA'', er_gwp_set = ''AR6'', er_methodology = ''activity-based'',
      er_regulatory_stream = ''CSRD_ESRS_E1'', er_calc_timestamp = DateTime 0 True, er_created_by = ''calc'',
      er_id = 7, er_co2_tonne = None, er_co2_biogenic_tonne = None, er_co2_fossil_tonne = None,
      er_ch4_tco2e = None, er_n2o_tco2e = None, er_factor_id_uuid = None, er_valid_from = None,
      er_valid_to = None, er_superseded_by = None, er_reason_code = None, er_disclosure_notes = None,
      er_uncertainty_band_lower = None, er_uncertainty_band_upper = None\<rparr>"

theorem hotspots_ranked_witness:
  "\<exists>es w'. compute_hotspots (\<lambda>_. (dec_zero, dec_zero)) [demo_cat_record ''Cat6'' 3, demo_cat_record ''Cat1'' 4]
      None 10 [] demo_world = Inr (py_take 10 es, w') \<and>
     hotspot_table [demo_cat_record ''Cat6'' 3, demo_cat_record ''Cat1'' 4] es"
proof -
  let ?rs = "[demo_cat_record ''Cat6'' 3, demo_cat_record ''Cat1'' 4]"
  have wf: "\<forall>e\<in>set ?rs. er_wf e"
    by (simp add: er_wf_def demo_cat_record_def dec_val_Dec ALLOWED_SUB_SCOPES_def ALLOWED_METHODOLOGIES_def
        ALLOWED_REGULATORY_STREAMS_def ALLOWED_GWP_SETS_def)
  have "\<exists>r\<in>set ?rs. er_scope r = 3 \<and> 0 < dec_val (er_tco2e r)"
    by (simp add: demo_cat_record_def dec_val_Dec)
  from hotspots_ranked [OF wf, of "\<lambda>_. (dec_zero, dec_zero)" None 10 "[]" demo_world, unfolded if_P [OF this]]
  show ?thesis .
qed

end
