(* ===== verification/Auto_Calc_Schema.thy ===== *)
theory Auto_Calc_Schema
  imports Calc_Helpers
begin

text \<open>
  \<open>api/schemas/calc_schemas.py\<close>: the request of the auto-calc endpoints with its validation, and the
  responses. A value of type \<open>CalcInputRequest\<close> is a parsed body; \<open>request_fields_ok\<close> are the
  declared field constraints, the two \<open>validate\<close> functions the model validators, in the order in
  which they run.
\<close>

section \<open>Text\<close>

text \<open>
  \<open>repr(s)\<close> of a string: quoted, with backslash, the quote and control characters escaped. Bytes
  from 128 on stand for the printable non-ASCII characters, which \<open>repr\<close> leaves as they are.
\<close>

definition chr_escape :: "char \<Rightarrow> char \<Rightarrow> string" where
  "chr_escape q c =
     (if c = q \<or> c = CHR 0x5C then [CHR 0x5C, c]
      else if c = CHR 0x0A then [CHR 0x5C, CHR ''n'']
      else if c = CHR 0x0D then [CHR 0x5C, CHR ''r'']
      else if c = CHR 0x09 then [CHR 0x5C, CHR ''t'']
      else if chr_nat c < 32 \<or> chr_nat c = 127 then [CHR 0x5C, CHR ''x''] @ hex_digits 2 (chr_nat c)
      else [c])"

definition py_repr :: "string \<Rightarrow> string" where
  "py_repr s =
     (let q = (if CHR 0x27 \<in> set s \<and> CHR 0x22 \<notin> set s then CHR 0x22 else CHR 0x27)
      in [q] @ concat (map (chr_escape q) s) @ [q])"

definition py_repr_opt :: "string option \<Rightarrow> string" where
  "py_repr_opt v = (case v of None \<Rightarrow> ''None'' | Some s \<Rightarrow> py_repr s)"

definition py_str_opt :: "string option \<Rightarrow> string" where
  "py_str_opt v = (case v of None \<Rightarrow> ''None'' | Some s \<Rightarrow> s)"

section \<open>The request\<close>

record CalcInputRequest =
  rq_scope :: int
  rq_sub_scope :: string
  rq_anno :: int
  rq_codice_sito :: "string option"
  rq_quantita :: decimal
  rq_unita :: string
  rq_gwp_set :: string
  rq_combustibile :: "string option"
  rq_process_mode :: "string option"
  rq_strumento_mb :: "string option"
  rq_sottocategoria :: "string option"
  rq_metodo :: "string option"
  rq_fonte_dato :: "string option"
  rq_qualita_dato :: "string option"
  rq_note :: "string option"

definition REQUEST_SUB_SCOPES :: "string list" where
  "REQUEST_SUB_SCOPES =
     [''combustion'', ''process'', ''lb'', ''mb'', ''cat1_purchased_goods'', ''cat3_fuel_energy'',
      ''cat4_upstream_transport'', ''cat5_waste'', ''cat6_business_travel'', ''cat7_commuting'',
      ''cat9_downstream_transport'', ''cat12_eol'']"

definition literal_or_none :: "string list \<Rightarrow> string option \<Rightarrow> bool" where
  "literal_or_none allowed v = (case v of None \<Rightarrow> True | Some s \<Rightarrow> s \<in> set allowed)"

definition request_fields_ok :: "CalcInputRequest \<Rightarrow> bool" where
  "request_fields_ok r \<longleftrightarrow>
     rq_scope r \<in> {1, 2, 3} \<and> rq_sub_scope r \<in> set REQUEST_SUB_SCOPES \<and>
     2000 \<le> rq_anno r \<and> rq_anno r \<le> 2100 \<and> dec_less dec_zero (rq_quantita r) \<and>
     rq_unita r \<noteq> [] \<and> rq_gwp_set r \<in> set [''AR6'', ''AR5''] \<and>
     literal_or_none [''GAS_NAT'', ''GASOLIO'', ''BENZINA''] (rq_combustibile r) \<and>
     literal_or_none [''direct_tco2'', ''caco3_mass''] (rq_process_mode r) \<and>
     literal_or_none [''GO'', ''PPA'', ''RESIDUAL''] (rq_strumento_mb r) \<and>
     literal_or_none [''mass-based'', ''spend-based'', ''distance-based'', ''fuel-based''] (rq_metodo r)"

definition SCOPE_SUB_SCOPES :: "(int \<times> string list) list" where
  "SCOPE_SUB_SCOPES =
     [(1, [''combustion'', ''process'']), (2, [''lb'', ''mb'']),
      (3, [''cat1_purchased_goods'', ''cat3_fuel_energy'', ''cat4_upstream_transport'', ''cat5_waste'',
           ''cat6_business_travel'', ''cat7_commuting'', ''cat9_downstream_transport'', ''cat12_eol''])]"

definition validate_scope_sub_scope :: "CalcInputRequest \<Rightarrow> unit res" where
  "validate_scope_sub_scope r =
     (if rq_sub_scope r \<notin> set (case map_of SCOPE_SUB_SCOPES (rq_scope r) of Some ss \<Rightarrow> ss | None \<Rightarrow> [])
      then Inl ValueError else Inr ())"

text \<open>\<open>self.process_mode or "direct_tco2"\<close>.\<close>

definition effective_mode :: "CalcInputRequest \<Rightarrow> string" where
  "effective_mode r = (case rq_process_mode r of Some (c # s) \<Rightarrow> c # s | _ \<Rightarrow> ''direct_tco2'')"

text \<open>The messages the validator collects, in order.\<close>

definition conditional_errors :: "CalcInputRequest \<Rightarrow> string list" where
  "conditional_errors r =
     (if rq_scope r = 1 \<and> rq_sub_scope r = ''combustion''
      then (if rq_combustibile r = None
            then [''combustibile is required for scope=1 sub_scope='' @ py_repr ''combustion''] else []) @
           (if rq_codice_sito r = None
            then [''codice_sito required for Scope 1 sub_scope='' @ py_repr ''combustion''] else [])
      else []) @
     (if rq_scope r = 1 \<and> rq_sub_scope r = ''process''
      then (if rq_codice_sito r = None
            then [''codice_sito required for Scope 1 sub_scope='' @ py_repr ''process'' @
                  '' (must be '' @ py_repr ''IANO'' @ '')''] else []) @
           (if effective_mode r = ''direct_tco2'' \<and> rq_unita r \<noteq> ''tCO2''
            then [''For process_mode='' @ py_repr ''direct_tco2'' @ '' (Mode A), unita must be '' @
                  py_repr ''tCO2'' @ ''; got unita='' @ py_repr (rq_unita r)] else [])
      else []) @
     (if rq_scope r = 2 \<and> rq_sub_scope r = ''mb''
      then (if rq_strumento_mb r = None
            then [''strumento_mb is required for scope=2 sub_scope='' @ py_repr ''mb''] else []) @
           (if rq_codice_sito r = None
            then [''codice_sito is required for scope=2 sub_scope='' @ py_repr ''mb''] else [])
      else []) @
     (if rq_scope r = 2 \<and> rq_sub_scope r = ''lb'' \<and> rq_codice_sito r = None
      then [''codice_sito is required for scope=2 sub_scope='' @ py_repr ''lb''] else []) @
     (if rq_scope r = 3
      then (if rq_sottocategoria r = None then [''sottocategoria is required for scope=3''] else []) @
           (if rq_metodo r = None then [''metodo is required for scope=3''] else []) @
           (if rq_codice_sito r \<noteq> None
            then [''Scope 3 is corporate-level, codice_sito must be null''] else [])
      else [])"

definition validate_conditional_fields :: "CalcInputRequest \<Rightarrow> unit res" where
  "validate_conditional_fields r = (if conditional_errors r \<noteq> [] then Inl ValueError else Inr ())"

text \<open>What a validated request guarantees to the service.\<close>

definition request_ok :: "CalcInputRequest \<Rightarrow> bool" where
  "request_ok r \<longleftrightarrow>
     request_fields_ok r \<and> validate_scope_sub_scope r = Inr () \<and> validate_conditional_fields r = Inr ()"

section \<open>The responses\<close>

record CalcPreviewResponse =
  pv_tco2e :: decimal
  pv_co2_biogenic_tonne :: "decimal option"
  pv_co2_fossil_tonne :: "decimal option"
  pv_factor_id :: string
  pv_factor_value :: decimal
  pv_factor_unit :: string
  pv_factor_source :: string
  pv_factor_version :: string
  pv_factor_vintage :: string
  pv_gwp_set :: string
  pv_gwp_value :: "decimal option"
  pv_methodology :: string
  pv_formula_human :: string
  pv_unit_conversion_applied :: "string option"
  pv_warnings :: "string list"

record CalcInsertResponse = CalcPreviewResponse +
  cs_emission_id :: uuid
  cs_correlation_id :: uuid
  cs_created_at :: datetime

section \<open>Lemmas\<close>

lemma request_ok_pairs:
  assumes "request_ok r"
  shows "(rq_scope r, rq_sub_scope r) \<in>
    {(1, ''combustion''), (1, ''process''), (2, ''lb''), (2, ''mb'')} \<or>
    rq_scope r = 3 \<and> rq_sub_scope r \<in> set (drop 4 REQUEST_SUB_SCOPES)"
  using assms
  by (auto simp: request_ok_def request_fields_ok_def validate_scope_sub_scope_def SCOPE_SUB_SCOPES_def
      REQUEST_SUB_SCOPES_def split: if_splits)

lemma request_ok_fields:
  assumes "request_ok r"
  shows "0 < dec_val (rq_quantita r)" "rq_gwp_set r = ''AR6'' \<or> rq_gwp_set r = ''AR5''"
  using assms by (auto simp: request_ok_def request_fields_ok_def dec_cmp_value)

lemma request_ok_combustion:
  "request_ok r \<Longrightarrow> rq_scope r = 1 \<Longrightarrow> rq_sub_scope r = ''combustion'' \<Longrightarrow>
   \<exists>c\<in>set [''GAS_NAT'', ''GASOLIO'', ''BENZINA'']. rq_combustibile r = Some c"
  by (auto simp: request_ok_def request_fields_ok_def literal_or_none_def validate_conditional_fields_def
      conditional_errors_def split: if_splits option.splits)

end
