(* ===== verification/Auto_Calc_Service.thy ===== *)
theory Auto_Calc_Service
  imports Auto_Calc_Schema Calc_Scope1 Calc_Scope2 Calc_Scope3_Activity Calc_Scope3_Derived
begin

text \<open>
  \<open>application/services/auto_calc_service.py\<close>, the read-only half: unit conversion, the twelve
  handlers, the dispatch table and \<open>compute_preview\<close>. The catalogue is the port, the table
  \<open>ref.sites\<close> a list of rows. Messages of exceptions and log lines are left out; the human-readable
  texts of a response are kept.
\<close>

section \<open>Sites\<close>

record SiteRow =
  sw_codice_sito :: string
  sw_tenant_id :: uuid
  sw_is_active :: bool
  sw_site_type :: string
  sw_country :: string

record SiteMeta =
  sm_codice_sito :: string
  sm_site_type :: string
  sm_country :: string

definition fetch_site_meta :: "SiteRow list \<Rightarrow> string \<Rightarrow> uuid \<Rightarrow> SiteMeta option" where
  "fetch_site_meta sites codice_sito tenant_id =
     map_option (\<lambda>r. \<lparr>sm_codice_sito = sw_codice_sito r, sm_site_type = sw_site_type r,
                      sm_country = sw_country r\<rparr>)
       (find (\<lambda>r. sw_codice_sito r = codice_sito \<and> sw_tenant_id r = tenant_id \<and> sw_is_active r) sites)"

definition assert_process_site_type :: "string \<Rightarrow> unit res" where
  "assert_process_site_type site_type =
     (if site_type \<noteq> ''STABILIMENTO_PRODUTTIVO'' then Inl (HTTPException 422) else Inr ())"

section \<open>Units\<close>

definition UNIT_CONVERSION :: "((string \<times> string) \<times> decimal) list" where
  "UNIT_CONVERSION =
     [((''kwh'', ''mwh''), Dec False 1 (- 3)), ((''mwh'', ''kwh''), Dec False 1000 0),
      ((''kg'', ''t''), Dec False 1 (- 3)), ((''t'', ''kg''), Dec False 1000 0),
      ((''kg'', ''tonne''), Dec False 1 (- 3)), ((''tonne'', ''kg''), Dec False 1000 0),
      ((''l'', ''m3''), Dec False 1 (- 3)), ((''m3'', ''l''), Dec False 1000 0),
      ((''litri'', ''m3''), Dec False 1 (- 3)), ((''m3'', ''litri''), Dec False 1000 0),
      ((''kwh'', ''kwh''), Dec False 1 0), ((''mwh'', ''mwh''), Dec False 1 0),
      ((''kg'', ''kg''), Dec False 1 0), ((''t'', ''t''), Dec False 1 0),
      ((''tonne'', ''tonne''), Dec False 1 0), ((''l'', ''l''), Dec False 1 0),
      ((''litri'', ''litri''), Dec False 1 0), ((''m3'', ''m3''), Dec False 1 0),
      ((''sm3'', ''sm3''), Dec False 1 0), ((''km'', ''km''), Dec False 1 0),
      ((''tkm'', ''tkm''), Dec False 1 0), ((''eur'', ''eur''), Dec False 1 0),
      ((''gbp'', ''gbp''), Dec False 1 0), ((''tco2'', ''tco2''), Dec False 1 0),
      ((''tco2e'', ''tco2e''), Dec False 1 0)]"

definition NCV_DEPENDENT_PAIRS :: "(string \<times> string) list" where
  "NCV_DEPENDENT_PAIRS =
     [(''sm3'', ''kwh''), (''kwh'', ''sm3''), (''sm3'', ''mwh''), (''mwh'', ''sm3''),
      (''litri'', ''kwh''), (''kwh'', ''litri''), (''m3'', ''kwh''), (''kwh'', ''m3''),
      (''l'', ''kwh''), (''kwh'', ''l'')]"

definition unit_norm :: "string \<Rightarrow> string" where
  "unit_norm u = str_strip (str_lower u)"

definition apply_unit_conversion :: "decimal \<Rightarrow> string \<Rightarrow> string \<Rightarrow> (decimal \<times> string) res" where
  "apply_unit_conversion quantita from_unit to_unit =
     (let from_n = unit_norm from_unit; to_n = unit_norm to_unit in
      if from_n = to_n then Inr (quantita, from_unit @ '' -> '' @ to_unit @ '' (no conversion)'')
      else if (from_n, to_n) \<in> set NCV_DEPENDENT_PAIRS then Inl UnitConversionError
      else case map_of UNIT_CONVERSION (from_n, to_n) of
        None \<Rightarrow> Inl UnitConversionError
      | Some multiplier \<Rightarrow>
        let converted = dec_mul quantita multiplier in
        Inr (converted, dec_str quantita @ '' '' @ from_unit @ '' -> '' @ dec_str converted @ '' '' @
               to_unit @ '' ('' @ utf8_times @ dec_str multiplier @ '')''))"

definition quantize_tco2e :: "decimal \<Rightarrow> decimal res" where
  "quantize_tco2e d = dec_quantize_half_up (- 6) d"

section \<open>Provenance\<close>

text \<open>\<open>factor.vintage\<close> when it is truthy, the warning about it, and \<open>str(factor.vintage or req.anno)\<close>.\<close>

definition vintage_of :: "FactorRecord \<Rightarrow> string option" where
  "vintage_of f = (case fr_vintage f of Some (c # s) \<Rightarrow> Some (c # s) | _ \<Rightarrow> None)"

definition vintage_warning :: "FactorRecord \<Rightarrow> int \<Rightarrow> string list" where
  "vintage_warning f anno =
     (case vintage_of f of
        Some v \<Rightarrow> if v \<noteq> int_str anno
                  then [''Vintage '' @ v @ '' used (closest-prior to '' @ int_str anno @ '' request)'']
                  else []
      | None \<Rightarrow> [])"

definition vintage_text :: "FactorRecord \<Rightarrow> int \<Rightarrow> string" where
  "vintage_text f anno = (case vintage_of f of Some v \<Rightarrow> v | None \<Rightarrow> int_str anno)"

text \<open>A response with the provenance of a factor; the handlers set the optional columns.\<close>

definition factor_response ::
    "CalcInputRequest \<Rightarrow> FactorRecord \<Rightarrow> decimal \<Rightarrow> string \<Rightarrow> string \<Rightarrow> string list \<Rightarrow> CalcPreviewResponse" where
  "factor_response req f tco2e methodology formula ws =
     \<lparr>pv_tco2e = tco2e, pv_co2_biogenic_tonne = None, pv_co2_fossil_tonne = None,
      pv_factor_id = fr_factor_id f, pv_factor_value = factor_value f, pv_factor_unit = fr_unit f,
      pv_factor_source = fr_source f, pv_factor_version = fr_version f,
      pv_factor_vintage = vintage_text f (rq_anno req), pv_gwp_set = rq_gwp_set req,
      pv_gwp_value = None, pv_methodology = methodology, pv_formula_human = formula,
      pv_unit_conversion_applied = None, pv_warnings = ws\<rparr>"

definition request_factor :: "FactorCatalogPort \<Rightarrow> CalcInputRequest \<Rightarrow> string \<Rightarrow> FactorRecord res" where
  "request_factor catalog req factor_id =
     require_factor catalog factor_id (rq_gwp_set req) (Some (rq_anno req))"

section \<open>Scope 1 handlers\<close>

definition preview_s1_combustion :: "CalcInputRequest \<Rightarrow> FactorCatalogPort \<Rightarrow> CalcPreviewResponse res" where
  "preview_s1_combustion req catalog =
     rbind (get_gwp_values (rq_gwp_set req)) (\<lambda>g.
     case rq_combustibile req of
       None \<Rightarrow> Inl (KeyError ''None'')
     | Some combustibile \<Rightarrow>
     case map_of FUEL_FACTOR_IDS combustibile of
       None \<Rightarrow> Inl (KeyError combustibile)
     | Some (co2_id, ch4_id, n2o_id) \<Rightarrow>
     rbind (request_factor catalog req co2_id) (\<lambda>co2_factor.
     rbind (request_factor catalog req ch4_id) (\<lambda>ch4_factor.
     rbind (request_factor catalog req n2o_id) (\<lambda>n2o_factor.
     rbind (gwp_table_get g ''CH4'') (\<lambda>gwp_ch4.
     rbind (gwp_table_get g ''N2O'') (\<lambda>gwp_n2o.
     let quantita = rq_quantita req;
         (co2_tonne, ch4_tco2e, n2o_tco2e, total_tco2e) =
           combustion_amounts quantita co2_factor ch4_factor n2o_factor gwp_ch4 gwp_n2o
     in
     rbind (quantize_tco2e total_tco2e) (\<lambda>tco2e.
     rbind (quantize_tco2e co2_tonne) (\<lambda>co2_fossil.
     let co2_v = factor_value co2_factor;
         unita = rq_unita req;
         formula = dec_str quantita @ '' '' @ unita @ '' '' @ utf8_times @ '' '' @ dec_str co2_v @
           '' kg CO2/'' @ unita @ '' '' @ utf8_times @ '' 1e-3 = '' @ dec_str co2_tonne @
           '' tCO2 (+ CH4: '' @ dec_str ch4_tco2e @ '' tCO2e + N2O: '' @ dec_str n2o_tco2e @
           '' tCO2e) = '' @ dec_str tco2e @ '' tCO2e''
     in Inr ((factor_response req co2_factor tco2e ''activity-based'' formula
                (vintage_warning co2_factor (rq_anno req)))
             \<lparr>pv_co2_fossil_tonne := Some co2_fossil, pv_gwp_value := Some (Dec False 1 0)\<rparr>)))))))))"

definition process_site_warning :: "CalcInputRequest \<Rightarrow> string list" where
  "process_site_warning req =
     (case rq_codice_sito req of
        Some (c # s) \<Rightarrow>
          if str_upper (c # s) \<noteq> ''IANO''
          then [''S1 process is designed for site IANO; codice_sito='' @ py_repr (c # s) @ '' '' @
                utf8_em_dash @ '' verify applicability.'']
          else []
      | _ \<Rightarrow> [])"

definition preview_s1_process :: "CalcInputRequest \<Rightarrow> FactorCatalogPort \<Rightarrow> CalcPreviewResponse res" where
  "preview_s1_process req catalog =
     (if effective_mode req = ''direct_tco2''
      then rbind (quantize_tco2e (rq_quantita req)) (\<lambda>tco2e.
        Inr \<lparr>pv_tco2e = tco2e, pv_co2_biogenic_tonne = None, pv_co2_fossil_tonne = None,
             pv_factor_id = ''DIRECT_TCO2_INPUT'', pv_factor_value = Dec False 1 0,
             pv_factor_unit = ''tCO2 / tCO2'', pv_factor_source = ''direct_input'',
             pv_factor_version = ''n/a'', pv_factor_vintage = ''n/a'', pv_gwp_set = rq_gwp_set req,
             pv_gwp_value = Some (Dec False 1 0), pv_methodology = ''stoichiometric'',
             pv_formula_human = dec_str (rq_quantita req) @ '' tCO2 '' @ utf8_times @
               '' 1 (direct input, Mode A) = '' @ dec_str tco2e @ '' tCO2e'',
             pv_unit_conversion_applied = None, pv_warnings = process_site_warning req\<rparr>)
      else
        rbind (request_factor catalog req PROCESS_FACTOR_ID) (\<lambda>factor.
        case fr_value factor of
          None \<Rightarrow> Inl ValueError
        | Some v \<Rightarrow>
          if \<not> dec_eq v (Dec False 4397 (- 4)) then Inl ValueError
          else
            rbind (quantize_tco2e (dec_mul v (rq_quantita req))) (\<lambda>tco2e.
            Inr ((factor_response req factor tco2e ''stoichiometric''
                    (dec_str (rq_quantita req) @ '' t CaCO3 '' @ utf8_times @ '' '' @ dec_str v @
                     '' tCO2/t CaCO3 = '' @ dec_str tco2e @ '' tCO2e'')
                    (process_site_warning req @ vintage_warning factor (rq_anno req)))
                 \<lparr>pv_factor_value := v, pv_gwp_value := Some (Dec False 1 0)\<rparr>))))"

section \<open>Scope 2 handlers\<close>

text \<open>The quantity in kWh and the description of its conversion.\<close>

definition kwh_quantity :: "CalcInputRequest \<Rightarrow> (decimal \<times> string option) res" where
  "kwh_quantity req =
     (if str_lower (rq_unita req) \<noteq> ''kwh''
      then rbind (apply_unit_conversion (rq_quantita req) (rq_unita req) ''kWh'')
             (\<lambda>(q, desc). Inr (q, Some desc))
      else Inr (rq_quantita req, None))"

definition lb_factor_for :: "string \<Rightarrow> string" where
  "lb_factor_for country =
     (if country = ''IT'' then LB_FACTOR_ID
      else str_replace_first ''_IT_'' (''_'' @ country @ ''_'') LB_FACTOR_ID)"

definition preview_s2_lb :: "CalcInputRequest \<Rightarrow> FactorCatalogPort \<Rightarrow> string \<Rightarrow> CalcPreviewResponse res" where
  "preview_s2_lb req catalog country =
     rbind (request_factor catalog req (lb_factor_for country)) (\<lambda>factor.
     rbind (kwh_quantity req) (\<lambda>(quantita, unit_desc).
     rbind (quantize_tco2e (factor_tonnes factor quantita)) (\<lambda>tco2e.
     let ws = vintage_warning factor (rq_anno req) @
           (if country \<noteq> ''IT''
            then [''Non-IT site: LB factor resolved for country='' @ [CHR 0x27] @ country @ [CHR 0x27] @
                  '' (factor_id='' @ py_repr (lb_factor_for country) @ '')''] else []);
         formula = dec_str quantita @ '' kWh '' @ utf8_times @ '' '' @ dec_str (factor_value factor) @
           '' kgCO2/kWh '' @ utf8_times @ '' 1e-3 = '' @ dec_str tco2e @ '' tCO2e [LB country='' @ country @ '']''
     in Inr ((factor_response req factor tco2e ''location-based'' formula ws)
             \<lparr>pv_gwp_value := Some (Dec False 1 0), pv_unit_conversion_applied := unit_desc\<rparr>))))"

definition mb_instrument_warning :: "string option \<Rightarrow> string list" where
  "mb_instrument_warning strumento =
     (if strumento = Some ''GO'' then [''GO instrument applied: tCO2e = 0 (market-based zero factor)'']
      else if strumento = Some ''PPA''
        then [''PPA instrument mapped to Italian AIB residual mix per market rules'']
      else [])"

definition preview_s2_mb :: "CalcInputRequest \<Rightarrow> FactorCatalogPort \<Rightarrow> CalcPreviewResponse res" where
  "preview_s2_mb req catalog =
     (let strumento = rq_strumento_mb req;
          factor_id = (if strumento = Some ''GO'' then FACTOR_ID_GO_ZERO else FACTOR_ID_RESIDUAL)
      in
      rbind (request_factor catalog req factor_id) (\<lambda>factor.
      rbind (kwh_quantity req) (\<lambda>(quantita, unit_desc).
      rbind (quantize_tco2e (factor_tonnes factor quantita)) (\<lambda>tco2e.
      rbind (if dec_less dec_zero tco2e then rbind (quantize_tco2e tco2e) (\<lambda>q. Inr (Some q)) else Inr None)
        (\<lambda>co2_fossil.
      let formula = dec_str quantita @ '' kWh '' @ utf8_times @ '' '' @ dec_str (factor_value factor) @
            '' kgCO2e/kWh '' @ utf8_times @ '' 1e-3 = '' @ dec_str tco2e @ '' tCO2e (strumento_mb='' @
            py_repr_opt strumento @ '')''
      in Inr ((factor_response req factor tco2e ''market-based'' formula
                 (vintage_warning factor (rq_anno req) @ mb_instrument_warning strumento))
              \<lparr>pv_co2_fossil_tonne := co2_fossil, pv_gwp_value := Some (Dec False 1 0),
               pv_unit_conversion_applied := unit_desc\<rparr>))))))"

section \<open>Scope 3 handlers\<close>

text \<open>\<open>req.sottocategoria or ""\<close>.\<close>

definition request_sub :: "CalcInputRequest \<Rightarrow> string" where
  "request_sub req = (case rq_sottocategoria req of Some s \<Rightarrow> s | None \<Rightarrow> [])"

definition preview_s3_cat1 :: "CalcInputRequest \<Rightarrow> FactorCatalogPort \<Rightarrow> CalcPreviewResponse res" where
  "preview_s3_cat1 req catalog =
     (case cat1_factor_id (str_lower (str_strip (request_sub req))) of
        None \<Rightarrow> Inl MissingFactorError
      | Some factor_id \<Rightarrow>
      rbind (request_factor catalog req factor_id) (\<lambda>factor.
      let quantita = rq_quantita req in
      rbind (quantize_tco2e (factor_tonnes factor quantita)) (\<lambda>tco2e.
      rbind (if factor_id \<in> set BIOGENIC_FACTOR_IDS
             then rbind (cat_get_biogenic_share catalog factor_id (rq_gwp_set req)) (\<lambda>bio.
               case bio of
                 None \<Rightarrow> Inr (None, None)
               | Some b \<Rightarrow> rbind (quantize_tco2e (dec_mul (dec_mul b quantita) KG_TO_TONNE))
                            (\<lambda>m. Inr (Some m, Some tco2e)))
             else Inr (None, None)) (\<lambda>(co2_biogenic, co2_fossil).
      let methodology = cat1_methodology factor_id;
          formula = dec_str quantita @ '' kg '' @ utf8_times @ '' '' @ dec_str (factor_value factor) @
            '' kgCO2e/kg '' @ utf8_times @ '' 1e-3 = '' @ dec_str tco2e @ '' tCO2e ['' @
            py_str_opt (rq_sottocategoria req) @ '' via '' @ factor_id @ '']'' @
            (case co2_biogenic of
               Some m \<Rightarrow> ''; biogenic memo: '' @ dec_str m @ '' tCO2 (ADR-007, not in tco2e)''
             | None \<Rightarrow> [])
      in Inr ((factor_response req factor tco2e methodology formula (vintage_warning factor (rq_anno req)))
              \<lparr>pv_co2_biogenic_tonne := co2_biogenic, pv_co2_fossil_tonne := co2_fossil\<rparr>)))))"

definition cat3_preview_factor :: "string \<Rightarrow> string option" where
  "cat3_preview_factor sub =
     (case map_of FUEL_WTT_FACTOR_IDS sub of
        Some f \<Rightarrow> Some f
      | None \<Rightarrow>
        if sub \<in> set [''WTT_ELEC'', ''ELECTRICITY_WTT'', ''ELEC_WTT''] then Some ELEC_WTT_ID
        else if sub \<in> set [''TND'', ''TND_ELEC'', ''T&D'', ''T_AND_D''] then Some TND_ELEC_IT_ID
        else None)"

text \<open>
  The handlers of categories 3, 4, 5, 6 and 9 share their shape: a factor chosen from the
  subcategory, the product in tonnes, and a formula text.
\<close>

definition product_preview ::
    "CalcInputRequest \<Rightarrow> FactorCatalogPort \<Rightarrow> string option \<Rightarrow> string \<Rightarrow> string \<Rightarrow> string \<Rightarrow> CalcPreviewResponse res" where
  "product_preview req catalog factor_id unit label methodology =
     (case factor_id of
        None \<Rightarrow> Inl MissingFactorError
      | Some fid \<Rightarrow>
      rbind (request_factor catalog req fid) (\<lambda>factor.
      rbind (quantize_tco2e (factor_tonnes factor (rq_quantita req))) (\<lambda>tco2e.
      Inr (factor_response req factor tco2e methodology
        (dec_str (rq_quantita req) @ '' '' @ unit @ '' '' @ utf8_times @ '' '' @
         dec_str (factor_value factor) @ '' kgCO2e/'' @ unit @ '' '' @ utf8_times @ '' 1e-3 = '' @
         dec_str tco2e @ '' tCO2e ['' @ label @ '']'')
        (vintage_warning factor (rq_anno req))))))"

definition preview_s3_cat3 :: "CalcInputRequest \<Rightarrow> FactorCatalogPort \<Rightarrow> CalcPreviewResponse res" where
  "preview_s3_cat3 req catalog =
     product_preview req catalog (cat3_preview_factor (str_upper (str_strip (request_sub req))))
       (rq_unita req) (''Cat3 WTT/TND '' @ py_str_opt (rq_sottocategoria req)) ''activity-based''"

definition preview_s3_cat4 :: "CalcInputRequest \<Rightarrow> FactorCatalogPort \<Rightarrow> CalcPreviewResponse res" where
  "preview_s3_cat4 req catalog =
     product_preview req catalog (cat4_resolve_mode (request_sub req)) ''tkm'' (request_sub req) ''distance-based''"

definition preview_s3_cat5 :: "CalcInputRequest \<Rightarrow> FactorCatalogPort \<Rightarrow> CalcPreviewResponse res" where
  "preview_s3_cat5 req catalog =
     product_preview req catalog (cat5_resolve_waste_factor (request_sub req)) ''t'' (request_sub req) ''mass-based''"

definition preview_s3_cat6 :: "CalcInputRequest \<Rightarrow> FactorCatalogPort \<Rightarrow> CalcPreviewResponse res" where
  "preview_s3_cat6 req catalog =
     product_preview req catalog (cat6_resolve_factor (request_sub req)) (rq_unita req) (request_sub req)
       ''spend-based''"

definition preview_s3_cat7 :: "CalcInputRequest \<Rightarrow> FactorCatalogPort \<Rightarrow> CalcPreviewResponse res" where
  "preview_s3_cat7 req catalog =
     rbind (product_preview req catalog (Some CAT7_FACTOR_ID) ''km'' ''Cat7 commuting'' ''distance-based'') (\<lambda>p.
     let sub = request_sub req in
     Inr (p\<lparr>pv_warnings := pv_warnings p @
       (if str_lower (str_strip sub) \<noteq> ''commuting_auto''
        then [''Cat 7 factor is average-car (DEFRA); sottocategoria='' @ py_repr sub @ '' != '' @
              py_repr ''commuting_auto'' @ '' '' @ utf8_em_dash @ '' verify mode applicability.'']
        else [])\<rparr>))"

definition preview_s3_cat9 :: "CalcInputRequest \<Rightarrow> FactorCatalogPort \<Rightarrow> CalcPreviewResponse res" where
  "preview_s3_cat9 req catalog =
     product_preview req catalog (cat9_resolve_mode (request_sub req)) ''tkm'' (request_sub req) ''distance-based''"

record Cat12Factors =
  cf_landfill_factor :: FactorRecord
  cf_recycle_factor :: FactorRecord
  cf_landfill_fraction :: decimal
  cf_recycle_fraction :: decimal

definition lookup_cat12_factors :: "CalcInputRequest \<Rightarrow> FactorCatalogPort \<Rightarrow> Cat12Factors res" where
  "lookup_cat12_factors req catalog =
     rbind (request_factor catalog req LANDFILL_FACTOR_ID) (\<lambda>landfill_factor.
     rbind (request_factor catalog req RECYCLE_FACTOR_ID) (\<lambda>recycle_factor.
     Inr \<lparr>cf_landfill_factor = landfill_factor, cf_recycle_factor = recycle_factor,
          cf_landfill_fraction = LANDFILL_FRACTION, cf_recycle_fraction = RECYCLE_FRACTION\<rparr>))"

definition compute_cat12_emissions :: "decimal \<Rightarrow> Cat12Factors \<Rightarrow> (decimal \<times> decimal \<times> decimal) res" where
  "compute_cat12_emissions mass_t fs =
     (let landfill_mass = dec_mul mass_t (cf_landfill_fraction fs);
          recycle_mass = dec_mul mass_t (cf_recycle_fraction fs);
          landfill_raw = factor_tonnes (cf_landfill_factor fs) landfill_mass;
          recycle_raw = factor_tonnes (cf_recycle_factor fs) recycle_mass
      in rbind (quantize_tco2e (dec_add landfill_raw recycle_raw)) (\<lambda>tco2e.
         Inr (tco2e, landfill_raw, recycle_raw)))"

definition build_cat12_response ::
    "CalcInputRequest \<Rightarrow> decimal \<Rightarrow> Cat12Factors \<Rightarrow> decimal \<Rightarrow> decimal \<Rightarrow> decimal \<Rightarrow> string list \<Rightarrow>
     CalcPreviewResponse res" where
  "build_cat12_response req mass_t fs tco2e landfill_raw recycle_raw ws =
     rbind (quantize_tco2e landfill_raw) (\<lambda>lf_q.
     rbind (quantize_tco2e recycle_raw) (\<lambda>rf_q.
     let formula = dec_str mass_t @ '' t '' @ utf8_times @ '' (30% landfill: '' @
           dec_str (dec_mul mass_t (cf_landfill_fraction fs)) @ '' t '' @ utf8_times @ '' '' @
           dec_str (factor_value (cf_landfill_factor fs)) @ '' kgCO2e/kg '' @ utf8_times @ '' 1e-3 = '' @
           dec_str lf_q @ '' tCO2e) + (70% recycle: '' @
           dec_str (dec_mul mass_t (cf_recycle_fraction fs)) @ '' t '' @ utf8_times @ '' '' @
           dec_str (factor_value (cf_recycle_factor fs)) @ '' kgCO2e/kg '' @ utf8_times @ '' 1e-3 = '' @
           dec_str rf_q @ '' tCO2e) = '' @ dec_str tco2e @ '' tCO2e''
     in Inr (factor_response req (cf_landfill_factor fs) tco2e ''mass-based'' formula ws)))"

definition preview_s3_cat12 :: "CalcInputRequest \<Rightarrow> FactorCatalogPort \<Rightarrow> CalcPreviewResponse res" where
  "preview_s3_cat12 req catalog =
     (let mass_t = rq_quantita req in
      rbind (lookup_cat12_factors req catalog) (\<lambda>fs.
      rbind (compute_cat12_emissions mass_t fs) (\<lambda>(tco2e, lf_raw, rf_raw).
      build_cat12_response req mass_t fs tco2e lf_raw rf_raw
        (vintage_warning (cf_landfill_factor fs) (rq_anno req)))))"

section \<open>Dispatch\<close>

definition DISPATCH ::
    "((int \<times> string) \<times> (CalcInputRequest \<Rightarrow> FactorCatalogPort \<Rightarrow> CalcPreviewResponse res)) list" where
  "DISPATCH =
     [((1, ''combustion''), preview_s1_combustion), ((1, ''process''), preview_s1_process),
      ((2, ''lb''), \<lambda>req catalog. preview_s2_lb req catalog ''IT''), ((2, ''mb''), preview_s2_mb),
      ((3, ''cat1_purchased_goods''), preview_s3_cat1), ((3, ''cat3_fuel_energy''), preview_s3_cat3),
      ((3, ''cat4_upstream_transport''), preview_s3_cat4), ((3, ''cat5_waste''), preview_s3_cat5),
      ((3, ''cat6_business_travel''), preview_s3_cat6), ((3, ''cat7_commuting''), preview_s3_cat7),
      ((3, ''cat9_downstream_transport''), preview_s3_cat9), ((3, ''cat12_eol''), preview_s3_cat12)]"

text \<open>
  \<open>compute_preview\<close>. The session is the table of sites when there is one, with the tenant of the
  request.
\<close>

definition site_meta_of :: "(SiteRow list \<times> uuid) option \<Rightarrow> CalcInputRequest \<Rightarrow> SiteMeta option" where
  "site_meta_of session req =
     (case (session, rq_codice_sito req) of
        (Some (sites, tenant_id), Some (c # s)) \<Rightarrow> fetch_site_meta sites (c # s) tenant_id
      | _ \<Rightarrow> None)"

definition compute_preview ::
    "CalcInputRequest \<Rightarrow> FactorCatalogPort \<Rightarrow> (SiteRow list \<times> uuid) option \<Rightarrow> CalcPreviewResponse res" where
  "compute_preview req catalog session =
     (case map_of DISPATCH (rq_scope req, rq_sub_scope req) of
        None \<Rightarrow> Inl ValueError
      | Some handler \<Rightarrow>
        let site_meta = site_meta_of session req in
        rbind (case site_meta of
                 Some m \<Rightarrow> if rq_sub_scope req = ''process'' then assert_process_site_type (sm_site_type m)
                           else Inr ()
               | None \<Rightarrow> Inr ()) (\<lambda>_.
        case site_meta of
          Some m \<Rightarrow> if rq_sub_scope req = ''lb'' then preview_s2_lb req catalog (sm_country m)
                    else handler req catalog
        | None \<Rightarrow> handler req catalog))"

end
