(* ===== verification/Auto_Calc_Contract.thy ===== *)
theory Auto_Calc_Contract
  imports Auto_Calc_Service Demo_Inputs
begin

text \<open>
  The contract the twelve auto-calc handlers share: on a validated request and a catalogue that
  only misses factors and never returns a negative one, a handler returns a well-formed response
  or raises an exception that has its cause in the request or the catalogue. Each handler is an
  interpretation of the contract.
\<close>

section \<open>Outcomes\<close>

definition settles :: "exn set \<Rightarrow> ('a \<Rightarrow> bool) \<Rightarrow> 'a res \<Rightarrow> bool" where
  "settles E P r = (case r of Inl e \<Rightarrow> e \<in> E | Inr x \<Rightarrow> P x)"

named_theorems settles_rules \<open>rules that prove the outcomes of fallible code\<close>

lemma settles_Inr: "P x \<Longrightarrow> settles E P (Inr x)"
  by (simp add: settles_def)

lemma settles_Inl: "e \<in> E \<Longrightarrow> settles E P (Inl e)"
  by (simp add: settles_def)

lemma settles_rbind:
  "settles E Q m \<Longrightarrow> (\<And>x. m = Inr x \<Longrightarrow> Q x \<Longrightarrow> settles E P (f x)) \<Longrightarrow> settles E P (rbind m f)"
  by (cases m) (simp_all add: settles_def)

lemma settles_mono: "settles E P r \<Longrightarrow> E \<subseteq> E' \<Longrightarrow> (\<And>x. P x \<Longrightarrow> Q x) \<Longrightarrow> settles E' Q r"
  by (cases r) (auto simp: settles_def)

lemma settles_if: "(b \<Longrightarrow> settles E P r) \<Longrightarrow> (\<not> b \<Longrightarrow> settles E P s) \<Longrightarrow> settles E P (if b then r else s)"
  by simp

lemma settles_option:
  "(x = None \<Longrightarrow> settles E P r) \<Longrightarrow> (\<And>y. x = Some y \<Longrightarrow> settles E P (f y)) \<Longrightarrow>
   settles E P (case x of None \<Rightarrow> r | Some y \<Rightarrow> f y)"
  by (cases x) simp_all

section \<open>The catalogue and the arithmetic\<close>

definition catalog_ok :: "FactorCatalogPort \<Rightarrow> bool" where
  "catalog_ok catalog \<longleftrightarrow>
     (\<forall>fid gs v. settles {MissingFactorError} (\<lambda>f. \<forall>x. fr_value f = Some x \<longrightarrow> dec_nonneg x)
        (cat_get catalog fid gs v)) \<and>
     (\<forall>fid gs. settles {MissingFactorError} (\<lambda>b. \<forall>x. b = Some x \<longrightarrow> dec_nonneg x)
        (cat_get_biogenic_share catalog fid gs))"

lemma settles_factor:
  "catalog_ok catalog \<Longrightarrow>
   settles {MissingFactorError} (\<lambda>f. \<exists>v. fr_value f = Some v \<and> dec_nonneg v) (request_factor catalog req fid)"
  unfolding request_factor_def require_factor_def
  by (rule settles_rbind [where Q = "\<lambda>f. \<forall>x. fr_value f = Some x \<longrightarrow> dec_nonneg x"])
    (auto simp: catalog_ok_def settles_def split: option.splits)

lemma settles_quantize:
  assumes "dec_nonneg d"
  shows "settles {InvalidOperation} (\<lambda>q. dec_nonneg q \<and> dexp q = - 6) (quantize_tco2e d)"
proof (cases "quantize_tco2e d")
  case (Inl e)
  then show ?thesis
    by (auto simp: settles_def quantize_tco2e_def dec_quantize_half_up_def Let_def split: if_splits)
next
  case (Inr q)
  have "dcoef q = 0" if "dcoef d = 0"
    using that Inr
    by (auto simp: quantize_tco2e_def dec_quantize_half_up_def Let_def round_half_up_def split: if_splits)
  with Inr assms dec_quantize_half_up_error(2,3) [of "- 6" d q] show ?thesis
    by (auto simp: settles_def quantize_tco2e_def dec_nonneg_def)
qed

lemma settles_kwh:
  assumes "request_ok req"
  shows "settles {UnitConversionError} (\<lambda>x. dec_nonneg (fst x)) (kwh_quantity req)"
proof -
  have q: "dec_nonneg (rq_quantita req)"
    using request_ok_fields(1) [OF assms] by (simp add: dec_nonneg_value)
  have m: "dec_nonneg m" if "map_of UNIT_CONVERSION p = Some m" for p m
    using map_of_SomeD [OF that] by (auto simp: UNIT_CONVERSION_def)
  show ?thesis
    using q m
    by (auto simp: kwh_quantity_def apply_unit_conversion_def Let_def settles_def
        intro: dec_mul_nonneg split: option.split)
qed

lemma kwh_norm: "unit_norm ''kWh'' = ''kwh''" "unit_norm ''kwh'' = ''kwh''"
  by code_simp+

lemma kwh_fails:
  assumes "kwh_quantity req = Inl e"
  shows "unit_norm (rq_unita req) \<notin> {''kwh'', ''mwh''}"
  using assms
  by (auto simp: kwh_quantity_def apply_unit_conversion_def kwh_norm NCV_DEPENDENT_PAIRS_def UNIT_CONVERSION_def Let_def rbind_eq_Inl
      split: if_splits)

text \<open>Rounding to six decimals fails only for amounts that need more than 28 digits.\<close>

lemma quantize_fails:
  assumes "quantize_tco2e d = Inl e" and "dec_nonneg d"
  shows "10 ^ 28 - 1 / 2 \<le> dec_val d * 10 ^ 6"
proof -
  have six: "(10::rat) powi 6 = 10 ^ 6" by (simp add: power_int_def)
  have val: "dec_val d * 10 ^ 6 = of_nat (dcoef d) * 10 powi (dexp d + 6)"
    using assms(2) unfolding six [symmetric] by (cases "dcoef d = 0") (auto simp: dec_val_alt dec_nonneg_def power_int_add)
  have big: "10 ^ 28 \<le> c" if "dec_prec < ndigits c" for c
    using that by (simp add: dec_prec_def ndigits_le_iff not_le flip: not_le)
  show ?thesis
  proof (cases "- 6 \<le> dexp d")
    case True
    then have "10 ^ 28 \<le> dcoef d * 10 ^ nat (dexp d + 6)"
      using assms(1) by (intro big) (simp add: quantize_tco2e_def dec_quantize_half_up_def Let_def split: if_splits)
    then have "(10::rat) ^ 28 \<le> of_nat (dcoef d * 10 ^ nat (dexp d + 6))"
      by (metis of_nat_le_iff of_nat_numeral of_nat_power)
    moreover have "of_nat (dcoef d * 10 ^ nat (dexp d + 6)) = dec_val d * 10 ^ 6" using True unfolding val by (simp add: power_int_def)
    ultimately show ?thesis by linarith
  next
    case False
    let ?k = "nat (- 6 - dexp d)"
    have k: "- 6 - dexp d = - dexp d - 6" by simp
    have "10 ^ 28 \<le> round_half_up (dcoef d) ?k"
      using assms(1) False by (intro big) (simp add: quantize_tco2e_def dec_quantize_half_up_def Let_def split: if_splits)
    then have "(10::rat) ^ 28 \<le> of_nat (round_half_up (dcoef d) ?k)"
      by (metis of_nat_le_iff of_nat_numeral of_nat_power)
    moreover have "of_nat (round_half_up (dcoef d) ?k) \<le> of_nat (dcoef d) / 10 ^ ?k + (1 / 2 :: rat)"
      using round_half_up_error [of "dcoef d" ?k, unfolded abs_le_iff] by (simp add: field_simps)
    moreover have "of_nat (dcoef d) / 10 ^ ?k = dec_val d * 10 ^ 6"
      using False unfolding val k by (simp add: power_int_def field_simps)
    ultimately show ?thesis by linarith
  qed
qed

lemma quantize_again: "quantize_tco2e d = Inr q \<Longrightarrow> quantize_tco2e q = Inr q"
  by (auto simp: quantize_tco2e_def dec_quantize_half_up_def Let_def split: if_splits)

lemma effective_mode_cases:
  "request_ok req \<Longrightarrow> effective_mode req = ''direct_tco2'' \<or> effective_mode req = ''caco3_mass''"
  by (auto simp: effective_mode_def request_ok_def request_fields_ok_def literal_or_none_def
      split: option.splits list.splits)

section \<open>The causes of failure\<close>

text \<open>
  The factors a request needs, if its fuel or subcategory has any; \<open>country\<close> is that of the site, for
  location-based electricity.
\<close>

definition needed_factors :: "string \<Rightarrow> CalcInputRequest \<Rightarrow> string list option" where
  "needed_factors country req =
     (let sub_scope = rq_sub_scope req; sub = request_sub req; one = map_option (\<lambda>i. [i]) in
      if sub_scope = ''combustion''
      then map_option (\<lambda>(i, j, k). [i, j, k]) (Option.bind (rq_combustibile req) (map_of FUEL_FACTOR_IDS))
      else if sub_scope = ''process'' then Some (if effective_mode req = ''direct_tco2'' then [] else [PROCESS_FACTOR_ID])
      else if sub_scope = ''lb'' then Some [lb_factor_for country]
      else if sub_scope = ''mb'' then Some [if rq_strumento_mb req = Some ''GO'' then FACTOR_ID_GO_ZERO else FACTOR_ID_RESIDUAL]
      else if sub_scope = ''cat1_purchased_goods'' then one (cat1_factor_id (str_lower (str_strip sub)))
      else if sub_scope = ''cat3_fuel_energy'' then one (cat3_preview_factor (str_upper (str_strip sub)))
      else if sub_scope = ''cat4_upstream_transport'' then one (cat4_resolve_mode sub)
      else if sub_scope = ''cat5_waste'' then one (cat5_resolve_waste_factor sub)
      else if sub_scope = ''cat6_business_travel'' then one (cat6_resolve_factor sub)
      else if sub_scope = ''cat7_commuting'' then Some [CAT7_FACTOR_ID]
      else if sub_scope = ''cat9_downstream_transport'' then one (cat9_resolve_mode sub)
      else Some [LANDFILL_FACTOR_ID, RECYCLE_FACTOR_ID])"

definition no_value :: "FactorCatalogPort \<Rightarrow> CalcInputRequest \<Rightarrow> string \<Rightarrow> bool" where
  "no_value catalog req i \<longleftrightarrow>
     (case cat_get catalog i (rq_gwp_set req) (Some (rq_anno req)) of
        Inl e \<Rightarrow> e = MissingFactorError
      | Inr f \<Rightarrow> fr_value f = None)"

text \<open>
  A factor is missing if the request names none, if the catalogue has no value for one that it needs, or
  no entry for the biogenic share of a purchased good.
\<close>

definition missing_factor :: "string \<Rightarrow> FactorCatalogPort \<Rightarrow> CalcInputRequest \<Rightarrow> bool" where
  "missing_factor country catalog req \<longleftrightarrow>
     (case needed_factors country req of
        None \<Rightarrow> True
      | Some ids \<Rightarrow> list_ex (\<lambda>i. no_value catalog req i \<or>
          rq_sub_scope req = ''cat1_purchased_goods'' \<and> i \<in> set BIOGENIC_FACTOR_IDS \<and>
          cat_get_biogenic_share catalog i (rq_gwp_set req) = Inl MissingFactorError) ids)"

text \<open>The unrounded amounts in tonnes that a preview of a request with these factors is made of.\<close>

inductive preview_amount :: "string \<Rightarrow> FactorCatalogPort \<Rightarrow> CalcInputRequest \<Rightarrow> decimal \<Rightarrow> bool"
  for country catalog req where
  direct: "rq_sub_scope req = ''process'' \<Longrightarrow> effective_mode req = ''direct_tco2'' \<Longrightarrow>
    preview_amount country catalog req (rq_quantita req)"
| calcination: "rq_sub_scope req = ''process'' \<Longrightarrow> effective_mode req \<noteq> ''direct_tco2'' \<Longrightarrow>
    request_factor catalog req PROCESS_FACTOR_ID = Inr f \<Longrightarrow> fr_value f = Some v \<Longrightarrow>
    preview_amount country catalog req (dec_mul v (rq_quantita req))"
| combustion: "rq_sub_scope req = ''combustion'' \<Longrightarrow> needed_factors country req = Some [i, j, k] \<Longrightarrow>
    request_factor catalog req i = Inr f1 \<Longrightarrow> request_factor catalog req j = Inr f2 \<Longrightarrow> request_factor catalog req k = Inr f3 \<Longrightarrow>
    get_gwp_values (rq_gwp_set req) = Inr g \<Longrightarrow>
    combustion_amounts (rq_quantita req) f1 f2 f3 (gv_ch4 g) (gv_n2o g) = (co2, ch4, n2o, whole) \<Longrightarrow> d \<in> {co2, whole} \<Longrightarrow>
    preview_amount country catalog req d"
| electricity: "rq_scope req = 2 \<Longrightarrow> needed_factors country req = Some [i] \<Longrightarrow> request_factor catalog req i = Inr f \<Longrightarrow>
    kwh_quantity req = Inr (q, t) \<Longrightarrow> preview_amount country catalog req (factor_tonnes f q)"
| product: "rq_scope req = 3 \<Longrightarrow> needed_factors country req = Some [i] \<Longrightarrow> request_factor catalog req i = Inr f \<Longrightarrow>
    preview_amount country catalog req (factor_tonnes f (rq_quantita req))"
| biogenic: "rq_sub_scope req = ''cat1_purchased_goods'' \<Longrightarrow> needed_factors country req = Some [i] \<Longrightarrow> i \<in> set BIOGENIC_FACTOR_IDS \<Longrightarrow>
    cat_get_biogenic_share catalog i (rq_gwp_set req) = Inr (Some b) \<Longrightarrow>
    preview_amount country catalog req (dec_mul (dec_mul b (rq_quantita req)) KG_TO_TONNE)"
| end_of_life: "rq_sub_scope req = ''cat12_eol'' \<Longrightarrow> request_factor catalog req LANDFILL_FACTOR_ID = Inr f1 \<Longrightarrow>
    request_factor catalog req RECYCLE_FACTOR_ID = Inr f2 \<Longrightarrow>
    l = factor_tonnes f1 (dec_mul (rq_quantita req) LANDFILL_FRACTION) \<Longrightarrow>
    r = factor_tonnes f2 (dec_mul (rq_quantita req) RECYCLE_FRACTION) \<Longrightarrow> d \<in> {dec_add l r, l, r} \<Longrightarrow>
    preview_amount country catalog req d"

text \<open>
  What may go wrong in a handler: a missing factor, an amount that does not fit 28 digits with six
  decimals, electricity in a unit other than kWh and MWh, a stoichiometric factor other than 0.4397.
\<close>

definition calc_error :: "string \<Rightarrow> FactorCatalogPort \<Rightarrow> CalcInputRequest \<Rightarrow> exn \<Rightarrow> bool" where
  "calc_error country catalog req e \<longleftrightarrow>
     e = MissingFactorError \<and> missing_factor country catalog req \<or>
     e = InvalidOperation \<and> (\<exists>d. preview_amount country catalog req d \<and> 10 ^ 28 - 1 / 2 \<le> dec_val d * 10 ^ 6) \<or>
     e = UnitConversionError \<and> rq_scope req = 2 \<and> unit_norm (rq_unita req) \<notin> {''kwh'', ''mwh''} \<or>
     e = ValueError \<and> rq_sub_scope req = ''process'' \<and> effective_mode req = ''caco3_mass'' \<and>
       (\<exists>f v. request_factor catalog req PROCESS_FACTOR_ID = Inr f \<and> fr_value f = Some v \<and> dec_val v \<noteq> 4397 / 10000)"

abbreviation calc_errors :: "string \<Rightarrow> FactorCatalogPort \<Rightarrow> CalcInputRequest \<Rightarrow> exn set" where
  "calc_errors country catalog req \<equiv> Collect (calc_error country catalog req)"

lemma no_value_iff: "catalog_ok catalog \<Longrightarrow> request_factor catalog req i = Inl e \<Longrightarrow> e = MissingFactorError \<and> no_value catalog req i"
  unfolding request_factor_def require_factor_def no_value_def catalog_ok_def settles_def
  by (auto simp: rbind_eq_Inl split: sum.splits if_splits)

lemma settles_rbind_factor [settles_rules]:
  assumes "catalog_ok catalog" and "needed_factors country req = Some ids" and "fid \<in> set ids"
    and "\<And>f v. request_factor catalog req fid = Inr f \<Longrightarrow> fr_value f = Some v \<Longrightarrow> dec_nonneg v \<Longrightarrow> dec_nonneg (factor_value f) \<Longrightarrow>
      settles (calc_errors country catalog req) P (k f)"
  shows "settles (calc_errors country catalog req) P (rbind (request_factor catalog req fid) k)"
proof (cases "request_factor catalog req fid")
  case (Inl e)
  with no_value_iff [OF assms(1) Inl] assms(2,3) show ?thesis
    by (auto simp: settles_def calc_error_def missing_factor_def list_ex_iff)
next
  case (Inr f)
  then obtain v where "fr_value f = Some v" "dec_nonneg v"
    using settles_factor [OF assms(1), of req fid] by (auto simp: settles_def)
  with assms(4) [OF Inr] Inr dec_or_zero_nonneg show ?thesis by auto
qed

lemma settles_rbind_quantize [settles_rules]:
  assumes "preview_amount country catalog req d" and "dec_nonneg d"
    and "\<And>q. quantize_tco2e d = Inr q \<Longrightarrow> dec_nonneg q \<Longrightarrow> dexp q = - 6 \<Longrightarrow> settles (calc_errors country catalog req) P (k q)"
  shows "settles (calc_errors country catalog req) P (rbind (quantize_tco2e d) k)"
proof (cases "quantize_tco2e d")
  case (Inl e)
  have "e = InvalidOperation" using settles_quantize [OF assms(2)] Inl by (simp add: settles_def)
  with quantize_fails [OF Inl assms(2)] assms(1) Inl show ?thesis by (auto simp: settles_def calc_error_def)
next
  case (Inr q)
  with settles_quantize [OF assms(2)] assms(3) show ?thesis by (simp add: settles_def)
qed

lemma settles_rbind_kwh [settles_rules]:
  assumes "request_ok req" and "rq_scope req = 2"
    and "\<And>q s. kwh_quantity req = Inr (q, s) \<Longrightarrow> dec_nonneg q \<Longrightarrow> settles (calc_errors country catalog req) P (k (q, s))"
  shows "settles (calc_errors country catalog req) P (rbind (kwh_quantity req) k)"
proof (cases "kwh_quantity req")
  case (Inl e)
  have "e = UnitConversionError" using settles_kwh [OF assms(1)] Inl by (simp add: settles_def)
  with kwh_fails [OF Inl] assms(2) Inl show ?thesis by (auto simp: settles_def calc_error_def)
next
  case (Inr x)
  with settles_kwh [OF assms(1)] assms(3) show ?thesis by (cases x) (simp add: settles_def)
qed

lemma settles_pair [settles_rules]: "settles E P (f a b) \<Longrightarrow> settles E P (case (a, b) of (x, y) \<Rightarrow> f x y)"
  by simp

lemma quantita_nonneg: "request_ok req \<Longrightarrow> dec_nonneg (rq_quantita req)"
  using request_ok_fields(1) [of req] by (simp add: dec_nonneg_value)

section \<open>The contract\<close>

definition preview_wf :: "CalcInputRequest \<Rightarrow> CalcPreviewResponse \<Rightarrow> bool" where
  "preview_wf req p \<longleftrightarrow>
     dec_nonneg (pv_tco2e p) \<and> dexp (pv_tco2e p) = - 6 \<and> pv_gwp_set p = rq_gwp_set req \<and>
     pv_methodology p \<in> set ALLOWED_METHODOLOGIES"

locale preview_handler =
  fixes handler :: "string \<Rightarrow> CalcInputRequest \<Rightarrow> FactorCatalogPort \<Rightarrow> CalcPreviewResponse res"
    and key :: "int \<times> string"
  assumes settles_handler:
    "request_ok req \<Longrightarrow> (rq_scope req, rq_sub_scope req) = key \<Longrightarrow> catalog_ok catalog \<Longrightarrow>
     settles (calc_errors country catalog req) (preview_wf req) (handler country req catalog)"
begin

lemma response_wf:
  "request_ok req \<Longrightarrow> (rq_scope req, rq_sub_scope req) = key \<Longrightarrow> catalog_ok catalog \<Longrightarrow>
   handler country req catalog = Inr p \<Longrightarrow> preview_wf req p"
  using settles_handler [of req catalog country] by (simp add: settles_def)

lemma raised_error:
  "request_ok req \<Longrightarrow> (rq_scope req, rq_sub_scope req) = key \<Longrightarrow> catalog_ok catalog \<Longrightarrow>
   handler country req catalog = Inl e \<Longrightarrow> calc_error country catalog req e"
  using settles_handler [of req catalog country] by (simp add: settles_def)

end

lemma preview_wf_response:
  "dec_nonneg t \<Longrightarrow> dexp t = - 6 \<Longrightarrow> m \<in> set ALLOWED_METHODOLOGIES \<Longrightarrow>
   preview_wf req (factor_response req f t m s ws)"
  by (simp add: preview_wf_def factor_response_def)

lemma settles_product:
  assumes "request_ok req" and "catalog_ok catalog" and "rq_scope req = 3"
    and need: "needed_factors country req = map_option (\<lambda>i. [i]) fid" and "m \<in> set ALLOWED_METHODOLOGIES"
  shows "settles (calc_errors country catalog req) (preview_wf req) (product_preview req catalog fid u l m)"
proof (cases fid)
  case None
  with need show ?thesis by (simp add: product_preview_def settles_def calc_error_def missing_factor_def)
next
  case (Some i)
  then have ids: "needed_factors country req = Some [i]" using need by simp
  show ?thesis
    unfolding product_preview_def Some option.case
    using assms(2,5) quantita_nonneg [OF assms(1)]
    by (intro settles_rbind_factor [OF assms(2) ids] settles_rbind_quantize [OF preview_amount.product [OF assms(3) ids]]
        settles_Inr preview_wf_response dec_mul_nonneg) simp_all
qed

section \<open>Scope 1\<close>

lemma gwp_values_of_request:
  assumes "request_ok req"
  obtains g where "get_gwp_values (rq_gwp_set req) = Inr g" "dec_nonneg (gv_ch4 g)" "dec_nonneg (gv_n2o g)"
proof -
  have "g = AR6 \<or> g = AR5 \<Longrightarrow> dec_nonneg (gv_ch4 g) \<and> dec_nonneg (gv_n2o g)" for g
    by (auto simp: AR6_def AR5_def)
  with request_ok_fields(2) [OF assms] that get_gwp_values_cases show thesis by metis
qed

interpretation combustion_h: preview_handler "\<lambda>_. preview_s1_combustion" "(1, ''combustion'')"
proof unfold_locales
  fix req catalog country
  assume ok: "request_ok req" "catalog_ok catalog" and key: "(rq_scope req, rq_sub_scope req) = (1, ''combustion'')"
  obtain g where g: "get_gwp_values (rq_gwp_set req) = Inr g" "dec_nonneg (gv_ch4 g)" "dec_nonneg (gv_n2o g)"
    using gwp_values_of_request [OF ok(1)] .
  obtain c where c: "rq_combustibile req = Some c" "c \<in> set [''GAS_NAT'', ''GASOLIO'', ''BENZINA'']"
    using request_ok_combustion [OF ok(1)] key by blast
  then obtain i j k where ids: "map_of FUEL_FACTOR_IDS c = Some (i, j, k)"
    by (auto simp: FUEL_FACTOR_IDS_def)
  have need: "needed_factors country req = Some [i, j, k]" using key c(1) ids by (simp add: needed_factors_def)
  have amount: "preview_amount country catalog req (dec_mul (dec_mul (factor_value f1) (rq_quantita req)) KG_TO_TONNE)"
    "preview_amount country catalog req (dec_add (dec_add (dec_mul (dec_mul (factor_value f1) (rq_quantita req)) KG_TO_TONNE)
        (dec_mul (dec_mul (dec_mul (factor_value f2) (rq_quantita req)) KG_TO_TONNE) (gv_ch4 g)))
        (dec_mul (dec_mul (dec_mul (factor_value f3) (rq_quantita req)) KG_TO_TONNE) (gv_n2o g)))"
    if "request_factor catalog req i = Inr f1" "request_factor catalog req j = Inr f2" "request_factor catalog req k = Inr f3" for f1 f2 f3
    using key by (auto intro!: preview_amount.combustion [OF _ need that g(1)] simp: combustion_amounts_def Let_def)
  show "settles (calc_errors country catalog req) (preview_wf req) (preview_s1_combustion req catalog)"
    unfolding preview_s1_combustion_def g(1) c(1) ids option.case rbind_simps prod.case gwp_table_get_known Let_def
      combustion_amounts_def
    using g(2,3) quantita_nonneg [OF ok(1)]
    by (intro settles_rbind_factor [OF ok(2) need] settles_rbind_quantize [OF amount(2)] settles_rbind_quantize [OF amount(1)]
        settles_Inr nonneg_intros)
      (simp_all add: preview_wf_def factor_response_def ALLOWED_METHODOLOGIES_def)
qed

interpretation process_h: preview_handler "\<lambda>_. preview_s1_process" "(1, ''process'')"
proof unfold_locales
  fix req catalog country
  assume ok: "request_ok req" "catalog_ok catalog" and key: "(rq_scope req, rq_sub_scope req) = (1, ''process'')"
  note q = quantita_nonneg [OF ok(1)]
  show "settles (calc_errors country catalog req) (preview_wf req) (preview_s1_process req catalog)"
  proof (cases "effective_mode req = ''direct_tco2''")
    case True
    have "preview_amount country catalog req (rq_quantita req)" using key True by (auto intro: preview_amount.direct)
    then show ?thesis
      unfolding preview_s1_process_def if_P [OF True]
      by (rule settles_rbind_quantize [OF _ q], intro settles_Inr) (simp add: preview_wf_def ALLOWED_METHODOLOGIES_def)
  next
    case False
    have need: "needed_factors country req = Some [PROCESS_FACTOR_ID]" using key False by (simp add: needed_factors_def)
    have mode: "effective_mode req = ''caco3_mass''" using effective_mode_cases [OF ok(1)] False by blast
    have odd: "ValueError \<in> calc_errors country catalog req"
      if "request_factor catalog req PROCESS_FACTOR_ID = Inr f" "fr_value f = Some v" "\<not> dec_eq v (Dec False 4397 (- 4))" for f v
      using that key mode by (auto simp: calc_error_def dec_cmp_value dec_val_Dec power_int_def power_divide)
    show ?thesis
      unfolding preview_s1_process_def if_not_P [OF False]
    proof (rule settles_rbind_factor [OF ok(2) need])
      fix f v
      assume f: "request_factor catalog req PROCESS_FACTOR_ID = Inr f" "fr_value f = Some v" "dec_nonneg v"
      have "preview_amount country catalog req (dec_mul v (rq_quantita req))"
        using preview_amount.calcination [OF _ False f(1,2)] key by simp
      then show "settles (calc_errors country catalog req) (preview_wf req) (case fr_value f of None \<Rightarrow> Inl ValueError
        | Some v \<Rightarrow> if \<not> dec_eq v (Dec False 4397 (- 4)) then Inl ValueError
          else rbind (quantize_tco2e (dec_mul v (rq_quantita req))) (\<lambda>tco2e.
            Inr ((factor_response req f tco2e ''stoichiometric''
                    (dec_str (rq_quantita req) @ '' t CaCO3 '' @ utf8_times @ '' '' @ dec_str v @
                     '' tCO2/t CaCO3 = '' @ dec_str tco2e @ '' tCO2e'')
                    (process_site_warning req @ vintage_warning f (rq_anno req)))
                 \<lparr>pv_factor_value := v, pv_gwp_value := Some (Dec False 1 0)\<rparr>)))"
        unfolding f(2) option.case
        by (intro settles_if settles_Inl odd [OF f(1,2)] settles_rbind_quantize dec_mul_nonneg f(3) q settles_Inr)
          (simp_all add: preview_wf_def factor_response_def ALLOWED_METHODOLOGIES_def)
    qed simp
  qed
qed

section \<open>Scope 2\<close>

interpretation lb_h: preview_handler "\<lambda>country req catalog. preview_s2_lb req catalog country" "(2, ''lb'')"
proof unfold_locales
  fix req catalog country
  assume ok: "request_ok req" "catalog_ok catalog" and key: "(rq_scope req, rq_sub_scope req) = (2, ''lb'')"
  then have sc: "rq_scope req = 2" and need: "needed_factors country req = Some [lb_factor_for country]"
    by (simp_all add: needed_factors_def)
  show "settles (calc_errors country catalog req) (preview_wf req) (preview_s2_lb req catalog country)"
    unfolding preview_s2_lb_def Let_def
    by (intro settles_rbind_factor [OF ok(2) need] settles_rbind_kwh [OF ok(1) sc] settles_pair
        settles_rbind_quantize [OF preview_amount.electricity [OF sc need]] settles_Inr dec_mul_nonneg)
      (simp_all add: preview_wf_def factor_response_def ALLOWED_METHODOLOGIES_def)
qed

interpretation mb_h: preview_handler "\<lambda>_. preview_s2_mb" "(2, ''mb'')"
proof unfold_locales
  fix req catalog country
  assume ok: "request_ok req" "catalog_ok catalog" and key: "(rq_scope req, rq_sub_scope req) = (2, ''mb'')"
  then have sc: "rq_scope req = 2"
    and need: "needed_factors country req = Some [if rq_strumento_mb req = Some ''GO'' then FACTOR_ID_GO_ZERO else FACTOR_ID_RESIDUAL]"
    by (simp_all add: needed_factors_def)
  have again: "settles (calc_errors country catalog req) (\<lambda>_. True)
      (if b then rbind (quantize_tco2e q) (\<lambda>q. Inr (Some q)) else Inr None)" if "quantize_tco2e d = Inr q" for b d q
    using quantize_again [OF that] by (simp add: settles_def)
  show "settles (calc_errors country catalog req) (preview_wf req) (preview_s2_mb req catalog)"
    unfolding preview_s2_mb_def Let_def
    by (intro settles_rbind_factor [OF ok(2) need] settles_rbind_kwh [OF ok(1) sc] settles_pair
        settles_rbind_quantize [OF preview_amount.electricity [OF sc need]] settles_rbind [OF again] settles_Inr dec_mul_nonneg)
      (simp_all add: preview_wf_def factor_response_def ALLOWED_METHODOLOGIES_def)
qed

section \<open>Scope 3\<close>

interpretation cat1_h: preview_handler "\<lambda>_. preview_s3_cat1" "(3, ''cat1_purchased_goods'')"
proof unfold_locales
  fix req catalog country
  assume ok: "request_ok req" "catalog_ok catalog" and key: "(rq_scope req, rq_sub_scope req) = (3, ''cat1_purchased_goods'')"
  let ?E = "calc_errors country catalog req" and ?id = "cat1_factor_id (str_lower (str_strip (request_sub req)))"
  have need: "needed_factors country req = map_option (\<lambda>i. [i]) ?id" using key by (simp add: needed_factors_def)
  show "settles ?E (preview_wf req) (preview_s3_cat1 req catalog)"
  proof (cases ?id)
    case None
    with need show ?thesis by (simp add: preview_s3_cat1_def settles_def calc_error_def missing_factor_def)
  next
    case (Some i)
    then have ids: "needed_factors country req = Some [i]" using need by simp
    have bio: "settles ?E (\<lambda>b. \<forall>x. b = Some x \<longrightarrow> dec_nonneg x) (cat_get_biogenic_share catalog i (rq_gwp_set req))"
      if "i \<in> set BIOGENIC_FACTOR_IDS"
      using ok(2) ids that key
      by (auto simp: catalog_ok_def settles_def calc_error_def missing_factor_def split: sum.splits)
    have share: "settles ?E (\<lambda>_. True) (if i \<in> set BIOGENIC_FACTOR_IDS
             then rbind (cat_get_biogenic_share catalog i (rq_gwp_set req)) (\<lambda>bio.
               case bio of None \<Rightarrow> Inr (None, None)
               | Some b \<Rightarrow> rbind (quantize_tco2e (dec_mul (dec_mul b (rq_quantita req)) KG_TO_TONNE)) (\<lambda>m. Inr (Some m, Some t)))
             else Inr (None, None))" for t
      using key quantita_nonneg [OF ok(1)]
      by (intro settles_if settles_rbind [OF bio] settles_option
          settles_rbind_quantize [OF preview_amount.biogenic [OF _ ids]] settles_Inr dec_mul_nonneg) auto
    have wf: "preview_wf req ((factor_response req f t (cat1_methodology i) s ws)\<lparr>pv_co2_biogenic_tonne := b, pv_co2_fossil_tonne := c\<rparr>)"
      if "dec_nonneg t" "dexp t = - 6" for f t s ws b c
      using that by (simp add: preview_wf_def factor_response_def ALLOWED_METHODOLOGIES_def cat1_methodology_def)
    show ?thesis
      unfolding preview_s3_cat1_def Some option.case Let_def
      using key quantita_nonneg [OF ok(1)]
      by (intro settles_rbind_factor [OF ok(2) ids] settles_rbind_quantize [OF preview_amount.product [OF _ ids]] dec_mul_nonneg
          settles_rbind [OF share]) (auto intro: settles_Inr wf)
  qed
qed

lemma product_needs:
  "rq_sub_scope req = ''cat3_fuel_energy'' \<Longrightarrow> needed_factors country req =
     map_option (\<lambda>i. [i]) (cat3_preview_factor (str_upper (str_strip (request_sub req))))"
  "rq_sub_scope req = ''cat4_upstream_transport'' \<Longrightarrow> needed_factors country req = map_option (\<lambda>i. [i]) (cat4_resolve_mode (request_sub req))"
  "rq_sub_scope req = ''cat5_waste'' \<Longrightarrow> needed_factors country req = map_option (\<lambda>i. [i]) (cat5_resolve_waste_factor (request_sub req))"
  "rq_sub_scope req = ''cat6_business_travel'' \<Longrightarrow> needed_factors country req = map_option (\<lambda>i. [i]) (cat6_resolve_factor (request_sub req))"
  "rq_sub_scope req = ''cat7_commuting'' \<Longrightarrow> needed_factors country req = map_option (\<lambda>i. [i]) (Some CAT7_FACTOR_ID)"
  "rq_sub_scope req = ''cat9_downstream_transport'' \<Longrightarrow> needed_factors country req = map_option (\<lambda>i. [i]) (cat9_resolve_mode (request_sub req))"
  by (simp_all add: needed_factors_def)

lemma activity_methods: "{''activity-based'', ''distance-based'', ''mass-based'', ''spend-based''} \<subseteq> set ALLOWED_METHODOLOGIES"
  by (simp add: ALLOWED_METHODOLOGIES_def)

interpretation cat3_h: preview_handler "\<lambda>_. preview_s3_cat3" "(3, ''cat3_fuel_energy'')"
  by unfold_locales (use activity_methods in \<open>auto simp: preview_s3_cat3_def intro: settles_product product_needs\<close>)

interpretation cat4_h: preview_handler "\<lambda>_. preview_s3_cat4" "(3, ''cat4_upstream_transport'')"
  by unfold_locales (use activity_methods in \<open>auto simp: preview_s3_cat4_def intro: settles_product product_needs\<close>)

interpretation cat5_h: preview_handler "\<lambda>_. preview_s3_cat5" "(3, ''cat5_waste'')"
  by unfold_locales (use activity_methods in \<open>auto simp: preview_s3_cat5_def intro: settles_product product_needs\<close>)

interpretation cat6_h: preview_handler "\<lambda>_. preview_s3_cat6" "(3, ''cat6_business_travel'')"
  by unfold_locales (use activity_methods in \<open>auto simp: preview_s3_cat6_def intro: settles_product product_needs\<close>)

interpretation cat7_h: preview_handler "\<lambda>_. preview_s3_cat7" "(3, ''cat7_commuting'')"
proof unfold_locales
  fix req catalog country
  assume ok: "request_ok req" "catalog_ok catalog" and key: "(rq_scope req, rq_sub_scope req) = (3, ''cat7_commuting'')"
  show "settles (calc_errors country catalog req) (preview_wf req) (preview_s3_cat7 req catalog)"
    unfolding preview_s3_cat7_def Let_def
    by (rule settles_rbind [OF settles_product [OF ok _ product_needs(5)]])
      (use key activity_methods in \<open>auto simp: settles_def preview_wf_def\<close>)
qed

interpretation cat9_h: preview_handler "\<lambda>_. preview_s3_cat9" "(3, ''cat9_downstream_transport'')"
  by unfold_locales (use activity_methods in \<open>auto simp: preview_s3_cat9_def intro: settles_product product_needs\<close>)

interpretation cat12_h: preview_handler "\<lambda>_. preview_s3_cat12" "(3, ''cat12_eol'')"
proof unfold_locales
  fix req catalog country
  assume ok: "request_ok req" "catalog_ok catalog" and key: "(rq_scope req, rq_sub_scope req) = (3, ''cat12_eol'')"
  have need: "needed_factors country req = Some [LANDFILL_FACTOR_ID, RECYCLE_FACTOR_ID]" using key by (simp add: needed_factors_def)
  have fr: "dec_nonneg LANDFILL_FRACTION" "dec_nonneg RECYCLE_FRACTION"
    by (simp_all add: LANDFILL_FRACTION_def RECYCLE_FRACTION_def)
  have amount: "preview_amount country catalog req (dec_add (factor_tonnes f1 (dec_mul (rq_quantita req) LANDFILL_FRACTION))
      (factor_tonnes f2 (dec_mul (rq_quantita req) RECYCLE_FRACTION)))"
    "preview_amount country catalog req (factor_tonnes f1 (dec_mul (rq_quantita req) LANDFILL_FRACTION))"
    "preview_amount country catalog req (factor_tonnes f2 (dec_mul (rq_quantita req) RECYCLE_FRACTION))"
    if "request_factor catalog req LANDFILL_FACTOR_ID = Inr f1" "request_factor catalog req RECYCLE_FACTOR_ID = Inr f2" for f1 f2
    using preview_amount.end_of_life [OF _ that] key by blast+
  show "settles (calc_errors country catalog req) (preview_wf req) (preview_s3_cat12 req catalog)"
    unfolding preview_s3_cat12_def lookup_cat12_factors_def compute_cat12_emissions_def build_cat12_response_def Let_def
      rbind_assoc rbind_simps prod.case Cat12Factors.simps
    using fr quantita_nonneg [OF ok(1)] activity_methods
    by (intro settles_rbind_factor [OF ok(2) need] settles_rbind_quantize [OF amount(1)] settles_rbind_quantize [OF amount(2)]
        settles_rbind_quantize [OF amount(3)] settles_Inr preview_wf_response dec_add_nonneg dec_mul_nonneg) auto
qed

end
