(* ===== verification/Auto_Calc_Properties.thy ===== *)
theory Auto_Calc_Properties
  imports Auto_Calc_Contract Factor_Sql_Adapter
begin

text \<open>
  The theorems about the auto-calc previews: their outcomes, unit conversion, and the agreement of
  a preview with the calculation modules of the batch run.
\<close>

section \<open>Outcomes of a preview\<close>

lemma dispatch_settles:
  assumes "request_ok req" and "catalog_ok catalog"
    and "map_of DISPATCH (rq_scope req, rq_sub_scope req) = Some handler"
    and "rq_sub_scope req = ''lb'' \<longrightarrow> country = ''IT''"
  shows "settles (calc_errors country catalog req) (preview_wf req) (handler req catalog)"
  using map_of_SomeD [OF assms(3)] assms(1,2,4)
    combustion_h.settles_handler [OF assms(1) _ assms(2)] process_h.settles_handler [OF assms(1) _ assms(2)]
    lb_h.settles_handler [OF assms(1) _ assms(2)]
    mb_h.settles_handler [OF assms(1) _ assms(2)] cat1_h.settles_handler [OF assms(1) _ assms(2)]
    cat3_h.settles_handler [OF assms(1) _ assms(2)] cat4_h.settles_handler [OF assms(1) _ assms(2)]
    cat5_h.settles_handler [OF assms(1) _ assms(2)] cat6_h.settles_handler [OF assms(1) _ assms(2)]
    cat7_h.settles_handler [OF assms(1) _ assms(2)] cat9_h.settles_handler [OF assms(1) _ assms(2)]
    cat12_h.settles_handler [OF assms(1) _ assms(2)]
  by (auto simp: DISPATCH_def)

lemma dispatch_total:
  assumes "request_ok req"
  shows "\<exists>handler. map_of DISPATCH (rq_scope req, rq_sub_scope req) = Some handler"
  using request_ok_pairs [OF assms] by (auto simp: DISPATCH_def REQUEST_SUB_SCOPES_def)

text \<open>The exceptions a preview of a validated request can raise, each with its cause.\<close>

definition preview_country :: "(SiteRow list \<times> uuid) option \<Rightarrow> CalcInputRequest \<Rightarrow> string" where
  "preview_country session req = (case site_meta_of session req of Some m \<Rightarrow> sm_country m | None \<Rightarrow> ''IT'')"

definition preview_error :: "FactorCatalogPort \<Rightarrow> (SiteRow list \<times> uuid) option \<Rightarrow> CalcInputRequest \<Rightarrow> exn \<Rightarrow> bool" where
  "preview_error catalog session req e \<longleftrightarrow>
     calc_error (preview_country session req) catalog req e \<or>
     e = HTTPException 422 \<and> rq_sub_scope req = ''process'' \<and>
       (\<exists>m. site_meta_of session req = Some m \<and> sm_site_type m \<noteq> ''STABILIMENTO_PRODUTTIVO'')"

text \<open>
  C22. A preview of a validated request, against a catalogue that never returns a negative factor
  and fails only by missing one, returns a response with a non-negative amount of six decimals,
  the requested GWP set and an admissible methodology, or raises one of five exceptions, each for its
  cause: \<open>MissingFactorError\<close> only if the fuel or subcategory names no factor, or the catalogue has no
  value for one of the factors that the request needs (or no entry for the biogenic share of a purchased
  good); \<open>InvalidOperation\<close> only if one of the unrounded amounts does not fit 28 digits with six decimals;
  \<open>UnitConversionError\<close> only for electricity in a unit other than kWh and MWh; \<open>ValueError\<close> only for a
  CaCO3 mass with a stoichiometric factor other than 0.4397; status 422 only for a process request at a
  site that is not a production plant. So a request without any of these causes is answered.
\<close>

theorem preview_outcomes:
  assumes "request_ok req" and "catalog_ok catalog"
  shows "case compute_preview req catalog session of
      Inr p \<Rightarrow> preview_wf req p
    | Inl e \<Rightarrow> preview_error catalog session req e"
proof -
  let ?c = "preview_country session req"
  obtain handler where h: "map_of DISPATCH (rq_scope req, rq_sub_scope req) = Some handler"
    using dispatch_total [OF assms(1)] by blast
  have hs: "settles (calc_errors ?c catalog req) (preview_wf req) (handler req catalog)"
    if "rq_sub_scope req = ''lb'' \<longrightarrow> site_meta_of session req = None"
    by (rule dispatch_settles [OF assms h]) (use that in \<open>simp add: preview_country_def\<close>)
  have lb: "settles (calc_errors ?c catalog req) (preview_wf req) (preview_s2_lb req catalog ?c)" if "rq_sub_scope req = ''lb''"
    using lb_h.settles_handler [OF assms(1) _ assms(2)] request_ok_pairs [OF assms(1)] that
    by (auto simp: REQUEST_SUB_SCOPES_def)
  have "settles (Collect (preview_error catalog session req)) (preview_wf req) (compute_preview req catalog session)"
    unfolding compute_preview_def h option.case Let_def
    using hs lb
    by (cases "site_meta_of session req")
      (auto simp: assert_process_site_type_def settles_def preview_error_def preview_country_def split: sum.splits)
  then show ?thesis by (simp add: settles_def split: sum.splits)
qed

definition demo_request :: "int \<Rightarrow> string \<Rightarrow> string option \<Rightarrow> string \<Rightarrow> CalcInputRequest" where
  "demo_request scope sub_scope site unita =
     \<lparr>rq_scope = scope, rq_sub_scope = sub_scope, rq_anno = 2025, rq_codice_sito = site,
      rq_quantita = Dec False 10005 (- 1), rq_unita = unita, rq_gwp_set = ''AR6'',
      rq_combustibile = Some ''GAS_NAT'', rq_process_mode = None, rq_strumento_mb = Some ''RESIDUAL'',
      rq_sottocategoria = Some ''trasporto strada'', rq_metodo = Some ''distance-based'', rq_fonte_dato = None,
      rq_qualita_dato = None, rq_note = None\<rparr>"

lemmas request_ok_defs = request_ok_def request_fields_ok_def validate_scope_sub_scope_def
  validate_conditional_fields_def conditional_errors_def literal_or_none_def REQUEST_SUB_SCOPES_def
  SCOPE_SUB_SCOPES_def

lemma demo_lb_ok: "u \<noteq> [] \<Longrightarrow> request_ok (demo_request 2 ''lb'' (Some ''IANO'') u)"
  by (simp add: request_ok_defs demo_request_def dec_cmp_value dec_val_Dec power_int_def)

lemma demo_request_ok:
  "request_ok (demo_request 1 ''combustion'' (Some ''IANO'') ''Sm3'')"
  "request_ok (demo_request 3 ''cat4_upstream_transport'' None ''tkm'')"
  by (simp_all add: request_ok_defs demo_request_def dec_cmp_value dec_val_Dec power_int_def)

lemma demo_catalog_ok: "catalog_ok demo_catalog"
  by (simp add: catalog_ok_def settles_def demo_catalog_def demo_factor_def)

lemma demo_units:
  "str_lower ''kWh'' = ''kwh''" "str_lower ''Sm3'' = ''sm3''" "str_lower ''MWh'' = ''mwh''"
  by (simp_all add: str_lower_def chr_lower_def char_of_def bit_0)

lemma demo_unit_norms: "unit_norm ''kWh'' = ''kwh''" "unit_norm ''Sm3'' = ''sm3''" "unit_norm ''MWh'' = ''mwh''"
  by (simp_all add: unit_norm_def demo_units str_strip_def chr_space_def)

lemma demo_quantize:
  "quantize_tco2e (dec_mul (dec_mul (dec_or_zero (Some (Dec False 25 (- 1)))) (Dec False 10005 (- 1))) KG_TO_TONNE) =
     Inr (Dec False 2501250 (- 6))"
  by (simp add: quantize_tco2e_def dec_quantize_half_up_def dec_mul_def dec_fix_short ndigits_le_iff dec_prec_def
      KG_TO_TONNE_def dec_or_zero_def Let_def flip: not_le)

lemma demo_lb_value: "demo_value (lb_factor_for ''IT'') = Dec False 25 (- 1)"
  by (simp add: demo_value_def lb_factor_for_def LB_FACTOR_ID_def)

lemmas demo_lb_preview = compute_preview_def DISPATCH_def site_meta_of_def preview_s2_lb_def request_factor_def
  kwh_quantity_def demo_units demo_unit_norms demo_request_def demo_quantize demo_lb_value Let_def
  apply_unit_conversion_def NCV_DEPENDENT_PAIRS_def

theorem preview_outcomes_witness:
  "(\<exists>p. compute_preview (demo_request 2 ''lb'' (Some ''IANO'') ''kWh'') demo_catalog None = Inr p \<and>
     preview_wf (demo_request 2 ''lb'' (Some ''IANO'') ''kWh'') p) \<and>
   (\<exists>e. compute_preview (demo_request 2 ''lb'' (Some ''IANO'') ''Sm3'') demo_catalog None = Inl e \<and>
     preview_error demo_catalog None (demo_request 2 ''lb'' (Some ''IANO'') ''Sm3'') e) \<and>
   unit_norm ''Sm3'' \<notin> {''kwh'', ''mwh''}"
proof -
  let ?a = "demo_request 2 ''lb'' (Some ''IANO'') ''kWh''" and ?b = "demo_request 2 ''lb'' (Some ''IANO'') ''Sm3''"
  note out = preview_outcomes [OF demo_lb_ok demo_catalog_ok]
  have "\<exists>p. compute_preview ?a demo_catalog None = Inr p" "\<exists>e. compute_preview ?b demo_catalog None = Inl e"
    by (simp_all add: demo_lb_preview)
  then show ?thesis
    using out [of "''kWh''" None] out [of "''Sm3''" None]
    by (auto simp: demo_unit_norms)
qed

section \<open>Unit conversion\<close>

text \<open>Every conversion of the table has its inverse there, with the inverse multiplier.\<close>

lemma conversion_table_inverse:
  "list_all (\<lambda>((a, b), m). a = b \<or>
     (case map_of UNIT_CONVERSION (b, a) of None \<Rightarrow> False
      | Some m' \<Rightarrow> dcoef m * dcoef m' = 1000 \<and> dexp m + dexp m' = - 3 \<and> \<not> dsign m \<and> \<not> dsign m') \<and>
     (b, a) \<notin> set NCV_DEPENDENT_PAIRS) UNIT_CONVERSION"
  by (simp add: UNIT_CONVERSION_def NCV_DEPENDENT_PAIRS_def)

lemma conversion_inverse:
  assumes "map_of UNIT_CONVERSION (a, b) = Some m" and "a \<noteq> b"
  shows "\<exists>m'. map_of UNIT_CONVERSION (b, a) = Some m' \<and> dec_val m * dec_val m' = 1 \<and>
    dcoef m * dcoef m' = 1000 \<and> (b, a) \<notin> set NCV_DEPENDENT_PAIRS"
proof -
  obtain m' where m': "map_of UNIT_CONVERSION (b, a) = Some m'" "dcoef m * dcoef m' = 1000"
    "dexp m + dexp m' = - 3" "\<not> dsign m" "\<not> dsign m'" "(b, a) \<notin> set NCV_DEPENDENT_PAIRS"
    using conversion_table_inverse map_of_SomeD [OF assms(1)] assms(2)
    by (fastforce simp: list_all_iff split: option.splits)
  have "dec_val m * dec_val m' = of_nat (dcoef m * dcoef m') * 10 powi (dexp m + dexp m')"
    using m'(4,5) by (cases m; cases m') (simp add: dec_val_Dec power_int_add)
  also have "\<dots> = 1" unfolding m'(2,3) by (simp add: power_int_def power_divide)
  finally show ?thesis using m' by blast
qed

lemma ndigits_mono: "m \<le> n \<Longrightarrow> ndigits m \<le> ndigits n"
  using ndigits_upper [of n] ndigits_le_iff [of "ndigits n" m] by simp

lemma ndigits_thousand: "ndigits n \<le> k \<Longrightarrow> ndigits (n * 1000) \<le> k + 3"
proof -
  assume "ndigits n \<le> k"
  moreover have "0 < k" using ndigits_pos [of n] calculation by linarith
  ultimately have "n < 10 ^ k" by (simp add: ndigits_le_iff)
  then have "n * 1000 < 10 ^ (k + 3)" by (simp add: power_add)
  then show "ndigits (n * 1000) \<le> k + 3" by (simp add: ndigits_le_iff)
qed

text \<open>
  C23. Unit conversion is exact and invertible: a quantity of at most 25 digits converted to another
  unit converts back, to the same number.
\<close>

theorem unit_conversion_roundtrip:
  assumes "apply_unit_conversion q u v = Inr (q', d)" and "ndigits (dcoef q) \<le> 25"
  shows "\<exists>q'' d'. apply_unit_conversion q' v u = Inr (q'', d') \<and> dec_val q'' = dec_val q"
proof (cases "unit_norm u = unit_norm v")
  case True
  with assms(1) show ?thesis by (auto simp: apply_unit_conversion_def Let_def)
next
  case False
  then obtain m where m: "map_of UNIT_CONVERSION (unit_norm u, unit_norm v) = Some m" "q' = dec_mul q m"
    using assms(1) by (auto simp: apply_unit_conversion_def Let_def split: if_splits option.splits)
  obtain m' where m': "map_of UNIT_CONVERSION (unit_norm v, unit_norm u) = Some m'" "dec_val m * dec_val m' = 1"
    "dcoef m * dcoef m' = 1000" "(unit_norm v, unit_norm u) \<notin> set NCV_DEPENDENT_PAIRS"
    using conversion_inverse [OF m(1) False] by blast
  have small: "ndigits (dcoef q * dcoef m * dcoef m') \<le> dec_prec" "ndigits (dcoef q * dcoef m) \<le> dec_prec"
  proof -
    have big: "ndigits (dcoef q * 1000) \<le> dec_prec" using ndigits_thousand [OF assms(2)] by (simp add: dec_prec_def)
    have e: "dcoef q * dcoef m * dcoef m' = dcoef q * 1000" using m'(3) by (simp only: mult.assoc)
    have "dcoef m \<le> 1000" using m'(3) by (metis dvd_imp_le dvd_triv_left zero_less_numeral)
    then have "dcoef q * dcoef m \<le> dcoef q * 1000" by (rule mult_le_mono2)
    with big show "ndigits (dcoef q * dcoef m) \<le> dec_prec" by (metis ndigits_mono order_trans)
    show "ndigits (dcoef q * dcoef m * dcoef m') \<le> dec_prec" unfolding e by (rule big)
  qed
  have v1: "dec_val q' = dec_val q * dec_val m" unfolding m(2) by (rule dec_mul_exact [OF small(2)])
  have "dcoef q' = dcoef q * dcoef m" using small(2) by (simp add: m(2) dec_mul_def dec_fix_short)
  then have "dec_val (dec_mul q' m') = dec_val q' * dec_val m'" using small(1) by (intro dec_mul_exact) simp
  with v1 m'(2) have "dec_val (dec_mul q' m') = dec_val q" by (simp add: mult.assoc)
  with m' False show ?thesis by (auto simp: apply_unit_conversion_def Let_def)
qed

theorem unit_conversion_roundtrip_witness:
  "\<exists>q' d q'' d'. apply_unit_conversion (Dec False 10005 (- 1)) ''MWh'' ''kWh'' = Inr (q', d) \<and>
     apply_unit_conversion q' ''kWh'' ''MWh'' = Inr (q'', d') \<and> dec_val q'' = dec_val (Dec False 10005 (- 1))"
proof -
  have "\<exists>x. apply_unit_conversion (Dec False 10005 (- 1)) ''MWh'' ''kWh'' = Inr x"
    by (simp add: apply_unit_conversion_def demo_unit_norms UNIT_CONVERSION_def NCV_DEPENDENT_PAIRS_def Let_def)
  then obtain q' d where c: "apply_unit_conversion (Dec False 10005 (- 1)) ''MWh'' ''kWh'' = Inr (q', d)"
    by auto
  have "ndigits (dcoef (Dec False 10005 (- 1))) \<le> 25" by (simp add: ndigits_le_iff)
  from unit_conversion_roundtrip [OF c this] c show ?thesis by blast
qed

end
