(* ===== verification/Auto_Calc_Equivalence.thy ===== *)
theory Auto_Calc_Equivalence
  imports Auto_Calc_Properties
begin

text \<open>
  A preview agrees with the calculation module of the batch run: the module, applied to the one row
  that carries the request, plans records whose sum is the amount of the preview before its
  rounding to six decimals.
\<close>

section \<open>The row of a request and its module\<close>

definition opt_value :: "string option \<Rightarrow> pyval" where
  "opt_value v = (case v of None \<Rightarrow> PNone | Some s \<Rightarrow> PStr s)"

definition category_of :: "string \<Rightarrow> int" where
  "category_of sub_scope =
     (case map_of [(''cat1_purchased_goods'', 1), (''cat4_upstream_transport'', 4), (''cat5_waste'', 5),
                   (''cat6_business_travel'', 6), (''cat7_commuting'', 7), (''cat9_downstream_transport'', 9),
                   (''cat12_eol'', 12)] sub_scope of Some c \<Rightarrow> c | None \<Rightarrow> 0)"

definition request_row :: "CalcInputRequest \<Rightarrow> row" where
  "request_row req =
     [''anno'' \<mapsto> PInt (rq_anno req), ''quantita'' \<mapsto> PDec (rq_quantita req), ''unita'' \<mapsto> PStr (rq_unita req),
      ''codice_sito'' \<mapsto> opt_value (rq_codice_sito req), ''combustibile'' \<mapsto> opt_value (rq_combustibile req),
      ''sottocategoria'' \<mapsto> opt_value (rq_sottocategoria req),
      ''categoria_s3'' \<mapsto> PInt (category_of (rq_sub_scope req))]"

definition module_plan ::
    "sampler \<Rightarrow> CalcInputRequest \<Rightarrow> FactorCatalogPort \<Rightarrow> GWPValues \<Rightarrow> CalcCtx \<Rightarrow> EmissionArgs list res" where
  "module_plan draw req catalog g ctx =
     (let s = rq_sub_scope req; rows = [request_row req] in
      if s = ''combustion'' then scope1_combustion_plan rows catalog g ctx
      else if s = ''lb'' then scope2_lb_plan rows catalog g ctx
      else if s = ''cat1_purchased_goods'' then cat1_plan rows catalog g ctx
      else if s = ''cat4_upstream_transport'' then cat4_plan rows catalog g ctx
      else if s = ''cat5_waste'' then cat5_plan rows catalog g ctx
      else if s = ''cat6_business_travel'' then cat6_plan draw rows catalog g ctx
      else if s = ''cat7_commuting'' then cat7_plan rows catalog g ctx
      else if s = ''cat9_downstream_transport'' then cat9_plan rows catalog g ctx
      else cat12_plan rows catalog g ctx)"

text \<open>
  The requests the theorem is about: the nine sub-scopes with a module over single rows, electricity
  in kWh, commuting by car.
\<close>

definition module_request :: "CalcInputRequest \<Rightarrow> bool" where
  "module_request req \<longleftrightarrow>
     rq_sub_scope req \<in> set [''combustion'', ''lb'', ''cat1_purchased_goods'', ''cat4_upstream_transport'',
       ''cat5_waste'', ''cat6_business_travel'', ''cat7_commuting'', ''cat9_downstream_transport'', ''cat12_eol''] \<and>
     (rq_sub_scope req = ''lb'' \<longrightarrow> str_lower (rq_unita req) = ''kwh'') \<and>
     (rq_sub_scope req = ''cat7_commuting'' \<longrightarrow> str_lower (str_strip (request_sub req)) = ''commuting_auto'')"

text \<open>The catalogue answers alike with and without the year.\<close>

definition same_vintage :: "FactorCatalogPort \<Rightarrow> CalcInputRequest \<Rightarrow> bool" where
  "same_vintage catalog req \<longleftrightarrow>
     (\<forall>fid. cat_get catalog fid (rq_gwp_set req) (Some (rq_anno req)) = cat_get catalog fid (rq_gwp_set req) None)"

text \<open>The planned records sum up to the amount of the preview.\<close>

definition plan_agrees :: "CalcInputRequest \<Rightarrow> CalcPreviewResponse \<Rightarrow> EmissionArgs list \<Rightarrow> bool" where
  "plan_agrees req p as \<longleftrightarrow>
     as \<noteq> [] \<and> quantize_tco2e (foldl dec_add (ea_tco2e (hd as)) (map ea_tco2e (tl as))) = Inr (pv_tco2e p) \<and>
     fr_factor_id (ea_factor (hd as)) = pv_factor_id p \<and>
     (\<forall>a\<in>set as. ea_methodology a = pv_methodology p \<and> ea_scope a = rq_scope req \<and>
        ea_gwp_set a = pv_gwp_set p \<and> ea_anno a = rq_anno req \<and> ea_codice_sito a = rq_codice_sito req)"

section \<open>Shared facts\<close>

lemma request_row_lookup [simp]:
  "row_decimal (request_row req) ''quantita'' = Inr (rq_quantita req)"
  "row_int (request_row req) ''anno'' = Inr (rq_anno req)"
  "row_opt (request_row req) ''id'' = PNone"
  "row_str (request_row req) ''sottocategoria'' = Inr (py_str (opt_value (rq_sottocategoria req)))"
  "row_get_default (request_row req) ''sottocategoria'' v = opt_value (rq_sottocategoria req)"
  "row_str (request_row req) ''combustibile'' = Inr (py_str (opt_value (rq_combustibile req)))"
  "row_str (request_row req) ''codice_sito'' = Inr (py_str (opt_value (rq_codice_sito req)))"
  "row_get_default (request_row req) ''categoria_s3'' v = PInt (category_of (rq_sub_scope req))"
  by (simp_all add: request_row_def row_decimal_def row_int_def row_str_def row_get_def row_get_default_def)

lemma opt_value_Some [simp]: "opt_value (Some s) = PStr s"
  by (simp add: opt_value_def)

lemma if_category_request:
  "category_of (rq_sub_scope req) = n \<Longrightarrow> if_category n (request_row req) k = k"
  by (simp add: if_category_def)

lemma gwp_code: "get_gwp_values s = Inr g \<Longrightarrow> gv_code g = s"
  by (auto simp: get_gwp_values_cases AR6_def AR5_def)

lemma request_factor_module:
  "same_vintage catalog req \<Longrightarrow>
   require_factor catalog fid (rq_gwp_set req) None = request_factor catalog req fid"
  by (simp add: request_factor_def require_factor_def same_vintage_def)

lemma scope3_request:
  assumes "request_ok req" and "rq_scope req = 3"
  shows "rq_codice_sito req = None" "\<exists>s. rq_sottocategoria req = Some s"
  using assms by (auto simp: request_ok_def validate_conditional_fields_def conditional_errors_def split: if_splits)

lemma site_request:
  assumes "request_ok req" and "(rq_scope req, rq_sub_scope req) \<in> {(1, ''combustion''), (2, ''lb'')}"
  shows "\<exists>s. rq_codice_sito req = Some s"
  using assms by (auto simp: request_ok_def validate_conditional_fields_def conditional_errors_def split: if_splits)

lemma preview_no_session:
  "compute_preview req catalog None = Inr p \<Longrightarrow>
   \<exists>handler. map_of DISPATCH (rq_scope req, rq_sub_scope req) = Some handler \<and> handler req catalog = Inr p"
  by (auto simp: compute_preview_def site_meta_of_def split: option.splits)

section \<open>The modules\<close>

lemma factor_response_fields [simp]:
  "pv_tco2e (factor_response req f t m s ws) = t" "pv_factor_id (factor_response req f t m s ws) = fr_factor_id f"
  "pv_methodology (factor_response req f t m s ws) = m" "pv_gwp_set (factor_response req f t m s ws) = rq_gwp_set req"
  by (simp_all add: factor_response_def)

lemma product_preview_Inr:
  assumes "product_preview req catalog fid u l m = Inr p"
  obtains f i where "fid = Some i" "request_factor catalog req i = Inr f"
    "quantize_tco2e (factor_tonnes f (rq_quantita req)) = Inr (pv_tco2e p)"
    "pv_factor_id p = fr_factor_id f" "pv_methodology p = m" "pv_gwp_set p = rq_gwp_set req"
  using assms by (auto simp: product_preview_def rbind_eq_Inr split: option.splits)

lemma plan_agrees_single:
  "quantize_tco2e t = Inr (pv_tco2e p) \<Longrightarrow> fr_factor_id f = pv_factor_id p \<Longrightarrow> m = pv_methodology p \<Longrightarrow>
   s = rq_scope req \<Longrightarrow> gv_code g = pv_gwp_set p \<Longrightarrow> y = rq_anno req \<Longrightarrow> c = rq_codice_sito req \<Longrightarrow>
   plan_agrees req p [emission_args ctx g f s ss m raw c y t n]"
  by (simp add: plan_agrees_def emission_args_def)

lemma combustion_preview_Inr:
  assumes "preview_s1_combustion req catalog = Inr p" "get_gwp_values (rq_gwp_set req) = Inr g"
    and "rq_combustibile req = Some c"
  obtains i j k f1 f2 f3 x y z t where "map_of FUEL_FACTOR_IDS c = Some (i, j, k)"
    "request_factor catalog req i = Inr f1" "request_factor catalog req j = Inr f2"
    "request_factor catalog req k = Inr f3"
    "combustion_amounts (rq_quantita req) f1 f2 f3 (gv_ch4 g) (gv_n2o g) = (x, y, z, t)"
    "quantize_tco2e t = Inr (pv_tco2e p)" "pv_factor_id p = fr_factor_id f1"
    "pv_methodology p = ''activity-based''" "pv_gwp_set p = rq_gwp_set req"
proof -
  obtain i j k where ids: "map_of FUEL_FACTOR_IDS c = Some (i, j, k)"
    using assms by (auto simp: preview_s1_combustion_def split: option.splits)
  obtain f1 f2 f3 where fs: "request_factor catalog req i = Inr f1" "request_factor catalog req j = Inr f2"
    "request_factor catalog req k = Inr f3"
    using assms(1) by (auto simp: preview_s1_combustion_def assms(2,3) ids rbind_eq_Inr)
  obtain x y z t where am: "combustion_amounts (rq_quantita req) f1 f2 f3 (gv_ch4 g) (gv_n2o g) = (x, y, z, t)"
    by (metis prod.collapse)
  show thesis
    using assms(1) by (auto simp: preview_s1_combustion_def assms(2,3) ids fs am rbind_eq_Inr Let_def
        intro: that [OF ids fs am])
qed

lemma agrees_combustion:
  assumes "request_ok req" "same_vintage catalog req" "get_gwp_values (rq_gwp_set req) = Inr g"
    and "rq_sub_scope req = ''combustion''" "rq_scope req = 1" "preview_s1_combustion req catalog = Inr p"
  shows "\<exists>as. scope1_combustion_plan [request_row req] catalog g ctx = Inr as \<and> plan_agrees req p as"
proof -
  note rf = request_factor_module [OF assms(2)] gwp_code [OF assms(3)]
  obtain c where c: "rq_combustibile req = Some c" using request_ok_combustion [OF assms(1,5,4)] by blast
  obtain s where s: "rq_codice_sito req = Some s" using site_request [OF assms(1)] assms(4,5) by auto
  obtain i j k f1 f2 f3 x y z t where f: "map_of FUEL_FACTOR_IDS c = Some (i, j, k)"
    "request_factor catalog req i = Inr f1" "request_factor catalog req j = Inr f2"
    "request_factor catalog req k = Inr f3"
    "combustion_amounts (rq_quantita req) f1 f2 f3 (gv_ch4 g) (gv_n2o g) = (x, y, z, t)"
    "quantize_tco2e t = Inr (pv_tco2e p)" "pv_factor_id p = fr_factor_id f1"
    "pv_methodology p = ''activity-based''" "pv_gwp_set p = rq_gwp_set req"
    using combustion_preview_Inr [OF assms(6,3) c] .
  then show ?thesis
    using assms(5)
    by (auto simp: c s scope1_combustion_plan_def scope1_combustion_row_def scope1_combustion_build_record_def rf
        plan_agrees_def emission_args_def)
qed

lemma agrees_lb:
  assumes "request_ok req" "same_vintage catalog req" "get_gwp_values (rq_gwp_set req) = Inr g"
    and "rq_sub_scope req = ''lb''" "rq_scope req = 2" "str_lower (rq_unita req) = ''kwh''"
    and "preview_s2_lb req catalog ''IT'' = Inr p"
  shows "\<exists>as. scope2_lb_plan [request_row req] catalog g ctx = Inr as \<and> plan_agrees req p as"
proof -
  note rf = request_factor_module [OF assms(2)] gwp_code [OF assms(3)]
  obtain s where s: "rq_codice_sito req = Some s" using site_request [OF assms(1)] assms(4,5) by auto
  show ?thesis
    using assms(5-7)
    by (auto simp: preview_s2_lb_def s rbind_eq_Inr Let_def scope2_lb_plan_def scope2_lb_row_def rf
        kwh_quantity_def lb_factor_for_def intro!: plan_agrees_single)
qed

lemma cat1_preview_Inr:
  assumes "preview_s3_cat1 req catalog = Inr p"
  shows "\<exists>i f. cat1_factor_id (str_lower (str_strip (request_sub req))) = Some i \<and>
    request_factor catalog req i = Inr f \<and>
    (i \<in> set BIOGENIC_FACTOR_IDS \<longrightarrow> (\<exists>b. cat_get_biogenic_share catalog i (rq_gwp_set req) = Inr b)) \<and>
    quantize_tco2e (factor_tonnes f (rq_quantita req)) = Inr (pv_tco2e p) \<and> pv_factor_id p = fr_factor_id f \<and>
    pv_methodology p = cat1_methodology i \<and> pv_gwp_set p = rq_gwp_set req"
  using assms by (auto simp: preview_s3_cat1_def rbind_eq_Inr Let_def split: option.splits if_splits)

lemma agrees_cat1:
  assumes "request_ok req" "same_vintage catalog req" "get_gwp_values (rq_gwp_set req) = Inr g"
    and "rq_sub_scope req = ''cat1_purchased_goods''" "rq_scope req = 3" "preview_s3_cat1 req catalog = Inr p"
  shows "\<exists>as. cat1_plan [request_row req] catalog g ctx = Inr as \<and> plan_agrees req p as"
proof -
  note rf = request_factor_module [OF assms(2)] gwp_code [OF assms(3)]
  obtain s where s: "rq_sottocategoria req = Some s" using scope3_request(2) [OF assms(1,5)] by blast
  have cat: "category_of (rq_sub_scope req) = 1" by (simp add: assms(4) category_of_def)
  obtain i f where f: "cat1_factor_id (str_lower (str_strip s)) = Some i" "request_factor catalog req i = Inr f"
    "i \<in> set BIOGENIC_FACTOR_IDS \<longrightarrow> (\<exists>b. cat_get_biogenic_share catalog i (rq_gwp_set req) = Inr b)"
    "quantize_tco2e (factor_tonnes f (rq_quantita req)) = Inr (pv_tco2e p)" "pv_factor_id p = fr_factor_id f"
    "pv_methodology p = cat1_methodology i" "pv_gwp_set p = rq_gwp_set req"
    using cat1_preview_Inr [OF assms(6)] by (auto simp: request_sub_def s)
  obtain x y where bio: "cat1_biogenic catalog i g (rq_quantita req) (factor_tonnes f (rq_quantita req)) = Inr (x, y)"
    using f(3) by (fastforce simp: cat1_biogenic_def rf split: option.split)
  show ?thesis
    using assms(5) scope3_request(1) [OF assms(1,5)] f
    by (auto simp: s cat1_plan_def cat1_row_def rf if_category_request [OF cat] cat1_build_record_def bio
        Let_def plan_agrees_def emission_args_def)
qed

lemma agrees_cat4:
  assumes "request_ok req" "same_vintage catalog req" "get_gwp_values (rq_gwp_set req) = Inr g"
    and "rq_sub_scope req = ''cat4_upstream_transport''" "rq_scope req = 3" "preview_s3_cat4 req catalog = Inr p"
  shows "\<exists>as. cat4_plan [request_row req] catalog g ctx = Inr as \<and> plan_agrees req p as"
proof -
  note rf = request_factor_module [OF assms(2)] gwp_code [OF assms(3)]
  obtain s where s: "rq_sottocategoria req = Some s" using scope3_request(2) [OF assms(1,5)] by blast
  have cat: "category_of (rq_sub_scope req) = 4" by (simp add: assms(4) category_of_def)
  show ?thesis
    using assms(5,6) scope3_request(1) [OF assms(1,5)]
    by (auto simp: preview_s3_cat4_def request_sub_def s cat4_plan_def cat4_row_def rf
        if_category_request [OF cat] elim!: product_preview_Inr intro!: plan_agrees_single)
qed

lemma agrees_cat5:
  assumes "request_ok req" "same_vintage catalog req" "get_gwp_values (rq_gwp_set req) = Inr g"
    and "rq_sub_scope req = ''cat5_waste''" "rq_scope req = 3" "preview_s3_cat5 req catalog = Inr p"
  shows "\<exists>as. cat5_plan [request_row req] catalog g ctx = Inr as \<and> plan_agrees req p as"
proof -
  note rf = request_factor_module [OF assms(2)] gwp_code [OF assms(3)]
  obtain s where s: "rq_sottocategoria req = Some s" using scope3_request(2) [OF assms(1,5)] by blast
  have cat: "category_of (rq_sub_scope req) = 5" by (simp add: assms(4) category_of_def)
  show ?thesis
    using assms(5,6) scope3_request(1) [OF assms(1,5)]
    by (auto simp: preview_s3_cat5_def request_sub_def s cat5_plan_def cat5_row_def rf
        if_category_request [OF cat] elim!: product_preview_Inr intro!: plan_agrees_single)
qed

lemma agrees_cat6:
  assumes "request_ok req" "same_vintage catalog req" "get_gwp_values (rq_gwp_set req) = Inr g"
    and "rq_sub_scope req = ''cat6_business_travel''" "rq_scope req = 3" "preview_s3_cat6 req catalog = Inr p"
  shows "\<exists>as. cat6_plan draw [request_row req] catalog g ctx = Inr as \<and> plan_agrees req p as"
proof -
  note rf = request_factor_module [OF assms(2)] gwp_code [OF assms(3)]
  obtain s where s: "rq_sottocategoria req = Some s" using scope3_request(2) [OF assms(1,5)] by blast
  have cat: "category_of (rq_sub_scope req) = 6" by (simp add: assms(4) category_of_def)
  show ?thesis
    using assms(5,6) scope3_request(1) [OF assms(1,5)]
    by (auto simp: preview_s3_cat6_def request_sub_def s cat6_plan_def cat6_row_def cat6_build_record_def rf
        if_category_request [OF cat] Let_def split_def plan_agrees_def emission_args_def elim!: product_preview_Inr)
qed

lemma agrees_cat7:
  assumes "request_ok req" "same_vintage catalog req" "get_gwp_values (rq_gwp_set req) = Inr g"
    and "rq_sub_scope req = ''cat7_commuting''" "rq_scope req = 3" "preview_s3_cat7 req catalog = Inr p"
    and "str_lower (str_strip (request_sub req)) = ''commuting_auto''"
  shows "\<exists>as. cat7_plan [request_row req] catalog g ctx = Inr as \<and> plan_agrees req p as"
proof -
  note rf = request_factor_module [OF assms(2)] gwp_code [OF assms(3)]
  obtain s where s: "rq_sottocategoria req = Some s" using scope3_request(2) [OF assms(1,5)] by blast
  have cat: "category_of (rq_sub_scope req) = 7" by (simp add: assms(4) category_of_def)
  have auto: "str_lower (str_strip s) = ''commuting_auto''" using assms(7) by (simp add: request_sub_def s)
  obtain q where q: "product_preview req catalog (Some CAT7_FACTOR_ID) ''km'' ''Cat7 commuting'' ''distance-based'' = Inr q"
    "pv_tco2e p = pv_tco2e q" "pv_factor_id p = pv_factor_id q" "pv_methodology p = pv_methodology q"
    "pv_gwp_set p = pv_gwp_set q"
    using assms(6) by (auto simp: preview_s3_cat7_def rbind_eq_Inr Let_def)
  from q(1) show ?thesis
    using assms(5) scope3_request(1) [OF assms(1,5)] q(2-5) auto
    by (auto simp: s cat7_plan_def cat7_row_def rf if_category_request [OF cat] Let_def
        elim!: product_preview_Inr intro!: plan_agrees_single)
qed

lemma agrees_cat9:
  assumes "request_ok req" "same_vintage catalog req" "get_gwp_values (rq_gwp_set req) = Inr g"
    and "rq_sub_scope req = ''cat9_downstream_transport''" "rq_scope req = 3" "preview_s3_cat9 req catalog = Inr p"
  shows "\<exists>as. cat9_plan [request_row req] catalog g ctx = Inr as \<and> plan_agrees req p as"
proof -
  note rf = request_factor_module [OF assms(2)] gwp_code [OF assms(3)]
  obtain s where s: "rq_sottocategoria req = Some s" using scope3_request(2) [OF assms(1,5)] by blast
  have cat: "category_of (rq_sub_scope req) = 9" by (simp add: assms(4) category_of_def)
  show ?thesis
    using assms(5,6) scope3_request(1) [OF assms(1,5)]
    by (auto simp: preview_s3_cat9_def request_sub_def s cat9_plan_def cat9_row_def rf
        if_category_request [OF cat] elim!: product_preview_Inr intro!: plan_agrees_single)
qed

lemma agrees_cat12:
  assumes "request_ok req" "same_vintage catalog req" "get_gwp_values (rq_gwp_set req) = Inr g"
    and "rq_sub_scope req = ''cat12_eol''" "rq_scope req = 3" "preview_s3_cat12 req catalog = Inr p"
  shows "\<exists>as. cat12_plan [request_row req] catalog g ctx = Inr as \<and> plan_agrees req p as"
proof -
  note rf = request_factor_module [OF assms(2)] gwp_code [OF assms(3)]
  have cat: "category_of (rq_sub_scope req) = 12" by (simp add: assms(4) category_of_def)
  show ?thesis
    using assms(5,6) scope3_request(1) [OF assms(1,5)]
    by (auto simp: preview_s3_cat12_def lookup_cat12_factors_def compute_cat12_emissions_def
        build_cat12_response_def rbind_eq_Inr Let_def cat12_plan_def cat12_row_def rf
        if_category_request [OF cat] plan_agrees_def emission_args_def)
qed

section \<open>The equivalence\<close>

text \<open>
  C24. For the sub-scopes with a module over single rows, and a catalogue that answers alike with
  and without the year, a preview and the batch module agree: the module plans records for the
  request's row whose amounts, summed, round to the amount of the preview, with the same factor,
  methodology, scope, GWP set, year and site. The service duplicates no calculation.
\<close>

theorem preview_matches_module:
  assumes "request_ok req" and "module_request req" and "same_vintage catalog req"
    and "get_gwp_values (rq_gwp_set req) = Inr g" and "compute_preview req catalog None = Inr p"
  shows "\<exists>as. module_plan draw req catalog g ctx = Inr as \<and> plan_agrees req p as"
proof -
  obtain handler where h: "map_of DISPATCH (rq_scope req, rq_sub_scope req) = Some handler" "handler req catalog = Inr p"
    using preview_no_session [OF assms(5)] by blast
  consider (combustion) "rq_sub_scope req = ''combustion''" | (lb) "rq_sub_scope req = ''lb''" | (cat1_purchased_goods) "rq_sub_scope req = ''cat1_purchased_goods''"
    | (cat4_upstream_transport) "rq_sub_scope req = ''cat4_upstream_transport''" | (cat5_waste) "rq_sub_scope req = ''cat5_waste''" | (cat6_business_travel) "rq_sub_scope req = ''cat6_business_travel''"
    | (cat7_commuting) "rq_sub_scope req = ''cat7_commuting''" | (cat9_downstream_transport) "rq_sub_scope req = ''cat9_downstream_transport''" | (cat12_eol) "rq_sub_scope req = ''cat12_eol''"
    using assms(2) by (auto simp: module_request_def)
  then show ?thesis
  proof cases
    case combustion
    with h have key: "rq_scope req = 1" "preview_s1_combustion req catalog = Inr p" by (simp_all add: DISPATCH_def split: if_splits)
    from agrees_combustion [OF assms(1,3,4) combustion key] combustion show ?thesis by (simp add: module_plan_def)
  next
    case lb
    with h have key: "rq_scope req = 2" "preview_s2_lb req catalog ''IT'' = Inr p" by (auto simp: DISPATCH_def split: if_splits)
    from lb assms(2) have unit: "str_lower (rq_unita req) = ''kwh''" by (simp add: module_request_def)
    from agrees_lb [OF assms(1,3,4) lb key(1) unit key(2)] lb show ?thesis by (simp add: module_plan_def)
  next
    case cat1_purchased_goods
    with h have key: "rq_scope req = 3" "preview_s3_cat1 req catalog = Inr p" by (simp_all add: DISPATCH_def split: if_splits)
    from agrees_cat1 [OF assms(1,3,4) cat1_purchased_goods key] cat1_purchased_goods show ?thesis by (simp add: module_plan_def)
  next
    case cat4_upstream_transport
    with h have key: "rq_scope req = 3" "preview_s3_cat4 req catalog = Inr p" by (simp_all add: DISPATCH_def split: if_splits)
    from agrees_cat4 [OF assms(1,3,4) cat4_upstream_transport key] cat4_upstream_transport show ?thesis by (simp add: module_plan_def)
  next
    case cat5_waste
    with h have key: "rq_scope req = 3" "preview_s3_cat5 req catalog = Inr p" by (simp_all add: DISPATCH_def split: if_splits)
    from agrees_cat5 [OF assms(1,3,4) cat5_waste key] cat5_waste show ?thesis by (simp add: module_plan_def)
  next
    case cat6_business_travel
    with h have key: "rq_scope req = 3" "preview_s3_cat6 req catalog = Inr p" by (simp_all add: DISPATCH_def split: if_splits)
    from agrees_cat6 [OF assms(1,3,4) cat6_business_travel key] cat6_business_travel show ?thesis by (simp add: module_plan_def)
  next
    case cat7_commuting
    with h have key: "rq_scope req = 3" "preview_s3_cat7 req catalog = Inr p" by (simp_all add: DISPATCH_def split: if_splits)
    from cat7_commuting assms(2) have unit: "str_lower (str_strip (request_sub req)) = ''commuting_auto''"
      by (simp add: module_request_def)
    from agrees_cat7 [OF assms(1,3,4) cat7_commuting key unit] cat7_commuting show ?thesis by (simp add: module_plan_def)
  next
    case cat9_downstream_transport
    with h have key: "rq_scope req = 3" "preview_s3_cat9 req catalog = Inr p" by (simp_all add: DISPATCH_def split: if_splits)
    from agrees_cat9 [OF assms(1,3,4) cat9_downstream_transport key] cat9_downstream_transport show ?thesis by (simp add: module_plan_def)
  next
    case cat12_eol
    with h have key: "rq_scope req = 3" "preview_s3_cat12 req catalog = Inr p" by (simp_all add: DISPATCH_def split: if_splits)
    from agrees_cat12 [OF assms(1,3,4) cat12_eol key] cat12_eol show ?thesis by (simp add: module_plan_def)
  qed
qed

theorem preview_matches_module_witness:
  "\<exists>p as. compute_preview (demo_request 2 ''lb'' (Some ''IANO'') ''kWh'') demo_catalog None = Inr p \<and>
     module_plan demo_sampler (demo_request 2 ''lb'' (Some ''IANO'') ''kWh'') demo_catalog AR6 demo_ctx = Inr as \<and>
     plan_agrees (demo_request 2 ''lb'' (Some ''IANO'') ''kWh'') p as"
proof -
  let ?r = "demo_request 2 ''lb'' (Some ''IANO'') ''kWh''"
  have "\<exists>p. compute_preview ?r demo_catalog None = Inr p" by (simp add: demo_lb_preview)
  then obtain p where p: "compute_preview ?r demo_catalog None = Inr p" by blast
  have "module_request ?r" by (simp add: module_request_def demo_request_def demo_units)
  moreover have "same_vintage demo_catalog ?r" by (simp add: same_vintage_def demo_catalog_def)
  moreover have "get_gwp_values (rq_gwp_set ?r) = Inr AR6" by (simp add: demo_request_def get_gwp_values_cases)
  ultimately show ?thesis
    using preview_matches_module [OF demo_lb_ok _ _ _ p, of AR6 demo_sampler demo_ctx] p by auto
qed

end
