(* ===== verification/Idempotency_Service.thy ===== *)
theory Idempotency_Service
  imports Py_Values
begin

text \<open>
  \<open>application/services/idempotency_service.py\<close> over the table \<open>cache.idempotency_keys\<close> of migration
  0026. JSON documents are the type parameter \<open>'j\<close>; \<open>digest\<close> stands for \<open>_canonical_hash\<close>, the
  SHA-256 hex digest of the canonical text of a document. Instants count microseconds; \<open>db_now\<close> is
  the \<open>now()\<close> of the transaction.
\<close>

section \<open>The table\<close>

record 'j IdempotencyRow =
  ik_key :: string
  ik_tenant_id :: uuid
  ik_endpoint :: string
  ik_request_hash :: string
  ik_response_status :: int
  ik_response_body :: 'j
  ik_created_at :: datetime
  ik_expires_at :: datetime

record 'j IdempotencyHit =
  ih_response_status :: int
  ih_response_body :: 'j

definition TTL_HOURS :: int where
  "TTL_HOURS = 24"

definition ENDPOINT :: string where
  "ENDPOINT = ''POST /api/v1/calc/insert''"

text \<open>The canonical hash is a hexadecimal digest of 64 characters.\<close>

definition hex_digest :: "('j \<Rightarrow> string) \<Rightarrow> bool" where
  "hex_digest digest \<longleftrightarrow> (\<forall>body. length (digest body) = 64 \<and> (\<forall>c\<in>set (digest body). is_hex c))"

section \<open>Operations\<close>

definition live_key :: "datetime \<Rightarrow> string \<Rightarrow> uuid \<Rightarrow> 'j IdempotencyRow \<Rightarrow> bool" where
  "live_key db_now key tenant_id r \<longleftrightarrow>
     ik_key r = key \<and> ik_tenant_id r = tenant_id \<and> instant db_now < instant (ik_expires_at r)"

definition check_idempotency ::
    "('j \<Rightarrow> string) \<Rightarrow> 'j IdempotencyRow list \<Rightarrow> datetime \<Rightarrow> string \<Rightarrow> uuid \<Rightarrow> 'j \<Rightarrow> 'j IdempotencyHit option res" where
  "check_idempotency digest cache db_now key tenant_id body =
     (let request_hash = digest body in
      case find (live_key db_now key tenant_id) cache of
        None \<Rightarrow> Inr None
      | Some row \<Rightarrow>
        if str_strip (ik_request_hash row) \<noteq> request_hash then Inl IdempotencyKeyReusedError
        else Inr (Some \<lparr>ih_response_status = ik_response_status row, ih_response_body = ik_response_body row\<rparr>))"

text \<open>\<open>INSERT ... ON CONFLICT (key) DO NOTHING\<close>: a row with the same key, whoever wrote it, is kept.\<close>

definition store_response ::
    "('j \<Rightarrow> string) \<Rightarrow> datetime \<Rightarrow> string \<Rightarrow> uuid \<Rightarrow> 'j \<Rightarrow> int \<Rightarrow> 'j \<Rightarrow> 'j IdempotencyRow list \<Rightarrow>
     'j IdempotencyRow list run" where
  "store_response digest db_now key tenant_id body response_status response_body cache =
     mbind now_utc (\<lambda>now.
     let row = \<lparr>ik_key = key, ik_tenant_id = tenant_id, ik_endpoint = ENDPOINT, ik_request_hash = digest body,
                ik_response_status = response_status, ik_response_body = response_body,
                ik_created_at = db_now,
                ik_expires_at = DateTime (instant now + TTL_HOURS * 3600 * 10 ^ 6) True\<rparr>
     in if 120 < py_len key then mlift (Inl DataError)
        else mret (if key \<in> ik_key ` set cache then cache else cache @ [row]))"

section \<open>Lemmas\<close>

lemma hex_digest_strip: "hex_digest digest \<Longrightarrow> str_strip (digest body) = digest body"
proof (rule str_strip_id)
  fix c
  assume "hex_digest digest" "c \<in> set (digest body)"
  then have "is_hex c" by (simp add: hex_digest_def)
  then show "\<not> chr_space c" by (auto simp: is_hex_def chr_space_def)
qed

lemma store_fresh:
  assumes "store_response digest db_now key t body st rb cache w = Inr (cache', w')" and "key \<notin> ik_key ` set cache"
  shows "\<exists>row. cache' = cache @ [row] \<and> ik_key row = key \<and> ik_tenant_id row = t \<and>
    ik_request_hash row = digest body \<and> ik_response_status row = st \<and> ik_response_body row = rb \<and>
    instant (ik_expires_at row) = w_clock w (w_ticks w) + 24 * 3600 * 10 ^ 6"
  using assms by (auto simp: store_response_def mbind_def now_utc_def mlift_def mret_def Let_def TTL_HOURS_def split: if_splits)

lemma store_conflict:
  assumes "store_response digest db_now key t body st rb cache w = Inr (cache', w')" and "key \<in> ik_key ` set cache"
  shows "cache' = cache"
  using assms by (auto simp: store_response_def mbind_def now_utc_def mlift_def mret_def Let_def split: if_splits)

lemma find_append_fresh:
  "\<forall>r\<in>set xs. \<not> P r \<Longrightarrow> find P (xs @ [y]) = (if P y then Some y else None)"
  by (induction xs) auto

end
