(* ===== verification/Access_Control.thy ===== *)
theory Access_Control
  imports Py_Values
begin

text \<open>
  \<open>infrastructure/security/rbac.py\<close> and \<open>require_permission\<close> of \<open>api/middleware/rbac.py\<close>: the permission
  matrix and its check. A user is what the endpoints read of \<open>CurrentUser\<close>; its tenant claim is a
  UUID, which the validator of that class enforces.
\<close>

record UserContext =
  us_sub :: string
  us_role :: string
  us_tenant_id :: uuid

definition ROLE_EDITOR :: string where "ROLE_EDITOR = ''editor''"
definition ROLE_ADMIN :: string where "ROLE_ADMIN = ''admin''"
definition ROLE_VIEWER :: string where "ROLE_VIEWER = ''viewer''"

definition ALL_ROLES :: "string list" where
  "ALL_ROLES = [ROLE_EDITOR, ROLE_ADMIN, ROLE_VIEWER]"

definition PERMISSION_MATRIX :: "(string \<times> (string \<times> string list) list) list" where
  "PERMISSION_MATRIX =
     [(''emissions'', [(''read'', ALL_ROLES), (''write'', [ROLE_EDITOR]), (''correct'', [ROLE_EDITOR, ROLE_ADMIN])]),
      (''kpis'', [(''read'', ALL_ROLES)]),
      (''audit_trail'', [(''read'', [ROLE_ADMIN, ROLE_VIEWER])]),
      (''factor_catalog'', [(''read'', ALL_ROLES), (''write'', [ROLE_EDITOR]), (''publish'', [ROLE_ADMIN]),
         (''approve'', [ROLE_ADMIN])]),
      (''dq_findings'', [(''read'', ALL_ROLES), (''waiver'', [ROLE_ADMIN])]),
      (''go_certificates'', [(''read'', ALL_ROLES), (''write'', [ROLE_EDITOR]), (''validate'', [ROLE_EDITOR])]),
      (''intensity'', [(''read'', ALL_ROLES)]),
      (''reports'', [(''pdf'', [ROLE_ADMIN]), (''excel'', [ROLE_EDITOR, ROLE_ADMIN]), (''status'', ALL_ROLES)]),
      (''auth'', [(''login'', ALL_ROLES), (''refresh'', ALL_ROLES)]),
      (''users'', [(''read'', [ROLE_ADMIN]), (''write'', [ROLE_ADMIN])]),
      (''reconciliation'', [(''read'', ALL_ROLES), (''write'', [ROLE_ADMIN])]),
      (''sbti_targets'', [(''read'', ALL_ROLES), (''write'', [ROLE_ADMIN])]),
      (''raw_ingestions'', [(''import'', [ROLE_EDITOR, ROLE_ADMIN])]),
      (''chart_annotations'', [(''read'', ALL_ROLES), (''write'', [ROLE_EDITOR, ROLE_ADMIN])]),
      (''sites'', [(''read'', ALL_ROLES)])]"

definition is_permitted :: "string \<Rightarrow> string \<Rightarrow> string \<Rightarrow> bool" where
  "is_permitted role resource action =
     (let resource_perms = (case map_of PERMISSION_MATRIX resource of Some m \<Rightarrow> m | None \<Rightarrow> []);
          action_perms = (case map_of resource_perms action of Some rs \<Rightarrow> rs | None \<Rightarrow> [])
      in role \<in> set action_perms)"

definition require_permission :: "string \<Rightarrow> string \<Rightarrow> UserContext \<Rightarrow> UserContext res" where
  "require_permission resource action user =
     (if is_permitted (us_role user) resource action then Inr user else Inl (HTTPException 403))"

lemmas permission_defs = is_permitted_def PERMISSION_MATRIX_def ALL_ROLES_def ROLE_EDITOR_def ROLE_ADMIN_def
  ROLE_VIEWER_def

lemma factor_permissions:
  "is_permitted role ''factor_catalog'' ''write'' \<longleftrightarrow> role = ''editor''"
  "is_permitted role ''factor_catalog'' ''publish'' \<longleftrightarrow> role = ''admin''"
  "is_permitted role ''factor_catalog'' ''approve'' \<longleftrightarrow> role = ''admin''"
  by (simp_all add: permission_defs)

text \<open>A viewer can change nothing: the matrix gives it reading, status, login and refresh only.\<close>

lemma viewer_reads_only:
  assumes "is_permitted ''viewer'' resource action"
  shows "action \<in> {''read'', ''status'', ''login'', ''refresh''}"
proof -
  have "list_all (\<lambda>(r, m). list_all (\<lambda>(a, rs). ''viewer'' \<in> set rs \<longrightarrow> a \<in> {''read'', ''status'', ''login'', ''refresh''}) m)
      PERMISSION_MATRIX"
    by (simp add: PERMISSION_MATRIX_def ALL_ROLES_def ROLE_EDITOR_def ROLE_ADMIN_def ROLE_VIEWER_def)
  moreover obtain m rs where "map_of PERMISSION_MATRIX resource = Some m" "map_of m action = Some rs" "''viewer'' \<in> set rs"
    using assms that
    by (cases "map_of PERMISSION_MATRIX resource"; cases "map_of (the (map_of PERMISSION_MATRIX resource)) action")
      (simp_all add: is_permitted_def)
  ultimately show ?thesis by (fastforce simp: list_all_iff dest!: map_of_SomeD)
qed

end
