(* ===== verification/Auto_Calc_Insert.thy ===== *)
theory Auto_Calc_Insert
  imports Auto_Calc_Service Emission_Ledger Factor_Sql_Adapter Idempotency_Service Access_Control
begin

text \<open>
  The writing half of \<open>application/services/auto_calc_service.py\<close> and the endpoints \<open>POST /calc/preview\<close> and
  \<open>POST /calc/insert\<close> of \<open>api/routers/calc.py\<close>. The database of a request is one record: the emission ledger, the
  factor catalogue, the sites, and the tables \<open>raw.direct_entry\<close>, \<open>calc.audit_log\<close> and
  \<open>cache.idempotency_keys\<close> with the constraints of the migrations. A request runs in one
  transaction (\<open>session.begin()\<close> of \<open>api/dependencies/db.py\<close>). What the environment supplies is a
  record of parameters: the registered tenants and users, the JSON forms of requests and responses
  and their reading (pydantic), the hash, and the binary float of a decimal.
\<close>

section \<open>Tables\<close>

record 'j DirectEntryRow =
  de_id :: string
  de_tenant_id :: string
  de_correlation_id :: string
  de_inserted_by :: string
  de_inserted_at :: datetime
  de_request_payload :: 'j
  de_factor_id :: string
  de_factor_vintage :: int
  de_tco2e :: decimal

record AuditRow =
  au_id :: string
  au_tenant_id :: string
  au_correlation_id :: string
  au_user_id :: string
  au_user_role :: string
  au_action :: string
  au_resource :: string
  au_resource_id :: string
  au_request_method :: string
  au_request_path :: string
  au_status_code :: int
  au_after_state :: "(string \<times> string) list"

record 'j api_db =
  ad_ledger :: ledger
  ad_catalog :: "CatalogRow list"
  ad_sites :: "SiteRow list"
  ad_direct :: "'j DirectEntryRow list"
  ad_audit :: "AuditRow list"
  ad_cache :: "'j IdempotencyRow list"

record 'j ApiEnv =
  en_tenants :: "string list"
  en_users :: "uuid list"
  en_dump_request :: "CalcInputRequest \<Rightarrow> 'j"
  en_dump_response :: "CalcInsertResponse \<Rightarrow> 'j"
  en_load_response :: "'j \<Rightarrow> CalcInsertResponse res"
  en_digest :: "'j \<Rightarrow> string"
  en_float :: "decimal \<Rightarrow> decimal"

section \<open>Inserts\<close>

text \<open>A value stored in a \<open>NUMERIC(15,6)\<close> column.\<close>

definition numeric_15_6 :: "decimal \<Rightarrow> decimal res" where
  "numeric_15_6 d =
     (let c = (if - 6 \<le> dexp d then dcoef d * 10 ^ nat (dexp d + 6)
               else round_half_up (dcoef d) (nat (- 6 - dexp d)))
      in if 10 ^ 15 \<le> c then Inl DataError else Inr (Dec (dsign d) c (- 6)))"

definition insert_direct_entry ::
    "string list \<Rightarrow> 'j DirectEntryRow list \<Rightarrow> 'j DirectEntryRow \<Rightarrow> 'j DirectEntryRow res" where
  "insert_direct_entry tenants rows r =
     (if 120 < py_len (de_inserted_by r) \<or> 120 < py_len (de_factor_id r) \<or>
         de_factor_vintage r < - (2 ^ 31) \<or> 2 ^ 31 \<le> de_factor_vintage r then Inl DataError
      else rbind (numeric_15_6 (de_tco2e r)) (\<lambda>t.
        if \<not> dec_le dec_zero t \<or> de_tenant_id r \<notin> set tenants \<or> de_id r \<in> de_id ` set rows
        then Inl IntegrityError else Inr (r\<lparr>de_tco2e := t\<rparr>)))"

definition insert_audit :: "string list \<Rightarrow> uuid list \<Rightarrow> AuditRow list \<Rightarrow> AuditRow \<Rightarrow> AuditRow res" where
  "insert_audit tenants users rows r =
     (case uuid_of_string (au_user_id r) of
        Inl _ \<Rightarrow> Inl DataError
      | Inr u \<Rightarrow>
        if 40 < py_len (au_user_role r) then Inl DataError
        else if au_tenant_id r \<notin> set tenants \<or> u \<notin> set users \<or> au_id r \<in> au_id ` set rows
        then Inl IntegrityError else Inr (r\<lparr>au_user_id := uuid_str u\<rparr>))"

section \<open>\<open>compute_and_insert\<close>\<close>

definition SUB_SCOPE_MAP :: "(string \<times> string) list" where
  "SUB_SCOPE_MAP =
     [(''combustion'', ''combustion''), (''process'', ''process''), (''lb'', ''LB''), (''mb'', ''MB''),
      (''cat1_purchased_goods'', ''Cat1''), (''cat3_fuel_energy'', ''Cat3_WTT_FUEL''),
      (''cat4_upstream_transport'', ''Cat4''), (''cat5_waste'', ''Cat5''), (''cat6_business_travel'', ''Cat6''),
      (''cat7_commuting'', ''Cat7''), (''cat9_downstream_transport'', ''Cat9''), (''cat12_eol'', ''Cat12'')]"

definition db_sub_scope :: "string \<Rightarrow> string" where
  "db_sub_scope s = (case map_of SUB_SCOPE_MAP s of Some t \<Rightarrow> t | None \<Rightarrow> s)"

text \<open>The catalogue row of a factor code, by tenant and GWP set only; the nil UUID when there is none.\<close>

definition factor_uuid_fk :: "CatalogRow list \<Rightarrow> uuid \<Rightarrow> string \<Rightarrow> string \<Rightarrow> string" where
  "factor_uuid_fk catalog_rows tenant_id code gwp =
     (case latest (filter (\<lambda>r. cr_tenant_id r = tenant_id \<and> cr_factor_id r = code \<and> cr_gwp_set r = gwp)
              catalog_rows) of
        Some r \<Rightarrow> uuid_str (cr_id r)
      | None \<Rightarrow> uuid_str 0)"

definition factor_vintage_int :: "string \<Rightarrow> int \<Rightarrow> int res" where
  "factor_vintage_int vintage anno =
     (case int_of_string vintage of
        Inr i \<Rightarrow> Inr i
      | Inl Unmodelled \<Rightarrow> Inl Unmodelled
      | Inl _ \<Rightarrow> Inr anno)"

definition direct_entry_row ::
    "'j ApiEnv \<Rightarrow> CalcInputRequest \<Rightarrow> UserContext \<Rightarrow> CalcPreviewResponse \<Rightarrow> uuid \<Rightarrow> uuid \<Rightarrow> datetime \<Rightarrow> int \<Rightarrow>
     'j DirectEntryRow" where
  "direct_entry_row env req user preview raw_entry_id correlation_id now vintage =
     \<lparr>de_id = uuid_str raw_entry_id, de_tenant_id = uuid_str (us_tenant_id user),
      de_correlation_id = uuid_str correlation_id, de_inserted_by = us_sub user, de_inserted_at = now,
      de_request_payload = en_dump_request env req, de_factor_id = pv_factor_id preview,
      de_factor_vintage = vintage, de_tco2e = en_float env (pv_tco2e preview)\<rparr>"

definition emission_row ::
    "CalcInputRequest \<Rightarrow> UserContext \<Rightarrow> CalcPreviewResponse \<Rightarrow> uuid \<Rightarrow> uuid \<Rightarrow> uuid \<Rightarrow> datetime \<Rightarrow> string \<Rightarrow> EmissionRow" where
  "emission_row req user preview emission_id raw_entry_id correlation_id now factor_fk =
     \<lparr>ep_id = uuid_str emission_id, ep_tenant_id = uuid_str (us_tenant_id user),
      ep_correlation_id = uuid_str correlation_id, ep_raw_row_id = uuid_str raw_entry_id,
      ep_raw_scope = rq_scope req, ep_scope = rq_scope req, ep_sub_scope = db_sub_scope (rq_sub_scope req),
      ep_codice_sito = rq_codice_sito req, ep_anno = rq_anno req, ep_tco2e = pv_tco2e preview,
      ep_co2_tonne = None, ep_ch4_tco2e = None, ep_n2o_tco2e = None,
      ep_co2_biogenic_tonne = pv_co2_biogenic_tonne preview,
      ep_co2_fossil_tonne = pv_co2_fossil_tonne preview, ep_factor_id = factor_fk,
      ep_factor_version = pv_factor_version preview, ep_factor_source = pv_factor_source preview,
      ep_gwp_set = rq_gwp_set req, ep_methodology = pv_methodology preview,
      ep_regulatory_stream = ''CSRD_ESRS_E1'', ep_calc_timestamp = now,
      ep_created_by = ''api:'' @ us_sub user, ep_valid_from = now, ep_valid_to = None,
      ep_superseded_by = None, ep_reason_code = None,
      ep_disclosure_notes = Some (''auto_calc via API: '' @ pv_formula_human preview @ '' (fonte_dato='' @
        py_str_opt (rq_fonte_dato req) @ '', qualita_dato='' @ py_str_opt (rq_qualita_dato req) @ '')'')\<rparr>"

definition audit_row :: "UserContext \<Rightarrow> uuid \<Rightarrow> uuid \<Rightarrow> uuid \<Rightarrow> uuid \<Rightarrow> AuditRow" where
  "audit_row user audit_id emission_id raw_entry_id correlation_id =
     \<lparr>au_id = uuid_str audit_id, au_tenant_id = uuid_str (us_tenant_id user),
      au_correlation_id = uuid_str correlation_id, au_user_id = us_sub user, au_user_role = us_role user,
      au_action = ''emission_auto_calc'', au_resource = ''emissions'', au_resource_id = uuid_str emission_id,
      au_request_method = ''POST'', au_request_path = ''/api/v1/calc/insert'', au_status_code = 201,
      au_after_state = [(''emission_id'', uuid_str emission_id), (''raw_entry_id'', uuid_str raw_entry_id)]\<rparr>"

definition insert_response :: "CalcPreviewResponse \<Rightarrow> uuid \<Rightarrow> uuid \<Rightarrow> datetime \<Rightarrow> CalcInsertResponse" where
  "insert_response preview emission_id correlation_id now =
     CalcPreviewResponse.extend preview
       \<lparr>cs_emission_id = emission_id, cs_correlation_id = correlation_id, cs_created_at = now\<rparr>"

definition compute_and_insert ::
    "'j ApiEnv \<Rightarrow> FactorCatalogPort \<Rightarrow> CalcInputRequest \<Rightarrow> UserContext \<Rightarrow> string \<Rightarrow> 'j api_db \<Rightarrow>
     (CalcInsertResponse \<times> 'j api_db) run" where
  "compute_and_insert env catalog req user cid db =
     mbind (mlift (compute_preview req catalog (Some (ad_sites db, us_tenant_id user)))) (\<lambda>preview.
     mbind uuid4 (\<lambda>emission_id.
     mbind uuid4 (\<lambda>raw_entry_id.
     mbind (mlift (uuid_of_string cid)) (\<lambda>correlation_id.
     mbind now_utc (\<lambda>now.
     let factor_fk = factor_uuid_fk (ad_catalog db) (us_tenant_id user) (pv_factor_id preview) (rq_gwp_set req) in
     mbind (mlift (factor_vintage_int (pv_factor_vintage preview) (rq_anno req))) (\<lambda>vintage.
     mbind (mlift (insert_direct_entry (en_tenants env) (ad_direct db)
              (direct_entry_row env req user preview raw_entry_id correlation_id now vintage))) (\<lambda>d.
     mbind (mlift (insert_emission (en_tenants env) (map (\<lambda>r. uuid_str (cr_id r)) (ad_catalog db)) (ad_ledger db)
              (emission_row req user preview emission_id raw_entry_id correlation_id now factor_fk))) (\<lambda>e.
     mbind uuid4 (\<lambda>audit_id.
     mbind (mlift (insert_audit (en_tenants env) (en_users env) (ad_audit db)
              (audit_row user audit_id emission_id raw_entry_id correlation_id))) (\<lambda>a.
     mret (insert_response preview emission_id correlation_id now,
           db\<lparr>ad_direct := ad_direct db @ [d],
              ad_ledger := (ad_ledger db)\<lparr>lg_emissions := lg_emissions (ad_ledger db) @ [e]\<rparr>,
              ad_audit := ad_audit db @ [a]\<rparr>)))))))))))"

section \<open>The endpoint\<close>

record InsertResult =
  ins_response :: CalcInsertResponse
  ins_status :: int
  ins_replayed :: bool

text \<open>\<open>except MissingFactorError\<close>, \<open>except UnitConversionError\<close>, \<open>except ValueError\<close>: all become status 422.\<close>

definition http_error :: "exn \<Rightarrow> exn" where
  "http_error e =
     (if e \<in> {MissingFactorError, UnitConversionError, ValueError} then HTTPException 422 else e)"

definition calc_preview ::
    "FactorCatalogPort \<Rightarrow> CalcInputRequest \<Rightarrow> UserContext \<Rightarrow> 'j api_db \<Rightarrow> CalcPreviewResponse res" where
  "calc_preview catalog req user db =
     (case compute_preview req catalog (Some (ad_sites db, us_tenant_id user)) of
        Inl e \<Rightarrow> Inl (http_error e)
      | Inr p \<Rightarrow> Inr p)"

definition mcatch :: "(exn \<Rightarrow> exn) \<Rightarrow> 'a run \<Rightarrow> 'a run" where
  "mcatch h m = (\<lambda>w. case m w of Inl e \<Rightarrow> Inl (h e) | Inr x \<Rightarrow> Inr x)"

definition calc_insert_body ::
    "'j ApiEnv \<Rightarrow> FactorCatalogPort \<Rightarrow> datetime \<Rightarrow> string option \<Rightarrow> CalcInputRequest \<Rightarrow> UserContext \<Rightarrow> string \<Rightarrow>
     'j api_db \<Rightarrow> (InsertResult \<times> 'j api_db) run" where
  "calc_insert_body env catalog db_now idempotency_key req user cid db =
     (case idempotency_key of
        None \<Rightarrow>
          mbind (mcatch http_error (compute_and_insert env catalog req user cid db)) (\<lambda>(result, db').
          mret (\<lparr>ins_response = result, ins_status = 201, ins_replayed = False\<rparr>, db'))
      | Some key \<Rightarrow>
          let body = en_dump_request env req in
          if 120 < py_len key then mlift (Inl (HTTPException 422))
          else
            mbind (mcatch (\<lambda>e. if e = IdempotencyKeyReusedError then HTTPException 422 else e)
                     (mlift (check_idempotency (en_digest env) (ad_cache db) db_now key (us_tenant_id user) body)))
              (\<lambda>hit.
            case hit of
              Some h \<Rightarrow>
                mbind (mlift (en_load_response env (ih_response_body h))) (\<lambda>r.
                mret (\<lparr>ins_response = r, ins_status = 200, ins_replayed = True\<rparr>, db))
            | None \<Rightarrow>
                mbind (mcatch http_error (compute_and_insert env catalog req user cid db)) (\<lambda>(result, db').
                mbind (store_response (en_digest env) db_now key (us_tenant_id user) body 201
                         (en_dump_response env result) (ad_cache db')) (\<lambda>cache'.
                mret (\<lparr>ins_response = result, ins_status = 201, ins_replayed = False\<rparr>, db'\<lparr>ad_cache := cache'\<rparr>)))))"

text \<open>The transaction of a request: an exception rolls everything back.\<close>

definition calc_insert ::
    "'j ApiEnv \<Rightarrow> FactorCatalogPort \<Rightarrow> datetime \<Rightarrow> string option \<Rightarrow> CalcInputRequest \<Rightarrow> UserContext \<Rightarrow> string \<Rightarrow>
     'j api_db \<Rightarrow> world \<Rightarrow> (exn + InsertResult \<times> world) \<times> 'j api_db" where
  "calc_insert env catalog db_now idempotency_key req user cid db w =
     (case calc_insert_body env catalog db_now idempotency_key req user cid db w of
        Inl e \<Rightarrow> (Inl e, db)
      | Inr ((r, db'), w') \<Rightarrow> (Inr (r, w'), db'))"

text \<open>\<open>get_factor_catalog\<close>: the adapter the endpoints are wired to is bound to the nil tenant.\<close>

definition get_factor_catalog :: "'j api_db \<Rightarrow> FactorCatalogPort" where
  "get_factor_catalog db = sql_catalog (ad_catalog db) 0"

section \<open>Lemmas\<close>

lemma mcatch_eq_Inr: "mcatch h m w = Inr x \<longleftrightarrow> m w = Inr x"
  by (auto simp: mcatch_def split: sum.splits)

lemma compute_and_insert_Inr:
  assumes "compute_and_insert env catalog req user cid db w = Inr ((res, db'), w')"
  obtains preview eid rid corr now vintage aid d e a where
    "compute_preview req catalog (Some (ad_sites db, us_tenant_id user)) = Inr preview"
    "uuid_of_string cid = Inr corr"
    "insert_direct_entry (en_tenants env) (ad_direct db)
       (direct_entry_row env req user preview rid corr now vintage) = Inr d"
    "insert_emission (en_tenants env) (map (\<lambda>r. uuid_str (cr_id r)) (ad_catalog db)) (ad_ledger db)
       (emission_row req user preview eid rid corr now
          (factor_uuid_fk (ad_catalog db) (us_tenant_id user) (pv_factor_id preview) (rq_gwp_set req))) = Inr e"
    "insert_audit (en_tenants env) (en_users env) (ad_audit db) (audit_row user aid eid rid corr) = Inr a"
    "res = insert_response preview eid corr now"
    "db' = db\<lparr>ad_direct := ad_direct db @ [d],
        ad_ledger := (ad_ledger db)\<lparr>lg_emissions := lg_emissions (ad_ledger db) @ [e]\<rparr>,
        ad_audit := ad_audit db @ [a]\<rparr>"
  using assms
  by (auto simp: compute_and_insert_def mbind_eq_Inr mlift_eq_Inr mret_eq_Inr Let_def)

lemma calc_insert_rollback: "calc_insert env catalog now key req user cid db w = (Inl e, db') \<Longrightarrow> db' = db"
  by (auto simp: calc_insert_def split: sum.splits prod.splits)

lemma calc_insert_Inr:
  "calc_insert env catalog now key req user cid db w = (Inr (r, w'), db') \<longleftrightarrow>
   calc_insert_body env catalog now key req user cid db w = Inr ((r, db'), w')"
  by (auto simp: calc_insert_def split: sum.splits prod.splits)

text \<open>A request that is not replayed ran \<open>compute_and_insert\<close>.\<close>

lemma calc_insert_fresh:
  assumes "calc_insert env catalog now key req user cid db w = (Inr (r, w'), db')" and "\<not> ins_replayed r"
  obtains db1 w1 where "compute_and_insert env catalog req user cid db w = Inr ((ins_response r, db1), w1)"
    "ins_status r = 201" "ad_ledger db' = ad_ledger db1" "ad_direct db' = ad_direct db1" "ad_audit db' = ad_audit db1"
    "key = None \<longrightarrow> db' = db1"
    "\<forall>k. key = Some k \<longrightarrow> store_response (en_digest env) now k (us_tenant_id user) (en_dump_request env req) 201
       (en_dump_response env (ins_response r)) (ad_cache db1) w1 = Inr (ad_cache db', w') \<and>
       db' = db1\<lparr>ad_cache := ad_cache db'\<rparr>"
  using assms
  by (auto simp: calc_insert_Inr calc_insert_body_def Let_def mbind_eq_Inr mlift_eq_Inr mret_eq_Inr mcatch_eq_Inr
      split: option.splits if_splits prod.splits)

end
