(* ===== verification/Auto_Calc_Insert_Properties.thy ===== *)
theory Auto_Calc_Insert_Properties
  imports Auto_Calc_Insert Auto_Calc_Properties Ledger_Invariants
begin

text \<open>
  The theorems about \<open>POST /calc/insert\<close>: what one request appends, the replay of an idempotency key,
  the scope of a key, the rejection of a second insert, and the wiring of the factor catalogue.
\<close>

section \<open>What the inserts store\<close>

lemma stored_emission_columns:
  assumes "stored_emission p = Inr q"
  shows "ep_id q = ep_id p" "ep_tenant_id q = ep_tenant_id p" "ep_correlation_id q = ep_correlation_id p"
    "ep_raw_row_id q = ep_raw_row_id p" "natural_key q = natural_key p" "ep_factor_id q = ep_factor_id p"
    "active q = active p" "ep_superseded_by q = ep_superseded_by p" "ep_created_by q = ep_created_by p"
    "numeric_18_6 (ep_tco2e p) = Inr (ep_tco2e q)"
  using assms by (auto simp: stored_emission_def rbind_eq_Inr natural_key_def active_def)

lemma insert_emission_Inr:
  assumes "insert_emission tenants factor_ids db p = Inr q"
  shows "stored_emission p = Inr q" "emission_checks q" "ep_factor_id q \<in> set factor_ids"
    "\<not> (active q \<and> natural_key q \<in> natural_key ` {e \<in> set (lg_emissions db). active e})"
  using assms by (auto simp: insert_emission_def emission_unique_def rbind_eq_Inr split: if_splits option.splits)

lemma insert_direct_entry_Inr:
  assumes "insert_direct_entry tenants rows r = Inr d"
  shows "\<exists>t. numeric_15_6 (de_tco2e r) = Inr t \<and> d = r\<lparr>de_tco2e := t\<rparr>"
  using assms by (auto simp: insert_direct_entry_def rbind_eq_Inr split: if_splits)

lemma insert_audit_Inr:
  "insert_audit tenants users rows r = Inr a \<Longrightarrow>
   \<exists>u\<in>set users. uuid_of_string (au_user_id r) = Inr u \<and> a = r\<lparr>au_user_id := uuid_str u\<rparr>"
  by (auto simp: insert_audit_def split: if_splits sum.splits)

text \<open>One emission insert is a committed transaction of the ledger.\<close>

lemma insert_emission_step:
  assumes "insert_emission tenants factor_ids db p = Inr q"
  shows "ledger_step False fk tenants factor_ids db (db\<lparr>lg_emissions := lg_emissions db @ [q]\<rparr>)"
  by (rule ledger_step.commit [where stmts = "[InsertEmissions [p]]"])
    (simp add: transaction_def migrated_schema_def assms)

section \<open>One request\<close>

text \<open>
  The trace of an insert: the direct entry keeps the request, the emission row points to it and to a
  catalogue row and stores the amount of the response, the audit row points to the emission row, and
  all three carry the tenant of the user and the correlation identifier of the response.
\<close>

definition insert_linked ::
    "'j ApiEnv \<Rightarrow> CatalogRow list \<Rightarrow> CalcInputRequest \<Rightarrow> UserContext \<Rightarrow> CalcInsertResponse \<Rightarrow>
     'j DirectEntryRow \<Rightarrow> EmissionRow \<Rightarrow> AuditRow \<Rightarrow> bool" where
  "insert_linked env catalog_rows req user resp d e a \<longleftrightarrow>
     de_request_payload d = en_dump_request env req \<and> de_factor_id d = pv_factor_id resp \<and>
     ep_id e = uuid_str (cs_emission_id resp) \<and> ep_raw_row_id e = de_id d \<and>
     numeric_18_6 (pv_tco2e resp) = Inr (ep_tco2e e) \<and> numeric_15_6 (en_float env (pv_tco2e resp)) = Inr (de_tco2e d) \<and>
     ep_factor_id e \<in> (\<lambda>r. uuid_str (cr_id r)) ` set catalog_rows \<and> active e \<and>
     au_resource_id a = ep_id e \<and> (\<exists>u. uuid_of_string (us_sub user) = Inr u \<and> au_user_id a = uuid_str u) \<and>
     au_after_state a = [(''emission_id'', ep_id e), (''raw_entry_id'', de_id d)] \<and>
     {de_tenant_id d, ep_tenant_id e, au_tenant_id a} = {uuid_str (us_tenant_id user)} \<and>
     {de_correlation_id d, ep_correlation_id e, au_correlation_id a} = {uuid_str (cs_correlation_id resp)}"

lemma compute_and_insert_trace:
  assumes "compute_and_insert env catalog req user cid db w = Inr ((resp, db'), w')"
  shows "\<exists>d e a. insert_linked env (ad_catalog db) req user resp d e a \<and>
    calc_preview catalog req user db = Inr (CalcPreviewResponse.truncate resp) \<and>
    ledger_step False fk (en_tenants env) (map (\<lambda>r. uuid_str (cr_id r)) (ad_catalog db)) (ad_ledger db) (ad_ledger db') \<and>
    db' = db\<lparr>ad_direct := ad_direct db @ [d],
      ad_ledger := (ad_ledger db)\<lparr>lg_emissions := lg_emissions (ad_ledger db) @ [e]\<rparr>, ad_audit := ad_audit db @ [a]\<rparr>"
  using assms
proof (rule compute_and_insert_Inr)
  fix preview :: CalcPreviewResponse and eid rid corr now vintage aid d e a
  let ?fk = "factor_uuid_fk (ad_catalog db) (us_tenant_id user) (pv_factor_id preview) (rq_gwp_set req)"
  assume p: "compute_preview req catalog (Some (ad_sites db, us_tenant_id user)) = Inr preview"
    and ins: "insert_direct_entry (en_tenants env) (ad_direct db)
       (direct_entry_row env req user preview rid corr now vintage) = Inr d"
    "insert_emission (en_tenants env) (map (\<lambda>r. uuid_str (cr_id r)) (ad_catalog db)) (ad_ledger db)
       (emission_row req user preview eid rid corr now ?fk) = Inr e"
    "insert_audit (en_tenants env) (en_users env) (ad_audit db) (audit_row user aid eid rid corr) = Inr a"
  assume resp: "resp = insert_response preview eid corr now"
    and db': "db' = db\<lparr>ad_direct := ad_direct db @ [d],
      ad_ledger := (ad_ledger db)\<lparr>lg_emissions := lg_emissions (ad_ledger db) @ [e]\<rparr>, ad_audit := ad_audit db @ [a]\<rparr>"
  note cols = insert_emission_Inr [OF ins(2)]
  have "insert_linked env (ad_catalog db) req user resp d e a"
    using insert_direct_entry_Inr [OF ins(1)] stored_emission_columns [OF cols(1)] cols(3) insert_audit_Inr [OF ins(3)]
    by (auto simp: insert_linked_def resp insert_response_def CalcPreviewResponse.defs direct_entry_row_def
        emission_row_def audit_row_def active_def)
  moreover have "calc_preview catalog req user db = Inr (CalcPreviewResponse.truncate resp)"
    by (simp add: calc_preview_def p resp insert_response_def CalcPreviewResponse.defs)
  ultimately show ?thesis
    using insert_emission_step [OF ins(2)] db' by (intro exI conjI) simp_all
qed

lemma calc_insert_cases:
  obtains (fail) e where "calc_insert env catalog now key req user cid db w = (Inl e, db)"
    | (replay) r w' where "calc_insert env catalog now key req user cid db w = (Inr (r, w'), db)" "ins_replayed r"
        "ins_status r = 200"
    | (fresh) r w' db' where "calc_insert env catalog now key req user cid db w = (Inr (r, w'), db')" "\<not> ins_replayed r"
proof (cases "calc_insert_body env catalog now key req user cid db w")
  case (Inl e)
  then show thesis by (intro fail) (simp add: calc_insert_def)
next
  case (Inr x)
  obtain r db' w' where x: "x = ((r, db'), w')" by (metis surj_pair)
  with Inr have run: "calc_insert env catalog now key req user cid db w = (Inr (r, w'), db')"
    by (simp add: calc_insert_def)
  show thesis
  proof (cases "ins_replayed r")
    case True
    with Inr x have "db' = db \<and> ins_status r = 200"
      by (auto simp: calc_insert_body_def Let_def mbind_eq_Inr split: option.splits if_splits prod.splits)
    with replay run True show thesis by blast
  next
    case False
    with fresh run show thesis by blast
  qed
qed

text \<open>
  C25. A request to insert either fails and leaves the database as it was, or is a replay and leaves
  it as it was, or appends exactly one direct entry, one emission row and one audit row, linked to
  each other and to the response, whose figures are those the preview endpoint shows for the same
  request. The append to the ledger is one committed transaction of the ledger, so it keeps the
  invariant of reachable ledgers; no run row, factor or site changes.
\<close>

theorem insert_trace:
  "case calc_insert env catalog now key req user cid db w of
     (Inl e, db') \<Rightarrow> db' = db
   | (Inr (r, w'), db') \<Rightarrow>
       (if ins_replayed r then db' = db \<and> ins_status r = 200
        else ins_status r = 201 \<and>
          calc_preview catalog req user db = Inr (CalcPreviewResponse.truncate (ins_response r)) \<and>
          (\<exists>d e a. insert_linked env (ad_catalog db) req user (ins_response r) d e a \<and>
            ad_direct db' = ad_direct db @ [d] \<and> ad_audit db' = ad_audit db @ [a] \<and>
            ad_ledger db' = (ad_ledger db)\<lparr>lg_emissions := lg_emissions (ad_ledger db) @ [e]\<rparr> \<and>
            ledger_step False fk (en_tenants env) (map (\<lambda>r. uuid_str (cr_id r)) (ad_catalog db))
              (ad_ledger db) (ad_ledger db') \<and>
            ad_catalog db' = ad_catalog db \<and> ad_sites db' = ad_sites db))"
proof (cases rule: calc_insert_cases [of env catalog now key req user cid db w])
  case (fresh r w' db')
  then obtain db1 w1 where run: "compute_and_insert env catalog req user cid db w = Inr ((ins_response r, db1), w1)"
    "ins_status r = 201" and tables: "ad_ledger db' = ad_ledger db1" "ad_direct db' = ad_direct db1"
    "ad_audit db' = ad_audit db1" "db' = db1\<lparr>ad_cache := ad_cache db'\<rparr>"
    by (rule calc_insert_fresh) (cases key; auto)
  have same: "ad_catalog db' = ad_catalog db1" "ad_sites db' = ad_sites db1"
    by (subst tables(4), simp)+
  obtain d e a where "insert_linked env (ad_catalog db) req user (ins_response r) d e a"
    "calc_preview catalog req user db = Inr (CalcPreviewResponse.truncate (ins_response r))"
    "ledger_step False fk (en_tenants env) (map (\<lambda>r. uuid_str (cr_id r)) (ad_catalog db)) (ad_ledger db) (ad_ledger db1)"
    "db1 = db\<lparr>ad_direct := ad_direct db @ [d],
      ad_ledger := (ad_ledger db)\<lparr>lg_emissions := lg_emissions (ad_ledger db) @ [e]\<rparr>, ad_audit := ad_audit db @ [a]\<rparr>"
    using compute_and_insert_trace [OF run(1), of fk] by blast
  with fresh run(2) tables(1,2,3) same show ?thesis by auto
qed simp_all

section \<open>A small service\<close>

text \<open>
  JSON documents are requests or responses themselves; two years have different digests. The
  catalogue holds one factor of tenant 1.
\<close>

type_synonym demo_json = "CalcInputRequest + CalcInsertResponse"

definition demo_env :: "demo_json ApiEnv" where
  "demo_env =
     \<lparr>en_tenants = [uuid_str 1, uuid_str 2], en_users = [5], en_dump_request = Inl, en_dump_response = Inr,
      en_load_response = (\<lambda>j. case j of Inl _ \<Rightarrow> Inl ValueError | Inr r \<Rightarrow> Inr r),
      en_digest = (\<lambda>j. case j of Inl r \<Rightarrow> replicate 64 (if rq_anno r = 2025 then CHR ''a'' else CHR ''b'')
        | Inr _ \<Rightarrow> replicate 64 (CHR ''c'')),
      en_float = (\<lambda>d. d)\<rparr>"

definition demo_user :: "uuid \<Rightarrow> UserContext" where
  "demo_user tenant = \<lparr>us_sub = uuid_str 5, us_role = ''editor'', us_tenant_id = tenant\<rparr>"

definition demo_lb_row :: "uuid \<Rightarrow> CatalogRow" where
  "demo_lb_row tenant = (demo_catalog_row 1 (Dec False 25 (- 1)))\<lparr>cr_factor_id := LB_FACTOR_ID, cr_tenant_id := tenant\<rparr>"

definition demo_api_db :: "demo_json IdempotencyRow list \<Rightarrow> demo_json api_db" where
  "demo_api_db cache =
     \<lparr>ad_ledger = \<lparr>lg_emissions = [], lg_runs = []\<rparr>, ad_catalog = [demo_lb_row 1], ad_sites = [], ad_direct = [],
      ad_audit = [], ad_cache = cache\<rparr>"

definition api_world :: world where
  "api_world = \<lparr>w_uuid = of_nat, w_clock = int, w_uuids = 0, w_ticks = 0\<rparr>"

definition demo_lb_request :: CalcInputRequest where
  "demo_lb_request = demo_request 2 ''lb'' (Some ''IANO'') ''kWh''"

lemma demo_insert_preview:
  "\<exists>p. compute_preview demo_lb_request demo_catalog (Some ([], t)) = Inr p \<and>
     pv_tco2e p = Dec False 2501250 (- 6) \<and> pv_factor_id p = LB_FACTOR_ID \<and> pv_factor_vintage p = ''2025'' \<and>
     pv_co2_biogenic_tonne p = None \<and> pv_co2_fossil_tonne p = None"
proof -
  have lb: "lb_factor_for ''IT'' = LB_FACTOR_ID" by (simp add: lb_factor_for_def)
  have v: "demo_value LB_FACTOR_ID = Dec False 25 (- 1)" using demo_lb_value by (simp add: lb)
  show ?thesis
    by (simp add: demo_lb_preview demo_lb_request_def fetch_site_meta_def factor_response_def lb v
        vintage_text_def vintage_of_def demo_factor_def)
qed

lemma py_len_uuid: "\<not> 120 < py_len (uuid_str u)"
  using py_len_le [of "uuid_str u"] by (simp add: length_uuid_str)

lemma py_len_literals:
  "\<not> 120 < py_len LB_FACTOR_ID" "\<not> 40 < py_len ''editor''" "\<not> 120 < py_len ''k''" "py_len ''k'' \<le> 120"
  using py_len_le [of LB_FACTOR_ID] py_len_le [of "''editor''"] py_len_le [of "''k''"] by (simp_all add: LB_FACTOR_ID_def)

lemma demo_insert_rows:
  assumes p: "pv_tco2e p = Dec False 2501250 (- 6)" "pv_factor_id p = LB_FACTOR_ID"
      "pv_co2_biogenic_tonne p = None" "pv_co2_fossil_tonne p = None"
  shows "insert_direct_entry (en_tenants demo_env) [] (direct_entry_row demo_env req (demo_user 1) p rid corr now 2025) =
      Inr (direct_entry_row demo_env req (demo_user 1) p rid corr now 2025)"
    and "insert_emission (en_tenants demo_env) [uuid_str 7] \<lparr>lg_emissions = [], lg_runs = rs\<rparr>
      (emission_row demo_lb_request (demo_user 1) p eid rid corr now (uuid_str 7)) =
      Inr (emission_row demo_lb_request (demo_user 1) p eid rid corr now (uuid_str 7))"
    and "insert_audit (en_tenants demo_env) (en_users demo_env) [] (audit_row (demo_user 1) aid eid rid corr) =
      Inr (audit_row (demo_user 1) aid eid rid corr)"
    and "factor_uuid_fk [demo_lb_row 1] (us_tenant_id (demo_user 1)) (pv_factor_id p) ''AR6'' = uuid_str 7"
  using p
  by (simp_all add: insert_direct_entry_def direct_entry_row_def numeric_15_6_def demo_env_def demo_user_def
      dec_le_def dec_scaled_def dec_int_def insert_emission_def emission_unique_def emission_row_def
      stored_emission_def numeric_18_6_def numeric_column_def emission_checks_def demo_lb_request_def
      demo_request_def insert_audit_def audit_row_def factor_uuid_fk_def demo_lb_row_def demo_catalog_row_def
      latest_def uuid_of_uuid_str py_len_uuid py_len_literals)

lemma demo_vintage: "factor_vintage_int ''2025'' anno = Inr 2025"
proof -
  have "str_strip ''2025'' = ''2025''" by (simp add: str_strip_def chr_space_def)
  moreover have "signed_int_of ''2025'' = Some 2025"
    by (simp add: signed_int_of_def split_sign_def is_digit_def digits_val_def)
  ultimately show ?thesis by (simp add: factor_vintage_int_def int_of_string_def)
qed

lemma demo_insert_run:
  "\<exists>resp db' w'. compute_and_insert demo_env demo_catalog demo_lb_request (demo_user 1) (uuid_str 9) (demo_api_db cache)
      w = Inr ((resp, db'), w')"
proof -
  obtain p where p: "compute_preview demo_lb_request demo_catalog (Some ([], 1)) = Inr p"
    "pv_tco2e p = Dec False 2501250 (- 6)" "pv_factor_id p = LB_FACTOR_ID" "pv_factor_vintage p = ''2025''"
    "pv_co2_biogenic_tonne p = None" "pv_co2_fossil_tonne p = None"
    using demo_insert_preview [of 1] by blast
  have req: "rq_gwp_set demo_lb_request = ''AR6''" "us_tenant_id (demo_user 1) = 1" "cr_id (demo_lb_row 1) = 7"
    by (simp_all add: demo_lb_request_def demo_request_def demo_user_def demo_lb_row_def demo_catalog_row_def)
  note rows = demo_insert_rows [OF p(2,3,5,6), unfolded req p(3)]
  show ?thesis
    by (simp add: compute_and_insert_def demo_api_db_def mbind_def mlift_def uuid4_def now_utc_def mret_def
        p(1,3,4) req rows demo_vintage uuid_of_uuid_str)
qed

lemma demo_calc_insert:
  assumes "key = None \<or> key = Some ''k''" and "cache = [] \<or> ik_tenant_id (hd cache) = 2 \<and> tl cache = []"
  shows "\<exists>r w' db'. calc_insert demo_env demo_catalog now key demo_lb_request (demo_user 1) (uuid_str 9)
      (demo_api_db cache) api_world = (Inr (r, w'), db') \<and> \<not> ins_replayed r"
proof -
  obtain resp db1 w1 where run: "compute_and_insert demo_env demo_catalog demo_lb_request (demo_user 1) (uuid_str 9)
      (demo_api_db cache) api_world = Inr ((resp, db1), w1)"
    using demo_insert_run by blast
  have "find (live_key now ''k'' (us_tenant_id (demo_user 1))) cache = None"
    using assms(2) by (cases cache) (auto simp: live_key_def demo_user_def)
  with assms(1) run show ?thesis
    by (auto simp: calc_insert_def calc_insert_body_def check_idempotency_def Let_def mbind_def mlift_def mcatch_def
        store_response_def now_utc_def mret_def demo_api_db_def py_len_literals)
qed

theorem insert_trace_witness:
  "\<exists>r w' db' d e a. calc_insert demo_env demo_catalog (DateTime 0 True) None demo_lb_request (demo_user 1) (uuid_str 9)
       (demo_api_db []) api_world = (Inr (r, w'), db') \<and>
     ad_direct db' = [d] \<and> lg_emissions (ad_ledger db') = [e] \<and> ad_audit db' = [a] \<and>
     insert_linked demo_env [demo_lb_row 1] demo_lb_request (demo_user 1) (ins_response r) d e a"
proof -
  obtain r w' db' where run: "calc_insert demo_env demo_catalog (DateTime 0 True) None demo_lb_request (demo_user 1)
      (uuid_str 9) (demo_api_db []) api_world = (Inr (r, w'), db')" "\<not> ins_replayed r"
    using demo_calc_insert [of None "[]" "DateTime 0 True"] by blast
  show ?thesis
    using insert_trace [where env = demo_env and catalog = demo_catalog and now = "DateTime 0 True" and key = None and
      req = demo_lb_request and user = "demo_user 1" and cid = "uuid_str 9" and db = "demo_api_db []" and w = api_world and fk = True] run
    by (auto simp: demo_api_db_def)
qed

section \<open>Idempotency keys\<close>

lemma compute_and_insert_clock:
  assumes "compute_and_insert env catalog req user cid db w = Inr ((resp, db'), w')"
  shows "w_clock w' = w_clock w" "w_ticks w' = Suc (w_ticks w)"
    "cs_created_at resp = DateTime (w_clock w (w_ticks w)) True" "ad_cache db' = ad_cache db"
  using assms
  by (auto simp: compute_and_insert_def mbind_eq_Inr Let_def uuid4_def now_utc_def insert_response_def
      CalcPreviewResponse.defs)

lemma find_live_row:
  assumes "\<forall>r\<in>set xs. \<not> P r" and "P y"
  shows "find P (xs @ y # ys) = Some y"
  using assms by (induction xs) auto

text \<open>A request with a key the cache answers.\<close>

lemma calc_insert_hit:
  assumes "py_len k \<le> 120" and "find (live_key now k (us_tenant_id user)) (ad_cache db) = Some row"
    and "en_load_response env (ik_response_body row) = Inr resp"
  shows "calc_insert env catalog now (Some k) req user cid db w =
    (if str_strip (ik_request_hash row) = en_digest env (en_dump_request env req)
     then (Inr (\<lparr>ins_response = resp, ins_status = 200, ins_replayed = True\<rparr>, w), db)
     else (Inl (HTTPException 422), db))"
  using assms
  by (simp add: calc_insert_def calc_insert_body_def check_idempotency_def Let_def mbind_def mlift_def mcatch_def
      mret_def)

text \<open>A request with a key the cache does not know, nor stores: the outcome of the request without it.\<close>

lemma calc_insert_unused_key:
  assumes "py_len k \<le> 120" and "find (live_key now k (us_tenant_id user)) (ad_cache db) = None"
    and "k \<in> ik_key ` set (ad_cache db)"
  shows "calc_insert env catalog now (Some k) req user cid db w =
    (case calc_insert env catalog now None req user cid db w of
       (Inl e, db') \<Rightarrow> (Inl e, db')
     | (Inr (r, w'), db') \<Rightarrow> (Inr (r, w'\<lparr>w_ticks := Suc (w_ticks w')\<rparr>), db'))"
proof (cases "compute_and_insert env catalog req user cid db w")
  case (Inl e)
  with assms(1,2) show ?thesis
    by (simp add: calc_insert_def calc_insert_body_def check_idempotency_def Let_def mbind_def mlift_def mcatch_def)
next
  case (Inr x)
  obtain resp db' w' where x: "x = ((resp, db'), w')" by (metis surj_pair)
  with Inr have "ad_cache db' = ad_cache db" using compute_and_insert_clock(4) by blast
  with assms Inr x show ?thesis
    by (simp add: calc_insert_def calc_insert_body_def check_idempotency_def Let_def mbind_def mlift_def mcatch_def
        store_response_def now_utc_def mret_def)
qed

lemma calc_insert_key_length:
  "calc_insert env catalog now (Some k) req user cid db w = (Inr x, db') \<Longrightarrow> py_len k \<le> 120"
  by (cases "py_len k \<le> 120") (simp_all add: calc_insert_def calc_insert_body_def Let_def mlift_def)

text \<open>
  C26. Idempotency. After a successful insert with a key that was not in the table, every request of
  the same tenant with that key within 24 hours leaves the database as it is: with the same body
  (up to its digest) it gets the stored response again, with status 200 and the replay mark; with
  another body it is rejected with status 422. Whatever the other tables hold by then, and
  whatever other keys were stored after it, does not matter. The digest is hexadecimal, and a
  response reads back from its JSON form.
\<close>

theorem insert_replay:
  assumes "calc_insert env catalog now (Some k) req user cid db w = (Inr (r, w'), db')"
    and "k \<notin> ik_key ` set (ad_cache db)" and "hex_digest (en_digest env)"
    and "en_load_response env (en_dump_response env (ins_response r)) = Inr (ins_response r)"
    and "mono (w_clock w)" and "instant now' < instant (cs_created_at (ins_response r)) + 24 * 3600 * 10 ^ 6"
    and "us_tenant_id user' = us_tenant_id user" and "ad_cache db2 = ad_cache db' @ later"
  shows "calc_insert env catalog' now' (Some k) req' user' cid' db2 w2 =
    (if en_digest env (en_dump_request env req') = en_digest env (en_dump_request env req)
     then (Inr (\<lparr>ins_response = ins_response r, ins_status = 200, ins_replayed = True\<rparr>, w2), db2)
     else (Inl (HTTPException 422), db2))"
proof -
  have miss: "\<forall>row\<in>set (ad_cache db). \<not> live_key t k u row" for t u
    using assms(2) by (auto simp: live_key_def)
  then have none: "find (live_key now k (us_tenant_id user)) (ad_cache db) = None" by (simp add: find_None_iff)
  have "\<not> ins_replayed r"
    using assms(1) none
    by (auto simp: calc_insert_Inr calc_insert_body_def Let_def mbind_eq_Inr mcatch_eq_Inr check_idempotency_def
        split: if_splits option.splits)
  then obtain db1 w1 where run: "compute_and_insert env catalog req user cid db w = Inr ((ins_response r, db1), w1)"
    and st: "store_response (en_digest env) now k (us_tenant_id user) (en_dump_request env req) 201
       (en_dump_response env (ins_response r)) (ad_cache db1) w1 = Inr (ad_cache db', w')"
    by (rule calc_insert_fresh [OF assms(1)]) auto
  note clk = compute_and_insert_clock [OF run]
  obtain row where row: "ad_cache db' = ad_cache db @ [row]" "ik_key row = k" "ik_tenant_id row = us_tenant_id user"
    "ik_request_hash row = en_digest env (en_dump_request env req)"
    "ik_response_body row = en_dump_response env (ins_response r)"
    "instant (ik_expires_at row) = w_clock w1 (w_ticks w1) + 24 * 3600 * 10 ^ 6"
    using store_fresh [OF st] assms(2) by (auto simp: clk(4))
  have "w_clock w (w_ticks w) \<le> w_clock w1 (w_ticks w1)" using assms(5) by (simp add: clk monoD)
  with assms(6) row have live: "live_key now' k (us_tenant_id user') row"
    by (simp add: live_key_def clk(3) assms(7))
  have hit: "find (live_key now' k (us_tenant_id user')) (ad_cache db2) = Some row"
    using find_live_row [of "ad_cache db" _ row later] miss live by (simp add: assms(8) row(1))
  show ?thesis
    using calc_insert_hit [OF calc_insert_key_length [OF assms(1)] hit, of env "ins_response r"] assms(3,4)
    by (auto simp: row(4,5) hex_digest_strip)
qed

theorem insert_replay_witness:
  "\<exists>r w' db'. calc_insert demo_env demo_catalog (DateTime 0 True) (Some ''k'') demo_lb_request (demo_user 1) (uuid_str 9)
       (demo_api_db []) api_world = (Inr (r, w'), db') \<and> ins_status r = 201 \<and>
     calc_insert demo_env demo_catalog (DateTime 5 True) (Some ''k'') demo_lb_request (demo_user 1) (uuid_str 10) db' w' =
       (Inr (\<lparr>ins_response = ins_response r, ins_status = 200, ins_replayed = True\<rparr>, w'), db') \<and>
     calc_insert demo_env demo_catalog (DateTime 5 True) (Some ''k'') (demo_lb_request\<lparr>rq_anno := 2024\<rparr>) (demo_user 1)
       (uuid_str 10) db' w' = (Inl (HTTPException 422), db')"
proof -
  let ?run = "calc_insert demo_env demo_catalog (DateTime 0 True) (Some ''k'') demo_lb_request (demo_user 1)
      (uuid_str 9) (demo_api_db []) api_world"
  obtain r w' db' where run: "?run = (Inr (r, w'), db')" "\<not> ins_replayed r"
    using demo_calc_insert [of "Some ''k''" "[]" "DateTime 0 True"] by blast
  obtain db1 w1 where "compute_and_insert demo_env demo_catalog demo_lb_request (demo_user 1) (uuid_str 9)
      (demo_api_db []) api_world = Inr ((ins_response r, db1), w1)" "ins_status r = 201"
    by (rule calc_insert_fresh [OF run])
  moreover from this(1) have "cs_created_at (ins_response r) = DateTime 0 True"
    by (simp add: compute_and_insert_clock(3) api_world_def)
  moreover have "hex_digest (en_digest demo_env)"
    by (simp add: hex_digest_def demo_env_def is_hex_def split: sum.splits)
  moreover have "mono (w_clock api_world)" by (simp add: api_world_def mono_def)
  moreover have "en_load_response demo_env (en_dump_response demo_env (ins_response r)) = Inr (ins_response r)"
    by (simp add: demo_env_def)
  moreover have "''k'' \<notin> ik_key ` set (ad_cache (demo_api_db []))" by (simp add: demo_api_db_def)
  ultimately show ?thesis
    using run(1) insert_replay [OF run(1), of "DateTime 5 True" "demo_user 1" db' "[]" demo_catalog _ "uuid_str 10" w']
    by (simp add: demo_env_def) (simp add: demo_lb_request_def demo_request_def)
qed

text \<open>
  A key is looked up by tenant but is unique over all tenants, and an expired row is not
  replaced by a new one: where the table holds the key only for another tenant or expired, a request with the
  key has exactly the outcome of the request without it (but for reading the clock once more), and
  nothing is stored under it, so a repetition inserts again.
\<close>

theorem idempotency_key_taken:
  assumes "k \<in> ik_key ` set (ad_cache db)" and "py_len k \<le> 120"
    and "\<forall>row\<in>set (ad_cache db). ik_key row = k \<longrightarrow>
      ik_tenant_id row \<noteq> us_tenant_id user \<or> instant (ik_expires_at row) \<le> instant now"
  shows "calc_insert env catalog now (Some k) req user cid db w =
    (case calc_insert env catalog now None req user cid db w of
       (Inl e, db') \<Rightarrow> (Inl e, db')
     | (Inr (r, w'), db') \<Rightarrow> (Inr (r, w'\<lparr>w_ticks := Suc (w_ticks w')\<rparr>), db'))"
proof (rule calc_insert_unused_key [OF assms(2) _ assms(1)])
  show "find (live_key now k (us_tenant_id user)) (ad_cache db) = None"
    using assms(3) by (auto simp: find_None_iff live_key_def)
qed

theorem idempotency_key_taken_witness:
  "\<exists>cache. ik_key ` set cache = {''k''} \<and>
     (\<forall>row\<in>set cache. instant (DateTime 0 True) < instant (ik_expires_at row)) \<and>
     (\<exists>r w' db'. calc_insert demo_env demo_catalog (DateTime 0 True) (Some ''k'') demo_lb_request (demo_user 1)
        (uuid_str 9) (demo_api_db cache) api_world = (Inr (r, w'), db') \<and> ins_status r = 201 \<and> ad_cache db' = cache)"
proof -
  let ?row = "\<lparr>ik_key = ''k'', ik_tenant_id = 2, ik_endpoint = ENDPOINT, ik_request_hash = replicate 64 (CHR ''a''),
      ik_response_status = 201, ik_response_body = Inl demo_lb_request, ik_created_at = DateTime 0 True,
      ik_expires_at = DateTime 9 True\<rparr>"
  let ?call = "\<lambda>key. calc_insert demo_env demo_catalog (DateTime 0 True) key demo_lb_request (demo_user 1)
      (uuid_str 9) (demo_api_db [?row]) api_world"
  obtain r w' db' where run: "?call None = (Inr (r, w'), db')" "\<not> ins_replayed r"
    using demo_calc_insert [of None "[?row]" "DateTime 0 True"] by auto
  obtain db1 w1 where r: "compute_and_insert demo_env demo_catalog demo_lb_request (demo_user 1) (uuid_str 9)
      (demo_api_db [?row]) api_world = Inr ((ins_response r, db1), w1)" "ins_status r = 201" "db' = db1"
    by (rule calc_insert_fresh [OF run]) auto
  have "?call (Some ''k'') = (Inr (r, w'\<lparr>w_ticks := Suc (w_ticks w')\<rparr>), db')"
    using idempotency_key_taken [of "''k''" "demo_api_db [?row]" "demo_user 1" "DateTime 0 True" demo_env demo_catalog
        demo_lb_request "uuid_str 9" api_world] run(1)
    by (simp add: demo_api_db_def demo_user_def py_len_literals)
  moreover have "ad_cache db' = [?row]"
    using compute_and_insert_clock(4) [OF r(1)] r(3) by (simp add: demo_api_db_def)
  ultimately show ?thesis using r(2) by (intro exI [of _ "[?row]"]) simp
qed

section \<open>A second insert\<close>

text \<open>The columns of the unique index, as the request gives them.\<close>

definition request_key :: "UserContext \<Rightarrow> CalcInputRequest \<Rightarrow> string \<times> int \<times> string \<times> string \<times> int \<times> string \<times> string" where
  "request_key user req =
     (uuid_str (us_tenant_id user), rq_scope req, db_sub_scope (rq_sub_scope req),
      (case rq_codice_sito req of None \<Rightarrow> [] | Some s \<Rightarrow> s), rq_anno req, ''CSRD_ESRS_E1'', rq_gwp_set req)"

lemma natural_key_emission_row:
  "natural_key (emission_row req user preview eid rid corr now fk) = request_key user req"
  "active (emission_row req user preview eid rid corr now fk)"
  by (simp_all add: natural_key_def emission_row_def active_def request_key_def)

text \<open>An insert without a replay stored an active row with the key columns of the request.\<close>

lemma compute_and_insert_row:
  assumes "compute_and_insert env catalog req user cid db w = Inr ((resp, db'), w')"
  shows "\<exists>e. lg_emissions (ad_ledger db') = lg_emissions (ad_ledger db) @ [e] \<and> active e \<and>
    natural_key e = request_key user req \<and>
    request_key user req \<notin> natural_key ` {e \<in> set (lg_emissions (ad_ledger db)). active e}"
  using assms
proof (rule compute_and_insert_Inr)
  fix preview :: CalcPreviewResponse and eid' rid' corr' now' e fk' d a
  assume "insert_emission (en_tenants env) (map (\<lambda>r. uuid_str (cr_id r)) (ad_catalog db)) (ad_ledger db)
       (emission_row req user preview eid' rid' corr' now' (factor_uuid_fk (ad_catalog db) (us_tenant_id user)
          (pv_factor_id preview) (rq_gwp_set req))) = Inr e"
  note ins = insert_emission_Inr [OF this] and cols = stored_emission_columns [OF insert_emission_Inr(1) [OF this]]
  assume "db' = db\<lparr>ad_direct := ad_direct db @ [d],
      ad_ledger := (ad_ledger db)\<lparr>lg_emissions := lg_emissions (ad_ledger db) @ [e]\<rparr>, ad_audit := ad_audit db @ [a]\<rparr>"
  with ins(4) cols show ?thesis
    by (auto simp: natural_key_emission_row)
qed

text \<open>
  C27. The unique index on active rows has no column for the fuel, the subcategory or the
  instrument: after an insert, every further request of the tenant for the same scope, sub-scope,
  site, year and GWP set fails and changes nothing, also when it is for another fuel or another
  subcategory.
\<close>

theorem second_activity_rejected:
  assumes "calc_insert env catalog now key req user cid db w = (Inr (r, w'), db')" and "\<not> ins_replayed r"
    and "rq_scope req' = rq_scope req" and "rq_sub_scope req' = rq_sub_scope req"
    and "rq_codice_sito req' = rq_codice_sito req" and "rq_anno req' = rq_anno req"
    and "rq_gwp_set req' = rq_gwp_set req" and "us_tenant_id user' = us_tenant_id user"
  shows "\<exists>e. calc_insert env catalog' now' None req' user' cid' db' w2 = (Inl e, db')"
proof -
  obtain db1 w1 where run: "compute_and_insert env catalog req user cid db w = Inr ((ins_response r, db1), w1)"
    and led: "ad_ledger db' = ad_ledger db1"
    by (rule calc_insert_fresh [OF assms(1,2)])
  obtain e where e: "lg_emissions (ad_ledger db1) = lg_emissions (ad_ledger db) @ [e]" "active e"
    "natural_key e = request_key user req"
    using compute_and_insert_row [OF run] by blast
  have key: "request_key user' req' = request_key user req" using assms(3-8) by (simp add: request_key_def)
  have "e \<in> {e \<in> set (lg_emissions (ad_ledger db')). active e}" using e(1,2) by (simp add: led)
  then have "request_key user' req' \<in> natural_key ` {e \<in> set (lg_emissions (ad_ledger db')). active e}"
    unfolding key e(3) [symmetric] by (rule imageI)
  then have "compute_and_insert env catalog' req' user' cid' db' w2 \<noteq> Inr ((resp, db2), w3)" for resp db2 w3
    using compute_and_insert_row by blast
  then show ?thesis
    by (cases "compute_and_insert env catalog' req' user' cid' db' w2")
      (auto simp: calc_insert_def calc_insert_body_def mbind_def mcatch_def)
qed

theorem second_activity_rejected_witness:
  "\<exists>r w' db' e. calc_insert demo_env demo_catalog (DateTime 0 True) None demo_lb_request (demo_user 1) (uuid_str 9)
       (demo_api_db []) api_world = (Inr (r, w'), db') \<and>
     calc_insert demo_env demo_catalog (DateTime 5 True) None (demo_lb_request\<lparr>rq_quantita := Dec False 1 0\<rparr>)
       (demo_user 1) (uuid_str 10) db' w' = (Inl e, db')"
proof -
  obtain r w' db' where run: "calc_insert demo_env demo_catalog (DateTime 0 True) None demo_lb_request (demo_user 1)
      (uuid_str 9) (demo_api_db []) api_world = (Inr (r, w'), db')" "\<not> ins_replayed r"
    using demo_calc_insert [of None "[]" "DateTime 0 True"] by blast
  have "\<exists>e. calc_insert demo_env demo_catalog (DateTime 5 True) None (demo_lb_request\<lparr>rq_quantita := Dec False 1 0\<rparr>)
       (demo_user 1) (uuid_str 10) db' w' = (Inl e, db')"
    by (rule second_activity_rejected [OF run]) simp_all
  with run(1) show ?thesis by blast
qed

section \<open>The wiring of the factor catalogue\<close>

lemma preview_without_factors:
  assumes "\<And>fid gs v. cat_get catalog fid gs v = Inl MissingFactorError"
    and "compute_preview req catalog session = Inr p"
  shows "pv_factor_id p = ''DIRECT_TCO2_INPUT''"
proof -
  have none: "request_factor catalog req' fid = Inl MissingFactorError" for req' fid
    by (simp add: request_factor_def require_factor_def assms(1))
  obtain handler where h: "map_of DISPATCH (rq_scope req, rq_sub_scope req) = Some handler"
    and ok: "handler req catalog = Inr p \<or> (\<exists>c. preview_s2_lb req catalog c = Inr p)"
    using assms(2)
    by (auto simp: compute_preview_def Let_def rbind_eq_Inr split: option.splits if_splits)
  have "preview_s1_combustion req catalog \<noteq> Inr p"
    by (cases "rq_combustibile req"; cases "map_of FUEL_FACTOR_IDS (the (rq_combustibile req))")
      (auto simp: preview_s1_combustion_def none rbind_eq_Inr)
  moreover have "\<not> (\<exists>c. preview_s2_lb req catalog c = Inr p)" by (simp add: preview_s2_lb_def none)
  ultimately show ?thesis using ok map_of_SomeD [OF h]
    by (auto simp: DISPATCH_def none preview_s2_lb_def preview_s2_mb_def preview_s3_cat1_def
        preview_s3_cat3_def preview_s3_cat4_def preview_s3_cat5_def preview_s3_cat6_def preview_s3_cat7_def
        preview_s3_cat9_def preview_s3_cat12_def product_preview_def lookup_cat12_factors_def preview_s1_process_def
        rbind_eq_Inr Let_def split: option.splits if_splits)
qed

text \<open>
  C28. The endpoint's own catalogue is bound to the nil tenant. Where no catalogue row belongs to
  that tenant or has the nil identifier or the code of the direct input, no request can insert: every
  request fails or replays a stored response, and the database stays as it is.
\<close>

theorem auto_insert_unwired:
  assumes "\<forall>r\<in>set (ad_catalog db). cr_tenant_id r \<noteq> 0 \<and> cr_id r \<noteq> 0 \<and> cr_factor_id r \<noteq> ''DIRECT_TCO2_INPUT''"
  shows "case calc_insert env (get_factor_catalog db) now key req user cid db w of
      (Inl e, db') \<Rightarrow> db' = db
    | (Inr (r, w'), db') \<Rightarrow> ins_replayed r \<and> db' = db"
proof -
  have "cat_get (get_factor_catalog db) fid gs v = Inl MissingFactorError" for fid gs v
  proof -
    have "filter (\<lambda>r. cr_tenant_id r = 0 \<and> Q r) (ad_catalog db) = []" for Q
      using assms by (auto simp: filter_empty_conv)
    then have "select_factor (ad_catalog db) 0 fid gs = None" "select_factor_vintage (ad_catalog db) 0 fid gs y = None" for y
      by (simp_all add: select_factor_def select_factor_vintage_def latest_None)
    then show ?thesis
      by (cases v) (simp_all add: get_factor_catalog_def sql_catalog_def adapter_fetch_def)
  qed
  note direct = preview_without_factors [OF this]
  have "compute_and_insert env (get_factor_catalog db) req user cid db w0 \<noteq> Inr ((resp, db1), w1)" for w0 resp db1 w1
  proof
    assume "compute_and_insert env (get_factor_catalog db) req user cid db w0 = Inr ((resp, db1), w1)"
    then show False
    proof (rule compute_and_insert_Inr)
      fix preview :: CalcPreviewResponse and eid rid corr now' e
      assume p: "compute_preview req (get_factor_catalog db) (Some (ad_sites db, us_tenant_id user)) = Inr preview"
      let ?fk = "factor_uuid_fk (ad_catalog db) (us_tenant_id user) (pv_factor_id preview) (rq_gwp_set req)"
      assume "insert_emission (en_tenants env) (map (\<lambda>r. uuid_str (cr_id r)) (ad_catalog db)) (ad_ledger db)
         (emission_row req user preview eid rid corr now' ?fk) = Inr e"
      note ins = insert_emission_Inr [OF this]
      have "filter (\<lambda>r. cr_tenant_id r = us_tenant_id user \<and> cr_factor_id r = pv_factor_id preview \<and>
          cr_gwp_set r = rq_gwp_set req) (ad_catalog db) = []"
        using assms direct [OF p] by (auto simp: filter_empty_conv)
      then have "?fk = uuid_str 0" by (simp add: factor_uuid_fk_def latest_def)
      with ins(3) stored_emission_columns(6) [OF ins(1)] assms show False
        by (auto simp: emission_row_def uuid_str_inj)
    qed
  qed
  then show ?thesis
    by (cases rule: calc_insert_cases [of env "get_factor_catalog db" now key req user cid db w])
      (auto elim: calc_insert_fresh)
qed

theorem auto_insert_unwired_witness:
  "\<exists>e. calc_insert demo_env (get_factor_catalog (demo_api_db [])) (DateTime 0 True) None demo_lb_request (demo_user 1)
       (uuid_str 9) (demo_api_db []) api_world = (Inl e, demo_api_db [])"
proof (cases rule: calc_insert_cases [of demo_env "get_factor_catalog (demo_api_db [])" "DateTime 0 True" None
      demo_lb_request "demo_user 1" "uuid_str 9" "demo_api_db []" api_world])
  case (replay r w')
  then show ?thesis
    by (auto simp: calc_insert_Inr calc_insert_body_def mbind_eq_Inr)
next
  case (fresh r w' db')
  have "\<forall>r\<in>set (ad_catalog (demo_api_db [])). cr_tenant_id r \<noteq> 0 \<and> cr_id r \<noteq> 0 \<and> cr_factor_id r \<noteq> ''DIRECT_TCO2_INPUT''"
    by (simp add: demo_api_db_def demo_lb_row_def demo_catalog_row_def LB_FACTOR_ID_def)
  from auto_insert_unwired [OF this, of demo_env "DateTime 0 True" None demo_lb_request "demo_user 1" "uuid_str 9" api_world]
    fresh show ?thesis by simp
qed blast

end
