(* ===== verification/Rate_Limit.thy ===== *)
theory Rate_Limit
  imports Py_Values
begin

text \<open>
  \<open>api/middleware/rate_limit.py\<close>: the in-process sliding-window counter, the three limiters built from
  it, the key of a request and the middleware. The backend of the third-party package \<open>limits\<close> is not
  modelled. Instants are exact integers in one unit with the window; the rounding of floating-point
  clocks is left out. The lock serialises calls, so a counter sees a sequence of them.
\<close>

section \<open>The counter\<close>

record InMemorySlidingWindow =
  sw_window :: int
  sw_limit :: nat
  sw_buckets :: "string \<rightharpoonup> int list"

definition sliding_window_init :: "int \<Rightarrow> nat \<Rightarrow> InMemorySlidingWindow" where
  "sliding_window_init window_s limit = \<lparr>sw_window = window_s, sw_limit = limit, sw_buckets = Map.empty\<rparr>"

text \<open>\<open>while bucket and bucket[0] < cutoff: bucket.popleft()\<close>.\<close>

fun popleft_expired :: "int \<Rightarrow> int list \<Rightarrow> int list" where
  "popleft_expired cutoff [] = []"
| "popleft_expired cutoff (t # ts) = (if t < cutoff then popleft_expired cutoff ts else t # ts)"

definition is_allowed :: "int \<Rightarrow> string \<Rightarrow> InMemorySlidingWindow \<Rightarrow> bool \<times> InMemorySlidingWindow" where
  "is_allowed now key sw =
     (let cutoff = now - sw_window sw;
          bucket = popleft_expired cutoff (case sw_buckets sw key of Some ts \<Rightarrow> ts | None \<Rightarrow> [])
      in if sw_limit sw \<le> length bucket then (False, sw\<lparr>sw_buckets := (sw_buckets sw)(key \<mapsto> bucket)\<rparr>)
         else (True, sw\<lparr>sw_buckets := (sw_buckets sw)(key \<mapsto> bucket @ [now])\<rparr>))"

definition sliding_window_reset :: "InMemorySlidingWindow \<Rightarrow> InMemorySlidingWindow" where
  "sliding_window_reset sw = sw\<lparr>sw_buckets := Map.empty\<rparr>"

section \<open>The limiters and the middleware\<close>

definition RATE_LIMIT_REQUESTS :: nat where "RATE_LIMIT_REQUESTS = 100"
definition RATE_LIMIT_WINDOW_S :: int where "RATE_LIMIT_WINDOW_S = 60"
definition LOGIN_RATE_LIMIT_REQUESTS :: nat where "LOGIN_RATE_LIMIT_REQUESTS = 5"
definition LOGIN_RATE_LIMIT_WINDOW_S :: int where "LOGIN_RATE_LIMIT_WINDOW_S = 60"
definition PUBLISH_RATE_LIMIT_REQUESTS :: nat where "PUBLISH_RATE_LIMIT_REQUESTS = 10"
definition PUBLISH_RATE_LIMIT_WINDOW_S :: int where "PUBLISH_RATE_LIMIT_WINDOW_S = 60"

definition EXEMPT_PREFIXES :: "string list" where
  "EXEMPT_PREFIXES = [''/healthz'', ''/readyz'', ''/openapi'', ''/docs'']"

text \<open>
  The parts of a request the key depends on: \<open>request.state.user_sub\<close>, the Authorization header and
  the client's host. \<open>unverified_sub\<close> stands for \<open>str(get_unverified_claims(token).get("sub", ""))\<close>
  of PyJWT, None when it raises.
\<close>

record RateRequest =
  rt_path :: string
  rt_user_sub :: "string option"
  rt_authorization :: string
  rt_client_host :: "string option"

definition ip_rate_key :: "RateRequest \<Rightarrow> string" where
  "ip_rate_key r = ''ip:'' @ (case rt_client_host r of Some h \<Rightarrow> h | None \<Rightarrow> ''unknown'')"

definition extract_rate_key :: "(string \<Rightarrow> string option) \<Rightarrow> RateRequest \<Rightarrow> string" where
  "extract_rate_key unverified_sub r =
     (case rt_user_sub r of
        Some (c # s) \<Rightarrow> ''user:'' @ (c # s)
      | _ \<Rightarrow>
        if str_startswith (rt_authorization r) ''Bearer ''
        then (case unverified_sub (drop 7 (rt_authorization r)) of
                Some (c # s) \<Rightarrow> ''user:'' @ (c # s)
              | _ \<Rightarrow> ip_rate_key r)
        else ip_rate_key r)"

text \<open>The middleware answers 429 itself or calls the next handler.\<close>

definition rate_limit_dispatch ::
    "(string \<Rightarrow> string option) \<Rightarrow> int \<Rightarrow> RateRequest \<Rightarrow> InMemorySlidingWindow \<Rightarrow> unit res \<times> InMemorySlidingWindow" where
  "rate_limit_dispatch unverified_sub now r sw =
     (if list_ex (\<lambda>p. str_startswith (rt_path r) p) EXEMPT_PREFIXES then (Inr (), sw)
      else
        let (ok, sw') = is_allowed now (extract_rate_key unverified_sub r) sw
        in if ok then (Inr (), sw') else (Inl (HTTPException 429), sw'))"

section \<open>A sequence of calls and its specification\<close>

text \<open>The decisions of a limiter on a sequence of calls (instant and key).\<close>

fun run_calls :: "(int \<Rightarrow> string \<Rightarrow> 's \<Rightarrow> bool \<times> 's) \<Rightarrow> (int \<times> string) list \<Rightarrow> 's \<Rightarrow> bool list" where
  "run_calls allowed [] s = []"
| "run_calls allowed ((now, key) # cs) s = (let (ok, s') = allowed now key s in ok # run_calls allowed cs s')"

text \<open>
  The specification keeps every granted request: a call is granted when fewer than \<open>limit\<close> requests
  of its key were granted in the window that ends with it.
\<close>

definition granted_since :: "int \<Rightarrow> string \<Rightarrow> (int \<times> string) list \<Rightarrow> nat" where
  "granted_since cutoff key granted = length (filter (\<lambda>(t, k). k = key \<and> cutoff \<le> t) granted)"

fun spec_calls :: "int \<Rightarrow> nat \<Rightarrow> (int \<times> string) list \<Rightarrow> (int \<times> string) list \<Rightarrow> bool list" where
  "spec_calls window limit granted [] = []"
| "spec_calls window limit granted ((now, key) # cs) =
     (if granted_since (now - window) key granted < limit
      then True # spec_calls window limit (granted @ [(now, key)]) cs
      else False # spec_calls window limit granted cs)"

text \<open>The granted calls of a decision sequence.\<close>

definition granted_calls :: "(int \<times> string) list \<Rightarrow> bool list \<Rightarrow> (int \<times> string) list" where
  "granted_calls cs ds = map fst (filter snd (zip cs ds))"

lemma granted_calls_simps [simp]:
  "granted_calls [] ds = []"
  "granted_calls (c # cs) (True # ds) = c # granted_calls cs ds"
  "granted_calls (c # cs) (False # ds) = granted_calls cs ds"
  by (simp_all add: granted_calls_def)

lemma length_filter_mono:
  "(\<And>x. x \<in> set xs \<Longrightarrow> P x \<Longrightarrow> Q x) \<Longrightarrow> length (filter P xs) \<le> length (filter Q xs)"
  by (induction xs) auto

text \<open>The specification never grants more than \<open>limit\<close> requests of a key within one window.\<close>

lemma spec_calls_window:
  assumes "sorted (map fst cs)" and "\<forall>g\<in>set granted. \<forall>c\<in>set cs. fst g \<le> fst c"
    and "\<And>a. length (filter (\<lambda>(t, k). k = key \<and> a \<le> t \<and> t \<le> a + window) granted) \<le> limit"
  shows "length (filter (\<lambda>(t, k). k = key \<and> a \<le> t \<and> t \<le> a + window)
      (granted @ granted_calls cs (spec_calls window limit granted cs))) \<le> limit"
  using assms
proof (induction cs arbitrary: granted)
  case (Cons c cs)
  obtain now k where c: "c = (now, k)" by force
  show ?case
  proof (cases "granted_since (now - window) k granted < limit")
    case False
    then show ?thesis using Cons.IH [of granted] Cons.prems by (simp add: c)
  next
    case True
    let ?g = "granted @ [(now, k)]"
    have old: "fst x \<le> now" if "x \<in> set granted" for x using Cons.prems(2) that by (force simp: c)
    have "length (filter (\<lambda>(t, k). k = key \<and> b \<le> t \<and> t \<le> b + window) ?g) \<le> limit" for b
    proof (cases "k = key \<and> b \<le> now \<and> now \<le> b + window")
      case False
      then show ?thesis using Cons.prems(3) [of b] by (auto simp: filter_append)
    next
      case in_window: True
      have "length (filter (\<lambda>(t, k). k = key \<and> b \<le> t \<and> t \<le> b + window) granted) \<le> granted_since (now - window) k granted"
        unfolding granted_since_def using in_window by (intro length_filter_mono) auto
      with True in_window show ?thesis by simp
    qed
    moreover have "\<forall>g\<in>set ?g. \<forall>c\<in>set cs. fst g \<le> fst c"
      using Cons.prems(1,2) old by (force simp: c)
    moreover have "sorted (map fst cs)" using Cons.prems(1) by simp
    ultimately show ?thesis using Cons.IH [of ?g] True by (simp add: c)
  qed
qed simp

section \<open>The contract of a limiter\<close>

text \<open>
  What \<open>_RateLimiter\<close> promises its clients: some relation \<open>rep\<close> between a state, the instant of the
  last call and the requests granted so far, under which a call is decided by the number of requests
  of its key granted in the window that ends with it.
\<close>

locale rate_limiter =
  fixes allowed :: "int \<Rightarrow> string \<Rightarrow> 's \<Rightarrow> bool \<times> 's"
    and rep :: "'s \<Rightarrow> int \<Rightarrow> (int \<times> string) list \<Rightarrow> bool"
    and window :: int and limit :: nat
  assumes decides: "rep s t0 granted \<Longrightarrow> t0 \<le> now \<Longrightarrow> allowed now key s = (ok, s') \<Longrightarrow>
      ok \<longleftrightarrow> granted_since (now - window) key granted < limit"
    and records: "rep s t0 granted \<Longrightarrow> t0 \<le> now \<Longrightarrow> allowed now key s = (ok, s') \<Longrightarrow>
      rep s' now (if ok then granted @ [(now, key)] else granted)"
begin

lemma calls_refine:
  assumes "rep s t0 granted" and "\<forall>c\<in>set cs. t0 \<le> fst c" and "sorted (map fst cs)"
  shows "run_calls allowed cs s = spec_calls window limit granted cs"
  using assms
proof (induction cs arbitrary: s t0 granted)
  case (Cons c cs)
  obtain now key where c: "c = (now, key)" by force
  obtain ok s' where step: "allowed now key s = (ok, s')" by force
  have le: "t0 \<le> now" "\<forall>c\<in>set cs. now \<le> fst c" "sorted (map fst cs)" using Cons.prems(2,3) c by auto
  from Cons.IH [OF records [OF Cons.prems(1) le(1) step] le(2,3)] decides [OF Cons.prems(1) le(1) step]
  show ?case by (simp add: c step)
qed simp

lemma fresh_calls_refine:
  assumes "\<And>t. rep s t []" and "sorted (map fst cs)"
  shows "run_calls allowed cs s = spec_calls window limit [] cs"
proof (cases cs)
  case (Cons c cs')
  then have "\<forall>d\<in>set cs. fst c \<le> fst d" using assms(2) by auto
  from calls_refine [OF assms(1) this assms(2)] show ?thesis .
qed simp

lemma fresh_window:
  assumes "\<And>t. rep s t []" and "sorted (map fst cs)"
  shows "length (filter (\<lambda>(t, k). k = key \<and> a \<le> t \<and> t \<le> a + window) (granted_calls cs (run_calls allowed cs s))) \<le> limit"
  unfolding fresh_calls_refine [OF assms] using spec_calls_window [OF assms(2), of "[]"] by simp

end

section \<open>The in-process counter meets the contract\<close>

lemma popleft_sorted: "sorted ts \<Longrightarrow> popleft_expired cutoff ts = filter (\<lambda>t. cutoff \<le> t) ts"
proof (induction ts)
  case (Cons t ts)
  then show ?case
    by (cases "t < cutoff") (auto intro!: filter_True [symmetric])
qed simp

text \<open>
  The abstraction: the bucket of a key holds the granted instants of that key, but for some that
  have left every later window.
\<close>

definition bucket_of :: "InMemorySlidingWindow \<Rightarrow> string \<Rightarrow> int list" where
  "bucket_of sw key = (case sw_buckets sw key of Some ts \<Rightarrow> ts | None \<Rightarrow> [])"

definition granted_of :: "string \<Rightarrow> (int \<times> string) list \<Rightarrow> int list" where
  "granted_of key granted = map fst (filter (\<lambda>(t, k). k = key) granted)"

definition window_abs :: "int \<Rightarrow> nat \<Rightarrow> InMemorySlidingWindow \<Rightarrow> int \<Rightarrow> (int \<times> string) list \<Rightarrow> bool" where
  "window_abs window limit sw now granted \<longleftrightarrow>
     sw_window sw = window \<and> sw_limit sw = limit \<and>
     (\<forall>key. sorted (bucket_of sw key) \<and> (\<forall>t\<in>set (bucket_of sw key). t \<le> now) \<and>
       (\<forall>cutoff\<ge>now - sw_window sw. filter (\<lambda>t. cutoff \<le> t) (bucket_of sw key) =
          filter (\<lambda>t. cutoff \<le> t) (granted_of key granted)))"

lemma window_abs_init: "window_abs window limit (sliding_window_init window limit) now []"
  by (simp add: window_abs_def bucket_of_def granted_of_def sliding_window_init_def)

lemma granted_since_eq: "granted_since cutoff key granted = length (filter (\<lambda>t. cutoff \<le> t) (granted_of key granted))"
  by (induction granted) (auto simp: granted_since_def granted_of_def)

lemma is_allowed_refines:
  assumes abs: "window_abs window limit sw t0 granted" and "t0 \<le> now" and step: "is_allowed now key sw = (ok, sw')"
  shows "ok \<longleftrightarrow> granted_since (now - window) key granted < limit"
    and "window_abs window limit sw' now (if ok then granted @ [(now, key)] else granted)"
proof -
  let ?c = "now - sw_window sw" and ?b = "bucket_of sw"
  let ?live = "filter (\<lambda>t. ?c \<le> t) (?b key)"
  have srt: "sorted (?b k)" "\<And>t. t \<in> set (?b k) \<Longrightarrow> t \<le> t0"
    "\<And>c. t0 - sw_window sw \<le> c \<Longrightarrow> filter (\<lambda>t. c \<le> t) (?b k) = filter (\<lambda>t. c \<le> t) (granted_of k granted)" for k
    using abs by (auto simp: window_abs_def)
  have pop: "popleft_expired ?c (?b key) = ?live" by (rule popleft_sorted [OF srt(1)])
  have dec: "ok \<longleftrightarrow> length ?live < sw_limit sw"
    and sw': "sw' = sw\<lparr>sw_buckets := (sw_buckets sw)(key \<mapsto> ?live @ (if ok then [now] else []))\<rparr>"
    using step pop by (auto simp: is_allowed_def bucket_of_def Let_def split: if_splits)
  have "window = sw_window sw" "limit = sw_limit sw" using abs by (simp_all add: window_abs_def)
  then show "ok \<longleftrightarrow> granted_since (now - window) key granted < limit"
    using dec srt(3) [of ?c key] assms(2) by (simp add: granted_since_eq)
  have new: "bucket_of sw' k = (if k = key then ?live @ (if ok then [now] else []) else ?b k)" for k
    by (simp add: sw' bucket_of_def)
  have gr: "granted_of k (granted @ [(now, key)]) = granted_of k granted @ (if k = key then [now] else [])" for k
    by (simp add: granted_of_def)
  have old: "t \<le> now" if "t \<in> set (?b k)" for t k using srt(2) [OF that] assms(2) by simp
  have "sorted ?live" by (intro sorted_filter [where f = "\<lambda>t. t", simplified] srt(1))
  moreover have "\<forall>t\<in>set ?live. t \<le> now" using old by auto
  ultimately have "sorted (?live @ [now])" "\<forall>t\<in>set (?live @ [now]). t \<le> now" by (auto simp: sorted_append)
  moreover have "filter (\<lambda>t. c \<le> t) ?live = filter (\<lambda>t. c \<le> t) (granted_of key granted)" if "?c \<le> c" for c
  proof -
    have "filter (\<lambda>t. c \<le> t) ?live = filter (\<lambda>t. c \<le> t) (?b key)" using that by (auto intro!: filter_cong)
    then show ?thesis using srt(3) [of c key] that assms(2) by simp
  qed
  moreover have "filter (\<lambda>t. c \<le> t) (?b k) = filter (\<lambda>t. c \<le> t) (granted_of k granted)" if "?c \<le> c" for c k
    using srt(3) [of c k] that assms(2) by simp
  ultimately show "window_abs window limit sw' now (if ok then granted @ [(now, key)] else granted)"
    unfolding window_abs_def new
    using \<open>sorted ?live\<close> srt(1) old abs [unfolded window_abs_def] by (auto simp: gr sw')
qed

interpretation in_memory: rate_limiter is_allowed "window_abs window limit" window limit
proof
  fix s t0 granted now key ok s'
  assume r: "window_abs window limit s t0 granted" "t0 \<le> now" "is_allowed now key s = (ok, s')"
  show "ok \<longleftrightarrow> granted_since (now - window) key granted < limit" by (rule is_allowed_refines(1) [OF r])
  show "window_abs window limit s' now (if ok then granted @ [(now, key)] else granted)"
    by (rule is_allowed_refines(2) [OF r])
qed

section \<open>The limiter's promise\<close>

text \<open>
  C31. The sliding-window counter refines its specification: on calls with non-decreasing instants a
  fresh counter decides as if it remembered every granted request, although it forgets those that
  left the window; and within any period of the window's length it grants a key at most \<open>limit\<close>
  requests.
\<close>

theorem rate_limit_window:
  assumes "sorted (map fst calls)"
  shows "run_calls is_allowed calls (sliding_window_init window limit) = spec_calls window limit [] calls \<and>
    length (filter (\<lambda>(t, k). k = key \<and> a \<le> t \<and> t \<le> a + window)
      (granted_calls calls (run_calls is_allowed calls (sliding_window_init window limit)))) \<le> limit"
  using in_memory.fresh_calls_refine [OF window_abs_init assms] in_memory.fresh_window [OF window_abs_init assms]
  by blast

theorem rate_limit_window_witness:
  "run_calls is_allowed [(0, ''a''), (10, ''a''), (20, ''a''), (61, ''a'')] (sliding_window_init 60 2) =
     [True, True, False, True] \<and>
   spec_calls 60 2 [] [(0, ''a''), (10, ''a''), (20, ''a''), (61, ''a'')] = [True, True, False, True]"
proof -
  let ?c = "[(0, ''a''), (10, ''a''), (20, ''a''), (61, ''a'')] :: (int \<times> string) list"
  have "spec_calls 60 2 [] ?c = [True, True, False, True]" by (simp add: granted_since_def)
  moreover have "sorted (map fst ?c)" by simp
  ultimately show ?thesis using rate_limit_window [of ?c 60 2] by simp
qed

section \<open>Forged subjects\<close>

text \<open>A sequence of requests through the middleware.\<close>

fun run_requests ::
    "(string \<Rightarrow> string option) \<Rightarrow> (int \<times> RateRequest) list \<Rightarrow> InMemorySlidingWindow \<Rightarrow> unit res list" where
  "run_requests unverified_sub [] sw = []"
| "run_requests unverified_sub ((now, r) # rs) sw =
     (let (x, sw') = rate_limit_dispatch unverified_sub now r sw in x # run_requests unverified_sub rs sw')"

lemma fresh_key_allowed:
  assumes "sw_buckets sw key = None" and "0 < sw_limit sw"
  shows "is_allowed now key sw = (True, sw\<lparr>sw_buckets := (sw_buckets sw)(key \<mapsto> [now])\<rparr>)"
  using assms by (simp add: is_allowed_def)

lemma fresh_keys_granted:
  assumes "distinct (map (extract_rate_key unverified_sub \<circ> snd) rs)" and "0 < sw_limit sw"
    and "\<forall>r\<in>snd ` set rs. sw_buckets sw (extract_rate_key unverified_sub r) = None"
  shows "run_requests unverified_sub rs sw = replicate (length rs) (Inr ())"
  using assms
proof (induction rs arbitrary: sw)
  case (Cons p rs)
  obtain now r where p: "p = (now, r)" by force
  let ?k = "extract_rate_key unverified_sub r"
  let ?sw = "sw\<lparr>sw_buckets := (sw_buckets sw)(?k \<mapsto> [now])\<rparr>"
  have none: "sw_buckets sw ?k = None" using Cons.prems(3) by (simp add: p)
  have fresh: "\<forall>q\<in>snd ` set rs. extract_rate_key unverified_sub q \<noteq> ?k" using Cons.prems(1) by (force simp: p)
  have "run_requests unverified_sub rs sw = replicate (length rs) (Inr ())"
    using Cons.IH [of sw] Cons.prems by simp
  moreover have "run_requests unverified_sub rs ?sw = replicate (length rs) (Inr ())"
    using Cons.IH [of ?sw] Cons.prems fresh by simp
  ultimately show ?case
    using fresh_key_allowed [OF none Cons.prems(2)] by (simp add: p rate_limit_dispatch_def)
qed simp

text \<open>
  C32. The limit on a client does not bind one that forges tokens: requests that bear distinct subjects
  in tokens nobody has verified are all let through, from whatever address and in whatever time they
  come, because the key is the unverified subject.
\<close>

theorem forged_subjects_unlimited:
  assumes "\<forall>r\<in>snd ` set rs. rt_user_sub r = None \<and> str_startswith (rt_authorization r) ''Bearer ''"
    and "map (\<lambda>(t, r). unverified_sub (drop 7 (rt_authorization r))) rs = map Some subs"
    and "distinct subs" and "[] \<notin> set subs" and "0 < limit"
  shows "run_requests unverified_sub rs (sliding_window_init window limit) = replicate (length rs) (Inr ())"
proof (rule fresh_keys_granted)
  have len: "length rs = length subs" using assms(2) by (rule map_eq_imp_length_eq)
  have "extract_rate_key unverified_sub (snd (rs ! i)) = ''user:'' @ subs ! i" if i: "i < length rs" for i
  proof -
    obtain t r where r: "rs ! i = (t, r)" by force
    have "unverified_sub (drop 7 (rt_authorization r)) = Some (subs ! i)"
      using arg_cong [OF assms(2), of "\<lambda>xs. xs ! i"] i r len by simp
    moreover have "subs ! i \<noteq> []" using assms(4) i len by (metis nth_mem)
    moreover have "rt_user_sub r = None \<and> str_startswith (rt_authorization r) ''Bearer ''"
      using assms(1) nth_mem [OF i] r by force
    ultimately show ?thesis by (simp add: extract_rate_key_def r split: list.splits)
  qed
  then have "map (extract_rate_key unverified_sub \<circ> snd) rs = map (\<lambda>s. ''user:'' @ s) subs"
    using len by (intro nth_equalityI) simp_all
  with assms(3) show "distinct (map (extract_rate_key unverified_sub \<circ> snd) rs)"
    by (simp add: distinct_map inj_on_def)
qed (use assms(5) in \<open>simp_all add: sliding_window_init_def\<close>)

theorem forged_subjects_unlimited_witness:
  "\<exists>rs. length rs = 1000 \<and> (\<forall>p\<in>set rs. fst p = 0 \<and> rt_client_host (snd p) = Some ''10.0.0.1'') \<and>
    run_requests Some rs (sliding_window_init RATE_LIMIT_WINDOW_S RATE_LIMIT_REQUESTS) = replicate 1000 (Inr ())"
proof -
  define subs where "subs = map (\<lambda>n. replicate (Suc n) (CHR ''a'')) [0..<1000]"
  define rs where "rs = map (\<lambda>s. (0 :: int, \<lparr>rt_path = ''/api'', rt_user_sub = None, rt_authorization = ''Bearer '' @ s,
    rt_client_host = Some ''10.0.0.1''\<rparr>)) subs"
  have "distinct subs" by (simp add: subs_def distinct_map inj_on_def)
  moreover have "[] \<notin> set subs" by (auto simp: subs_def)
  moreover have "\<forall>r\<in>snd ` set rs. rt_user_sub r = None \<and> str_startswith (rt_authorization r) ''Bearer ''"
    by (auto simp: rs_def str_startswith_def)
  moreover have "map (\<lambda>(t, r). Some (drop 7 (rt_authorization r))) rs = map Some subs" by (simp add: rs_def)
  moreover have "length rs = 1000" by (simp add: rs_def subs_def)
  moreover have "\<forall>p\<in>set rs. fst p = 0 \<and> rt_client_host (snd p) = Some ''10.0.0.1''" by (auto simp: rs_def)
  ultimately show ?thesis
    using forged_subjects_unlimited [of rs Some subs RATE_LIMIT_REQUESTS RATE_LIMIT_WINDOW_S]
    by (intro exI [of _ rs]) (simp add: RATE_LIMIT_REQUESTS_def)
qed

end
