(* ===== verification/Factor_Workflow.thy ===== *)
theory Factor_Workflow
  imports Factor_Sql_Adapter Access_Control Rate_Limit
begin

text \<open>
  The life of an emission factor: \<open>application/services/factor_publish_service.py\<close> (the two-eyes
  publication), the writing endpoints of \<open>api/routers/factor_catalog.py\<close>, and the constraints and triggers
  of \<open>ref.factor_catalog\<close> (migrations 0001, 0010, 0020) and \<open>calc.factor_publish_approvals\<close> (0012, 0014,
  0020), with the row-level security of \<open>ref.factor_catalog\<close> (0005, 0025). A request runs in one transaction. Log lines, SIEM events and the client's address are left
  out; instants and floats inside the JSON states of the audit log are kept as values.
\<close>

section \<open>Tables\<close>

record FactorCatalog = CatalogRow +
  fc_substance :: string
  fc_scope :: int
  fc_category :: string
  fc_pdf_source_uri :: "string option"
  fc_created_at :: datetime
  fc_created_by :: "uuid option"
  fc_published_at :: "datetime option"
  fc_published_by :: "string option"

record FactorPublishApproval =
  fp_id :: uuid
  fp_tenant_id :: uuid
  fp_factor_id :: uuid
  fp_proposed_by :: uuid
  fp_approved_by :: "uuid option"
  fp_approved_at :: "datetime option"
  fp_decision :: string
  fp_decision_notes :: "string option"
  fp_correlation_id :: uuid
  fp_reason_code :: "string option"

datatype json = JNull | JBool bool | JInt int | JFloat decimal | JStr string | JTime datetime | JDate int

record AuditLog =
  al_tenant_id :: uuid
  al_correlation_id :: uuid
  al_user_role :: string
  al_action :: string
  al_resource :: string
  al_resource_id :: uuid
  al_request_method :: string
  al_request_path :: string
  al_status_code :: int
  al_before_state :: "(string \<times> json) list option"
  al_after_state :: "(string \<times> json) list option"

record workflow_db =
  fw_factors :: "FactorCatalog list"
  fw_approvals :: "FactorPublishApproval list"
  fw_audit :: "AuditLog list"

text \<open>
  The environment: the tenants and users, and whether the database role of the application bypasses
  row-level security, as a superuser does. The policies of the other tables compare the tenant of a row
  with that of the session, which the statements below do themselves.
\<close>

record WorkflowEnv =
  we_tenants :: "uuid list"
  we_users :: "uuid list"
  we_bypass_rls :: bool

section \<open>Constraints and triggers\<close>

definition numeric_20_8 :: "decimal \<Rightarrow> decimal res" where
  "numeric_20_8 d =
     (let c = (if - 8 \<le> dexp d then dcoef d * 10 ^ nat (dexp d + 8)
               else round_half_up (dcoef d) (nat (- 8 - dexp d)))
      in if 10 ^ 20 \<le> c then Inl DataError else Inr (Dec (dsign d) c (- 8)))"

definition numeric_20_8_column :: "decimal option \<Rightarrow> decimal option res" where
  "numeric_20_8_column v =
     (case v of None \<Rightarrow> Inr None | Some d \<Rightarrow> rbind (numeric_20_8 d) (\<lambda>x. Inr (Some x)))"

definition FACTOR_SOURCES :: "string list" where
  "FACTOR_SOURCES =
     [''DEFRA'', ''ISPRA'', ''IEA'', ''ecoinvent'', ''EXIOBASE'', ''CDP'', ''IPCC'', ''AIB'', ''EPD'', ''GHGProtocol'']"

definition factor_checks :: "FactorCatalog \<Rightarrow> bool" where
  "factor_checks f \<longleftrightarrow>
     1 \<le> fc_scope f \<and> fc_scope f \<le> 3 \<and> cr_source f \<in> set FACTOR_SOURCES \<and>
     cr_gwp_set f \<in> {''AR6'', ''AR5'', ''n/a''} \<and>
     (cr_is_published f \<longrightarrow> fc_published_at f \<noteq> None \<and> fc_published_by f \<noteq> None)"

definition stored_factor :: "FactorCatalog \<Rightarrow> FactorCatalog res" where
  "stored_factor f =
     rbind (numeric_20_8_column (cr_value f)) (\<lambda>v.
     rbind (numeric_20_8_column (cr_biogenic_co2_kg_per_unit f)) (\<lambda>b.
     let g = f\<lparr>cr_value := v, cr_biogenic_co2_kg_per_unit := b\<rparr>
     in if factor_checks g then Inr g else Inl IntegrityError))"

definition factor_key :: "FactorCatalog \<Rightarrow> uuid \<times> string \<times> string \<times> string" where
  "factor_key f = (cr_tenant_id f, cr_factor_id f, cr_version f, cr_gwp_set f)"

text \<open>The policy \<open>p_factor_insert_steward\<close> admits rows of the session's tenant, written by an editor.\<close>

definition insert_factor :: "WorkflowEnv \<Rightarrow> UserContext \<Rightarrow> FactorCatalog list \<Rightarrow> FactorCatalog \<Rightarrow> FactorCatalog res" where
  "insert_factor env user rows f =
     rbind (stored_factor f) (\<lambda>g.
     if \<not> we_bypass_rls env \<and> \<not> (us_role user = ''editor'' \<and> cr_tenant_id g = us_tenant_id user) then Inl ProgrammingError
     else if cr_tenant_id g \<notin> set (we_tenants env) \<or> \<not> pred_option (\<lambda>u. u \<in> set (we_users env)) (fc_created_by g) \<or>
        cr_id g \<in> cr_id ` set rows \<or> factor_key g \<in> factor_key ` set rows
     then Inl IntegrityError else Inr g)"

text \<open>
  An UPDATE: the table has row-level security in force and no policy for UPDATE or DELETE, so a role that
  does not bypass it reaches no row. On a row that is reached \<open>ops.deny_factor_mutation\<close> runs. The result
  counts the rows that were changed.
\<close>

fun update_factors ::
    "WorkflowEnv \<Rightarrow> (FactorCatalog \<Rightarrow> bool) \<Rightarrow> (FactorCatalog \<Rightarrow> FactorCatalog) \<Rightarrow> FactorCatalog list \<Rightarrow>
     (FactorCatalog list \<times> nat) res" where
  "update_factors env hit upd [] = Inr ([], 0)"
| "update_factors env hit upd (f # fs) =
     (if we_bypass_rls env \<and> hit f
      then if cr_is_published f then Inl RaiseException
           else rbind (stored_factor (upd f)) (\<lambda>g.
                rbind (update_factors env hit upd fs) (\<lambda>(gs, n). Inr (g # gs, Suc n)))
      else rbind (update_factors env hit upd fs) (\<lambda>(gs, n). Inr (f # gs, n)))"

text \<open>
  The same trigger on a DELETE: it ends with \<open>RETURN NEW\<close>, and NEW is NULL in a DELETE, so a draft row
  is skipped. The value says whether the row is removed.
\<close>

definition deny_factor_delete :: "FactorCatalog \<Rightarrow> bool res" where
  "deny_factor_delete f = (if cr_is_published f then Inl RaiseException else Inr False)"

fun delete_factors :: "WorkflowEnv \<Rightarrow> (FactorCatalog \<Rightarrow> bool) \<Rightarrow> FactorCatalog list \<Rightarrow> FactorCatalog list res" where
  "delete_factors env hit [] = Inr []"
| "delete_factors env hit (f # fs) =
     (if we_bypass_rls env \<and> hit f
      then rbind (deny_factor_delete f) (\<lambda>removed.
           rbind (delete_factors env hit fs) (\<lambda>gs. Inr (if removed then gs else f # gs)))
      else rbind (delete_factors env hit fs) (\<lambda>gs. Inr (f # gs)))"

definition approval_checks :: "WorkflowEnv \<Rightarrow> FactorPublishApproval \<Rightarrow> bool" where
  "approval_checks env a \<longleftrightarrow>
     fp_decision a \<in> {''PENDING'', ''APPROVED'', ''REJECTED''} \<and> fp_approved_by a \<noteq> Some (fp_proposed_by a) \<and>
     fp_tenant_id a \<in> set (we_tenants env) \<and> fp_proposed_by a \<in> set (we_users env) \<and>
     pred_option (\<lambda>u. u \<in> set (we_users env)) (fp_approved_by a)"

definition pending_key :: "FactorPublishApproval \<Rightarrow> uuid \<times> uuid" where
  "pending_key a = (fp_tenant_id a, fp_factor_id a)"

definition is_pending :: "FactorPublishApproval \<Rightarrow> bool" where
  "is_pending a \<longleftrightarrow> fp_decision a = ''PENDING''"

definition insert_approval ::
    "WorkflowEnv \<Rightarrow> FactorCatalog list \<Rightarrow> FactorPublishApproval list \<Rightarrow> FactorPublishApproval \<Rightarrow> unit res" where
  "insert_approval env factors rows a =
     (if \<not> approval_checks env a \<or> fp_factor_id a \<notin> cr_id ` set factors \<or> fp_id a \<in> fp_id ` set rows \<or>
         is_pending a \<and> pending_key a \<in> pending_key ` {b \<in> set rows. is_pending b}
      then Inl IntegrityError else Inr ())"

text \<open>\<open>trg_fn_fpa_deny_mutation\<close>: a decided row is immutable.\<close>

fun update_approval ::
    "WorkflowEnv \<Rightarrow> uuid \<Rightarrow> (FactorPublishApproval \<Rightarrow> FactorPublishApproval) \<Rightarrow> FactorPublishApproval list \<Rightarrow>
     FactorPublishApproval list res" where
  "update_approval env i upd [] = Inr []"
| "update_approval env i upd (a # as) =
     (if fp_id a = i
      then if \<not> is_pending a then Inl IntegrityError
           else if \<not> approval_checks env (upd a) then Inl IntegrityError
           else rbind (update_approval env i upd as) (\<lambda>bs. Inr (upd a # bs))
      else rbind (update_approval env i upd as) (\<lambda>bs. Inr (a # bs)))"

definition insert_audit_log :: "uuid list \<Rightarrow> AuditLog list \<Rightarrow> AuditLog \<Rightarrow> AuditLog list res" where
  "insert_audit_log tenants rows r =
     (if 40 < py_len (al_user_role r) then Inl DataError
      else if al_tenant_id r \<notin> set tenants then Inl IntegrityError
      else Inr (rows @ [r]))"

section \<open>The publish service\<close>

datatype PublishResult = PublishResultApprovalRequested uuid | PublishResultPublished FactorCatalog

definition get_by_uuid :: "workflow_db \<Rightarrow> uuid \<Rightarrow> uuid \<Rightarrow> FactorCatalog option" where
  "get_by_uuid db tenant_id factor_uuid = find (\<lambda>f. cr_tenant_id f = tenant_id \<and> cr_id f = factor_uuid) (fw_factors db)"

definition assert_publishable :: "FactorCatalog \<Rightarrow> unit res" where
  "assert_publishable factor =
     (if cr_is_tbc factor then Inl FactorTbcError
      else if cr_value factor = None \<and> \<not> cr_is_licence_only factor then Inl FactorNullValueError
      else Inr ())"

text \<open>\<open>scalar_one_or_none\<close>.\<close>

definition scalar_one_or_none :: "'a list \<Rightarrow> 'a option res" where
  "scalar_one_or_none xs = (case xs of [] \<Rightarrow> Inr None | [x] \<Rightarrow> Inr (Some x) | _ \<Rightarrow> Inl MultipleResultsFound)"

definition factor_audit ::
    "UserContext \<Rightarrow> uuid \<Rightarrow> string \<Rightarrow> uuid \<Rightarrow> string \<Rightarrow> string \<Rightarrow> int \<Rightarrow> (string \<times> json) list option \<Rightarrow>
     (string \<times> json) list option \<Rightarrow> AuditLog" where
  "factor_audit user correlation_id action resource_id request_method path status before_state after_state =
     \<lparr>al_tenant_id = us_tenant_id user, al_correlation_id = correlation_id, al_user_role = us_role user,
      al_action = action, al_resource = ''factor_catalog'', al_resource_id = resource_id,
      al_request_method = request_method, al_request_path = ''/api/v1/factor-catalog/'' @ path, al_status_code = status,
      al_before_state = before_state, al_after_state = after_state\<rparr>"

definition opt_json :: "('a \<Rightarrow> json) \<Rightarrow> 'a option \<Rightarrow> json" where
  "opt_json f v = (case v of None \<Rightarrow> JNull | Some x \<Rightarrow> f x)"

text \<open>
  \<open>_do_publish\<close>. \<open>factor\<close> and \<open>approval\<close> are the rows read before; \<open>db\<close> is the database at the time
  of the UPDATE, which another transaction may have changed meanwhile.
\<close>

definition do_publish ::
    "WorkflowEnv \<Rightarrow> FactorCatalog \<Rightarrow> UserContext \<Rightarrow> FactorPublishApproval \<Rightarrow> string \<Rightarrow> workflow_db \<Rightarrow>
     (FactorCatalog \<times> workflow_db) run" where
  "do_publish env factor user approval cid db =
     mbind now_utc (\<lambda>now.
     if map_option uuid_str (fc_created_by factor) = Some (us_sub user) then mlift (Inl SelfApprovalCreatorError)
     else
     mbind (mlift (update_factors env (\<lambda>f. cr_id f = cr_id factor \<and> cr_tenant_id f = us_tenant_id user \<and> \<not> cr_is_published f)
              (\<lambda>f. f\<lparr>cr_is_published := True, fc_published_by := Some (us_sub user), fc_published_at := Some now\<rparr>)
              (fw_factors db))) (\<lambda>(factors, rowcount).
     if rowcount \<noteq> 1 then mlift (Inl PublishRaceConflictError)
     else
     mbind (mlift (uuid_of_string (us_sub user))) (\<lambda>sub.
     mbind (mlift (update_approval env (fp_id approval)
              (\<lambda>a. a\<lparr>fp_decision := ''APPROVED'', fp_approved_by := Some sub, fp_approved_at := Some now\<rparr>)
              (fw_approvals db))) (\<lambda>approvals.
     mbind (mlift (uuid_of_string cid)) (\<lambda>correlation_id.
     mbind (mlift (insert_audit_log (we_tenants env) (fw_audit db)
              (factor_audit user correlation_id ''factor_published'' (cr_id factor) ''POST''
                 (uuid_str (cr_id factor) @ ''/publish'') 200 None
                 (Some [(''factor_id'', JStr (cr_factor_id factor)), (''version'', JStr (cr_version factor)),
                        (''gwp_set'', JStr (cr_gwp_set factor)), (''source'', JStr (cr_source factor)),
                        (''scope'', JInt (fc_scope factor)), (''published_by'', JStr (us_sub user)),
                        (''published_at'', JTime now), (''reason_code'', opt_json JStr (fp_reason_code approval)),
                        (''approved_by'', JStr (us_sub user)), (''approval_id'', JStr (uuid_str (fp_id approval)))]))))
       (\<lambda>audit.
     let db' = \<lparr>fw_factors = factors, fw_approvals = approvals, fw_audit = audit\<rparr> in
     case find (\<lambda>f. cr_id f = cr_id factor) factors of
       None \<Rightarrow> mlift (Inl RaiseException)
     | Some f \<Rightarrow> mret (f, db')))))))"

definition request_approval ::
    "WorkflowEnv \<Rightarrow> FactorCatalog \<Rightarrow> string \<Rightarrow> UserContext \<Rightarrow> string \<Rightarrow> workflow_db \<Rightarrow> (uuid \<times> workflow_db) run" where
  "request_approval env factor reason_code user cid db =
     mbind uuid4 (\<lambda>approval_id.
     mbind (mlift (uuid_of_string (us_sub user))) (\<lambda>sub.
     mbind (mlift (uuid_of_string cid)) (\<lambda>correlation_id.
     let a = \<lparr>fp_id = approval_id, fp_tenant_id = us_tenant_id user, fp_factor_id = cr_id factor, fp_proposed_by = sub,
              fp_approved_by = None, fp_approved_at = None, fp_decision = ''PENDING'', fp_decision_notes = None,
              fp_correlation_id = correlation_id, fp_reason_code = Some reason_code\<rparr> in
     mbind (mlift (insert_approval env (fw_factors db) (fw_approvals db) a)) (\<lambda>_.
     mbind (mlift (insert_audit_log (we_tenants env) (fw_audit db)
              (factor_audit user correlation_id ''factor_approval_requested'' (cr_id factor) ''POST''
                 (uuid_str (cr_id factor) @ ''/publish'') 202 None
                 (Some [(''approval_id'', JStr (uuid_str approval_id)), (''factor_id'', JStr (cr_factor_id factor)),
                        (''version'', JStr (cr_version factor)), (''reason_code'', JStr reason_code),
                        (''proposed_by'', JStr (us_sub user))])))) (\<lambda>audit.
     mret (approval_id, db\<lparr>fw_approvals := fw_approvals db @ [a], fw_audit := audit\<rparr>))))))"

text \<open>The three states of a draft: no pending request, one of the same proposer, one of another admin.\<close>

definition publish_decide ::
    "WorkflowEnv \<Rightarrow> FactorCatalog \<Rightarrow> string \<Rightarrow> UserContext \<Rightarrow> string \<Rightarrow> workflow_db \<Rightarrow> FactorPublishApproval option \<Rightarrow>
     (PublishResult \<times> workflow_db) run" where
  "publish_decide env factor reason_code user cid db pending =
     (case pending of
        None \<Rightarrow>
          mbind (request_approval env factor reason_code user cid db) (\<lambda>(i, db').
          mret (PublishResultApprovalRequested i, db'))
      | Some p \<Rightarrow>
          if uuid_str (fp_proposed_by p) = us_sub user then mlift (Inl SelfApprovalForbiddenError)
          else
          mbind (do_publish env factor user p cid db) (\<lambda>(f, db').
          mret (PublishResultPublished f, db')))"

definition pending_approvals :: "workflow_db \<Rightarrow> uuid \<Rightarrow> uuid \<Rightarrow> FactorPublishApproval list" where
  "pending_approvals db tenant_id factor_uuid =
     filter (\<lambda>a. fp_factor_id a = factor_uuid \<and> fp_tenant_id a = tenant_id \<and> is_pending a) (fw_approvals db)"

definition publish ::
    "WorkflowEnv \<Rightarrow> uuid \<Rightarrow> string \<Rightarrow> UserContext \<Rightarrow> string \<Rightarrow> workflow_db \<Rightarrow> (PublishResult \<times> workflow_db) run" where
  "publish env factor_uuid reason_code user cid db =
     (case get_by_uuid db (us_tenant_id user) factor_uuid of
        None \<Rightarrow> mlift (Inl FactorNotFoundError)
      | Some factor \<Rightarrow>
        if cr_is_published factor then mlift (Inl FactorAlreadyPublishedError)
        else
        mbind (mlift (assert_publishable factor)) (\<lambda>_.
        mbind (mlift (scalar_one_or_none (pending_approvals db (us_tenant_id user) (cr_id factor))))
          (publish_decide env factor reason_code user cid db)))"

section \<open>The endpoints\<close>

text \<open>The transaction of a request.\<close>

definition in_transaction :: "('a \<times> 'd) run \<Rightarrow> 'd \<Rightarrow> world \<Rightarrow> (exn + 'a \<times> world) \<times> 'd" where
  "in_transaction m db w = (case m w of Inl e \<Rightarrow> (Inl e, db) | Inr ((x, db'), w') \<Rightarrow> (Inr (x, w'), db'))"

definition publish_http :: "exn \<Rightarrow> exn" where
  "publish_http e =
     (if e = FactorNotFoundError then HTTPException 404
      else if e \<in> {FactorTbcError, FactorNullValueError} then HTTPException 422
      else if e \<in> {FactorAlreadyPublishedError, SelfApprovalForbiddenError, SelfApprovalCreatorError,
                   PublishRaceConflictError} then HTTPException 409
      else e)"

definition catch_exn :: "(exn \<Rightarrow> exn) \<Rightarrow> 'a run \<Rightarrow> 'a run" where
  "catch_exn h m = (\<lambda>w. case m w of Inl e \<Rightarrow> Inl (h e) | Inr x \<Rightarrow> Inr x)"

text \<open>
  The body of a publication. FastAPI resolves the dependencies first, then validates the body, then
  calls the handler. The limiter is process memory: it is not rolled back.
\<close>

record FactorCatalogPublishRequest =
  pq_reason_code :: string
  pq_publish_notes :: "string option"

definition PUBLISH_REASON_CODES :: "string list" where
  "PUBLISH_REASON_CODES =
     [''INITIAL_PUBLICATION'', ''VERSION_BUMP'', ''METHODOLOGY_UPDATE'', ''SOURCE_REVISION'', ''CORRECTION_REPLACEMENT'']"

definition validate_publish_request :: "FactorCatalogPublishRequest \<Rightarrow> bool" where
  "validate_publish_request body \<longleftrightarrow>
     pq_reason_code body \<in> set PUBLISH_REASON_CODES \<and> pred_option (\<lambda>s. py_len s \<le> 2000) (pq_publish_notes body)"

definition publish_factor ::
    "WorkflowEnv \<Rightarrow> int \<Rightarrow> uuid \<Rightarrow> FactorCatalogPublishRequest \<Rightarrow> UserContext \<Rightarrow> string \<Rightarrow> workflow_db \<Rightarrow>
     InMemorySlidingWindow \<Rightarrow> world \<Rightarrow> ((exn + PublishResult \<times> world) \<times> workflow_db) \<times> InMemorySlidingWindow" where
  "publish_factor env mono_now factor_uuid body user cid db limiter w =
     (case require_permission ''factor_catalog'' ''publish'' user of
        Inl e \<Rightarrow> ((Inl e, db), limiter)
      | Inr _ \<Rightarrow>
        if \<not> validate_publish_request body then ((Inl (HTTPException 422), db), limiter)
        else
        let (ok, limiter') = is_allowed mono_now (''publish:user:'' @ us_sub user) limiter in
        if \<not> ok then ((Inl (HTTPException 429), db), limiter')
        else (in_transaction (catch_exn publish_http (publish env factor_uuid (pq_reason_code body) user cid db)) db w, limiter'))"

definition reject_body ::
    "WorkflowEnv \<Rightarrow> uuid \<Rightarrow> string \<Rightarrow> UserContext \<Rightarrow> string \<Rightarrow> workflow_db \<Rightarrow> (uuid \<times> workflow_db) run" where
  "reject_body env approval_uuid rejection_reason user cid db =
     (case find (\<lambda>a. fp_id a = approval_uuid \<and> fp_tenant_id a = us_tenant_id user) (fw_approvals db) of
        None \<Rightarrow> mlift (Inl (HTTPException 404))
      | Some approval \<Rightarrow>
        if \<not> is_pending approval then mlift (Inl (HTTPException 409))
        else
        mbind now_utc (\<lambda>now.
        mbind (mlift (uuid_of_string (us_sub user))) (\<lambda>sub.
        mbind (mlift (uuid_of_string cid)) (\<lambda>correlation_id.
        mbind (mlift (update_approval env approval_uuid
                 (\<lambda>a. a\<lparr>fp_decision := ''REJECTED'', fp_approved_by := Some sub, fp_approved_at := Some now,
                         fp_decision_notes := Some rejection_reason\<rparr>) (fw_approvals db))) (\<lambda>approvals.
        mbind (mlift (insert_audit_log (we_tenants env) (fw_audit db)
                 (factor_audit user correlation_id ''factor_approval_rejected'' (fp_factor_id approval) ''POST''
                    (''approvals/'' @ uuid_str approval_uuid @ ''/reject'') 200 None
                    (Some [(''approval_id'', JStr (uuid_str approval_uuid)), (''decision'', JStr ''REJECTED''),
                           (''rejected_by'', JStr (us_sub user)), (''rejected_at'', JTime now)])))) (\<lambda>audit.
        mret (approval_uuid, db\<lparr>fw_approvals := approvals, fw_audit := audit\<rparr>)))))))"

definition reject_approval ::
    "WorkflowEnv \<Rightarrow> uuid \<Rightarrow> string \<Rightarrow> UserContext \<Rightarrow> string \<Rightarrow> workflow_db \<Rightarrow> world \<Rightarrow> (exn + uuid \<times> world) \<times> workflow_db" where
  "reject_approval env approval_uuid rejection_reason user cid db w =
     (case require_permission ''factor_catalog'' ''approve'' user of
        Inl e \<Rightarrow> (Inl e, db)
      | Inr _ \<Rightarrow>
        if py_len rejection_reason < 10 \<or> 2000 < py_len rejection_reason then (Inl (HTTPException 422), db)
        else in_transaction (reject_body env approval_uuid rejection_reason user cid db) db w)"

text \<open>
  The payload of a new draft, with its validation. \<open>str.isalnum\<close> is modelled on ASCII; a factor
  identifier with other characters is outside the model.
\<close>

record FactorCatalogCreate =
  fn_factor_id :: string
  fn_version :: string
  fn_substance :: string
  fn_scope :: int
  fn_category :: string
  fn_source :: string
  fn_value :: "decimal option"
  fn_is_licence_only :: bool
  fn_unit :: string
  fn_gwp_set :: string
  fn_vintage :: "string option"
  fn_valid_from :: int
  fn_applicability_note :: "string option"
  fn_pdf_source_uri :: "string option"
  fn_biogenic_co2_kg_per_unit :: "decimal option"

definition chr_alnum :: "char \<Rightarrow> bool" where
  "chr_alnum c \<longleftrightarrow> is_digit c \<or> 65 \<le> chr_nat c \<and> chr_nat c \<le> 90 \<or> 97 \<le> chr_nat c \<and> chr_nat c \<le> 122"

definition validate_factor_id_format :: "string \<Rightarrow> unit res" where
  "validate_factor_id_format v =
     (let clean = filter (\<lambda>c. c \<noteq> CHR ''_'' \<and> c \<noteq> CHR ''-'') v
      in if list_ex (\<lambda>c. 128 \<le> chr_nat c) clean then Inl Unmodelled
         else if clean \<noteq> [] \<and> list_all chr_alnum clean then Inr () else Inl (HTTPException 422))"

definition text_field :: "nat \<Rightarrow> nat \<Rightarrow> string \<Rightarrow> bool" where
  "text_field lo hi s \<longleftrightarrow> lo \<le> py_len s \<and> py_len s \<le> hi"

definition validate_create :: "FactorCatalogCreate \<Rightarrow> unit res" where
  "validate_create b =
     (if text_field 1 80 (fn_factor_id b) \<and> text_field 1 40 (fn_version b) \<and> text_field 1 100 (fn_substance b) \<and>
         1 \<le> fn_scope b \<and> fn_scope b \<le> 3 \<and> text_field 1 40 (fn_category b) \<and> text_field 1 40 (fn_source b) \<and>
         pred_option (dec_le dec_zero) (fn_value b) \<and> text_field 1 40 (fn_unit b) \<and>
         fn_gwp_set b \<in> {''AR6'', ''AR5'', ''n/a''} \<and> pred_option (text_field 0 40) (fn_vintage b) \<and>
         pred_option (text_field 0 2000) (fn_applicability_note b) \<and> pred_option (text_field 0 512) (fn_pdf_source_uri b) \<and>
         pred_option (dec_le dec_zero) (fn_biogenic_co2_kg_per_unit b) \<and> fn_source b \<in> set FACTOR_SOURCES
      then validate_factor_id_format (fn_factor_id b) else Inl (HTTPException 422))"

definition new_factor :: "FactorCatalogCreate \<Rightarrow> UserContext \<Rightarrow> uuid \<Rightarrow> uuid \<Rightarrow> datetime \<Rightarrow> FactorCatalog" where
  "new_factor b user i sub created_at =
     \<lparr>cr_id = i, cr_tenant_id = us_tenant_id user, cr_factor_id = fn_factor_id b, cr_version = fn_version b,
      cr_value = fn_value b, cr_unit = fn_unit b, cr_source = fn_source b, cr_gwp_set = fn_gwp_set b,
      cr_biogenic_co2_kg_per_unit = fn_biogenic_co2_kg_per_unit b, cr_vintage = fn_vintage b,
      cr_applicability_note = fn_applicability_note b, cr_is_tbc = False, cr_is_licence_only = fn_is_licence_only b,
      cr_is_published = False, cr_valid_from = fn_valid_from b, cr_valid_to = None,
      fc_substance = fn_substance b, fc_scope = fn_scope b, fc_category = fn_category b,
      fc_pdf_source_uri = fn_pdf_source_uri b, fc_created_at = created_at, fc_created_by = Some sub,
      fc_published_at = None, fc_published_by = None\<rparr>"

definition create_body ::
    "WorkflowEnv \<Rightarrow> FactorCatalogCreate \<Rightarrow> UserContext \<Rightarrow> datetime \<Rightarrow> workflow_db \<Rightarrow> (FactorCatalog \<times> workflow_db) run" where
  "create_body env b user db_now db =
     mbind uuid4 (\<lambda>i.
     mbind (mlift (uuid_of_string (us_sub user))) (\<lambda>sub.
     mbind (mlift (insert_factor env user (fw_factors db) (new_factor b user i sub db_now))) (\<lambda>f.
     mret (f, db\<lparr>fw_factors := fw_factors db @ [f]\<rparr>))))"

definition create_factor ::
    "WorkflowEnv \<Rightarrow> FactorCatalogCreate \<Rightarrow> UserContext \<Rightarrow> datetime \<Rightarrow> workflow_db \<Rightarrow> world \<Rightarrow>
     (exn + FactorCatalog \<times> world) \<times> workflow_db" where
  "create_factor env b user db_now db w =
     (case rbind (require_permission ''factor_catalog'' ''write'' user) (\<lambda>_. validate_create b) of
        Inl e \<Rightarrow> (Inl e, db)
      | Inr _ \<Rightarrow> in_transaction (create_body env b user db_now db) db w)"

text \<open>
  A partial update: the outer option says whether the field was sent (\<open>exclude_unset\<close>). Sending null
  for a column that is NOT NULL fails at the flush.
\<close>

record FactorCatalogUpdate =
  fu_value :: "decimal option option"
  fu_unit :: "string option option"
  fu_applicability_note :: "string option option"
  fu_pdf_source_uri :: "string option option"
  fu_biogenic_co2_kg_per_unit :: "decimal option option"
  fu_is_licence_only :: "bool option option"
  fu_is_tbc :: "bool option option"
  fu_vintage :: "string option option"
  fu_valid_from :: "int option option"

definition sent_ok :: "('a \<Rightarrow> bool) \<Rightarrow> 'a option option \<Rightarrow> bool" where
  "sent_ok P v = pred_option (pred_option P) v"

definition validate_update :: "FactorCatalogUpdate \<Rightarrow> bool" where
  "validate_update b \<longleftrightarrow>
     sent_ok (dec_le dec_zero) (fu_value b) \<and> sent_ok (text_field 1 40) (fu_unit b) \<and>
     sent_ok (text_field 0 2000) (fu_applicability_note b) \<and> sent_ok (text_field 0 512) (fu_pdf_source_uri b) \<and>
     sent_ok (dec_le dec_zero) (fu_biogenic_co2_kg_per_unit b) \<and> sent_ok (text_field 0 40) (fu_vintage b)"

definition sent :: "'a option \<Rightarrow> 'a \<Rightarrow> 'a" where
  "sent v old = (case v of None \<Rightarrow> old | Some x \<Rightarrow> x)"

definition sent_value :: "'a option option \<Rightarrow> 'a \<Rightarrow> 'a" where
  "sent_value v old = (case v of Some (Some x) \<Rightarrow> x | _ \<Rightarrow> old)"

definition null_violation :: "FactorCatalogUpdate \<Rightarrow> bool" where
  "null_violation b \<longleftrightarrow>
     fu_unit b = Some None \<or> fu_is_licence_only b = Some None \<or> fu_is_tbc b = Some None \<or> fu_valid_from b = Some None"

definition apply_update :: "FactorCatalogUpdate \<Rightarrow> FactorCatalog \<Rightarrow> FactorCatalog" where
  "apply_update b f =
     f\<lparr>cr_value := sent (fu_value b) (cr_value f), cr_unit := sent_value (fu_unit b) (cr_unit f),
       cr_applicability_note := sent (fu_applicability_note b) (cr_applicability_note f),
       cr_biogenic_co2_kg_per_unit := sent (fu_biogenic_co2_kg_per_unit b) (cr_biogenic_co2_kg_per_unit f),
       cr_is_licence_only := sent_value (fu_is_licence_only b) (cr_is_licence_only f),
       cr_is_tbc := sent_value (fu_is_tbc b) (cr_is_tbc f), cr_vintage := sent (fu_vintage b) (cr_vintage f),
       cr_valid_from := sent_value (fu_valid_from b) (cr_valid_from f),
       fc_pdf_source_uri := sent (fu_pdf_source_uri b) (fc_pdf_source_uri f)\<rparr>"

definition draft_state :: "FactorCatalog \<Rightarrow> (string \<times> json) list" where
  "draft_state f =
     [(''value'', opt_json JFloat (cr_value f)), (''unit'', JStr (cr_unit f)),
      (''applicability_note'', opt_json JStr (cr_applicability_note f)),
      (''pdf_source_uri'', opt_json JStr (fc_pdf_source_uri f)),
      (''biogenic_co2_kg_per_unit'', opt_json JFloat (cr_biogenic_co2_kg_per_unit f)),
      (''is_licence_only'', JBool (cr_is_licence_only f)), (''is_tbc'', JBool (cr_is_tbc f)),
      (''vintage'', opt_json JStr (cr_vintage f)), (''valid_from'', JDate (cr_valid_from f))]"

text \<open>
  SQLAlchemy sends no UPDATE for attributes that keep their value, and raises \<open>StaleDataError\<close> when an
  UPDATE it sends for one row changes none.
\<close>

definition unchanged_draft :: "FactorCatalogUpdate \<Rightarrow> FactorCatalog \<Rightarrow> bool" where
  "unchanged_draft b f \<longleftrightarrow>
     (let g = apply_update b f in
      rel_option dec_eq (cr_value g) (cr_value f) \<and>
      rel_option dec_eq (cr_biogenic_co2_kg_per_unit g) (cr_biogenic_co2_kg_per_unit f) \<and>
      g\<lparr>cr_value := cr_value f, cr_biogenic_co2_kg_per_unit := cr_biogenic_co2_kg_per_unit f\<rparr> = f)"

definition flush_draft ::
    "WorkflowEnv \<Rightarrow> FactorCatalogUpdate \<Rightarrow> FactorCatalog \<Rightarrow> FactorCatalog list \<Rightarrow> FactorCatalog list res" where
  "flush_draft env b f factors =
     (if null_violation b then Inl (if we_bypass_rls env then IntegrityError else StaleDataError)
      else if unchanged_draft b f then Inr factors
      else rbind (update_factors env (\<lambda>g. cr_id g = cr_id f) (apply_update b) factors) (\<lambda>(factors', n).
           if n = 0 then Inl StaleDataError else Inr factors'))"

definition draft_by_uuid :: "workflow_db \<Rightarrow> UserContext \<Rightarrow> uuid \<Rightarrow> FactorCatalog res" where
  "draft_by_uuid db user factor_uuid =
     (case get_by_uuid db (us_tenant_id user) factor_uuid of
        None \<Rightarrow> Inl (HTTPException 404)
      | Some f \<Rightarrow> if cr_is_published f then Inl (HTTPException 422) else Inr f)"

definition patch_body ::
    "WorkflowEnv \<Rightarrow> uuid \<Rightarrow> FactorCatalogUpdate \<Rightarrow> UserContext \<Rightarrow> string \<Rightarrow> workflow_db \<Rightarrow> (FactorCatalog \<times> workflow_db) run" where
  "patch_body env factor_uuid b user cid db =
     mbind (mlift (draft_by_uuid db user factor_uuid)) (\<lambda>f.
     mbind (mlift (flush_draft env b f (fw_factors db))) (\<lambda>factors.
     mbind (mlift (uuid_of_string cid)) (\<lambda>correlation_id.
     mbind (mlift (insert_audit_log (we_tenants env) (fw_audit db)
              (factor_audit user correlation_id ''factor_draft_updated'' (cr_id f) ''PATCH'' (uuid_str factor_uuid) 200
                 (Some (draft_state f))
                 (Some (draft_state (apply_update b f) @ [(''updated_by'', JStr (us_sub user))]))))) (\<lambda>audit.
     mret (apply_update b f, db\<lparr>fw_factors := factors, fw_audit := audit\<rparr>)))))"

definition patch_factor ::
    "WorkflowEnv \<Rightarrow> uuid \<Rightarrow> FactorCatalogUpdate \<Rightarrow> UserContext \<Rightarrow> string \<Rightarrow> workflow_db \<Rightarrow> world \<Rightarrow>
     (exn + FactorCatalog \<times> world) \<times> workflow_db" where
  "patch_factor env factor_uuid b user cid db w =
     (case require_permission ''factor_catalog'' ''write'' user of
        Inl e \<Rightarrow> (Inl e, db)
      | Inr _ \<Rightarrow>
        if \<not> validate_update b then (Inl (HTTPException 422), db)
        else in_transaction (patch_body env factor_uuid b user cid db) db w)"

text \<open>\<open>session.delete(factor)\<close>: a DELETE that removes no row is a warning of SQLAlchemy, not an error.\<close>

definition delete_body ::
    "WorkflowEnv \<Rightarrow> uuid \<Rightarrow> UserContext \<Rightarrow> string \<Rightarrow> workflow_db \<Rightarrow> (unit \<times> workflow_db) run" where
  "delete_body env factor_uuid user cid db =
     mbind (mlift (draft_by_uuid db user factor_uuid)) (\<lambda>f.
     mbind (mlift (uuid_of_string cid)) (\<lambda>correlation_id.
     mbind (mlift (delete_factors env (\<lambda>g. cr_id g = cr_id f) (fw_factors db))) (\<lambda>factors.
     mbind (mlift (insert_audit_log (we_tenants env) (fw_audit db)
              (factor_audit user correlation_id ''factor_draft_deleted'' factor_uuid ''DELETE'' (uuid_str factor_uuid) 204
                 (Some [(''factor_id'', JStr (cr_factor_id f)), (''version'', JStr (cr_version f)),
                        (''gwp_set'', JStr (cr_gwp_set f)), (''source'', JStr (cr_source f)),
                        (''scope'', JInt (fc_scope f)), (''is_published'', JBool (cr_is_published f)),
                        (''deleted_by'', JStr (us_sub user))]) None))) (\<lambda>audit.
     mret ((), db\<lparr>fw_factors := factors, fw_audit := audit\<rparr>)))))"

definition delete_factor ::
    "WorkflowEnv \<Rightarrow> uuid \<Rightarrow> UserContext \<Rightarrow> string \<Rightarrow> workflow_db \<Rightarrow> world \<Rightarrow> (exn + unit \<times> world) \<times> workflow_db" where
  "delete_factor env factor_uuid user cid db w =
     (case require_permission ''factor_catalog'' ''write'' user of
        Inl e \<Rightarrow> (Inl e, db)
      | Inr _ \<Rightarrow> in_transaction (delete_body env factor_uuid user cid db) db w)"

end
