(* ===== verification/Factor_Workflow_Properties.thy ===== *)
theory Factor_Workflow_Properties
  imports Factor_Workflow
begin

text \<open>
  The reachable states of the factor workflow: the step relation of its endpoints, its invariant, and
  the theorems on the two-eyes principle, on progress and on deletion.
\<close>

section \<open>What the statements do\<close>

lemma in_transaction_cases:
  assumes "in_transaction m db w = (r, db')"
  obtains "db' = db" | x w' where "m w = Inr ((x, db'), w')" "r = Inr (x, w')"
  using assms by (auto simp: in_transaction_def split: sum.splits prod.splits)

lemma catch_exn_Inr: "catch_exn h m w = Inr x \<longleftrightarrow> m w = Inr x"
  by (auto simp: catch_exn_def split: sum.splits)

lemma numeric_column_None: "numeric_20_8_column v = Inr x \<Longrightarrow> x = None \<longleftrightarrow> v = None"
  by (auto simp: numeric_20_8_column_def rbind_eq_Inr split: option.splits)

lemma stored_factor_columns:
  assumes "stored_factor f = Inr g"
  shows "cr_id g = cr_id f" "cr_tenant_id g = cr_tenant_id f" "cr_factor_id g = cr_factor_id f"
    "cr_gwp_set g = cr_gwp_set f" "cr_is_published g = cr_is_published f" "cr_is_tbc g = cr_is_tbc f"
    "cr_is_licence_only g = cr_is_licence_only f" "cr_value g = None \<longleftrightarrow> cr_value f = None"
    "cr_valid_to g = cr_valid_to f" "fc_created_by g = fc_created_by f" "fc_published_by g = fc_published_by f"
    "fc_scope g = fc_scope f" "factor_checks g"
  using assms by (auto simp: stored_factor_def rbind_eq_Inr Let_def dest: numeric_column_None split: if_splits)

definition updated_factor :: "(FactorCatalog \<Rightarrow> bool) \<Rightarrow> (FactorCatalog \<Rightarrow> FactorCatalog) \<Rightarrow> FactorCatalog \<Rightarrow> FactorCatalog \<Rightarrow> bool" where
  "updated_factor hit upd f g \<longleftrightarrow> (if hit f then \<not> cr_is_published f \<and> stored_factor (upd f) = Inr g else g = f)"

lemma update_factors_Inr:
  "update_factors env hit upd fs = Inr (gs, n) \<Longrightarrow>
   list_all2 (updated_factor (\<lambda>f. we_bypass_rls env \<and> hit f) upd) fs gs \<and> n = length (filter (\<lambda>f. we_bypass_rls env \<and> hit f) fs)"
  by (induction fs arbitrary: gs n) (auto simp: rbind_eq_Inr updated_factor_def split: if_splits)

lemma update_factors_rls: "\<not> we_bypass_rls env \<Longrightarrow> update_factors env hit upd fs = Inr (fs, 0)"
  by (induction fs) simp_all

lemma delete_factors_Inr: "delete_factors env hit fs = Inr gs \<Longrightarrow> gs = fs"
  by (induction fs arbitrary: gs) (auto simp: rbind_eq_Inr deny_factor_delete_def split: if_splits)

definition updated_approval ::
    "WorkflowEnv \<Rightarrow> uuid \<Rightarrow> (FactorPublishApproval \<Rightarrow> FactorPublishApproval) \<Rightarrow> FactorPublishApproval \<Rightarrow>
     FactorPublishApproval \<Rightarrow> bool" where
  "updated_approval env i upd a b \<longleftrightarrow>
     (if fp_id a = i then is_pending a \<and> approval_checks env (upd a) \<and> b = upd a else b = a)"

lemma update_approval_Inr:
  "update_approval env i upd as = Inr bs \<Longrightarrow> list_all2 (updated_approval env i upd) as bs"
  by (induction as arbitrary: bs) (auto simp: rbind_eq_Inr updated_approval_def split: if_splits)

lemma scalar_one_Some: "scalar_one_or_none xs = Inr (Some x) \<Longrightarrow> xs = [x]"
  by (auto simp: scalar_one_or_none_def split: list.splits)

lemma scalar_one_None: "scalar_one_or_none xs = Inr None \<Longrightarrow> xs = []"
  by (auto simp: scalar_one_or_none_def split: list.splits)

lemma get_by_uuid_Some:
  "get_by_uuid db t i = Some f \<Longrightarrow> f \<in> set (fw_factors db) \<and> cr_tenant_id f = t \<and> cr_id f = i"
  by (auto simp: get_by_uuid_def find_Some_iff dest: nth_mem)

section \<open>Steps\<close>

text \<open>The subject of a token the service issues is the canonical text of the user's identifier.\<close>

definition canonical_user :: "UserContext \<Rightarrow> bool" where
  "canonical_user user \<longleftrightarrow> (\<exists>u. us_sub user = uuid_str u)"

inductive workflow_step :: "WorkflowEnv \<Rightarrow> workflow_db \<Rightarrow> workflow_db \<Rightarrow> bool" for env where
  create: "create_factor env b user db_now db w = (r, db') \<Longrightarrow> workflow_step env db db'"
| publishing: "canonical_user user \<Longrightarrow>
    publish_factor env mono_now i body user cid db limiter w = ((r, db'), limiter') \<Longrightarrow> workflow_step env db db'"
| reject: "reject_approval env i reason user cid db w = (r, db') \<Longrightarrow> workflow_step env db db'"
| patch: "patch_factor env i u user cid db w = (r, db') \<Longrightarrow> workflow_step env db db'"
| delete: "delete_factor env i user cid db w = (r, db') \<Longrightarrow> workflow_step env db db'"

inductive_cases workflow_stepE: "workflow_step env db db'"

text \<open>The audit row of a publication: an admin of the tenant has published the factor.\<close>

definition publication_record :: "FactorCatalog \<Rightarrow> uuid \<Rightarrow> AuditLog \<Rightarrow> bool" where
  "publication_record f u r \<longleftrightarrow>
     al_action r = ''factor_published'' \<and> al_resource_id r = cr_id f \<and> al_tenant_id r = cr_tenant_id f \<and>
     al_user_role r = ''admin'' \<and> (\<exists>s. al_after_state r = Some s \<and> map_of s ''published_by'' = Some (JStr (uuid_str u)))"

text \<open>The effect of a step on the tables.\<close>

inductive workflow_effect :: "WorkflowEnv \<Rightarrow> workflow_db \<Rightarrow> workflow_db \<Rightarrow> bool" for env where
  same: "fw_factors db' = fw_factors db \<Longrightarrow> fw_approvals db' = fw_approvals db \<Longrightarrow> workflow_effect env db db'"
| created: "fw_factors db' = fw_factors db @ [f] \<Longrightarrow> fw_approvals db' = fw_approvals db \<Longrightarrow>
    \<not> cr_is_published f \<Longrightarrow> cr_id f \<notin> cr_id ` set (fw_factors db) \<Longrightarrow> workflow_effect env db db'"
| proposed: "fw_factors db' = fw_factors db \<Longrightarrow> fw_approvals db' = fw_approvals db @ [a] \<Longrightarrow>
    insert_approval env (fw_factors db) (fw_approvals db) a = Inr () \<Longrightarrow> workflow_effect env db db'"
| rejected: "fw_factors db' = fw_factors db \<Longrightarrow> update_approval env i upd (fw_approvals db) = Inr (fw_approvals db') \<Longrightarrow>
    (\<And>a. fp_id (upd a) = fp_id a \<and> fp_decision (upd a) = ''REJECTED'') \<Longrightarrow> workflow_effect env db db'"
| patched: "update_factors env (\<lambda>g. cr_id g = i) (apply_update u) (fw_factors db) = Inr (fw_factors db', n) \<Longrightarrow>
    fw_approvals db' = fw_approvals db \<Longrightarrow> workflow_effect env db db'"
| published: "f \<in> set (fw_factors db) \<Longrightarrow> assert_publishable f = Inr () \<Longrightarrow>
    p \<in> set (fw_approvals db) \<Longrightarrow> is_pending p \<Longrightarrow> fp_factor_id p = cr_id f \<Longrightarrow> fp_tenant_id p = cr_tenant_id f \<Longrightarrow>
    fc_created_by f \<noteq> Some sub \<Longrightarrow> r \<in> set (fw_audit db') \<Longrightarrow> publication_record f sub r \<Longrightarrow>
    update_factors env (\<lambda>g. cr_id g = cr_id f \<and> cr_tenant_id g = cr_tenant_id f \<and> \<not> cr_is_published g)
      (\<lambda>g. g\<lparr>cr_is_published := True, fc_published_by := Some (uuid_str sub), fc_published_at := Some now\<rparr>)
      (fw_factors db) = Inr (fw_factors db', n) \<Longrightarrow>
    update_approval env (fp_id p) (\<lambda>a. a\<lparr>fp_decision := ''APPROVED'', fp_approved_by := Some sub, fp_approved_at := Some now\<rparr>)
      (fw_approvals db) = Inr (fw_approvals db') \<Longrightarrow> workflow_effect env db db'"

lemma create_effect: "create_factor env b user db_now db w = (r, db') \<Longrightarrow> workflow_effect env db db'"
proof -
  assume "create_factor env b user db_now db w = (r, db')"
  then consider "db' = db" | "in_transaction (create_body env b user db_now db) db w = (r, db')"
    by (auto simp: create_factor_def split: sum.splits)
  then show ?thesis
  proof cases
    case 2
    then show ?thesis
    proof (cases rule: in_transaction_cases)
      case (2 x w')
      then obtain i sub f where f: "insert_factor env user (fw_factors db) (new_factor b user i sub db_now) = Inr f"
        "db' = db\<lparr>fw_factors := fw_factors db @ [f]\<rparr>"
        by (auto simp: create_body_def mbind_eq_Inr)
      then have stored: "stored_factor (new_factor b user i sub db_now) = Inr f" and "cr_id f \<notin> cr_id ` set (fw_factors db)"
        by (auto simp: insert_factor_def rbind_eq_Inr split: if_splits)
      moreover have "\<not> cr_is_published f" using stored_factor_columns(5) [OF stored] by (simp add: new_factor_def)
      ultimately show ?thesis using f by (intro workflow_effect.created [of _ _ f]) simp_all
    qed (auto intro: same)
  qed (auto intro: same)
qed

lemma reject_effect: "reject_approval env i reason user cid db w = (r, db') \<Longrightarrow> workflow_effect env db db'"
proof -
  assume "reject_approval env i reason user cid db w = (r, db')"
  then consider "db' = db" | "in_transaction (reject_body env i reason user cid db) db w = (r, db')"
    by (auto simp: reject_approval_def split: sum.splits if_splits)
  then show ?thesis
  proof cases
    case 2
    then show ?thesis
    proof (cases rule: in_transaction_cases)
      case (2 x w')
      then obtain sub now where "update_approval env i (\<lambda>a. a\<lparr>fp_decision := ''REJECTED'', fp_approved_by := Some sub,
          fp_approved_at := Some now, fp_decision_notes := Some reason\<rparr>) (fw_approvals db) = Inr (fw_approvals db')"
        "fw_factors db' = fw_factors db"
        by (auto simp: reject_body_def mbind_eq_Inr split: option.splits if_splits)
      from rejected [OF this(2,1)] show ?thesis by simp
    qed (auto intro: same)
  qed (auto intro: same)
qed

lemma patch_effect: "patch_factor env i u user cid db w = (r, db') \<Longrightarrow> workflow_effect env db db'"
proof -
  assume "patch_factor env i u user cid db w = (r, db')"
  then consider "db' = db" | "in_transaction (patch_body env i u user cid db) db w = (r, db')"
    by (auto simp: patch_factor_def split: sum.splits if_splits)
  then show ?thesis
  proof cases
    case 2
    then show ?thesis
    proof (cases rule: in_transaction_cases)
      case (2 x w')
      then obtain f where flush: "flush_draft env u f (fw_factors db) = Inr (fw_factors db')" and "fw_approvals db' = fw_approvals db"
        by (auto simp: patch_body_def mbind_eq_Inr)
      then show ?thesis
        by (auto simp: flush_draft_def rbind_eq_Inr intro: same patched split: if_splits)
    qed (auto intro: same)
  qed (auto intro: same)
qed

lemma delete_effect: "delete_factor env i user cid db w = (r, db') \<Longrightarrow> workflow_effect env db db'"
  by (auto simp: delete_factor_def delete_body_def mbind_eq_Inr dest!: delete_factors_Inr
      elim!: in_transaction_cases intro!: same split: sum.splits)

lemma insert_audit_log_Inr: "insert_audit_log tenants rows r = Inr rows' \<Longrightarrow> rows' = rows @ [r]"
  by (auto simp: insert_audit_log_def split: if_splits)

lemma do_publish_Inr:
  assumes "do_publish env f user p cid db w = Inr ((g, db'), w')" and u: "us_sub user = uuid_str u"
    and user: "us_role user = ''admin''" "us_tenant_id user = cr_tenant_id f"
  shows "fc_created_by f \<noteq> Some u \<and> (\<exists>r\<in>set (fw_audit db'). publication_record f u r) \<and> (\<exists>now.
    update_factors env (\<lambda>g. cr_id g = cr_id f \<and> cr_tenant_id g = us_tenant_id user \<and> \<not> cr_is_published g)
      (\<lambda>g. g\<lparr>cr_is_published := True, fc_published_by := Some (uuid_str u), fc_published_at := Some now\<rparr>)
      (fw_factors db) = Inr (fw_factors db', 1) \<and>
    update_approval env (fp_id p) (\<lambda>a. a\<lparr>fp_decision := ''APPROVED'', fp_approved_by := Some u, fp_approved_at := Some now\<rparr>)
      (fw_approvals db) = Inr (fw_approvals db'))"
  using assms(1)
  by (auto simp: do_publish_def mbind_eq_Inr u uuid_of_uuid_str Let_def publication_record_def factor_audit_def user
      dest!: insert_audit_log_Inr split: if_splits option.splits)

lemma publish_effect:
  assumes "canonical_user user" and role: "us_role user = ''admin''" and run: "publish env i reason user cid db w = Inr ((x, db'), w')"
  shows "workflow_effect env db db'"
proof -
  obtain f pending where f: "get_by_uuid db (us_tenant_id user) i = Some f" "assert_publishable f = Inr ()"
    and sel: "scalar_one_or_none (pending_approvals db (us_tenant_id user) (cr_id f)) = Inr pending"
    and go: "publish_decide env f reason user cid db pending w = Inr ((x, db'), w')"
    using run by (auto simp: publish_def mbind_eq_Inr split: option.splits if_splits)
  note fdb = get_by_uuid_Some [OF f(1)]
  show ?thesis
  proof (cases pending)
    case None
    then obtain a where "fw_factors db' = fw_factors db" "fw_approvals db' = fw_approvals db @ [a]"
      "insert_approval env (fw_factors db) (fw_approvals db) a = Inr ()"
      using go by (auto simp: publish_decide_def request_approval_def mbind_eq_Inr Let_def)
    then show ?thesis by (rule proposed)
  next
    case (Some p)
    then have p: "p \<in> set (fw_approvals db)" "fp_factor_id p = cr_id f" "fp_tenant_id p = us_tenant_id user" "is_pending p"
      using sel by (auto simp: pending_approvals_def dest!: scalar_one_Some filter_eq_ConsD)
    obtain u where u: "us_sub user = uuid_str u" using assms(1) by (auto simp: canonical_user_def)
    obtain g w1 where "do_publish env f user p cid db w = Inr ((g, db'), w1)"
      using go Some by (auto simp: publish_decide_def mbind_eq_Inr split: if_splits)
    from do_publish_Inr [OF this u role] fdb [THEN conjunct2, THEN conjunct1, symmetric] obtain now r where "fc_created_by f \<noteq> Some u"
      "r \<in> set (fw_audit db')" "publication_record f u r"
      "update_factors env (\<lambda>g. cr_id g = cr_id f \<and> cr_tenant_id g = us_tenant_id user \<and> \<not> cr_is_published g)
        (\<lambda>g. g\<lparr>cr_is_published := True, fc_published_by := Some (uuid_str u), fc_published_at := Some now\<rparr>)
        (fw_factors db) = Inr (fw_factors db', 1)"
      "update_approval env (fp_id p) (\<lambda>a. a\<lparr>fp_decision := ''APPROVED'', fp_approved_by := Some u, fp_approved_at := Some now\<rparr>)
        (fw_approvals db) = Inr (fw_approvals db')"
      by blast
    with p fdb f(2) show ?thesis by (intro published [where f = f and p = p and sub = u and r = r and now = now and n = 1]) auto
  qed
qed

lemma publish_factor_effect:
  assumes "canonical_user user" and "publish_factor env t i body user cid db limiter w = ((r, db'), limiter')"
  shows "workflow_effect env db db'"
proof -
  consider "db' = db" | "us_role user = ''admin''"
      "in_transaction (catch_exn publish_http (publish env i (pq_reason_code body) user cid db)) db w = (r, db')"
    using assms(2)
    by (auto simp: publish_factor_def require_permission_def factor_permissions split: sum.splits if_splits prod.splits)
  then show ?thesis
  proof cases
    case 2
    from 2(2) show ?thesis
      using publish_effect [OF assms(1) 2(1)] by (cases rule: in_transaction_cases) (auto simp: catch_exn_Inr intro: same)
  qed (auto intro: same)
qed

lemma step_effect: "workflow_step env db db' \<Longrightarrow> workflow_effect env db db'"
  by (erule workflow_stepE)
    (auto intro: create_effect publish_factor_effect reject_effect patch_effect delete_effect)

text \<open>The audit log only grows.\<close>

lemma publish_audit:
  assumes "publish env i reason user cid db w = Inr ((x, db'), w')"
  shows "set (fw_audit db) \<subseteq> set (fw_audit db')"
proof -
  obtain f pending where go: "publish_decide env f reason user cid db pending w = Inr ((x, db'), w')"
    using assms by (auto simp: publish_def mbind_eq_Inr split: option.splits if_splits)
  then show ?thesis
    by (cases pending)
      (auto simp: publish_decide_def request_approval_def do_publish_def mbind_eq_Inr Let_def dest!: insert_audit_log_Inr
        split: if_splits option.splits)
qed

lemma step_audit: "workflow_step env db db' \<Longrightarrow> set (fw_audit db) \<subseteq> set (fw_audit db')"
proof (erule workflow_stepE)
  fix user t i body cid limiter w r limiter'
  assume "publish_factor env t i body user cid db limiter w = ((r, db'), limiter')"
  then consider "db' = db"
    | "in_transaction (catch_exn publish_http (publish env i (pq_reason_code body) user cid db)) db w = (r, db')"
    by (auto simp: publish_factor_def split: sum.splits if_splits prod.splits)
  then show ?thesis
    by cases (auto simp: catch_exn_Inr elim!: in_transaction_cases dest!: publish_audit)
qed (auto simp: create_factor_def create_body_def reject_approval_def reject_body_def patch_factor_def patch_body_def
    delete_factor_def delete_body_def mbind_eq_Inr elim!: in_transaction_cases dest!: insert_audit_log_Inr
    split: sum.splits if_splits option.splits)

section \<open>The invariant\<close>

text \<open>
  Two persons stand behind a publication: an approved request for the factor, proposed by one and
  approved by another who did not create the factor and whom the row names as publisher; the audit log
  has the publication by that person in the role of an admin.
\<close>

definition two_eyes :: "FactorPublishApproval list \<Rightarrow> AuditLog list \<Rightarrow> FactorCatalog \<Rightarrow> bool" where
  "two_eyes approvals audit f \<longleftrightarrow>
     (\<exists>a\<in>set approvals. \<exists>u. (\<exists>r\<in>set audit. publication_record f u r) \<and> fp_decision a = ''APPROVED'' \<and> fp_factor_id a = cr_id f \<and> fp_tenant_id a = cr_tenant_id f \<and>
        fp_approved_by a = Some u \<and> fc_published_by f = Some (uuid_str u) \<and> fp_proposed_by a \<noteq> u \<and>
        fc_created_by f \<noteq> Some u \<and> \<not> cr_is_tbc f \<and> (cr_value f = None \<longrightarrow> cr_is_licence_only f))"

definition workflow_ok :: "WorkflowEnv \<Rightarrow> workflow_db \<Rightarrow> bool" where
  "workflow_ok env db \<longleftrightarrow>
     distinct (map cr_id (fw_factors db)) \<and> distinct (map fp_id (fw_approvals db)) \<and>
     (\<forall>a\<in>set (fw_approvals db). approval_checks env a) \<and>
     distinct (map pending_key (filter is_pending (fw_approvals db)))"

definition workflow_inv :: "WorkflowEnv \<Rightarrow> FactorCatalog list \<Rightarrow> workflow_db \<Rightarrow> bool" where
  "workflow_inv env seed db \<longleftrightarrow>
     workflow_ok env db \<and>
     (\<forall>f\<in>set (fw_factors db). cr_is_published f \<longrightarrow> f \<in> set seed \<or> two_eyes (fw_approvals db) (fw_audit db) f)"

lemma list_all2_map_eq: "list_all2 R xs ys \<Longrightarrow> (\<And>x y. R x y \<Longrightarrow> h y = h x) \<Longrightarrow> map h ys = map h xs"
  by (induction rule: list_all2_induct) auto

lemma updated_factor_id:
  assumes "updated_factor hit upd f g" and "\<And>f. cr_id (upd f) = cr_id f"
  shows "cr_id g = cr_id f"
  using assms by (auto simp: updated_factor_def stored_factor_columns(1) split: if_splits)

text \<open>A decided request keeps its place through every step.\<close>

lemma decided_kept:
  assumes "list_all2 (updated_approval env i upd) as bs" and "a \<in> set as" and "\<not> is_pending a"
  shows "a \<in> set bs"
  using list_all2_left [OF assms(1,2)] assms(3) by (auto simp: updated_approval_def split: if_splits)

lemma two_eyes_mono:
  assumes "two_eyes as trail f" and "\<And>a. a \<in> set as \<Longrightarrow> \<not> is_pending a \<Longrightarrow> a \<in> set bs" and "set trail \<subseteq> set trail'"
  shows "two_eyes bs trail' f"
proof -
  have "a \<in> set bs" if "a \<in> set as" "fp_decision a = ''APPROVED''" for a
    using assms(2) that by (simp add: is_pending_def)
  moreover obtain a u r where "a \<in> set as" "r \<in> set trail" "publication_record f u r" "fp_decision a = ''APPROVED''"
    and rest: "fp_factor_id a = cr_id f" "fp_tenant_id a = cr_tenant_id f" "fp_approved_by a = Some u"
      "fc_published_by f = Some (uuid_str u)" "fp_proposed_by a \<noteq> u" "fc_created_by f \<noteq> Some u" "\<not> cr_is_tbc f"
      "cr_value f = None \<longrightarrow> cr_is_licence_only f"
    using assms(1) unfolding two_eyes_def by (elim bexE exE conjE) (rule that)
  ultimately have "a \<in> set bs" "\<exists>r\<in>set trail'. publication_record f u r" "fp_decision a = ''APPROVED''"
    using assms(3) by blast+
  with rest show ?thesis unfolding two_eyes_def by (intro bexI [of _ a] exI [of _ u]) simp_all
qed

text \<open>Deciding requests keeps the table consistent.\<close>

lemma pending_filter_updated:
  assumes "list_all2 (updated_approval env i upd) as bs" and "\<And>a. \<not> is_pending (upd a)"
  shows "filter is_pending bs = filter (\<lambda>a. is_pending a \<and> fp_id a \<noteq> i) as"
  using assms(1) by (induction rule: list_all2_induct) (auto simp: updated_approval_def assms(2) split: if_splits)

lemma approvals_ok_updated:
  assumes up: "list_all2 (updated_approval env i upd) as bs"
    and upd: "\<And>a. fp_id (upd a) = fp_id a" "\<And>a. \<not> is_pending (upd a)"
    and ok: "distinct (map fp_id as)" "\<forall>a\<in>set as. approval_checks env a" "distinct (map pending_key (filter is_pending as))"
  shows "distinct (map fp_id bs) \<and> (\<forall>b\<in>set bs. approval_checks env b) \<and> distinct (map pending_key (filter is_pending bs))"
proof (intro conjI)
  have "map fp_id bs = map fp_id as"
    by (rule list_all2_map_eq [OF up]) (auto simp: updated_approval_def upd(1) split: if_splits)
  with ok(1) show "distinct (map fp_id bs)" by simp
  show "\<forall>b\<in>set bs. approval_checks env b"
    using list_all2_right [OF up] ok(2) by (fastforce simp: updated_approval_def split: if_splits)
  have "filter is_pending bs = filter (\<lambda>a. fp_id a \<noteq> i) (filter is_pending as)"
    using pending_filter_updated [OF up upd(2)] by (simp add: conj_commute)
  with distinct_map_filter [OF ok(3)] show "distinct (map pending_key (filter is_pending bs))" by simp
qed

lemma insert_approval_Inr:
  assumes "insert_approval env factors rows a = Inr ()"
  shows "approval_checks env a" and "fp_id a \<notin> fp_id ` set rows"
    and "is_pending a \<Longrightarrow> pending_key a \<notin> pending_key ` {b \<in> set rows. is_pending b}"
  using assms by (auto simp: insert_approval_def split: if_splits)

lemma effect_ok:
  assumes "workflow_effect env db db'" and ok: "workflow_ok env db"
  shows "workflow_ok env db'"
  using assms(1)
proof cases
  case (proposed a)
  note a = insert_approval_Inr [OF proposed(3)]
  have old: "distinct (map fp_id (fw_approvals db))" "distinct (map pending_key (filter is_pending (fw_approvals db)))"
    using ok by (simp_all add: workflow_ok_def)
  have "distinct (map fp_id (fw_approvals db'))" unfolding proposed(2) using old(1) a(2) by simp
  moreover have "distinct (map pending_key (filter is_pending (fw_approvals db')))"
    unfolding proposed(2) using old(2) a(3) by simp
  ultimately show ?thesis using ok a(1) proposed(1,2) by (simp add: workflow_ok_def)
next
  case (rejected i upd)
  from approvals_ok_updated [OF update_approval_Inr [OF rejected(2)]] rejected(1,3) ok show ?thesis
    by (simp add: workflow_ok_def is_pending_def)
next
  case (patched i u n)
  have "map cr_id (fw_factors db') = map cr_id (fw_factors db)"
    using conjunct1 [OF update_factors_Inr [OF patched(1)]]
    by (rule list_all2_map_eq) (erule updated_factor_id, simp add: apply_update_def)
  with ok patched(2) show ?thesis by (simp add: workflow_ok_def)
next
  case (published f p sub r now n)
  have "map cr_id (fw_factors db') = map cr_id (fw_factors db)"
    using conjunct1 [OF update_factors_Inr [OF published(10)]] by (rule list_all2_map_eq) (erule updated_factor_id, simp)
  moreover have "distinct (map fp_id (fw_approvals db')) \<and> (\<forall>b\<in>set (fw_approvals db'). approval_checks env b) \<and>
      distinct (map pending_key (filter is_pending (fw_approvals db')))"
    using ok by (intro approvals_ok_updated [OF update_approval_Inr [OF published(11)]]) (simp_all add: workflow_ok_def is_pending_def)
  ultimately show ?thesis using ok by (simp add: workflow_ok_def)
qed (use ok in \<open>auto simp: workflow_ok_def\<close>)

lemma published_change:
  assumes "list_all2 (updated_factor hit upd) fs gs" and "g \<in> set gs" and "cr_is_published g"
  shows "g \<in> set fs \<or> (\<exists>f\<in>set fs. hit f \<and> \<not> cr_is_published f \<and> stored_factor (upd f) = Inr g)"
  using list_all2_right [OF assms(1,2)] by (auto simp: updated_factor_def split: if_splits)

lemma approved_two_eyes:
  assumes p: "p \<in> set as" "is_pending p" and up: "list_all2 (updated_approval env (fp_id p)
      (\<lambda>a. a\<lparr>fp_decision := ''APPROVED'', fp_approved_by := Some u, fp_approved_at := Some now\<rparr>)) as bs"
    and f: "fp_factor_id p = cr_id f" "fp_tenant_id p = cr_tenant_id f" "fc_created_by f \<noteq> Some u" "assert_publishable f = Inr ()"
    and g: "stored_factor (f\<lparr>cr_is_published := True, fc_published_by := Some (uuid_str u), fc_published_at := Some now\<rparr>) = Inr g"
    and log: "r \<in> set trail" "publication_record f u r"
  shows "two_eyes bs trail g"
proof -
  let ?b = "p\<lparr>fp_decision := ''APPROVED'', fp_approved_by := Some u, fp_approved_at := Some now\<rparr>"
  have "?b \<in> set bs" "approval_checks env ?b"
    using list_all2_left [OF up p(1)] by (auto simp: updated_approval_def)
  moreover from this(2) have "fp_proposed_by p \<noteq> u" by (auto simp: approval_checks_def)
  moreover have "\<not> cr_is_tbc f" "cr_value f = None \<longrightarrow> cr_is_licence_only f"
    using f(4) by (auto simp: assert_publishable_def split: if_splits)
  moreover have "publication_record g u r" using log(2) stored_factor_columns [OF g] by (simp add: publication_record_def)
  with log(1) have "\<exists>r\<in>set trail. publication_record g u r" by blast
  ultimately show ?thesis
    unfolding two_eyes_def using f(1-3) stored_factor_columns [OF g] by (intro bexI [of _ ?b] exI [of _ u]) simp_all
qed

lemma distinct_id: "distinct (map cr_id fs) \<Longrightarrow> f \<in> set fs \<Longrightarrow> g \<in> set fs \<Longrightarrow> cr_id f = cr_id g \<Longrightarrow> f = g"
  by (metis distinct_map inj_onD)

lemma effect_inv:
  assumes "workflow_effect env db db'" and inv: "workflow_inv env seed db" and log: "set (fw_audit db) \<subseteq> set (fw_audit db')"
  shows "workflow_inv env seed db'"
proof -
  have old: "f \<in> set seed \<or> two_eyes (fw_approvals db) (fw_audit db) f" if "f \<in> set (fw_factors db)" "cr_is_published f" for f
    using inv that by (auto simp: workflow_inv_def)
  have "g \<in> set seed \<or> two_eyes (fw_approvals db') (fw_audit db') g" if g: "g \<in> set (fw_factors db')" "cr_is_published g" for g
    using assms(1)
  proof cases
    case (proposed a)
    then show ?thesis using old [of g] g log by (auto intro: two_eyes_mono)
  next
    case (rejected i upd)
    then show ?thesis using old [of g] g log decided_kept [OF update_approval_Inr [OF rejected(2)]] by (auto intro: two_eyes_mono)
  next
    case (patched i u n)
    have "g \<in> set (fw_factors db)"
      using published_change [OF conjunct1 [OF update_factors_Inr [OF patched(1)]] g]
      by (auto dest!: stored_factor_columns(5) simp: apply_update_def g(2))
    with patched(2) old [of g] g(2) log show ?thesis by (auto intro: two_eyes_mono)
  next
    case (published f p sub r now n)
    note kept = decided_kept [OF update_approval_Inr [OF published(11)]]
    from published_change [OF conjunct1 [OF update_factors_Inr [OF published(10)]] g] show ?thesis
    proof
      assume "g \<in> set (fw_factors db)"
      then show ?thesis using old [of g] g(2) kept log by (auto intro: two_eyes_mono)
    next
      assume "\<exists>h\<in>set (fw_factors db). (we_bypass_rls env \<and> cr_id h = cr_id f \<and> cr_tenant_id h = cr_tenant_id f \<and> \<not> cr_is_published h) \<and>
        \<not> cr_is_published h \<and> stored_factor (h\<lparr>cr_is_published := True, fc_published_by := Some (uuid_str sub),
          fc_published_at := Some now\<rparr>) = Inr g"
      then have "stored_factor (f\<lparr>cr_is_published := True, fc_published_by := Some (uuid_str sub),
          fc_published_at := Some now\<rparr>) = Inr g"
        using inv published(1) by (metis distinct_id workflow_inv_def workflow_ok_def)
      from approved_two_eyes [OF published(3,4) update_approval_Inr [OF published(11)] published(5,6,7,2) this published(8,9)]
      show ?thesis ..
    qed
  next
    case same
    then show ?thesis using old [of g] g log by (auto intro: two_eyes_mono)
  next
    case (created f)
    then show ?thesis using old [of g] g log by (auto intro: two_eyes_mono)
  qed
  then show ?thesis using effect_ok [OF assms(1)] inv by (simp add: workflow_inv_def)
qed

lemma reachable_workflow:
  assumes "(workflow_step env)\<^sup>*\<^sup>* db0 db" and "workflow_ok env db0"
  shows "workflow_inv env (fw_factors db0) db"
  using assms(1)
proof induction
  case base
  then show ?case using assms(2) by (simp add: workflow_inv_def)
next
  case (step db db')
  show ?case by (rule effect_inv [OF step_effect [OF step.hyps(2)] step.IH step_audit [OF step.hyps(2)]])
qed

section \<open>Progress\<close>

lemma get_by_uuid_eq:
  assumes "distinct (map cr_id (fw_factors db))" and "f \<in> set (fw_factors db)"
  shows "get_by_uuid db (cr_tenant_id f) (cr_id f) = Some f"
proof -
  obtain g where g: "get_by_uuid db (cr_tenant_id f) (cr_id f) = Some g"
    using assms(2) by (cases "get_by_uuid db (cr_tenant_id f) (cr_id f)") (auto simp: get_by_uuid_def find_None_iff)
  from get_by_uuid_Some [OF this] assms have "g = f" by (metis distinct_id)
  with g show ?thesis by simp
qed

lemma update_factors_single:
  assumes "\<And>h. h \<in> set fs \<Longrightarrow> hit h \<longleftrightarrow> h = f" and "distinct fs" and "f \<in> set fs" and "\<not> cr_is_published f"
    and "stored_factor (upd f) = Inr g" and "we_bypass_rls env"
  shows "update_factors env hit upd fs = Inr (map (\<lambda>h. if h = f then g else h) fs, 1)"
proof -
  have none: "update_factors env hit upd hs = Inr (hs, 0)" if "\<And>h. h \<in> set hs \<Longrightarrow> \<not> hit h" for hs
    using that by (induction hs) auto
  show ?thesis using assms(1-3)
  proof (induction fs)
    case (Cons h fs)
    show ?case
    proof (cases "h = f")
      case True
      then have "update_factors env hit upd fs = Inr (fs, 0)" using Cons.prems by (intro none) auto
      moreover have "map (\<lambda>h. if h = f then g else h) fs = fs" using Cons.prems True by (intro map_idI) auto
      ultimately show ?thesis using True Cons.prems(1) [of h] assms(4-6) by simp
    qed (use Cons in auto)
  qed simp
qed

lemma update_approval_last:
  assumes "fp_id a \<notin> fp_id ` set as" and "is_pending a" and "approval_checks env (upd a)"
  shows "update_approval env (fp_id a) upd (as @ [a]) = Inr (as @ [upd a])"
  using assms by (induction as) auto

lemma stored_again:
  assumes "stored_factor f = Inr f"
  shows "stored_factor (f\<lparr>cr_is_published := True, fc_published_by := Some s, fc_published_at := Some t\<rparr>) =
    Inr (f\<lparr>cr_is_published := True, fc_published_by := Some s, fc_published_at := Some t\<rparr>)"
proof -
  obtain v b where cols: "numeric_20_8_column (cr_value f) = Inr v" "numeric_20_8_column (cr_biogenic_co2_kg_per_unit f) = Inr b"
    and f: "f = f\<lparr>cr_value := v, cr_biogenic_co2_kg_per_unit := b\<rparr>" and ok: "factor_checks f"
    using assms by (auto simp: stored_factor_def rbind_eq_Inr Let_def split: if_splits)
  have "v = cr_value f" "b = cr_biogenic_co2_kg_per_unit f" by (subst f, simp)+
  with cols ok show ?thesis by (simp add: stored_factor_def factor_checks_def)
qed

text \<open>An admin of the tenant, registered, with a canonical subject and a well-formed correlation identifier.\<close>

definition admin_request :: "WorkflowEnv \<Rightarrow> uuid \<Rightarrow> UserContext \<Rightarrow> uuid \<Rightarrow> string \<Rightarrow> bool" where
  "admin_request env tenant user u cid \<longleftrightarrow>
     us_role user = ''admin'' \<and> us_tenant_id user = tenant \<and> us_sub user = uuid_str u \<and> u \<in> set (we_users env) \<and>
     tenant \<in> set (we_tenants env) \<and> (\<exists>c. uuid_of_string cid = Inr c)"

lemma admin_audit:
  assumes "admin_request env tenant user u cid"
  shows "insert_audit_log (we_tenants env) rows (factor_audit user c act rid m path st bef aft) =
    Inr (rows @ [factor_audit user c act rid m path st bef aft])"
  using assms py_len_le [of "''admin''"] by (simp add: admin_request_def insert_audit_log_def factor_audit_def)

lemma admin_permitted: "admin_request env tenant user u cid \<Longrightarrow> require_permission ''factor_catalog'' ''publish'' user = Inr user"
  by (simp add: admin_request_def require_permission_def factor_permissions)

lemma propose_returns:
  assumes "admin_request env (cr_tenant_id f) user u cid" and f: "f \<in> set (fw_factors db)" "\<not> cr_is_published f"
      "assert_publishable f = Inr ()"
    and ok: "workflow_ok env db" and none: "pending_approvals db (cr_tenant_id f) (cr_id f) = []"
    and fresh: "w_uuid w (w_uuids w) \<notin> fp_id ` set (fw_approvals db)"
  shows "\<exists>a db1 w1. publish env (cr_id f) reason user cid db w = Inr ((PublishResultApprovalRequested (fp_id a), db1), w1) \<and>
    fw_factors db1 = fw_factors db \<and> fw_approvals db1 = fw_approvals db @ [a] \<and> is_pending a \<and> fp_proposed_by a = u \<and>
    fp_approved_by a = None \<and> fp_tenant_id a = cr_tenant_id f \<and> fp_factor_id a = cr_id f \<and> approval_checks env a \<and>
    fp_id a \<notin> fp_id ` set (fw_approvals db)"
proof -
  obtain c where adm: "us_tenant_id user = cr_tenant_id f" "us_sub user = uuid_str u" "u \<in> set (we_users env)"
    "cr_tenant_id f \<in> set (we_tenants env)" "uuid_of_string cid = Inr c"
    using assms(1) by (auto simp: admin_request_def)
  let ?a = "\<lparr>fp_id = w_uuid w (w_uuids w), fp_tenant_id = cr_tenant_id f, fp_factor_id = cr_id f, fp_proposed_by = u,
      fp_approved_by = None, fp_approved_at = None, fp_decision = ''PENDING'', fp_decision_notes = None,
      fp_correlation_id = c, fp_reason_code = Some reason\<rparr>"
  have checks: "approval_checks env ?a" using adm by (simp add: approval_checks_def)
  have "pending_key ?a \<notin> pending_key ` {b \<in> set (fw_approvals db). is_pending b}"
    using none by (auto simp: pending_approvals_def filter_empty_conv pending_key_def)
  then have ins: "insert_approval env (fw_factors db) (fw_approvals db) ?a = Inr ()"
    using checks f(1) fresh by (simp add: insert_approval_def)
  have "get_by_uuid db (cr_tenant_id f) (cr_id f) = Some f" using get_by_uuid_eq ok f(1) by (auto simp: workflow_ok_def)
  then show ?thesis
    using f(2,3) none ins checks fresh
    by (intro exI [of _ ?a])
      (simp add: publish_def adm uuid_of_uuid_str scalar_one_or_none_def publish_decide_def request_approval_def mbind_def
        mlift_def mret_def uuid4_def Let_def is_pending_def admin_audit [OF assms(1)])
qed

text \<open>The second call: with a role that bypasses row-level security it publishes, else it meets no row.\<close>

lemma approve_returns:
  assumes "admin_request env (cr_tenant_id f) user u cid" and f: "f \<in> set (fw_factors db)" "\<not> cr_is_published f"
      "assert_publishable f = Inr ()" "stored_factor f = Inr f" "fc_created_by f \<noteq> Some u"
    and ok: "distinct (map cr_id (fw_factors db))" and as: "fw_approvals db = as @ [a]"
    and none: "filter (\<lambda>b. fp_factor_id b = cr_id f \<and> fp_tenant_id b = cr_tenant_id f \<and> is_pending b) as = []"
    and a: "is_pending a" "fp_proposed_by a \<noteq> u" "fp_tenant_id a = cr_tenant_id f" "fp_factor_id a = cr_id f"
      "approval_checks env a" "fp_id a \<notin> fp_id ` set as"
  shows "if we_bypass_rls env
    then \<exists>g db1 w1 now. publish env (cr_id f) reason user cid db w = Inr ((PublishResultPublished g, db1), w1) \<and>
      g = f\<lparr>cr_is_published := True, fc_published_by := Some (uuid_str u), fc_published_at := Some now\<rparr> \<and>
      fw_factors db1 = map (\<lambda>h. if h = f then g else h) (fw_factors db) \<and>
      fw_approvals db1 = as @ [a\<lparr>fp_decision := ''APPROVED'', fp_approved_by := Some u, fp_approved_at := Some now\<rparr>] \<and>
      (\<exists>r\<in>set (fw_audit db1). publication_record f u r)
    else publish env (cr_id f) reason user cid db w = Inl PublishRaceConflictError"
proof -
  obtain c where adm: "us_tenant_id user = cr_tenant_id f" "us_sub user = uuid_str u" "u \<in> set (we_users env)"
    "cr_tenant_id f \<in> set (we_tenants env)" "uuid_of_string cid = Inr c" "us_role user = ''admin''"
    using assms(1) by (auto simp: admin_request_def)
  let ?now = "DateTime (w_clock w (w_ticks w)) True"
  let ?g = "f\<lparr>cr_is_published := True, fc_published_by := Some (uuid_str u), fc_published_at := Some ?now\<rparr>"
  let ?fs = "map (\<lambda>h. if h = f then ?g else h) (fw_factors db)"
  have get: "get_by_uuid db (cr_tenant_id f) (cr_id f) = Some f" by (rule get_by_uuid_eq [OF ok f(1)])
  have pend: "pending_approvals db (cr_tenant_id f) (cr_id f) = [a]"
    using none a by (simp add: pending_approvals_def as)
  note run = publish_def adm get f(2,3) pend scalar_one_or_none_def publish_decide_def uuid_str_inj do_publish_def mbind_def
    now_utc_def mlift_def mret_def as uuid_of_uuid_str admin_audit [OF assms(1)] Let_def
  show ?thesis
  proof (cases "we_bypass_rls env")
    case True
    have same: "h \<in> set (fw_factors db) \<Longrightarrow> cr_id h = cr_id f \<longleftrightarrow> h = f" for h using distinct_id [OF ok _ f(1)] by auto
    have upd: "update_factors env (\<lambda>h. cr_id h = cr_id f \<and> cr_tenant_id h = cr_tenant_id f \<and> \<not> cr_is_published h)
        (\<lambda>h. h\<lparr>cr_is_published := True, fc_published_by := Some (uuid_str u), fc_published_at := Some ?now\<rparr>)
        (fw_factors db) = Inr (?fs, 1)"
      by (rule update_factors_single)
        (use same f(1,2) ok stored_again [OF f(4)] True in \<open>auto simp: distinct_map\<close>)
    have app: "update_approval env (fp_id a) (\<lambda>a. a\<lparr>fp_decision := ''APPROVED'', fp_approved_by := Some u,
        fp_approved_at := Some ?now\<rparr>) (as @ [a]) =
        Inr (as @ [a\<lparr>fp_decision := ''APPROVED'', fp_approved_by := Some u, fp_approved_at := Some ?now\<rparr>])"
      using a(2,5) adm(3) by (intro update_approval_last a(1,6)) (simp add: approval_checks_def)
    have row: "find (\<lambda>h. cr_id h = cr_id f) ?fs = Some ?g"
    proof -
      have "find (\<lambda>h. cr_id h = cr_id f) (map (\<lambda>h. if h = f then ?g else h) hs) = Some ?g"
        if "f \<in> set hs" "set hs \<subseteq> set (fw_factors db)" for hs
        using that same by (induction hs) auto
      from this [OF f(1)] show ?thesis by blast
    qed
    let ?r = "factor_audit user c ''factor_published'' (cr_id f) ''POST'' (uuid_str (cr_id f) @ ''/publish'') 200 None
      (Some [(''factor_id'', JStr (cr_factor_id f)), (''version'', JStr (cr_version f)),
             (''gwp_set'', JStr (cr_gwp_set f)), (''source'', JStr (cr_source f)), (''scope'', JInt (fc_scope f)),
             (''published_by'', JStr (uuid_str u)), (''published_at'', JTime ?now),
             (''reason_code'', opt_json JStr (fp_reason_code a)), (''approved_by'', JStr (uuid_str u)),
             (''approval_id'', JStr (uuid_str (fp_id a)))])"
    have "publish env (cr_id f) reason user cid db w = Inr ((PublishResultPublished ?g,
        \<lparr>fw_factors = ?fs, fw_approvals = as @ [a\<lparr>fp_decision := ''APPROVED'', fp_approved_by := Some u, fp_approved_at := Some ?now\<rparr>],
         fw_audit = fw_audit db @ [?r]\<rparr>), w\<lparr>w_ticks := Suc (w_ticks w)\<rparr>)"
      using a(2) f(5) by (simp add: run upd app row)
    moreover have "publication_record f u ?r" by (simp add: publication_record_def factor_audit_def adm)
    ultimately have "\<exists>g db1 w1 now. publish env (cr_id f) reason user cid db w = Inr ((PublishResultPublished g, db1), w1) \<and>
      g = f\<lparr>cr_is_published := True, fc_published_by := Some (uuid_str u), fc_published_at := Some now\<rparr> \<and>
      fw_factors db1 = map (\<lambda>h. if h = f then g else h) (fw_factors db) \<and>
      fw_approvals db1 = as @ [a\<lparr>fp_decision := ''APPROVED'', fp_approved_by := Some u, fp_approved_at := Some now\<rparr>] \<and>
      (\<exists>r\<in>set (fw_audit db1). publication_record f u r)"
      by (intro exI conjI) (assumption, simp_all)
    with True show ?thesis by (simp only: if_True)
  next
    case False
    then show ?thesis using a(2) f(5) by (simp add: run update_factors_rls)
  qed
qed

lemma published_fetched:
  assumes "g \<in> set fs" and "cr_is_published g" and "cr_valid_to g = None"
  shows "\<exists>rec. adapter_fetch (map CatalogRow.truncate fs) (cr_tenant_id g) (cr_factor_id g) (cr_gwp_set g) None = Inr rec"
proof -
  have "CatalogRow.truncate g \<in> set (filter (\<lambda>r. cr_tenant_id r = cr_tenant_id g \<and> cr_factor_id r = cr_factor_id g \<and>
      cr_gwp_set r = cr_gwp_set g \<and> cr_is_published r \<and> cr_valid_to r = None) (map CatalogRow.truncate fs))"
    unfolding set_filter set_map mem_Collect_eq
  proof
    show "CatalogRow.truncate g \<in> CatalogRow.truncate ` set fs" by (rule imageI) (rule assms(1))
  qed (simp add: CatalogRow.defs assms(2,3))
  then have "select_factor (map CatalogRow.truncate fs) (cr_tenant_id g) (cr_factor_id g) (cr_gwp_set g) \<noteq> None"
    unfolding select_factor_def latest_None by (metis empty_iff empty_set)
  then show ?thesis by (auto simp: adapter_fetch_def row_to_factor_record_ok)
qed

lemma publish_factor_call:
  assumes "admin_request env tenant user u cid" and "is_allowed t (''publish:user:'' @ us_sub user) limiter = (True, limiter')"
    and "validate_publish_request body"
  shows "publish_factor env t i body user cid db limiter w =
    (in_transaction (catch_exn publish_http (publish env i (pq_reason_code body) user cid db)) db w, limiter')"
  unfolding publish_factor_def admin_permitted [OF assms(1)] assms(2) Let_def using assms(3) by simp

definition publication_done :: "FactorCatalog \<Rightarrow> workflow_db \<Rightarrow> FactorCatalog \<Rightarrow> bool" where
  "publication_done f db g \<longleftrightarrow>
     g \<in> set (fw_factors db) \<and> cr_id g = cr_id f \<and> cr_is_published g \<and> two_eyes (fw_approvals db) (fw_audit db) g \<and>
     (\<exists>rec. adapter_fetch (map CatalogRow.truncate (fw_factors db)) (cr_tenant_id f) (cr_factor_id f) (cr_gwp_set f) None = Inr rec)"

lemma publish_twice:
  assumes "workflow_ok env db" and "f \<in> set (fw_factors db)" and "\<not> cr_is_published f" and "assert_publishable f = Inr ()"
    and "stored_factor f = Inr f" and "cr_valid_to f = None"
    and "pending_approvals db (cr_tenant_id f) (cr_id f) = []"
    and "admin_request env (cr_tenant_id f) user1 u1 cid1" and "admin_request env (cr_tenant_id f) user2 u2 cid2"
    and "u1 \<noteq> u2" and "fc_created_by f \<noteq> Some u2"
    and "is_allowed t1 (''publish:user:'' @ us_sub user1) limiter = (True, limiter1)"
    and "is_allowed t2 (''publish:user:'' @ us_sub user2) limiter1 = (True, limiter2)"
    and "w_uuid w (w_uuids w) \<notin> fp_id ` set (fw_approvals db)"
    and "validate_publish_request body1" and "validate_publish_request body2"
  shows "\<exists>i w1 db1.
    publish_factor env t1 (cr_id f) body1 user1 cid1 db limiter w =
      ((Inr (PublishResultApprovalRequested i, w1), db1), limiter1) \<and>
    (if we_bypass_rls env
     then \<exists>g w2 db2. publish_factor env t2 (cr_id f) body2 user2 cid2 db1 limiter1 w1 =
       ((Inr (PublishResultPublished g, w2), db2), limiter2) \<and> publication_done f db2 g
     else publish_factor env t2 (cr_id f) body2 user2 cid2 db1 limiter1 w1 = ((Inl (HTTPException 409), db1), limiter2))"
proof -
  obtain a db1 w1 where p1: "publish env (cr_id f) (pq_reason_code body1) user1 cid1 db w = Inr ((PublishResultApprovalRequested (fp_id a), db1), w1)"
    and db1: "fw_factors db1 = fw_factors db" "fw_approvals db1 = fw_approvals db @ [a]"
    and a: "is_pending a" "fp_proposed_by a = u1" "fp_tenant_id a = cr_tenant_id f" "fp_factor_id a = cr_id f"
      "approval_checks env a" "fp_id a \<notin> fp_id ` set (fw_approvals db)"
    using propose_returns [OF assms(8,2,3,4,1,7,14)] by blast
  have first: "publish_factor env t1 (cr_id f) body1 user1 cid1 db limiter w =
      ((Inr (PublishResultApprovalRequested (fp_id a), w1), db1), limiter1)"
    using p1 by (simp add: publish_factor_call [OF assms(8,12,15)] in_transaction_def catch_exn_def)
  have "distinct (map cr_id (fw_factors db1))" "f \<in> set (fw_factors db1)"
    "filter (\<lambda>b. fp_factor_id b = cr_id f \<and> fp_tenant_id b = cr_tenant_id f \<and> is_pending b) (fw_approvals db) = []" "fp_proposed_by a \<noteq> u2"
    using assms(1,2,7,10) db1(1) a(2) by (auto simp: workflow_ok_def pending_approvals_def)
  note second = approve_returns [OF assms(9) this(2) assms(3-5,11) this(1) db1(2) this(3) a(1) this(4) a(3-6),
      of "pq_reason_code body2" w1]
  note call = publish_factor_call [OF assms(9,13,16)] in_transaction_def catch_exn_def
  show ?thesis
  proof (cases "we_bypass_rls env")
    case True
    then obtain g db2 w2 now where p2: "publish env (cr_id f) (pq_reason_code body2) user2 cid2 db1 w1 = Inr ((PublishResultPublished g, db2), w2)"
      and g: "g = f\<lparr>cr_is_published := True, fc_published_by := Some (uuid_str u2), fc_published_at := Some now\<rparr>"
      and db2: "fw_factors db2 = map (\<lambda>h. if h = f then g else h) (fw_factors db1)"
        "fw_approvals db2 = fw_approvals db @ [a\<lparr>fp_decision := ''APPROVED'', fp_approved_by := Some u2, fp_approved_at := Some now\<rparr>]"
      and log: "\<exists>r\<in>set (fw_audit db2). publication_record f u2 r"
      using second unfolding if_P [OF True] by (elim exE conjE) (rule that)
    have in2: "g \<in> set (fw_factors db2)" using assms(2) by (simp add: db2 db1)
    moreover have "\<exists>r\<in>set (fw_audit db2). publication_record g u2 r" using log by (simp add: publication_record_def g)
    then have "two_eyes (fw_approvals db2) (fw_audit db2) g"
      using a assms(4,10,11) by (auto simp: two_eyes_def db2 g assert_publishable_def split: if_splits)
    ultimately have "publication_done f db2 g"
      using published_fetched [OF in2] assms(6) by (simp add: publication_done_def g)
    moreover have "publish_factor env t2 (cr_id f) body2 user2 cid2 db1 limiter1 w1 = ((Inr (PublishResultPublished g, w2), db2), limiter2)"
      by (simp add: call p2)
    ultimately show ?thesis unfolding if_P [OF True] using first by (intro exI conjI)
  next
    case False
    have "publish_factor env t2 (cr_id f) body2 user2 cid2 db1 limiter1 w1 = ((Inl (HTTPException 409), db1), limiter2)"
      using second unfolding if_not_P [OF False] by (simp add: call publish_http_def)
    with first show ?thesis unfolding if_not_P [OF False] by (intro exI conjI)
  qed
qed

subsection \<open>A small workflow\<close>

definition demo_wenv :: WorkflowEnv where
  "demo_wenv = \<lparr>we_tenants = [1], we_users = [5, 6, 7], we_bypass_rls = True\<rparr>"

definition demo_wuser :: "uuid \<Rightarrow> string \<Rightarrow> UserContext" where
  "demo_wuser u role = \<lparr>us_sub = uuid_str u, us_role = role, us_tenant_id = 1\<rparr>"

definition demo_body :: FactorCatalogPublishRequest where
  "demo_body = \<lparr>pq_reason_code = ''VERSION_BUMP'', pq_publish_notes = None\<rparr>"

lemma demo_body_ok: "validate_publish_request demo_body"
  by (simp add: validate_publish_request_def demo_body_def PUBLISH_REASON_CODES_def)

definition demo_draft :: FactorCatalog where
  "demo_draft =
     \<lparr>cr_id = 9, cr_tenant_id = 1, cr_factor_id = ''F'', cr_version = ''1'', cr_value = Some (Dec False 250000000 (- 8)),
      cr_unit = ''kg'', cr_source = ''DEFRA'', cr_gwp_set = ''AR6'', cr_biogenic_co2_kg_per_unit = None,
      cr_vintage = Some ''2025'', cr_applicability_note = None, cr_is_tbc = False, cr_is_licence_only = False,
      cr_is_published = False, cr_valid_from = 1, cr_valid_to = None, fc_substance = ''CO2'', fc_scope = 1,
      fc_category = ''combustion'', fc_pdf_source_uri = None, fc_created_at = DateTime 0 True, fc_created_by = Some 7,
      fc_published_at = None, fc_published_by = None\<rparr>"

definition demo_wdb :: workflow_db where
  "demo_wdb = \<lparr>fw_factors = [demo_draft], fw_approvals = [], fw_audit = []\<rparr>"

definition demo_wworld :: world where
  "demo_wworld = \<lparr>w_uuid = of_nat, w_clock = int, w_uuids = 0, w_ticks = 0\<rparr>"

lemma demo_draft_facts:
  "stored_factor demo_draft = Inr demo_draft" "assert_publishable demo_draft = Inr ()" "\<not> cr_is_published demo_draft"
  "cr_id demo_draft = 9" "cr_tenant_id demo_draft = 1" "cr_valid_to demo_draft = None" "fc_created_by demo_draft = Some 7"
  "cr_factor_id demo_draft = ''F''" "cr_gwp_set demo_draft = ''AR6''"
  by (simp_all add: demo_draft_def stored_factor_def numeric_20_8_column_def numeric_20_8_def factor_checks_def
      FACTOR_SOURCES_def assert_publishable_def)

lemma demo_workflow_ok: "workflow_ok demo_wenv demo_wdb"
  by (simp add: workflow_ok_def demo_wdb_def)

lemma demo_admin: "u = 5 \<or> u = 6 \<Longrightarrow> admin_request demo_wenv 1 (demo_wuser u ''admin'') u (uuid_str 3)"
  by (auto simp: admin_request_def demo_wuser_def demo_wenv_def uuid_of_uuid_str)

lemma demo_limiter:
  "is_allowed 0 k1 (sliding_window_init 60 10) = (True, snd (is_allowed 0 k1 (sliding_window_init 60 10)))"
  "is_allowed 1 k2 (snd (is_allowed 0 k1 (sliding_window_init 60 10))) =
     (True, snd (is_allowed 1 k2 (snd (is_allowed 0 k1 (sliding_window_init 60 10)))))"
  by (simp_all add: is_allowed_def sliding_window_init_def Let_def)

text \<open>The same environment with a database role that is subject to row-level security.\<close>

definition demo_app_wenv :: WorkflowEnv where
  "demo_app_wenv = demo_wenv\<lparr>we_bypass_rls := False\<rparr>"

lemma demo_publish_premises:
  "demo_draft \<in> set (fw_factors demo_wdb)" "pending_approvals demo_wdb (cr_tenant_id demo_draft) (cr_id demo_draft) = []"
  "w_uuid demo_wworld (w_uuids demo_wworld) \<notin> fp_id ` set (fw_approvals demo_wdb)"
  "admin_request demo_wenv (cr_tenant_id demo_draft) (demo_wuser 5 ''admin'') 5 (uuid_str 3)"
  "admin_request demo_wenv (cr_tenant_id demo_draft) (demo_wuser 6 ''admin'') 6 (uuid_str 3)"
  "(5 :: uuid) \<noteq> 6" "fc_created_by demo_draft \<noteq> Some 6"
  by (simp_all add: demo_wdb_def pending_approvals_def demo_draft_facts demo_admin)

lemma demo_app_premises:
  "workflow_ok demo_app_wenv demo_wdb" "\<not> we_bypass_rls demo_app_wenv"
  "admin_request demo_app_wenv (cr_tenant_id demo_draft) (demo_wuser 5 ''admin'') 5 (uuid_str 3)"
  "admin_request demo_app_wenv (cr_tenant_id demo_draft) (demo_wuser 6 ''admin'') 6 (uuid_str 3)"
  using demo_publish_premises(4,5)
  by (simp_all add: demo_app_wenv_def workflow_ok_def demo_wdb_def admin_request_def)

lemma demo_bypass: "we_bypass_rls demo_wenv"
  by (simp add: demo_wenv_def)

lemmas demo_proposal = demo_publish_premises(1) demo_draft_facts(3,2,1,6) demo_publish_premises(2)

lemmas demo_approval = demo_publish_premises(6,7) demo_limiter demo_publish_premises(3) demo_body_ok demo_body_ok

lemma demo_publication:
  "\<exists>i w1 db1 g w2 db2 l1 l2.
    publish_factor demo_wenv 0 9 demo_body (demo_wuser 5 ''admin'') (uuid_str 3) demo_wdb (sliding_window_init 60 10)
      demo_wworld = ((Inr (PublishResultApprovalRequested i, w1), db1), l1) \<and>
    publish_factor demo_wenv 1 9 demo_body (demo_wuser 6 ''admin'') (uuid_str 3) db1 l1 w1 =
      ((Inr (PublishResultPublished g, w2), db2), l2) \<and> publication_done demo_draft db2 g"
  using publish_twice [OF demo_workflow_ok demo_proposal demo_publish_premises(4,5) demo_approval]
  unfolding demo_draft_facts(4) if_P [OF demo_bypass] by (elim exE conjE) (intro exI conjI)

text \<open>
  C29. The two-eyes principle. From any consistent state, whatever sequence of creations, updates,
  deletions, proposals, approvals and rejections the endpoints carry out, a factor that the SQL
  adapter hands to a calculation is a row that was there from the start, unchanged, or one that was
  published, on the request of one person, by another who did not create it and whom the audit log
  records as an admin of the tenant, with a value (or licence only) and not to be confirmed.
\<close>

theorem factor_two_eyes:
  assumes "(workflow_step env)\<^sup>*\<^sup>* db0 db" and "workflow_ok env db0"
    and "adapter_fetch (map CatalogRow.truncate (fw_factors db)) tenant_id factor_id gwp_set vintage = Inr rec"
  shows "\<exists>f\<in>set (fw_factors db). cr_tenant_id f = tenant_id \<and> cr_factor_id f = factor_id \<and> cr_is_published f \<and>
    fr_value rec = cr_value f \<and> fr_factor_db_id rec = Some (cr_id f) \<and>
    (f \<in> set (fw_factors db0) \<or> two_eyes (fw_approvals db) (fw_audit db) f)"
proof -
  obtain f where "f \<in> set (fw_factors db)" "cr_tenant_id f = tenant_id" "cr_factor_id f = factor_id" "cr_is_published f"
    "row_to_factor_record (CatalogRow.truncate f) = Inr rec"
    using adapter_fetch_row [OF assms(3)] by (auto simp: CatalogRow.defs)
  moreover from this(5) have "fr_value rec = cr_value f" "fr_factor_db_id rec = Some (cr_id f)"
    by (auto simp: row_to_factor_record_ok CatalogRow.defs)
  ultimately show ?thesis
    using reachable_workflow [OF assms(1,2)] by (auto simp: workflow_inv_def)
qed

theorem factor_two_eyes_witness:
  "\<exists>db rec f. (workflow_step demo_wenv)\<^sup>*\<^sup>* demo_wdb db \<and>
     adapter_fetch (map CatalogRow.truncate (fw_factors db)) 1 ''F'' ''AR6'' None = Inr rec \<and>
     f \<in> set (fw_factors db) \<and> cr_is_published f \<and> two_eyes (fw_approvals db) (fw_audit db) f"
proof -
  obtain i w1 db1 g w2 db2 l1 l2 rec where runs:
    "publish_factor demo_wenv 0 9 demo_body (demo_wuser 5 ''admin'') (uuid_str 3) demo_wdb (sliding_window_init 60 10)
      demo_wworld = ((Inr (PublishResultApprovalRequested i, w1), db1), l1)"
    "publish_factor demo_wenv 1 9 demo_body (demo_wuser 6 ''admin'') (uuid_str 3) db1 l1 w1 =
      ((Inr (PublishResultPublished g, w2), db2), l2)"
    and rec: "adapter_fetch (map CatalogRow.truncate (fw_factors db2)) 1 ''F'' ''AR6'' None = Inr rec"
    using demo_publication by (auto simp: publication_done_def demo_draft_facts)
  have "canonical_user (demo_wuser u r)" for u r by (auto simp: canonical_user_def demo_wuser_def)
  then have reach: "(workflow_step demo_wenv)\<^sup>*\<^sup>* demo_wdb db2"
    using workflow_step.publishing [OF _ runs(1)] workflow_step.publishing [OF _ runs(2)]
    by (meson r_into_rtranclp rtranclp.rtrancl_into_rtrancl)
  obtain f where "f \<in> set (fw_factors db2)" "cr_is_published f"
    "f \<in> set (fw_factors demo_wdb) \<or> two_eyes (fw_approvals db2) (fw_audit db2) f"
    using factor_two_eyes [OF reach demo_workflow_ok rec] by blast
  with reach rec show ?thesis by (auto simp: demo_wdb_def demo_draft_facts)
qed

text \<open>
  C30. What two admins achieve. For a publishable draft without a pending request, a proposal of one
  registered admin of the tenant succeeds, and then an approval of another who did not create the
  factor, given valid bodies, a limiter that grants the calls and a new identifier: if the application
  connects with a role that bypasses row-level security, the approval publishes the factor and the
  look-up of the SQL adapter no longer misses it; with any other role the UPDATE meets no row, because
  the table has no policy for it, and the approval ends in status 409 and changes nothing. (The user of
  \<open>docker-compose.yml\<close> is a superuser of its database; the role of real deployments, according to the
  integration tests, is not.)
\<close>

theorem two_admins_publish:
  assumes "workflow_ok env db" and "f \<in> set (fw_factors db)" and "\<not> cr_is_published f" and "assert_publishable f = Inr ()"
    and "stored_factor f = Inr f" and "cr_valid_to f = None"
    and "pending_approvals db (cr_tenant_id f) (cr_id f) = []"
    and "admin_request env (cr_tenant_id f) user1 u1 cid1" and "admin_request env (cr_tenant_id f) user2 u2 cid2"
    and "u1 \<noteq> u2" and "fc_created_by f \<noteq> Some u2"
    and "is_allowed t1 (''publish:user:'' @ us_sub user1) limiter = (True, limiter1)"
    and "is_allowed t2 (''publish:user:'' @ us_sub user2) limiter1 = (True, limiter2)"
    and "w_uuid w (w_uuids w) \<notin> fp_id ` set (fw_approvals db)"
    and "validate_publish_request body1" and "validate_publish_request body2"
  shows "\<exists>i w1 db1.
    publish_factor env t1 (cr_id f) body1 user1 cid1 db limiter w =
      ((Inr (PublishResultApprovalRequested i, w1), db1), limiter1) \<and>
    (if we_bypass_rls env
     then \<exists>g w2 db2. publish_factor env t2 (cr_id f) body2 user2 cid2 db1 limiter1 w1 =
       ((Inr (PublishResultPublished g, w2), db2), limiter2) \<and> publication_done f db2 g
     else publish_factor env t2 (cr_id f) body2 user2 cid2 db1 limiter1 w1 = ((Inl (HTTPException 409), db1), limiter2))"
  by (rule publish_twice [OF assms])

theorem two_admins_publish_witness:
  "(\<exists>i w1 db1 g w2 db2 l1 l2.
    publish_factor demo_wenv 0 9 demo_body (demo_wuser 5 ''admin'') (uuid_str 3) demo_wdb (sliding_window_init 60 10)
      demo_wworld = ((Inr (PublishResultApprovalRequested i, w1), db1), l1) \<and>
    publish_factor demo_wenv 1 9 demo_body (demo_wuser 6 ''admin'') (uuid_str 3) db1 l1 w1 =
      ((Inr (PublishResultPublished g, w2), db2), l2) \<and> publication_done demo_draft db2 g) \<and>
   (\<exists>i w1 db1 l1 l2.
    publish_factor demo_app_wenv 0 9 demo_body (demo_wuser 5 ''admin'') (uuid_str 3) demo_wdb (sliding_window_init 60 10)
      demo_wworld = ((Inr (PublishResultApprovalRequested i, w1), db1), l1) \<and>
    publish_factor demo_app_wenv 1 9 demo_body (demo_wuser 6 ''admin'') (uuid_str 3) db1 l1 w1 =
      ((Inl (HTTPException 409), db1), l2))"
proof
  show "\<exists>i w1 db1 g w2 db2 l1 l2.
    publish_factor demo_wenv 0 9 demo_body (demo_wuser 5 ''admin'') (uuid_str 3) demo_wdb (sliding_window_init 60 10)
      demo_wworld = ((Inr (PublishResultApprovalRequested i, w1), db1), l1) \<and>
    publish_factor demo_wenv 1 9 demo_body (demo_wuser 6 ''admin'') (uuid_str 3) db1 l1 w1 =
      ((Inr (PublishResultPublished g, w2), db2), l2) \<and> publication_done demo_draft db2 g"
    using two_admins_publish [OF demo_workflow_ok demo_proposal demo_publish_premises(4,5) demo_approval]
    unfolding demo_draft_facts(4) if_P [OF demo_bypass] by (elim exE conjE) (intro exI conjI)
  show "\<exists>i w1 db1 l1 l2.
    publish_factor demo_app_wenv 0 9 demo_body (demo_wuser 5 ''admin'') (uuid_str 3) demo_wdb (sliding_window_init 60 10)
      demo_wworld = ((Inr (PublishResultApprovalRequested i, w1), db1), l1) \<and>
    publish_factor demo_app_wenv 1 9 demo_body (demo_wuser 6 ''admin'') (uuid_str 3) db1 l1 w1 =
      ((Inl (HTTPException 409), db1), l2)"
    using two_admins_publish [OF demo_app_premises(1) demo_proposal demo_app_premises(3,4) demo_approval]
    unfolding demo_draft_facts(4) if_not_P [OF demo_app_premises(2)] by (elim exE conjE) (intro exI conjI)
qed

section \<open>Rejection\<close>

lemma update_approval_hits:
  "update_approval env i upd as = Inr bs \<Longrightarrow> a \<in> set as \<Longrightarrow> fp_id a = i \<Longrightarrow> is_pending a \<and> approval_checks env (upd a)"
  by (drule update_approval_Inr, drule (1) list_all2_left) (auto simp: updated_approval_def)

text \<open>A patch leaves the requests as they are, the pending request for the patched draft included.\<close>

lemma patch_keeps_requests: "patch_factor env i u user cid db w = (r, db') \<Longrightarrow> fw_approvals db' = fw_approvals db"
  by (auto simp: patch_factor_def patch_body_def mbind_eq_Inr elim!: in_transaction_cases split: sum.splits if_splits prod.splits)

text \<open>
  C9. Only another user can reject a request: the proposer who rejects his own pending request always
  gets an error and leaves the database as it was, because the row would name him as the one who
  decided, against the check on self-approval.
\<close>

theorem proposer_cannot_reject:
  assumes "a \<in> set (fw_approvals db)" and "fp_id a = i" and "us_sub user = uuid_str (fp_proposed_by a)"
  shows "\<exists>e. reject_approval env i reason user cid db w = (Inl e, db)"
proof -
  obtain r db' where run: "reject_approval env i reason user cid db w = (r, db')" by force
  have "\<not> approval_checks env (a\<lparr>fp_decision := ''REJECTED'', fp_approved_by := Some (fp_proposed_by a), fp_approved_at := now,
      fp_decision_notes := n\<rparr>)" for now n
    by (simp add: approval_checks_def)
  then have "\<nexists>x w'. reject_body env i reason user cid db w = Inr (x, w')"
    using assms by (auto simp: reject_body_def mbind_eq_Inr uuid_of_uuid_str split: option.splits if_splits
        dest!: update_approval_hits)
  then have "\<exists>e. reject_body env i reason user cid db w = Inl e"
    by (cases "reject_body env i reason user cid db w") auto
  with run show ?thesis
    by (auto simp: reject_approval_def in_transaction_def split: sum.splits if_splits)
qed

theorem proposer_cannot_reject_witness:
  "\<exists>i w1 db1 l1 e w.
    publish_factor demo_wenv 0 9 demo_body (demo_wuser 5 ''admin'') (uuid_str 3) demo_wdb (sliding_window_init 60 10)
      demo_wworld = ((Inr (PublishResultApprovalRequested i, w1), db1), l1) \<and>
    length (fw_approvals db1) = 1 \<and>
    reject_approval demo_wenv i ''not adequate'' (demo_wuser 5 ''admin'') (uuid_str 3) db1 w = (Inl e, db1)"
proof -
  note f = demo_draft_facts
  have "demo_draft \<in> set (fw_factors demo_wdb)" "pending_approvals demo_wdb (cr_tenant_id demo_draft) (cr_id demo_draft) = []"
    "w_uuid demo_wworld (w_uuids demo_wworld) \<notin> fp_id ` set (fw_approvals demo_wdb)"
    "admin_request demo_wenv (cr_tenant_id demo_draft) (demo_wuser 5 ''admin'') 5 (uuid_str 3)"
    by (simp_all add: demo_wdb_def pending_approvals_def f demo_admin)
  then obtain a db1 w1 where p: "publish demo_wenv 9 ''VERSION_BUMP'' (demo_wuser 5 ''admin'') (uuid_str 3) demo_wdb demo_wworld =
      Inr ((PublishResultApprovalRequested (fp_id a), db1), w1)" "fw_approvals db1 = [a]" "fp_proposed_by a = 5"
    using propose_returns [OF _ _ f(3,2) demo_workflow_ok, of "demo_wuser 5 ''admin''" 5 "uuid_str 3" demo_wworld "''VERSION_BUMP''"]
    unfolding f(4) by (auto simp: demo_wdb_def)
  then have "publish_factor demo_wenv 0 9 demo_body (demo_wuser 5 ''admin'') (uuid_str 3) demo_wdb (sliding_window_init 60 10)
      demo_wworld = ((Inr (PublishResultApprovalRequested (fp_id a), w1), db1),
        snd (is_allowed 0 (''publish:user:'' @ us_sub (demo_wuser 5 ''admin'')) (sliding_window_init 60 10)))"
    using demo_limiter(1) [of "''publish:user:'' @ us_sub (demo_wuser 5 ''admin'')"]
      admin_permitted [OF demo_admin [of 5]] demo_body_ok
    by (auto simp: publish_factor_def in_transaction_def catch_exn_def demo_body_def split: prod.splits)
  moreover obtain e where "reject_approval demo_wenv (fp_id a) ''not adequate'' (demo_wuser 5 ''admin'') (uuid_str 3) db1 w1 = (Inl e, db1)"
    using proposer_cannot_reject [of a db1 "fp_id a" "demo_wuser 5 ''admin''" demo_wenv "''not adequate''" "uuid_str 3" w1] p(2,3)
    by (auto simp: demo_wuser_def)
  ultimately show ?thesis using p(2) by (intro exI [of _ "fp_id a"]) auto
qed

section \<open>Deletion\<close>

text \<open>
  C33. Deleting a draft has no effect but its audit row: every request that succeeds leaves the factor
  in the table, because the trigger on deletions returns NULL for a draft.
\<close>

theorem draft_delete_ignored:
  assumes "delete_factor env i user cid db w = (Inr ((), w'), db')"
  shows "fw_factors db' = fw_factors db \<and> fw_approvals db' = fw_approvals db \<and>
    (\<exists>f r. get_by_uuid db' (us_tenant_id user) i = Some f \<and> \<not> cr_is_published f \<and>
      fw_audit db' = fw_audit db @ [r] \<and> al_action r = ''factor_draft_deleted'' \<and> al_resource_id r = i \<and> al_status_code r = 204)"
proof -
  obtain f c factors audit where f: "draft_by_uuid db user i = Inr f"
    and del: "delete_factors env (\<lambda>g. cr_id g = cr_id f) (fw_factors db) = Inr factors"
    and aud: "\<exists>b. insert_audit_log (we_tenants env) (fw_audit db) (factor_audit user c ''factor_draft_deleted'' i ''DELETE'' (uuid_str i) 204
      b None) = Inr audit"
    and db': "db' = db\<lparr>fw_factors := factors, fw_audit := audit\<rparr>"
    using assms
    by (auto simp: delete_factor_def delete_body_def in_transaction_def mbind_eq_Inr split: sum.splits prod.splits) blast
  have fs: "factors = fw_factors db" by (rule delete_factors_Inr [OF del])
  have "get_by_uuid db (us_tenant_id user) i = Some f" "\<not> cr_is_published f"
    using f by (auto simp: draft_by_uuid_def split: option.splits if_splits)
  moreover have "\<exists>r. audit = fw_audit db @ [r] \<and> al_action r = ''factor_draft_deleted'' \<and> al_resource_id r = i \<and> al_status_code r = 204"
    using aud by (auto simp: insert_audit_log_def factor_audit_def split: if_splits)
  ultimately show ?thesis by (simp add: db' fs get_by_uuid_def)
qed

theorem draft_delete_ignored_witness:
  "\<exists>w' db'. delete_factor demo_wenv 9 (demo_wuser 7 ''editor'') (uuid_str 3) demo_wdb demo_wworld = (Inr ((), w'), db') \<and>
     fw_factors db' = [demo_draft] \<and> length (fw_audit db') = 1"
proof -
  note f = demo_draft_facts
  have "\<exists>w' db'. delete_factor demo_wenv 9 (demo_wuser 7 ''editor'') (uuid_str 3) demo_wdb demo_wworld = (Inr ((), w'), db')"
    using py_len_le [of "''editor''"]
    by (simp add: delete_factor_def delete_body_def in_transaction_def mbind_def mlift_def mret_def draft_by_uuid_def
        get_by_uuid_def demo_wdb_def demo_wuser_def demo_wenv_def require_permission_def factor_permissions f uuid_of_uuid_str
        deny_factor_delete_def insert_audit_log_def factor_audit_def)
  then obtain w' db' where run: "delete_factor demo_wenv 9 (demo_wuser 7 ''editor'') (uuid_str 3) demo_wdb demo_wworld =
      (Inr ((), w'), db')" by blast
  from draft_delete_ignored [OF run] run show ?thesis by (auto simp: demo_wdb_def)
qed

end
