(* ===== verification/Auth_Tokens.thy ===== *)
theory Auth_Tokens
  imports Factor_Workflow
begin

text \<open>
  Tokens and the stores that revoke them: \<open>infrastructure/security/jwt.py\<close>,
  \<open>infrastructure/security/constants.py\<close>, \<open>infrastructure/security/token_blacklist.py\<close>, the in-process
  store of \<open>infrastructure/redis_client.py\<close> and \<open>application/services/session_service.py\<close> over the table
  \<open>auth.sessions\<close> of migration 0017. PyJWT, bcrypt and pyotp are arguments. Key files and the real
  Redis are not modelled; of \<open>auth.sessions\<close> the columns \<open>created_at\<close>, \<open>last_seen_at\<close> and \<open>user_agent\<close>
  are left out. Instants are microseconds, token times are seconds.
\<close>

section \<open>Claims and the libraries\<close>

text \<open>The payload of a token; a claim that is absent is None, and \<open>pre_2fa\<close> is the only extra claim the program sets.\<close>

record Claims =
  jc_sub :: "string option"
  jc_role :: "string option"
  jc_tenant_id :: "string option"
  jc_jti :: "string option"
  jc_iat :: "int option"
  jc_exp :: "int option"
  jc_token_type :: "string option"
  jc_iss :: "string option"
  jc_aud :: "string option"
  jc_pre_2fa :: bool

text \<open>\<open>claims.get(k, "")\<close>.\<close>

definition claim :: "string option \<Rightarrow> string" where
  "claim v = (case v of Some s \<Rightarrow> s | None \<Rightarrow> [])"

text \<open>
  The configuration and the libraries. \<open>ae_encode\<close> and \<open>ae_decode\<close> are \<open>jwt.encode\<close> and \<open>jwt.decode\<close>
  under the configured keys, algorithm, issuer and audience, decoding at an instant; \<open>ae_header_alg\<close> is
  the algorithm of \<open>jwt.get_unverified_header\<close>; \<open>ae_checkpw\<close> is \<open>verify_password\<close> over bcrypt; \<open>ae_otp\<close>
  is \<open>pyotp.TOTP(secret).verify(otp, valid_window=1)\<close> at a time in seconds; \<open>ae_inet\<close> says which texts
  PostgreSQL casts to \<open>inet\<close>; \<open>ae_tenants\<close> are the tenants; \<open>ae_http_bearer\<close> is FastAPI's
  \<open>HTTPBearer(auto_error=False)\<close> on an \<open>Authorization\<close> header: the credentials, if it accepts the scheme.
\<close>

record AuthEnv =
  ae_issuer :: string
  ae_audience :: string
  ae_access_ttl :: int
  ae_refresh_ttl :: int
  ae_encode :: "Claims \<Rightarrow> string"
  ae_decode :: "int \<Rightarrow> string \<Rightarrow> Claims res"
  ae_header_alg :: "string \<Rightarrow> string res"
  ae_checkpw :: "string \<Rightarrow> string \<Rightarrow> bool"
  ae_otp :: "string \<Rightarrow> string \<Rightarrow> int \<Rightarrow> bool"
  ae_inet :: "string \<Rightarrow> bool"
  ae_tenants :: "uuid list"
  ae_http_bearer :: "string \<Rightarrow> string option"

definition PRODUCTION_LIKE_ENVS :: "string list" where
  "PRODUCTION_LIKE_ENVS = [''production'', ''staging'']"

definition TEST_FALLBACK_SECRET :: string where
  "TEST_FALLBACK_SECRET = ''test-only-jwt-secret-min-32-chars-not-for-prod-xx''"

definition MIN_SECRET_LENGTH :: nat where "MIN_SECRET_LENGTH = 32"

definition load_jwt_secret :: "string option \<Rightarrow> string option \<Rightarrow> string res" where
  "load_jwt_secret GHG_JWT_SECRET GHG_ENVIRONMENT =
     (let secret = claim GHG_JWT_SECRET;
          env = str_lower (case GHG_ENVIRONMENT of Some e \<Rightarrow> e | None \<Rightarrow> ''development'')
      in rbind (if secret = [] then if env \<in> set PRODUCTION_LIKE_ENVS then Inl RuntimeError else Inr TEST_FALLBACK_SECRET
                else Inr secret) (\<lambda>s.
         if py_len s < MIN_SECRET_LENGTH then Inl RuntimeError else Inr s))"

definition resolve_refresh_ttl :: "string option \<Rightarrow> string option \<Rightarrow> int res" where
  "resolve_refresh_ttl GHG_REFRESH_TOKEN_TTL GHG_REFRESH_TOKEN_TTL_DAYS =
     (if str_strip (claim GHG_REFRESH_TOKEN_TTL) \<noteq> [] then int_of_string (claim GHG_REFRESH_TOKEN_TTL)
      else if str_strip (claim GHG_REFRESH_TOKEN_TTL_DAYS) \<noteq> []
      then rbind (int_of_string (claim GHG_REFRESH_TOKEN_TTL_DAYS)) (\<lambda>d. Inr (d * 86400))
      else Inr (7 * 86400))"

definition PARTIAL_TOKEN_TTL_S :: int where "PARTIAL_TOKEN_TTL_S = 300"
definition ACCESS_TOKEN_TTL_S :: int where "ACCESS_TOKEN_TTL_S = 3600"

definition DEMO_TOKEN_SENTINEL :: string where "DEMO_TOKEN_SENTINEL = ''demo-jwt-token''"

definition FORBIDDEN_ALGORITHMS :: "string list" where "FORBIDDEN_ALGORITHMS = [''none'']"

section \<open>Tables, stores and the state of a process\<close>

record UserRow =
  ur_id :: uuid
  ur_tenant_id :: uuid
  ur_username :: string
  ur_password_hash :: string
  ur_role_code :: string
  ur_is_active :: bool
  ur_totp_secret :: "string option"
  ur_totp_enabled :: bool
  ur_totp_enrolled_at :: "datetime option"
  ur_totp_last_counter :: int

record SessionRow =
  se_id :: uuid
  se_user_id :: uuid
  se_tenant_id :: uuid
  se_jti :: string
  se_ip_address :: "string option"
  se_revoked_at :: "datetime option"
  se_revoked_by :: "uuid option"

record auth_db =
  at_users :: "UserRow list"
  at_sessions :: "SessionRow list"
  at_consumed_partial_jti :: "string list"
  at_audit :: "AuditLog list"

text \<open>
  The database, the blacklist store (key and deadline on the monotonic clock, in seconds), the
  in-process cache of consumed partial tokens (with their expiry), the login limiter, and the clock
  and identifiers still to come.
\<close>

record auth =
  au_db :: auth_db
  au_redis :: "(string \<times> int) list"
  au_consumed :: "(string \<times> int) list"
  au_limiter :: InMemorySlidingWindow
  au_world :: world

type_synonym 'a act = "auth \<Rightarrow> 'a res \<times> auth"

definition aret :: "'a \<Rightarrow> 'a act" where
  "aret x s = (Inr x, s)"

definition araise :: "exn \<Rightarrow> 'a act" where
  "araise e s = (Inl e, s)"

definition abind :: "'a act \<Rightarrow> ('a \<Rightarrow> 'b act) \<Rightarrow> 'b act" where
  "abind m f s = (case m s of (Inl e, s') \<Rightarrow> (Inl e, s') | (Inr x, s') \<Rightarrow> f x s')"

definition aget :: "(auth \<Rightarrow> 'a) \<Rightarrow> 'a act" where
  "aget f s = (Inr (f s), s)"

definition alift :: "'a res \<Rightarrow> 'a act" where
  "alift r s = (r, s)"

definition amodify :: "(auth \<Rightarrow> auth) \<Rightarrow> unit act" where
  "amodify f s = (Inr (), f s)"

definition arun :: "'a run \<Rightarrow> 'a act" where
  "arun m s = (case m (au_world s) of Inl e \<Rightarrow> (Inl e, s) | Inr (x, w) \<Rightarrow> (Inr x, s\<lparr>au_world := w\<rparr>))"

text \<open>\<open>try: ... except Exception\<close>: the handler starts from the state the body left.\<close>

definition acatch :: "'a act \<Rightarrow> (exn \<Rightarrow> 'a act) \<Rightarrow> 'a act" where
  "acatch m h s = (case m s of (Inl e, s') \<Rightarrow> h e s' | (Inr x, s') \<Rightarrow> (Inr x, s'))"

text \<open>The transaction of \<open>get_db_no_auth\<close> and \<open>get_db\<close>: an exception rolls the database back, and nothing else.\<close>

definition in_session :: "'a act \<Rightarrow> 'a act" where
  "in_session m s = (case m s of (Inl e, s') \<Rightarrow> (Inl e, s'\<lparr>au_db := au_db s\<rparr>) | (Inr x, s') \<Rightarrow> (Inr x, s'))"

definition adb :: "(auth_db \<Rightarrow> auth_db) \<Rightarrow> unit act" where
  "adb f = amodify (\<lambda>s. s\<lparr>au_db := f (au_db s)\<rparr>)"

section \<open>Issuing and decoding\<close>

definition second_of :: "datetime \<Rightarrow> int" where
  "second_of t = instant t div 10 ^ 6"

definition opt_text :: "string \<Rightarrow> string option" where
  "opt_text s = (if s = [] then None else Some s)"

text \<open>The payloads: issued at second \<open>now\<close> with identifier \<open>u\<close>.\<close>

definition access_claims :: "AuthEnv \<Rightarrow> string \<Rightarrow> string \<Rightarrow> string \<Rightarrow> bool \<Rightarrow> int option \<Rightarrow> int \<Rightarrow> uuid \<Rightarrow> Claims" where
  "access_claims env sub role tenant_id pre_2fa ttl_seconds now u =
     \<lparr>jc_sub = Some sub, jc_role = Some role, jc_tenant_id = Some tenant_id, jc_jti = Some (uuid_str u), jc_iat = Some now,
      jc_exp = Some (now + (case ttl_seconds of Some t \<Rightarrow> t | None \<Rightarrow> ae_access_ttl env)), jc_token_type = Some ''access'',
      jc_iss = opt_text (ae_issuer env), jc_aud = opt_text (ae_audience env), jc_pre_2fa = pre_2fa\<rparr>"

definition refresh_claims :: "AuthEnv \<Rightarrow> string \<Rightarrow> string \<Rightarrow> int \<Rightarrow> uuid \<Rightarrow> Claims" where
  "refresh_claims env sub tenant_id now u =
     \<lparr>jc_sub = Some sub, jc_role = None, jc_tenant_id = Some tenant_id, jc_jti = Some (uuid_str u), jc_iat = Some now,
      jc_exp = Some (now + ae_refresh_ttl env), jc_token_type = Some ''refresh'',
      jc_iss = opt_text (ae_issuer env), jc_aud = opt_text (ae_audience env), jc_pre_2fa = False\<rparr>"

definition create_access_token :: "AuthEnv \<Rightarrow> string \<Rightarrow> string \<Rightarrow> string \<Rightarrow> bool \<Rightarrow> int option \<Rightarrow> string act" where
  "create_access_token env sub role tenant_id pre_2fa ttl_seconds =
     abind (arun now_utc) (\<lambda>now.
     abind (arun uuid4) (\<lambda>u.
     aret (ae_encode env (access_claims env sub role tenant_id pre_2fa ttl_seconds (second_of now) u))))"

definition create_refresh_token :: "AuthEnv \<Rightarrow> string \<Rightarrow> string \<Rightarrow> string act" where
  "create_refresh_token env sub tenant_id =
     abind (arun now_utc) (\<lambda>now.
     abind (arun uuid4) (\<lambda>u.
     aret (ae_encode env (refresh_claims env sub tenant_id (second_of now) u))))"

definition decode_token :: "AuthEnv \<Rightarrow> string \<Rightarrow> Claims act" where
  "decode_token env token =
     (if token = DEMO_TOKEN_SENTINEL then araise JWTError
      else
      abind (alift (ae_header_alg env token)) (\<lambda>alg.
      if str_lower alg \<in> set FORBIDDEN_ALGORITHMS then araise ValueError
      else
      abind (arun now_utc) (\<lambda>now.
      alift (ae_decode env (instant now) token))))"

section \<open>The blacklist\<close>

definition redis_prune :: "int \<Rightarrow> (string \<times> int) list \<Rightarrow> (string \<times> int) list" where
  "redis_prune now store = filter (\<lambda>(k, deadline). now < deadline) store"

definition setex :: "int \<Rightarrow> string \<Rightarrow> int \<Rightarrow> (string \<times> int) list \<Rightarrow> (string \<times> int) list res" where
  "setex now name time store =
     (if time \<le> 0 then Inl ValueError
      else Inr ((name, now + time) # filter (\<lambda>(k, d). k \<noteq> name) (redis_prune now store)))"

text \<open>Reading also prunes the store; as every access prunes first, that is not recorded.\<close>

definition redis_exists :: "int \<Rightarrow> string \<Rightarrow> (string \<times> int) list \<Rightarrow> bool" where
  "redis_exists now name store \<longleftrightarrow> name \<in> fst ` set (redis_prune now store)"

definition KEY_PREFIX :: string where "KEY_PREFIX = ''jwt:blacklist:''"
definition MIN_TTL_S :: int where "MIN_TTL_S = 5"
definition MAX_TTL_S :: int where "MAX_TTL_S = 86400 * 8"

definition clamp_ttl :: "int \<Rightarrow> int" where
  "clamp_ttl t = (if t < MIN_TTL_S then MIN_TTL_S else if MAX_TTL_S < t then MAX_TTL_S else t)"

text \<open>\<open>tick\<close> is the monotonic clock at the call.\<close>

definition revoke :: "int \<Rightarrow> string \<Rightarrow> int \<Rightarrow> unit act" where
  "revoke tick jti ttl_seconds =
     (if jti = [] then araise ValueError
      else
      abind (aget au_redis) (\<lambda>store.
      abind (alift (setex tick (KEY_PREFIX @ jti) (clamp_ttl ttl_seconds) store)) (\<lambda>store'.
      amodify (\<lambda>s. s\<lparr>au_redis := store'\<rparr>))))"

definition revoke_from_claims :: "int \<Rightarrow> Claims \<Rightarrow> unit act" where
  "revoke_from_claims tick claims =
     (let jti = claim (jc_jti claims) in
      if jti = [] then aret ()
      else
      abind (arun now_utc) (\<lambda>t.
      let exp_int = (case jc_exp claims of Some e \<Rightarrow> e | None \<Rightarrow> 0);
          now = second_of t
      in revoke tick jti (if now < exp_int then exp_int - now else MIN_TTL_S)))"

definition is_revoked :: "int \<Rightarrow> string \<Rightarrow> auth \<Rightarrow> bool" where
  "is_revoked tick jti s \<longleftrightarrow> jti \<noteq> [] \<and> redis_exists tick (KEY_PREFIX @ jti) (au_redis s)"

section \<open>Sessions\<close>

definition session_of :: "auth \<Rightarrow> string \<Rightarrow> SessionRow option" where
  "session_of s jti = find (\<lambda>r. se_jti r = jti) (at_sessions (au_db s))"

definition user_of :: "auth \<Rightarrow> uuid \<Rightarrow> UserRow option" where
  "user_of s i = find (\<lambda>u. ur_id u = i) (at_users (au_db s))"

text \<open>The constraints of \<open>auth.sessions\<close>, in the order PostgreSQL meets them: types first, then keys.\<close>

definition session_row_ok :: "AuthEnv \<Rightarrow> auth \<Rightarrow> SessionRow \<Rightarrow> unit res" where
  "session_row_ok env s r =
     (if 80 < py_len (se_jti r) \<or> \<not> pred_option (ae_inet env) (se_ip_address r) then Inl DataError
      else if user_of s (se_user_id r) = None \<or> se_tenant_id r \<notin> set (ae_tenants env) \<or>
              session_of s (se_jti r) \<noteq> None \<or> se_id r \<in> se_id ` set (at_sessions (au_db s))
           then Inl IntegrityError
      else Inr ())"

definition as_uuid :: "string \<Rightarrow> uuid act" where
  "as_uuid t = alift (case uuid_of_string t of Inl e \<Rightarrow> Inl DataError | Inr u \<Rightarrow> Inr u)"

definition insert_auth_session :: "AuthEnv \<Rightarrow> string \<Rightarrow> string \<Rightarrow> string \<Rightarrow> string option \<Rightarrow> unit act" where
  "insert_auth_session env user_id tenant_id jti ip_address =
     abind (as_uuid user_id) (\<lambda>uid.
     abind (as_uuid tenant_id) (\<lambda>tid.
     abind (arun uuid4) (\<lambda>i.
     let r = \<lparr>se_id = i, se_user_id = uid, se_tenant_id = tid, se_jti = jti, se_ip_address = ip_address,
              se_revoked_at = None, se_revoked_by = None\<rparr> in
     abind (aget (\<lambda>s. session_row_ok env s r)) (\<lambda>ok.
     abind (alift ok) (\<lambda>_.
     adb (\<lambda>db. db\<lparr>at_sessions := at_sessions db @ [r]\<rparr>))))))"

definition update_sessions :: "(SessionRow \<Rightarrow> bool) \<Rightarrow> (SessionRow \<Rightarrow> SessionRow) \<Rightarrow> auth_db \<Rightarrow> auth_db" where
  "update_sessions hit upd db = db\<lparr>at_sessions := map (\<lambda>r. if hit r then upd r else r) (at_sessions db)\<rparr>"

definition revoke_auth_session_by_jti :: "string \<Rightarrow> string \<Rightarrow> nat act" where
  "revoke_auth_session_by_jti jti user_id =
     abind (as_uuid user_id) (\<lambda>uid.
     abind (arun now_utc) (\<lambda>now.
     let hit = (\<lambda>r. se_jti r = jti \<and> se_user_id r = uid \<and> se_revoked_at r = None) in
     abind (aget (\<lambda>s. length (filter hit (at_sessions (au_db s))))) (\<lambda>n.
     abind (adb (update_sessions hit (\<lambda>r. r\<lparr>se_revoked_at := Some now\<rparr>))) (\<lambda>_.
     aret n))))"

end
