(* ===== verification/Auth_Service.thy ===== *)
theory Auth_Service
  imports Auth_Tokens
begin

text \<open>
  Who may call: \<open>get_current_user\<close> of \<open>api/dependencies/auth.py\<close>, the session check of
  \<open>api/middleware/session_check.py\<close>, \<open>authenticate_user\<close> of \<open>application/services/auth_service.py\<close>, the
  endpoints of \<open>api/routers/auth.py\<close> (login, refresh, logout) and the revoking ones of
  \<open>api/routers/sessions.py\<close>. \<open>tick\<close> is the monotonic clock at a request, in seconds. Log lines, SIEM
  events, the best-effort update of \<open>last_seen_at\<close> and database outages are left out, and so is the
  provisioning of unknown users, which does nothing for a user who has a session. The database role is
  one that bypasses row-level security, like the user of \<open>docker-compose.yml\<close>: the login and the session
  check query \<open>ref.users\<close> and \<open>auth.sessions\<close> without setting \<open>app.tenant_id\<close>.
\<close>

section \<open>The session check and the current user\<close>

definition unauthorized :: "'a act" where
  "unauthorized = araise (HTTPException 401)"

record CurrentUser = UserContext +
  cu_jti :: string

definition current_user :: "Claims \<Rightarrow> CurrentUser res" where
  "current_user claims =
     (case (uuid_of_string (claim (jc_sub claims)), uuid_of_string (claim (jc_tenant_id claims))) of
        (Inr _, Inr t) \<Rightarrow> Inr \<lparr>us_sub = claim (jc_sub claims), us_role = claim (jc_role claims), us_tenant_id = t,
                             cu_jti = claim (jc_jti claims)\<rparr>
      | _ \<Rightarrow> Inl (HTTPException 401))"

definition get_current_user :: "AuthEnv \<Rightarrow> int \<Rightarrow> string option \<Rightarrow> CurrentUser act" where
  "get_current_user env tick credentials =
     (case credentials of
        None \<Rightarrow> unauthorized
      | Some token \<Rightarrow>
        abind (acatch (decode_token env token)
                 (\<lambda>e. if e \<in> {JWTError, ValueError} then unauthorized else araise e)) (\<lambda>claims.
        if claim (jc_role claims) \<notin> {''editor'', ''admin'', ''viewer''} then unauthorized
        else if jc_pre_2fa claims then unauthorized
        else
        abind (aget (is_revoked tick (claim (jc_jti claims)))) (\<lambda>revoked.
        if revoked then unauthorized else alift (current_user claims))))"

definition EXCLUDED_PATHS :: "string list" where
  "EXCLUDED_PATHS = [''/healthz'', ''/readyz'']"

definition NO_SESSION_PATHS :: "string list" where
  "NO_SESSION_PATHS =
     [''/api/v1/auth/login'', ''/api/v1/auth/totp/challenge'', ''/api/v1/auth/refresh'', ''/api/v1/auth/logout'',
      ''/openapi.json'', ''/docs'', ''/redoc'']"

definition revoked_row :: "SessionRow option \<Rightarrow> bool" where
  "revoked_row row \<longleftrightarrow> (case row of Some r \<Rightarrow> se_revoked_at r \<noteq> None | None \<Rightarrow> False)"

text \<open>The middleware forwards a request or answers 401 itself.\<close>

definition session_check :: "AuthEnv \<Rightarrow> string \<Rightarrow> string \<Rightarrow> unit act" where
  "session_check env path auth_header =
     (if path \<in> set EXCLUDED_PATHS \<or> path \<in> set NO_SESSION_PATHS then aret ()
      else if \<not> str_startswith auth_header ''Bearer '' then aret ()
      else
      abind (acatch (abind (decode_token env (drop 7 auth_header)) (\<lambda>c. aret (claim (jc_jti c)))) (\<lambda>_. aret [])) (\<lambda>jti.
      if jti = [] then aret ()
      else
      abind (aget (\<lambda>s. session_of s jti)) (\<lambda>row.
      if row = None \<or> revoked_row row then unauthorized else aret ())))"

section \<open>Login\<close>

record LoginRequest =
  lr_username :: string
  lr_password :: string
  lr_tenant_code :: "string option"

definition validate_login :: "LoginRequest \<Rightarrow> bool" where
  "validate_login b \<longleftrightarrow>
     1 \<le> py_len (lr_username b) \<and> py_len (lr_username b) \<le> 120 \<and> 1 \<le> py_len (lr_password b) \<and>
     py_len (lr_password b) \<le> 200 \<and> pred_option (\<lambda>c. py_len c \<le> 80) (lr_tenant_code b) \<and> str_strip (lr_username b) \<noteq> []"

record TokenResponse =
  tr_access_token :: string
  tr_refresh_token :: string
  tr_expires_in :: int

datatype LoginResult = LoginTokens TokenResponse | RequiresTotp string

datatype lookup = Ambiguous | Row "UserRow option"

text \<open>
  With a tenant code the query names \<open>t.tenant_code\<close>, a column that \<open>ref.tenants\<close> does not have in any
  migration (its column is \<open>code\<close>): PostgreSQL rejects the statement.
\<close>

definition lookup_user :: "string \<Rightarrow> string option \<Rightarrow> auth \<Rightarrow> lookup res" where
  "lookup_user username tenant_code s =
     (if claim tenant_code \<noteq> [] then Inl ProgrammingError
      else
      let rows = filter (\<lambda>u. ur_username u = username) (at_users (au_db s))
      in Inr (if 1 < length rows then Ambiguous else Row (case rows of [] \<Rightarrow> None | u # _ \<Rightarrow> Some u)))"

definition authenticate_user :: "AuthEnv \<Rightarrow> string \<Rightarrow> UserRow option \<Rightarrow> TokenResponse option act" where
  "authenticate_user env password user =
     (case user of
        None \<Rightarrow> aret None
      | Some u \<Rightarrow>
        if \<not> ur_is_active u then aret None
        else if \<not> ae_checkpw env password (ur_password_hash u) then aret None
        else
        abind (create_access_token env (uuid_str (ur_id u)) (ur_role_code u) (uuid_str (ur_tenant_id u)) False None) (\<lambda>access.
        abind (create_refresh_token env (uuid_str (ur_id u)) (uuid_str (ur_tenant_id u))) (\<lambda>refresh.
        aret (Some \<lparr>tr_access_token = access, tr_refresh_token = refresh, tr_expires_in = ae_access_ttl env\<rparr>))))"

definition login_limit :: "int \<Rightarrow> string \<Rightarrow> unit act" where
  "login_limit tick client_ip s =
     (let (ok, sw) = is_allowed tick (''login:ip:'' @ client_ip) (au_limiter s)
      in (if ok then Inr () else Inl (HTTPException 429), s\<lparr>au_limiter := sw\<rparr>))"

definition start_session :: "AuthEnv \<Rightarrow> string \<Rightarrow> TokenResponse \<Rightarrow> LoginResult act" where
  "start_session env client_ip tokens =
     abind (decode_token env (tr_access_token tokens)) (\<lambda>c.
     abind (insert_auth_session env (claim (jc_sub c)) (claim (jc_tenant_id c)) (claim (jc_jti c)) (Some client_ip)) (\<lambda>_.
     aret (LoginTokens tokens)))"

definition finish_login :: "AuthEnv \<Rightarrow> string \<Rightarrow> UserRow option \<Rightarrow> TokenResponse \<Rightarrow> LoginResult act" where
  "finish_login env client_ip user tokens =
     (case user of
        None \<Rightarrow> start_session env client_ip tokens
      | Some u \<Rightarrow>
        if \<not> ur_totp_enabled u then start_session env client_ip tokens
        else
        abind (create_access_token env (uuid_str (ur_id u)) (ur_role_code u) (uuid_str (ur_tenant_id u)) True
                 (Some PARTIAL_TOKEN_TTL_S)) (\<lambda>partial.
        aret (RequiresTotp partial)))"

definition login :: "AuthEnv \<Rightarrow> int \<Rightarrow> string option \<Rightarrow> LoginRequest \<Rightarrow> LoginResult act" where
  "login env tick host body =
     (if \<not> validate_login body then araise (HTTPException 422)
      else
      let client_ip = (case host of Some h \<Rightarrow> h | None \<Rightarrow> ''unknown'');
          username = str_strip (lr_username body) in
      in_session (
      abind (login_limit tick client_ip) (\<lambda>_.
      abind (aget (lookup_user username (lr_tenant_code body))) (\<lambda>result.
      abind (alift result) (\<lambda>found.
      case found of
        Ambiguous \<Rightarrow> unauthorized
      | Row user \<Rightarrow>
        abind (authenticate_user env (lr_password body) user) (\<lambda>tokens.
        case tokens of
          None \<Rightarrow> unauthorized
        | Some t \<Rightarrow> finish_login env client_ip user t))))))"

section \<open>Refresh and logout\<close>

text \<open>The tail that refresh and the TOTP challenge share: both tokens and the session row of the access token.\<close>

definition issue_tokens :: "AuthEnv \<Rightarrow> string \<Rightarrow> string \<Rightarrow> string \<Rightarrow> string option \<Rightarrow> TokenResponse act" where
  "issue_tokens env user_id role tenant_id ip =
     abind (create_access_token env user_id role tenant_id False None) (\<lambda>access.
     abind (create_refresh_token env user_id tenant_id) (\<lambda>refresh.
     abind (decode_token env access) (\<lambda>c.
     abind (insert_auth_session env user_id tenant_id (claim (jc_jti c)) ip) (\<lambda>_.
     aret \<lparr>tr_access_token = access, tr_refresh_token = refresh, tr_expires_in = ACCESS_TOKEN_TTL_S\<rparr>))))"

definition refresh :: "AuthEnv \<Rightarrow> int \<Rightarrow> string option \<Rightarrow> string \<Rightarrow> TokenResponse act" where
  "refresh env tick host refresh_token =
     (if refresh_token = [] then araise (HTTPException 422)
      else
      let client_ip = (case host of Some h \<Rightarrow> h | None \<Rightarrow> ''unknown'') in
      in_session (
      abind (acatch (decode_token env refresh_token) (\<lambda>_. unauthorized)) (\<lambda>claims.
      if jc_token_type claims \<noteq> Some ''refresh'' then unauthorized
      else
      let user_id = claim (jc_sub claims); old_refresh_jti = claim (jc_jti claims) in
      abind (aget (\<lambda>s. session_of s old_refresh_jti)) (\<lambda>row.
      if revoked_row row then unauthorized
      else
      abind (as_uuid user_id) (\<lambda>uid.
      abind (aget (\<lambda>s. user_of s uid)) (\<lambda>user.
      case user of
        None \<Rightarrow> unauthorized
      | Some u \<Rightarrow>
        if \<not> ur_is_active u then unauthorized
        else
        abind (if row \<noteq> None
               then abind (arun now_utc) (\<lambda>now.
                    adb (update_sessions (\<lambda>r. se_jti r = old_refresh_jti \<and> se_revoked_at r = None)
                           (\<lambda>r. r\<lparr>se_revoked_at := Some now\<rparr>)))
               else aret ()) (\<lambda>_.
        abind (if old_refresh_jti \<noteq> [] then revoke_from_claims tick claims else aret ()) (\<lambda>_.
        issue_tokens env user_id (ur_role_code u) (uuid_str (ur_tenant_id u)) (Some client_ip)))))))))"

definition logout_access :: "AuthEnv \<Rightarrow> int \<Rightarrow> string \<Rightarrow> unit act" where
  "logout_access env tick token =
     abind (decode_token env token) (\<lambda>claims.
     let jti = claim (jc_jti claims); user_id = claim (jc_sub claims) in
     if jti \<noteq> [] \<and> user_id \<noteq> []
     then abind (revoke_auth_session_by_jti jti user_id) (\<lambda>_. revoke_from_claims tick claims)
     else aret ())"

definition logout_refresh :: "AuthEnv \<Rightarrow> int \<Rightarrow> string \<Rightarrow> unit act" where
  "logout_refresh env tick token =
     abind (decode_token env token) (\<lambda>claims.
     if claim (jc_jti claims) \<noteq> [] then revoke_from_claims tick claims else aret ())"

definition logout :: "AuthEnv \<Rightarrow> int \<Rightarrow> string option \<Rightarrow> string option \<Rightarrow> unit act" where
  "logout env tick credentials refresh_token =
     in_session (
     abind (case credentials of None \<Rightarrow> aret () | Some t \<Rightarrow> acatch (logout_access env tick t) (\<lambda>_. aret ())) (\<lambda>_.
     case refresh_token of
       Some (c # cs) \<Rightarrow> acatch (logout_refresh env tick (c # cs)) (\<lambda>_. aret ())
     | _ \<Rightarrow> aret ()))"

section \<open>Revoking sessions\<close>

definition revoke_all_except_current :: "AuthEnv \<Rightarrow> int \<Rightarrow> string option \<Rightarrow> nat act" where
  "revoke_all_except_current env tick credentials =
     abind (get_current_user env tick credentials) (\<lambda>user.
     in_session (
     abind (arun now_utc) (\<lambda>now.
     abind (as_uuid (us_sub user)) (\<lambda>uid.
     let hit = (\<lambda>r. se_user_id r = uid \<and> se_tenant_id r = us_tenant_id user \<and> se_jti r \<noteq> cu_jti user \<and> se_revoked_at r = None) in
     abind (aget (\<lambda>s. length (filter hit (at_sessions (au_db s))))) (\<lambda>n.
     abind (adb (update_sessions hit (\<lambda>r. r\<lparr>se_revoked_at := Some now, se_revoked_by := Some uid\<rparr>))) (\<lambda>_.
     aret n))))))"

definition revoke_session :: "AuthEnv \<Rightarrow> int \<Rightarrow> string option \<Rightarrow> uuid \<Rightarrow> unit act" where
  "revoke_session env tick credentials session_id =
     abind (get_current_user env tick credentials) (\<lambda>user.
     in_session (
     abind (aget (\<lambda>s. find (\<lambda>r. se_id r = session_id) (at_sessions (au_db s)))) (\<lambda>row.
     case row of
       None \<Rightarrow> araise (HTTPException 404)
     | Some r \<Rightarrow>
       if se_revoked_at r \<noteq> None then araise (HTTPException 404)
       else if uuid_str (se_user_id r) \<noteq> us_sub user \<or> se_tenant_id r \<noteq> us_tenant_id user then araise (HTTPException 403)
       else if se_jti r = cu_jti user then araise (HTTPException 422)
       else
       abind (arun now_utc) (\<lambda>now.
       abind (as_uuid (us_sub user)) (\<lambda>uid.
       adb (update_sessions (\<lambda>r. se_id r = session_id)
              (\<lambda>r. r\<lparr>se_revoked_at := Some now, se_revoked_by := Some uid\<rparr>)))))))"

end
