(* ===== verification/Totp_Service.thy ===== *)
theory Totp_Service
  imports Auth_Service
begin

text \<open>
  \<open>api/routers/totp.py\<close>: enrolment, activation and removal of the second factor, and the challenge that
  turns a partial token into a token pair. The provisioning URL and its QR code are left out, and the
  secret pyotp draws is an argument of the enrolment. One-time passwords are ASCII digits.
\<close>

text \<open>
  \<open>_mark_partial_jti_consumed\<close>: drop the entries whose expiry has passed, then record the identifier;
  the value says whether this was its first use.
\<close>

definition mark_partial_jti_consumed :: "string \<Rightarrow> int \<Rightarrow> bool act" where
  "mark_partial_jti_consumed jti expiry =
     abind (arun now_utc) (\<lambda>now.
     abind (amodify (\<lambda>s. s\<lparr>au_consumed := filter (\<lambda>(k, v). instant now \<le> v * 10 ^ 6) (au_consumed s)\<rparr>)) (\<lambda>_.
     abind (aget (\<lambda>s. jti \<in> fst ` set (au_consumed s))) (\<lambda>seen.
     if seen then aret False
     else
     abind (amodify (\<lambda>s. s\<lparr>au_consumed := (jti, expiry) # au_consumed s\<rparr>)) (\<lambda>_.
     aret True))))"

definition otp_text_ok :: "string \<Rightarrow> bool" where
  "otp_text_ok otp \<longleftrightarrow> 6 \<le> length otp \<and> length otp \<le> 8 \<and> list_all is_digit otp"

definition fetch_totp_row :: "string \<Rightarrow> UserRow option act" where
  "fetch_totp_row user_id = abind (as_uuid user_id) (\<lambda>uid. aget (\<lambda>s. user_of s uid))"

definition map_user :: "uuid \<Rightarrow> (UserRow \<Rightarrow> UserRow) \<Rightarrow> auth_db \<Rightarrow> auth_db" where
  "map_user uid upd db = db\<lparr>at_users := map (\<lambda>u. if ur_id u = uid then upd u else u) (at_users db)\<rparr>"

definition update_user :: "string \<Rightarrow> (UserRow \<Rightarrow> UserRow) \<Rightarrow> unit act" where
  "update_user user_id upd =
     abind (as_uuid user_id) (\<lambda>uid. adb (map_user uid upd))"

definition current_totp_counter :: "int act" where
  "current_totp_counter = abind (arun now_utc) (\<lambda>t. aret (second_of t div 30))"

definition verify_otp_no_replay :: "AuthEnv \<Rightarrow> string \<Rightarrow> string \<Rightarrow> string \<Rightarrow> int \<Rightarrow> int act" where
  "verify_otp_no_replay env user_id totp_secret otp last_counter =
     abind (arun now_utc) (\<lambda>t.
     if \<not> ae_otp env totp_secret otp (second_of t) then unauthorized
     else
     abind current_totp_counter (\<lambda>current_counter.
     if current_counter \<le> last_counter then unauthorized
     else
     abind (update_user user_id (\<lambda>u. u\<lparr>ur_totp_last_counter := current_counter\<rparr>)) (\<lambda>_.
     aret current_counter)))"

definition has_secret :: "UserRow \<Rightarrow> bool" where
  "has_secret u \<longleftrightarrow> claim (ur_totp_secret u) \<noteq> []"

definition enroll :: "AuthEnv \<Rightarrow> int \<Rightarrow> string option \<Rightarrow> string option \<Rightarrow> string \<Rightarrow> string act" where
  "enroll env tick credentials current_otp secret =
     abind (get_current_user env tick credentials) (\<lambda>user.
     if \<not> pred_option otp_text_ok current_otp then araise (HTTPException 422)
     else
     in_session (
     abind (fetch_totp_row (us_sub user)) (\<lambda>row.
     abind (case row of
              None \<Rightarrow> aret 0
            | Some u \<Rightarrow>
              if \<not> ur_totp_enabled u then aret 0
              else case current_otp of
                     None \<Rightarrow> unauthorized
                   | Some otp \<Rightarrow> verify_otp_no_replay env (us_sub user) (claim (ur_totp_secret u)) otp (ur_totp_last_counter u)) (\<lambda>_.
     abind (update_user (us_sub user) (\<lambda>u. u\<lparr>ur_totp_secret := Some secret, ur_totp_enabled := False\<rparr>)) (\<lambda>_.
     aret secret)))))"

definition totp_audit :: "AuthEnv \<Rightarrow> UserRow \<Rightarrow> CurrentUser \<Rightarrow> string \<Rightarrow> string \<Rightarrow> string \<Rightarrow> (string \<times> json) list \<Rightarrow> unit act" where
  "totp_audit env row user cid action path after_state =
     abind (if cid = [] then arun uuid4 else alift (uuid_of_string cid)) (\<lambda>correlation_id.
     abind (alift (uuid_of_string (us_sub user))) (\<lambda>uid.
     let r = \<lparr>al_tenant_id = ur_tenant_id row, al_correlation_id = correlation_id, al_user_role = us_role user,
              al_action = action, al_resource = ''users'', al_resource_id = uid, al_request_method = ''POST'',
              al_request_path = ''/api/v1/auth/totp/'' @ path, al_status_code = 200, al_before_state = None,
              al_after_state = Some after_state\<rparr> in
     abind (aget (\<lambda>s. insert_audit_log (ae_tenants env) (at_audit (au_db s)) r)) (\<lambda>x.
     abind (alift x) (\<lambda>audit.
     adb (\<lambda>db. db\<lparr>at_audit := audit\<rparr>)))))"

definition verify :: "AuthEnv \<Rightarrow> int \<Rightarrow> string option \<Rightarrow> string \<Rightarrow> string \<Rightarrow> unit act" where
  "verify env tick credentials otp cid =
     abind (get_current_user env tick credentials) (\<lambda>user.
     if \<not> otp_text_ok otp then araise (HTTPException 422)
     else
     in_session (
     abind (fetch_totp_row (us_sub user)) (\<lambda>row.
     case row of
       None \<Rightarrow> unauthorized
     | Some u \<Rightarrow>
       if \<not> has_secret u then unauthorized
       else
       abind (verify_otp_no_replay env (us_sub user) (claim (ur_totp_secret u)) otp (ur_totp_last_counter u)) (\<lambda>_.
       abind (arun now_utc) (\<lambda>now.
       abind (update_user (us_sub user) (\<lambda>u. u\<lparr>ur_totp_enabled := True, ur_totp_enrolled_at := Some now\<rparr>)) (\<lambda>_.
       totp_audit env u user cid ''totp_enabled'' ''verify'' [(''totp_enabled'', JBool True), (''enrolled_at'', JTime now)]))))))"

definition disable :: "AuthEnv \<Rightarrow> int \<Rightarrow> string option \<Rightarrow> string \<Rightarrow> string \<Rightarrow> unit act" where
  "disable env tick credentials otp cid =
     abind (get_current_user env tick credentials) (\<lambda>user.
     if \<not> otp_text_ok otp then araise (HTTPException 422)
     else
     in_session (
     abind (fetch_totp_row (us_sub user)) (\<lambda>row.
     case row of
       None \<Rightarrow> unauthorized
     | Some u \<Rightarrow>
       if \<not> ur_totp_enabled u \<or> \<not> has_secret u then unauthorized
       else
       abind (verify_otp_no_replay env (us_sub user) (claim (ur_totp_secret u)) otp (ur_totp_last_counter u)) (\<lambda>_.
       abind (arun now_utc) (\<lambda>now.
       abind (update_user (us_sub user) (\<lambda>u. u\<lparr>ur_totp_enabled := False, ur_totp_enrolled_at := None\<rparr>)) (\<lambda>_.
       totp_audit env u user cid ''totp_disabled'' ''disable'' [(''totp_enabled'', JBool False), (''disabled_at'', JTime now)]))))))"

text \<open>The authoritative guard against replay: the primary key of \<open>auth.consumed_partial_jti\<close>.\<close>

definition insert_consumed_partial_jti :: "string \<Rightarrow> unit act" where
  "insert_consumed_partial_jti jti =
     abind (aget (\<lambda>s. 36 < py_len jti \<or> jti \<in> set (at_consumed_partial_jti (au_db s)))) (\<lambda>bad.
     if bad then unauthorized
     else adb (\<lambda>db. db\<lparr>at_consumed_partial_jti := jti # at_consumed_partial_jti db\<rparr>))"

definition complete_challenge :: "AuthEnv \<Rightarrow> string option \<Rightarrow> string \<Rightarrow> Claims \<Rightarrow> TokenResponse act" where
  "complete_challenge env host otp claims =
     (let user_id = claim (jc_sub claims) in
      abind (fetch_totp_row user_id) (\<lambda>row.
      case row of
        None \<Rightarrow> unauthorized
      | Some u \<Rightarrow>
        if \<not> ur_totp_enabled u \<or> \<not> has_secret u then unauthorized
        else
        abind (verify_otp_no_replay env user_id (claim (ur_totp_secret u)) otp (ur_totp_last_counter u)) (\<lambda>_.
        issue_tokens env user_id (claim (jc_role claims)) (claim (jc_tenant_id claims)) host)))"

definition challenge :: "AuthEnv \<Rightarrow> string option \<Rightarrow> string \<Rightarrow> string \<Rightarrow> TokenResponse act" where
  "challenge env host partial_token otp =
     (if py_len partial_token < 10 \<or> \<not> otp_text_ok otp then araise (HTTPException 422)
      else
      in_session (
      abind (acatch (decode_token env partial_token) (\<lambda>_. unauthorized)) (\<lambda>claims.
      if \<not> jc_pre_2fa claims then unauthorized
      else
      let partial_jti = claim (jc_jti claims);
          partial_exp = (case jc_exp claims of Some e \<Rightarrow> e | None \<Rightarrow> 0) in
      abind (mark_partial_jti_consumed partial_jti partial_exp) (\<lambda>first_use.
      if \<not> first_use then unauthorized
      else
      abind (insert_consumed_partial_jti partial_jti) (\<lambda>_.
      complete_challenge env host otp claims)))))"

end
