(* ===== verification/Auth_Logic.thy ===== *)
theory Auth_Logic
  imports Totp_Service
begin

text \<open>
  What holds of every sequence of requests to the authentication endpoints: a Hoare logic for their
  actions, the contract of PyJWT, the step relation, and the locale \<open>auth_invariant\<close>, whose laws on the
  few database statements give that every request keeps an invariant.
\<close>

section \<open>A logic of actions\<close>

text \<open>
  From a state with the invariant \<open>I\<close> and the condition \<open>P\<close> an action leaves \<open>I\<close>, whatever it returns,
  and if it returns a value, \<open>Q\<close> of it.
\<close>

definition hoare :: "(auth \<Rightarrow> bool) \<Rightarrow> (auth \<Rightarrow> bool) \<Rightarrow> 'a act \<Rightarrow> ('a \<Rightarrow> auth \<Rightarrow> bool) \<Rightarrow> bool" where
  "hoare I P m Q \<longleftrightarrow> (\<forall>s r s'. I s \<longrightarrow> P s \<longrightarrow> m s = (r, s') \<longrightarrow> I s' \<and> (\<forall>x. r = Inr x \<longrightarrow> Q x s'))"

abbreviation yields :: "(auth \<Rightarrow> bool) \<Rightarrow> 'a act \<Rightarrow> ('a \<Rightarrow> bool) \<Rightarrow> bool" where
  "yields I m Q \<equiv> hoare I (\<lambda>_. True) m (\<lambda>x _. Q x)"

abbreviation keeps :: "(auth \<Rightarrow> bool) \<Rightarrow> 'a act \<Rightarrow> bool" where
  "keeps I m \<equiv> yields I m (\<lambda>_. True)"

named_theorems keeping \<open>rules that show that an action keeps an invariant\<close>

lemma hoareI: "(\<And>s r s'. I s \<Longrightarrow> P s \<Longrightarrow> m s = (r, s') \<Longrightarrow> I s' \<and> (\<forall>x. r = Inr x \<longrightarrow> Q x s')) \<Longrightarrow> hoare I P m Q"
  by (simp add: hoare_def)

lemma hoare_eq: "hoare I P m Q \<Longrightarrow> I s \<Longrightarrow> P s \<Longrightarrow> m s = (r, s') \<Longrightarrow> I s' \<and> (\<forall>x. r = Inr x \<longrightarrow> Q x s')"
  by (simp add: hoare_def)

lemma hoareD: "hoare I P m Q \<Longrightarrow> I s \<Longrightarrow> P s \<Longrightarrow> m s = (r, s') \<Longrightarrow> I s'"
  by (auto simp: hoare_def)

lemma hoare_abind: "hoare I P m Q \<Longrightarrow> (\<And>x. hoare I (Q x) (f x) R) \<Longrightarrow> hoare I P (abind m f) R"
proof (rule hoareI)
  fix s r s'
  assume m: "hoare I P m Q" and f: "\<And>x. hoare I (Q x) (f x) R" and s: "I s" "P s" "abind m f s = (r, s')"
  obtain r1 s1 where m1: "m s = (r1, s1)" by force
  note mid = hoare_eq [OF m s(1,2) m1]
  show "I s' \<and> (\<forall>x. r = Inr x \<longrightarrow> R x s')"
  proof (cases r1)
    case (Inl e)
    then show ?thesis using mid s(3) m1 by (auto simp: abind_def)
  next
    case (Inr x)
    then have "f x s1 = (r, s')" using s(3) m1 by (simp add: abind_def)
    with hoare_eq [OF f] mid Inr show ?thesis by blast
  qed
qed

lemma hoare_conseq: "hoare I P m Q \<Longrightarrow> (\<And>s. P' s \<Longrightarrow> P s) \<Longrightarrow> (\<And>x s. Q x s \<Longrightarrow> Q' x s) \<Longrightarrow> hoare I P' m Q'"
  unfolding hoare_def by blast

lemma hoare_pre: "(\<And>s. P s \<Longrightarrow> A) \<Longrightarrow> (A \<Longrightarrow> hoare I (\<lambda>_. True) m Q) \<Longrightarrow> hoare I P m Q"
  unfolding hoare_def by blast

lemma yields_abind: "yields I m Q \<Longrightarrow> (\<And>x. Q x \<Longrightarrow> hoare I (\<lambda>_. True) (f x) R) \<Longrightarrow> hoare I (\<lambda>_. True) (abind m f) R"
  by (rule hoare_abind, assumption, rule hoare_pre)

lemma keeps_abind [keeping]: "keeps I m \<Longrightarrow> (\<And>x. hoare I (\<lambda>_. True) (f x) R) \<Longrightarrow> hoare I (\<lambda>_. True) (abind m f) R"
  by (rule yields_abind)

lemma keeps_weaken: "hoare I (\<lambda>_. True) m Q \<Longrightarrow> keeps I m"
  by (erule hoare_conseq) simp_all

lemma yields_aret: "Q x \<Longrightarrow> yields I (aret x) Q"
  by (auto simp: hoare_def aret_def)

lemma keeps_aret [keeping]: "keeps I (aret x)"
  by (rule yields_aret) simp

lemma hoare_araise [keeping]: "hoare I P (araise e) Q" and hoare_unauthorized [keeping]: "hoare I P unauthorized Q"
  by (auto simp: hoare_def araise_def unauthorized_def)

lemma keeps_aget [keeping]: "keeps I (aget f)"
  by (auto simp: hoare_def aget_def)

lemma yields_alift: "(\<And>x. r = Inr x \<Longrightarrow> Q x) \<Longrightarrow> yields I (alift r) Q"
  by (auto simp: hoare_def alift_def)

lemma keeps_alift [keeping]: "keeps I (alift r)"
  by (rule yields_alift) simp

lemma keeps_as_uuid [keeping]: "keeps I (as_uuid t)"
  unfolding as_uuid_def by (rule keeping)

lemma keeps_if [keeping]: "hoare I P m Q \<Longrightarrow> hoare I P m' Q \<Longrightarrow> hoare I P (if b then m else m') Q"
  by simp

lemma keeps_option [keeping]:
  "hoare I P m Q \<Longrightarrow> (\<And>y. hoare I P (f y) Q) \<Longrightarrow> hoare I P (case x of None \<Rightarrow> m | Some y \<Rightarrow> f y) Q"
  by (cases x) auto

lemma keeps_lookup [keeping]:
  "hoare I P m Q \<Longrightarrow> (\<And>y. hoare I P (f y) Q) \<Longrightarrow> hoare I P (case x of Ambiguous \<Rightarrow> m | Row y \<Rightarrow> f y) Q"
  by (cases x) auto

lemma keeps_text [keeping]:
  "hoare I P m Q \<Longrightarrow> (\<And>y ys. hoare I P (f y ys) Q) \<Longrightarrow> hoare I P (case x of [] \<Rightarrow> m | y # ys \<Rightarrow> f y ys) Q"
  by (cases x) auto

lemma keeps_acatch [keeping]: "hoare I P m Q \<Longrightarrow> (\<And>e. hoare I (\<lambda>_. True) (h e) Q) \<Longrightarrow> hoare I P (acatch m h) Q"
proof (rule hoareI)
  fix s r s'
  assume m: "hoare I P m Q" and h: "\<And>e. hoare I (\<lambda>_. True) (h e) Q" and s: "I s" "P s" "acatch m h s = (r, s')"
  obtain r1 s1 where m1: "m s = (r1, s1)" by force
  note mid = hoare_eq [OF m s(1,2) m1]
  show "I s' \<and> (\<forall>x. r = Inr x \<longrightarrow> Q x s')"
  proof (cases r1)
    case (Inl e)
    then have "h e s1 = (r, s')" using s(3) m1 by (simp add: acatch_def)
    with hoare_eq [OF h] mid show ?thesis by blast
  next
    case (Inr x)
    then show ?thesis using mid s(3) m1 by (auto simp: acatch_def)
  qed
qed

section \<open>The clock and the identifiers\<close>

definition clock :: "auth \<Rightarrow> int" where
  "clock s = w_clock (au_world s) (w_ticks (au_world s))"

definition next_id :: "auth \<Rightarrow> uuid" where
  "next_id s = w_uuid (au_world s) (w_uuids (au_world s))"

definition after_tick :: "auth \<Rightarrow> auth" where
  "after_tick s = s\<lparr>au_world := (au_world s)\<lparr>w_ticks := Suc (w_ticks (au_world s))\<rparr>\<rparr>"

definition after_draw :: "auth \<Rightarrow> auth" where
  "after_draw s = s\<lparr>au_world := (au_world s)\<lparr>w_uuids := Suc (w_uuids (au_world s))\<rparr>\<rparr>"

lemma arun_now: "arun now_utc s = (Inr (DateTime (clock s) True), after_tick s)"
  by (simp add: arun_def now_utc_def clock_def after_tick_def)

lemma arun_uuid: "arun uuid4 s = (Inr (next_id s), after_draw s)"
  by (simp add: arun_def uuid4_def next_id_def after_draw_def)

text \<open>Time and identifiers are only used up.\<close>

definition advances :: "world \<Rightarrow> world \<Rightarrow> bool" where
  "advances w w' \<longleftrightarrow> w_uuid w' = w_uuid w \<and> w_clock w' = w_clock w \<and> w_uuids w \<le> w_uuids w' \<and> w_ticks w \<le> w_ticks w'"

lemma advances_refl [simp]: "advances w w"
  by (simp add: advances_def)

lemma advances_after [simp]:
  "advances (au_world s) (au_world (after_tick s))" "advances (au_world s) (au_world (after_draw s))"
  by (simp_all add: advances_def after_tick_def after_draw_def)

lemma after_db [simp]: "au_db (after_tick s) = au_db s" "au_db (after_draw s) = au_db s"
  by (simp_all add: after_tick_def after_draw_def)

section \<open>The contract of PyJWT\<close>

text \<open>
  A payload with the configured issuer and audience, once encoded, has a header with a permitted
  algorithm and decodes to itself from its issue time until its expiry. A token is not empty, and is
  not the sentinel of the user interface.
\<close>

definition issued :: "AuthEnv \<Rightarrow> Claims \<Rightarrow> bool" where
  "issued env c \<longleftrightarrow> jc_iss c = opt_text (ae_issuer env) \<and> jc_aud c = opt_text (ae_audience env)"

definition valid_at :: "int \<Rightarrow> Claims \<Rightarrow> bool" where
  "valid_at now c \<longleftrightarrow> pred_option (\<lambda>e. now < e * 10 ^ 6) (jc_exp c) \<and> pred_option (\<lambda>i. i * 10 ^ 6 \<le> now) (jc_iat c)"

definition jwt_ok :: "AuthEnv \<Rightarrow> bool" where
  "jwt_ok env \<longleftrightarrow> (\<forall>c. issued env c \<longrightarrow>
     ae_encode env c \<noteq> DEMO_TOKEN_SENTINEL \<and> ae_encode env c \<noteq> [] \<and>
     (\<exists>alg. ae_header_alg env (ae_encode env c) = Inr alg \<and> str_lower alg \<notin> set FORBIDDEN_ALGORITHMS) \<and>
     (\<forall>now. ae_decode env now (ae_encode env c) = (if valid_at now c then Inr c else Inl JWTError)))"

lemma issued_claims [simp]:
  "issued env (access_claims env sub role ten p ttl now u)" "issued env (refresh_claims env sub ten now u)"
  by (simp_all add: issued_def access_claims_def refresh_claims_def)

lemma claim_jti [simp]:
  "claim (jc_jti (access_claims env sub role ten p ttl now u)) = uuid_str u"
  "claim (jc_jti (refresh_claims env sub ten now u)) = uuid_str u"
  by (simp_all add: claim_def access_claims_def refresh_claims_def)

lemma decode_issued:
  assumes "jwt_ok env" and "issued env c"
  shows "decode_token env (ae_encode env c) s =
    (if valid_at (clock s) c then Inr c else Inl JWTError, after_tick s)"
  using assms by (auto simp: jwt_ok_def decode_token_def abind_def alift_def arun_now)

section \<open>Steps\<close>

text \<open>
  A request to one of the endpoints; time passing between requests; another process with its own
  memory (or a restart), which only shares the database.
\<close>

inductive auth_step :: "AuthEnv \<Rightarrow> auth \<Rightarrow> auth \<Rightarrow> bool" for env where
  login: "login env t host b s = (r1, s') \<Longrightarrow> auth_step env s s'"
| refresh: "refresh env t host tok s = (r2, s') \<Longrightarrow> auth_step env s s'"
| logout: "logout env t cred tok' s = (r3, s') \<Longrightarrow> auth_step env s s'"
| revoke_all: "revoke_all_except_current env t cred s = (r4, s') \<Longrightarrow> auth_step env s s'"
| revoke_one: "revoke_session env t cred i s = (r5, s') \<Longrightarrow> auth_step env s s'"
| enroll: "enroll env t cred otp' secret s = (r6, s') \<Longrightarrow> auth_step env s s'"
| verify: "verify env t cred otp cid s = (r7, s') \<Longrightarrow> auth_step env s s'"
| disable: "disable env t cred otp cid s = (r8, s') \<Longrightarrow> auth_step env s s'"
| challenge: "challenge env host tok otp s = (r9, s') \<Longrightarrow> auth_step env s s'"
| wait: "advances (au_world s) w \<Longrightarrow> auth_step env s (s\<lparr>au_world := w\<rparr>)"
| other_process: "auth_step env s (s\<lparr>au_redis := store, au_consumed := cache, au_limiter := sw\<rparr>)"

section \<open>Invariants of all requests\<close>

text \<open>The columns of a user no request here changes, the counter of one-time passwords aside.\<close>

definition identity :: "UserRow \<Rightarrow> uuid \<times> uuid \<times> string \<times> string \<times> string \<times> bool" where
  "identity u = (ur_id u, ur_tenant_id u, ur_username u, ur_password_hash u, ur_role_code u, ur_is_active u)"

lemma verify_otp_eval:
  "verify_otp_no_replay env t secret otp n s =
     (let s1 = after_tick s; counter = clock s1 div 10 ^ 6 div 30 in
      if \<not> ae_otp env secret otp (clock s div 10 ^ 6) then (Inl (HTTPException 401), s1)
      else if counter \<le> n then (Inl (HTTPException 401), after_tick s1)
      else case uuid_of_string t of
             Inl e \<Rightarrow> (Inl DataError, after_tick s1)
           | Inr uid \<Rightarrow> (Inr counter, (after_tick s1)\<lparr>au_db := map_user uid (\<lambda>u. u\<lparr>ur_totp_last_counter := counter\<rparr>) (au_db s)\<rparr>))"
  by (simp add: verify_otp_no_replay_def current_totp_counter_def update_user_def as_uuid_def abind_def alift_def aret_def
      unauthorized_def araise_def arun_now second_of_def adb_def amodify_def Let_def split: sum.splits)

definition good_token :: "AuthEnv \<Rightarrow> (string \<Rightarrow> bool) \<Rightarrow> string \<Rightarrow> bool" where
  "good_token env ok_jti t \<longleftrightarrow> (\<exists>c. issued env c \<and> t = ae_encode env c \<and> ok_jti (claim (jc_jti c)))"

text \<open>
  An invariant of the database and the world. Its laws say what the statements of the requests keep:
  a new session has an identifier that was just drawn; a session is only ever revoked; a user keeps
  his identity, and his counter grows.
\<close>

locale auth_invariant =
  fixes env :: AuthEnv and I :: "auth \<Rightarrow> bool" and ok_jti :: "string \<Rightarrow> bool"
  assumes library: "I s \<Longrightarrow> jwt_ok env"
    and elsewhere: "I s \<Longrightarrow> au_db t = au_db s \<Longrightarrow> advances (au_world s) (au_world t) \<Longrightarrow> I t"
    and rollback: "I s \<Longrightarrow> I t \<Longrightarrow> I (t\<lparr>au_db := au_db s\<rparr>)"
    and drawing: "I s \<Longrightarrow> ok_jti (uuid_str (next_id s))"
    and inserting: "I s \<Longrightarrow> ok_jti (se_jti r) \<Longrightarrow> I (s\<lparr>au_db := (au_db s)\<lparr>at_sessions := at_sessions (au_db s) @ [r]\<rparr>\<rparr>)"
    and revoking: "I s \<Longrightarrow> (\<And>r. se_jti (upd r) = se_jti r \<and> se_revoked_at (upd r) \<noteq> None) \<Longrightarrow>
      I (s\<lparr>au_db := update_sessions hit upd (au_db s)\<rparr>)"
    and editing: "I s \<Longrightarrow> (\<And>u. identity (edit u) = identity u) \<Longrightarrow>
      (\<And>u. user_of s uid = Some u \<Longrightarrow> ur_totp_last_counter u \<le> ur_totp_last_counter (edit u)) \<Longrightarrow>
      I (s\<lparr>au_db := map_user uid edit (au_db s)\<rparr>)"
    and consuming: "I s \<Longrightarrow> I (s\<lparr>au_db := (au_db s)\<lparr>at_consumed_partial_jti := j # at_consumed_partial_jti (au_db s)\<rparr>\<rparr>)"
    and auditing: "I s \<Longrightarrow> I (s\<lparr>au_db := (au_db s)\<lparr>at_audit := rows\<rparr>\<rparr>)"
begin

lemma keeps_now: "keeps I (arun now_utc)"
  by (rule hoareI) (auto simp: arun_now intro: elsewhere)

lemma keeps_uuid: "yields I (arun uuid4) (\<lambda>u. ok_jti (uuid_str u))"
  by (rule hoareI) (auto simp: arun_uuid intro: elsewhere drawing)

lemma keeps_memory: "(\<And>s. au_db (f s) = au_db s) \<Longrightarrow> (\<And>s. au_world (f s) = au_world s) \<Longrightarrow> keeps I (amodify f)"
  by (rule hoareI) (auto simp: amodify_def intro: elsewhere)

lemma keeps_in_session: "keeps I m \<Longrightarrow> keeps I (in_session m)"
proof (rule hoareI)
  fix s r s'
  assume m: "keeps I m" and s: "I s" and run: "in_session m s = (r, s')"
  obtain r1 s1 where m1: "m s = (r1, s1)" by force
  then have "I s1" using hoareD [OF m s] by simp
  then show "I s' \<and> (\<forall>x. r = Inr x \<longrightarrow> True)"
    using run m1 rollback [OF s] by (auto simp: in_session_def split: sum.splits)
qed

lemmas basic = keeping keeps_now keeps_weaken [OF keeps_uuid] keeps_in_session

lemma keeps_decode: "keeps I (decode_token env t)"
  unfolding decode_token_def by (intro basic)

lemma keeps_blacklist: "keeps I (revoke tick jti ttl)" and keeps_revoke_claims: "keeps I (revoke_from_claims tick c)"
  unfolding revoke_from_claims_def revoke_def Let_def by (intro basic keeps_memory; simp)+

lemma keeps_current_user: "keeps I (get_current_user env tick cred)"
  unfolding get_current_user_def by (intro basic keeps_decode)

lemma access_yields: "yields I (create_access_token env sub role ten p ttl) (good_token env ok_jti)"
  unfolding create_access_token_def
  by (rule keeps_abind [OF keeps_now], rule yields_abind [OF keeps_uuid], rule yields_aret)
    (use claim_jti(1) issued_claims(1) in \<open>force simp: good_token_def\<close>)

lemma keeps_refresh_token: "keeps I (create_refresh_token env sub ten)"
  unfolding create_refresh_token_def by (intro basic)

lemma decode_yields: "good_token env ok_jti t \<Longrightarrow> yields I (decode_token env t) (\<lambda>c. ok_jti (claim (jc_jti c)))"
  by (rule hoareI) (auto simp: good_token_def decode_issued [OF library] intro: elsewhere split: if_splits)

lemma keeps_add_session: "ok_jti (se_jti r) \<Longrightarrow> keeps I (adb (\<lambda>db. db\<lparr>at_sessions := at_sessions db @ [r]\<rparr>))"
  by (rule hoareI) (auto simp: adb_def amodify_def intro!: inserting)

lemma keeps_insert_session: "ok_jti jti \<Longrightarrow> keeps I (insert_auth_session env uid tid jti ip)"
  unfolding insert_auth_session_def Let_def by (intro basic keeps_add_session) simp

lemma keeps_revoke_sessions:
  "(\<And>r. se_jti (upd r) = se_jti r \<and> se_revoked_at (upd r) \<noteq> None) \<Longrightarrow> keeps I (adb (update_sessions hit upd))"
  by (rule hoareI) (auto simp: adb_def amodify_def intro!: revoking)

lemma keeps_edit_user:
  "(\<And>u. identity (edit u) = identity u \<and> ur_totp_last_counter (edit u) = ur_totp_last_counter u) \<Longrightarrow> keeps I (update_user t edit)"
  unfolding update_user_def
  by (intro basic, rule hoareI) (auto simp: adb_def amodify_def intro!: editing)

lemma fetch_row: "hoare I (\<lambda>_. True) (fetch_totp_row t) (\<lambda>row s. \<forall>uid. uuid_of_string t = Inr uid \<longrightarrow> row = user_of s uid)"
  by (rule hoareI) (auto simp: fetch_totp_row_def as_uuid_def abind_def alift_def aget_def split: sum.splits)

lemma verify_keeps:
  "hoare I (\<lambda>s. \<forall>uid. uuid_of_string t = Inr uid \<longrightarrow> user_of s uid = Some u)
     (verify_otp_no_replay env t secret otp (ur_totp_last_counter u)) (\<lambda>_ _. True)"
proof (rule hoareI)
  fix s r s'
  let ?s = "after_tick (after_tick s)"
  assume s: "I s" and u: "\<forall>uid. uuid_of_string t = Inr uid \<longrightarrow> user_of s uid = Some u"
    and run: "verify_otp_no_replay env t secret otp (ur_totp_last_counter u) s = (r, s')"
  have w: "advances (au_world s) (au_world ?s)" by (simp add: advances_def after_tick_def)
  have ticked: "I (after_tick s)" "I ?s" using s w by (auto intro: elsewhere)
  have same: "user_of ?s uid = user_of s uid" for uid by (simp add: user_of_def)
  have "I (?s\<lparr>au_db := map_user uid (\<lambda>u. u\<lparr>ur_totp_last_counter := c\<rparr>) (au_db ?s)\<rparr>)"
    if "uuid_of_string t = Inr uid" "ur_totp_last_counter u < c" for uid c
    using ticked(2) that u by (intro editing) (auto simp: identity_def same)
  then show "I s' \<and> (\<forall>x. r = Inr x \<longrightarrow> True)"
    using run ticked by (auto simp: verify_otp_eval Let_def split: if_splits sum.splits)
qed

lemma keeps_fetch_verify:
  assumes "\<And>u. keeps I (g u)"
  shows "keeps I (abind (fetch_totp_row t) (\<lambda>row. case row of None \<Rightarrow> unauthorized | Some u \<Rightarrow>
    if b u then unauthorized
    else abind (verify_otp_no_replay env t (sec u) otp (ur_totp_last_counter u)) (\<lambda>_. g u)))"
proof (rule hoare_abind [OF fetch_row])
  fix row
  show "hoare I (\<lambda>s. \<forall>uid. uuid_of_string t = Inr uid \<longrightarrow> row = user_of s uid) (case row of None \<Rightarrow> unauthorized | Some u \<Rightarrow>
    if b u then unauthorized
    else abind (verify_otp_no_replay env t (sec u) otp (ur_totp_last_counter u)) (\<lambda>_. g u)) (\<lambda>_ _. True)"
  proof (cases row)
    case (Some u)
    have "hoare I (\<lambda>s. \<forall>uid. uuid_of_string t = Inr uid \<longrightarrow> row = user_of s uid)
        (abind (verify_otp_no_replay env t (sec u) otp (ur_totp_last_counter u)) (\<lambda>_. g u)) (\<lambda>_ _. True)"
      by (rule hoare_abind [OF hoare_conseq [OF verify_keeps]], auto simp: Some intro: assms)
    then show ?thesis by (simp add: Some hoare_unauthorized)
  qed (simp add: hoare_unauthorized)
qed

lemma keeps_consume: "keeps I (insert_consumed_partial_jti j)"
  unfolding insert_consumed_partial_jti_def
  by (intro basic, rule hoareI) (auto simp: adb_def amodify_def intro!: consuming)

lemma keeps_mark: "keeps I (mark_partial_jti_consumed j e)"
  unfolding mark_partial_jti_consumed_def by (intro basic keeps_memory) simp_all

lemma keeps_audit: "keeps I (totp_audit env row user cid action path st)"
  unfolding totp_audit_def Let_def
  by (intro basic, rule hoareI) (auto simp: adb_def amodify_def intro!: auditing)

subsection \<open>Every request keeps the invariant\<close>

lemma keeps_issue: "keeps I (issue_tokens env sub role ten ip)"
  unfolding issue_tokens_def
  by (rule yields_abind [OF access_yields], rule keeps_abind [OF keeps_refresh_token], rule yields_abind [OF decode_yields],
      assumption, intro basic keeps_insert_session)

lemmas request_rules = keeps_decode keeps_current_user keeps_revoke_sessions keeps_revoke_claims keeps_mark keeps_consume
  keeps_issue keeps_edit_user keeps_audit basic

lemma keeps_refresh: "keeps I (refresh env tick host t)"
  unfolding refresh_def Let_def by (intro request_rules) simp_all

lemma keeps_complete: "keeps I (complete_challenge env host otp c)"
  unfolding complete_challenge_def Let_def by (rule keeps_fetch_verify) (rule keeps_issue)

lemma keeps_challenge: "keeps I (challenge env host t otp)"
  unfolding challenge_def Let_def by (intro keeps_complete request_rules)

lemma keeps_start_session: "good_token env ok_jti (tr_access_token t) \<Longrightarrow> keeps I (start_session env ip t)"
  unfolding start_session_def by (rule yields_abind [OF decode_yields], assumption, intro basic keeps_insert_session)

lemma authenticate_yields:
  "yields I (authenticate_user env pw user) (pred_option (\<lambda>t. good_token env ok_jti (tr_access_token t)))"
proof (cases user)
  case (Some u)
  have "yields I (abind (create_access_token env a b c False None) (\<lambda>access. abind (create_refresh_token env a c) (\<lambda>ref.
      aret (Some \<lparr>tr_access_token = access, tr_refresh_token = ref, tr_expires_in = n\<rparr>))))
      (pred_option (\<lambda>t. good_token env ok_jti (tr_access_token t)))" for a b c n
    by (rule yields_abind [OF access_yields], rule keeps_abind [OF keeps_refresh_token], rule yields_aret) simp
  then show ?thesis by (simp add: authenticate_user_def Some yields_aret)
qed (simp add: authenticate_user_def yields_aret)

lemma keeps_login_limit: "keeps I (login_limit t ip)"
  by (rule hoareI) (auto simp: login_limit_def Let_def split: prod.splits intro: elsewhere)

lemma keeps_finish:
  "pred_option (\<lambda>t. good_token env ok_jti (tr_access_token t)) tokens \<Longrightarrow>
   keeps I (case tokens of None \<Rightarrow> unauthorized | Some t \<Rightarrow> finish_login env ip user t)"
  by (cases tokens) (auto simp: finish_login_def intro!: basic keeps_start_session keeps_weaken [OF access_yields] split: option.split)

lemma keeps_login: "keeps I (login env tick host b)"
  unfolding login_def Let_def
  by (rule yields_abind [OF authenticate_yields] | erule keeps_finish | rule keeps_login_limit request_rules)+

lemma keeps_logout: "keeps I (logout env tick cred t)"
  unfolding logout_def logout_access_def logout_refresh_def revoke_auth_session_by_jti_def Let_def
  by (intro request_rules) simp_all

lemma keeps_revoke_endpoints:
  "keeps I (revoke_all_except_current env tick cred)" "keeps I (revoke_session env tick cred i)"
  unfolding revoke_all_except_current_def revoke_session_def Let_def by (intro request_rules; simp)+

lemma keeps_totp_settings:
  "keeps I (verify env tick cred otp cid)" "keeps I (disable env tick cred otp cid)"
  unfolding verify_def disable_def
  by ((rule keeps_fetch_verify | rule request_rules)+; simp add: identity_def)+

lemma keeps_enroll: "keeps I (enroll env tick cred otp secret)"
proof -
  let ?tail = "\<lambda>t. abind (update_user t (\<lambda>u. u\<lparr>ur_totp_secret := Some secret, ur_totp_enabled := False\<rparr>)) (\<lambda>_. aret secret)"
  have tail: "hoare I P (?tail t) (\<lambda>_ _. True)" for P t
    by (rule hoare_pre [where A = True]) (auto intro!: request_rules simp: identity_def)
  have "hoare I (\<lambda>s. \<forall>uid. uuid_of_string t = Inr uid \<longrightarrow> row = user_of s uid)
      (abind (case row of None \<Rightarrow> aret 0 | Some u \<Rightarrow> if \<not> ur_totp_enabled u then aret 0 else case otp of None \<Rightarrow> unauthorized
        | Some x \<Rightarrow> verify_otp_no_replay env t (claim (ur_totp_secret u)) x (ur_totp_last_counter u)) (\<lambda>_. ?tail t)) (\<lambda>_ _. True)"
    for row t
    by (rule hoare_abind [where Q = "\<lambda>_ _. True"], cases row)
      (auto intro!: tail hoare_pre [where A = True, OF _ keeps_aret] hoare_unauthorized hoare_conseq [OF verify_keeps] split: option.split)
  then show ?thesis
    unfolding enroll_def by (intro request_rules hoare_abind [OF fetch_row]) simp
qed

theorem step_keeps: "auth_step env s s' \<Longrightarrow> I s \<Longrightarrow> I s'"
  by (induction rule: auth_step.induct)
    (auto intro: hoareD [OF keeps_login] hoareD [OF keeps_refresh] hoareD [OF keeps_logout] hoareD [OF keeps_revoke_endpoints(1)]
      hoareD [OF keeps_revoke_endpoints(2)] hoareD [OF keeps_enroll] hoareD [OF keeps_totp_settings(1)]
      hoareD [OF keeps_totp_settings(2)] hoareD [OF keeps_challenge] elsewhere)

theorem steps_keep: "(auth_step env)\<^sup>*\<^sup>* s s' \<Longrightarrow> I s \<Longrightarrow> I s'"
  by (induction rule: rtranclp_induct) (auto intro: step_keeps)

end

end
