(* ===== verification/Auth_Runs.thy ===== *)
theory Auth_Runs
  imports Auth_Logic
begin

text \<open>
  The invariants of the authentication endpoints as interpretations of \<open>auth_invariant\<close>: an identifier
  that never gets a session, a revoked session, a consumed partial token, a counter of one-time
  passwords, a user, the time; and what a request does that succeeds, or fails.
\<close>

section \<open>Statements on the tables\<close>

lemma find_map_cong: "(\<And>x. P (f x) = P x) \<Longrightarrow> find P (map f xs) = map_option f (find P xs)"
  by (induction xs) auto

lemma find_append: "find P (xs @ ys) = (case find P xs of None \<Rightarrow> find P ys | Some x \<Rightarrow> Some x)"
  by (induction xs) auto

lemma find_satisfies: "find P xs = Some x \<Longrightarrow> P x"
  by (auto simp: find_Some_iff)

lemma session_of_update:
  assumes "\<And>r. se_jti (upd r) = se_jti r"
  shows "session_of (s\<lparr>au_db := update_sessions hit upd (au_db s)\<rparr>) j = map_option (\<lambda>r. if hit r then upd r else r) (session_of s j)"
  by (simp add: session_of_def update_sessions_def find_map_cong assms)

lemma session_of_insert:
  "session_of (s\<lparr>au_db := (au_db s)\<lparr>at_sessions := at_sessions (au_db s) @ [r]\<rparr>\<rparr>) j =
     (case session_of s j of None \<Rightarrow> if se_jti r = j then Some r else None | Some x \<Rightarrow> Some x)"
  by (simp add: session_of_def find_append split: option.split)

lemma user_of_edit:
  assumes "\<And>u. identity (edit u) = identity u"
  shows "user_of (s\<lparr>au_db := map_user uid edit (au_db s)\<rparr>) i = map_option (\<lambda>u. if ur_id u = uid then edit u else u) (user_of s i)"
proof -
  have "ur_id (edit u) = ur_id u" for u using assms [of u] by (simp add: identity_def)
  then show ?thesis by (simp add: user_of_def map_user_def find_map_cong)
qed

lemma user_of_id: "user_of s i = Some u \<Longrightarrow> ur_id u = i"
  by (auto simp: user_of_def dest: find_satisfies)

lemma row_frames [simp]:
  "session_of (s\<lparr>au_db := map_user uid edit (au_db s)\<rparr>) j = session_of s j"
  "session_of (s\<lparr>au_db := (au_db s)\<lparr>at_consumed_partial_jti := c\<rparr>\<rparr>) j = session_of s j"
  "session_of (s\<lparr>au_db := (au_db s)\<lparr>at_audit := a\<rparr>\<rparr>) j = session_of s j"
  "user_of (s\<lparr>au_db := update_sessions hit upd (au_db s)\<rparr>) i = user_of s i"
  "user_of (s\<lparr>au_db := (au_db s)\<lparr>at_sessions := ss\<rparr>\<rparr>) i = user_of s i"
  "user_of (s\<lparr>au_db := (au_db s)\<lparr>at_consumed_partial_jti := c\<rparr>\<rparr>) i = user_of s i"
  "user_of (s\<lparr>au_db := (au_db s)\<lparr>at_audit := a\<rparr>\<rparr>) i = user_of s i"
  "at_consumed_partial_jti (map_user uid edit db) = at_consumed_partial_jti db"
  "at_consumed_partial_jti (update_sessions hit upd db) = at_consumed_partial_jti db"
  by (simp_all add: session_of_def user_of_def map_user_def update_sessions_def)

section \<open>Invariants\<close>

definition never_session :: "AuthEnv \<Rightarrow> string \<Rightarrow> auth \<Rightarrow> bool" where
  "never_session env j s \<longleftrightarrow>
     jwt_ok env \<and> session_of s j = None \<and> (\<forall>i\<ge>w_uuids (au_world s). j \<noteq> uuid_str (w_uuid (au_world s) i))"

definition revoked_session :: "AuthEnv \<Rightarrow> string \<Rightarrow> auth \<Rightarrow> bool" where
  "revoked_session env j s \<longleftrightarrow> jwt_ok env \<and> revoked_row (session_of s j)"

definition consumed_partial :: "AuthEnv \<Rightarrow> string \<Rightarrow> auth \<Rightarrow> bool" where
  "consumed_partial env j s \<longleftrightarrow> jwt_ok env \<and> j \<in> set (at_consumed_partial_jti (au_db s))"

definition counted :: "AuthEnv \<Rightarrow> uuid \<Rightarrow> int \<Rightarrow> auth \<Rightarrow> bool" where
  "counted env uid n s \<longleftrightarrow> jwt_ok env \<and> (\<exists>u. user_of s uid = Some u \<and> n \<le> ur_totp_last_counter u)"

definition known_user :: "AuthEnv \<Rightarrow> UserRow \<Rightarrow> auth \<Rightarrow> bool" where
  "known_user env u s \<longleftrightarrow> jwt_ok env \<and> (\<exists>v. user_of s (ur_id u) = Some v \<and> identity v = identity u)"

definition later :: "AuthEnv \<Rightarrow> world \<Rightarrow> auth \<Rightarrow> bool" where
  "later env w s \<longleftrightarrow> jwt_ok env \<and> advances w (au_world s)"

lemma rows_db [simp]:
  "session_of (t\<lparr>au_db := au_db s\<rparr>) j = session_of s j" "user_of (t\<lparr>au_db := au_db s\<rparr>) i = user_of s i"
  by (simp_all add: session_of_def user_of_def)

interpretation never: auth_invariant env "never_session env j" "\<lambda>t. t \<noteq> j"
proof (unfold_locales, goal_cases library elsewhere rollback drawing inserting revoking editing consuming auditing)
  case (elsewhere s t)
  then show ?case
    by (auto simp: never_session_def session_of_def advances_def)
next
  case (drawing s)
  then show ?case by (metis never_session_def next_id_def order_refl)
qed (simp_all add: never_session_def session_of_insert session_of_update)

interpretation revoked: auth_invariant env "revoked_session env j" "\<lambda>_. True"
proof (unfold_locales, goal_cases library elsewhere rollback drawing inserting revoking editing consuming auditing)
  case (elsewhere s t)
  then show ?case by (simp add: revoked_session_def session_of_def)
qed (auto simp: revoked_session_def revoked_row_def session_of_insert session_of_update split: option.splits)

interpretation consumed: auth_invariant env "consumed_partial env j" "\<lambda>_. True"
  by (unfold_locales) (simp_all add: consumed_partial_def)

interpretation counter: auth_invariant env "counted env uid n" "\<lambda>_. True"
proof (unfold_locales, goal_cases library elsewhere rollback drawing inserting revoking editing consuming auditing)
  case (elsewhere s t)
  then show ?case by (simp add: counted_def user_of_def)
next
  case (editing s edit i)
  then obtain u where u: "jwt_ok env" "user_of s uid = Some u" "n \<le> ur_totp_last_counter u" by (auto simp: counted_def)
  then have "n \<le> ur_totp_last_counter (if ur_id u = i then edit u else u)"
    using editing(3) [of u] user_of_id [of s uid u] by (auto intro: order_trans)
  with u show ?case by (simp add: counted_def user_of_edit [OF editing(2)])
qed (simp_all add: counted_def)

interpretation known: auth_invariant env "known_user env u" "\<lambda>_. True"
proof (unfold_locales, goal_cases library elsewhere rollback drawing inserting revoking editing consuming auditing)
  case (elsewhere s t)
  then show ?case by (simp add: known_user_def user_of_def)
next
  case (editing s edit i)
  then obtain v where "jwt_ok env" "user_of s (ur_id u) = Some v" "identity v = identity u" by (auto simp: known_user_def)
  then show ?case
    using editing(2) [of v] by (simp add: known_user_def user_of_edit [OF editing(2)])
qed (simp_all add: known_user_def)

interpretation time: auth_invariant env "later env w" "\<lambda>_. True"
  by (unfold_locales) (auto simp: later_def advances_def)

section \<open>Running the requests\<close>

lemmas act_defs = abind_def aret_def araise_def alift_def aget_def acatch_def unauthorized_def amodify_def adb_def

lemma after_simps [simp]:
  "next_id (after_tick s) = next_id s" "clock (after_draw s) = clock s" "session_of (after_tick s) j = session_of s j"
  "session_of (after_draw s) j = session_of s j" "user_of (after_tick s) i = user_of s i" "user_of (after_draw s) i = user_of s i"
  "au_redis (after_tick s) = au_redis s" "au_redis (after_draw s) = au_redis s"
  by (simp_all add: next_id_def clock_def after_tick_def after_draw_def session_of_def user_of_def)

lemma access_eval:
  "create_access_token env sub role ten p ttl s =
     (Inr (ae_encode env (access_claims env sub role ten p ttl (clock s div 10 ^ 6) (next_id s))), after_draw (after_tick s))"
  by (simp add: create_access_token_def act_defs arun_now arun_uuid second_of_def)

lemma refresh_eval:
  "create_refresh_token env sub ten s =
     (Inr (ae_encode env (refresh_claims env sub ten (clock s div 10 ^ 6) (next_id s))), after_draw (after_tick s))"
  by (simp add: create_refresh_token_def act_defs arun_now arun_uuid second_of_def)

lemma in_session_error: "isl (fst (in_session m s)) \<longleftrightarrow> isl (fst (m s))"
  by (simp add: in_session_def split: prod.split sum.split)

section \<open>Kinds of tokens\<close>

lemma current_user_kind:
  assumes "jwt_ok env" and "issued env c" and "jc_role c = None \<or> jc_pre_2fa c"
  shows "isl (fst (get_current_user env tick (Some (ae_encode env c)) s))"
  using assms by (auto simp: get_current_user_def act_defs decode_issued claim_def)

lemma refresh_kind:
  assumes "jwt_ok env" and "issued env c" and "jc_token_type c \<noteq> Some ''refresh''"
  shows "isl (fst (refresh env tick host (ae_encode env c) s))"
  using assms by (auto simp: refresh_def in_session_error act_defs decode_issued)

lemma challenge_kind:
  assumes "jwt_ok env" and "issued env c" and "\<not> jc_pre_2fa c"
  shows "isl (fst (challenge env host (ae_encode env c) otp s))"
  using assms by (auto simp: challenge_def in_session_error act_defs decode_issued)

section \<open>One-time passwords\<close>

text \<open>The documented behaviour of pyotp: a password is that of the current time step or of a neighbour.\<close>

definition otp_ok :: "AuthEnv \<Rightarrow> (string \<Rightarrow> int \<Rightarrow> string) \<Rightarrow> bool" where
  "otp_ok env code \<longleftrightarrow> (\<forall>secret otp t. ae_otp env secret otp t \<longleftrightarrow> (\<exists>d\<in>{- 1, 0, 1}. code secret (t div 30 + d) = otp))"

definition in_step :: "int \<Rightarrow> auth \<Rightarrow> bool" where
  "in_step k s \<longleftrightarrow> clock s div 10 ^ 6 div 30 = k \<and> clock (after_tick s) div 10 ^ 6 div 30 = k"

lemma otp_accepted:
  assumes "otp_ok env code" and "in_step k s" and "n < k" and "d \<in> {- 1, 0, 1}" and "uuid_of_string t = Inr uid"
  shows "\<exists>s1. verify_otp_no_replay env t secret (code secret (k + d)) n s = (Inr k, s1) \<and>
    au_db s1 = map_user uid (\<lambda>u. u\<lparr>ur_totp_last_counter := k\<rparr>) (au_db s) \<and> au_world s1 = au_world (after_tick (after_tick s))"
proof -
  have "ae_otp env secret (code secret (k + d)) (clock s div 10 ^ 6)"
    using assms(1,2,4) unfolding otp_ok_def in_step_def by metis
  then show ?thesis using assms(2,3,5) by (simp add: verify_otp_eval Let_def in_step_def)
qed

section \<open>Partial tokens\<close>

lemma abind_Inr: "abind m f s = (Inr x, s') \<longleftrightarrow> (\<exists>y s1. m s = (Inr y, s1) \<and> f y s1 = (Inr x, s'))"
  by (auto simp: abind_def split: prod.splits sum.splits)

lemma in_session_Inr: "in_session m s = (Inr x, s') \<longleftrightarrow> m s = (Inr x, s')"
  by (auto simp: in_session_def split: prod.splits sum.splits)

lemma raise_not_Inr [simp]: "unauthorized s \<noteq> (Inr x, s')" "araise e s \<noteq> (Inr x, s')"
  by (simp_all add: unauthorized_def araise_def)

lemma consume_Inr:
  "insert_consumed_partial_jti j s = (Inr x, s') \<Longrightarrow>
   j \<notin> set (at_consumed_partial_jti (au_db s)) \<and> j \<in> set (at_consumed_partial_jti (au_db s'))"
  by (auto simp: insert_consumed_partial_jti_def act_defs split: if_splits)

lemma mark_db: "mark_partial_jti_consumed j e s = (r, s') \<Longrightarrow> au_db s' = au_db s"
  by (auto simp: mark_partial_jti_consumed_def act_defs arun_now after_tick_def split: if_splits)

text \<open>The part of a successful challenge around its guard.\<close>

lemma challenge_Inr:
  assumes "jwt_ok env" and "issued env c" and "challenge env host (ae_encode env c) otp s = (Inr t, s')"
  shows "claim (jc_jti c) \<notin> set (at_consumed_partial_jti (au_db s)) \<and> consumed_partial env (claim (jc_jti c)) s'"
proof -
  let ?j = "claim (jc_jti c)"
  have dec: "acatch (decode_token env (ae_encode env c)) (\<lambda>_. unauthorized) s = (Inr c', s1) \<Longrightarrow> c' = c \<and> s1 = after_tick s"
    for c' s1
    by (auto simp: decode_issued [OF assms(1,2)] act_defs split: if_splits)
  obtain e s2 s3 where run: "mark_partial_jti_consumed ?j e (after_tick s) = (Inr True, s2)"
    "insert_consumed_partial_jti ?j s2 = (Inr (), s3)" "complete_challenge env host otp c s3 = (Inr t, s')"
    using assms(3) by (auto simp: challenge_def in_session_Inr abind_Inr Let_def dest!: dec split: if_splits)
  have "consumed_partial env ?j s3" using consume_Inr [OF run(2)] assms(1) by (simp add: consumed_partial_def)
  then have "consumed_partial env ?j s'"
    by (rule hoareD [OF consumed.keeps_complete _ TrueI run(3)])
  with consume_Inr [OF run(2)] mark_db [OF run(1)] show ?thesis by simp
qed

section \<open>Logout\<close>

definition bearer_header :: "string \<Rightarrow> string" where
  "bearer_header token = ''Bearer '' @ token"

text \<open>What a protected endpoint asks of a request: the session check of the middleware, then the dependency.\<close>

definition authorized :: "AuthEnv \<Rightarrow> string \<Rightarrow> int \<Rightarrow> string \<Rightarrow> CurrentUser act" where
  "authorized env path tick auth_header =
     abind (session_check env path auth_header) (\<lambda>_. get_current_user env tick (ae_http_bearer env auth_header))"

text \<open>
  The documented behaviour of \<open>HTTPBearer\<close> on the application's tokens: the scheme is compared without
  regard to case, the credentials are what follows the blank.
\<close>

definition bearer_ok :: "AuthEnv \<Rightarrow> bool" where
  "bearer_ok env \<longleftrightarrow> (\<forall>scheme c. issued env c \<longrightarrow> str_lower scheme = ''bearer'' \<longrightarrow>
     ae_http_bearer env (scheme @ '' '' @ ae_encode env c) = Some (ae_encode env c))"

lemma bearer_token:
  assumes "bearer_ok env" and "issued env c"
  shows "ae_http_bearer env (bearer_header (ae_encode env c)) = Some (ae_encode env c)"
proof -
  have "str_lower ''Bearer'' = ''bearer''" by code_simp
  with assms have "ae_http_bearer env (''Bearer'' @ '' '' @ ae_encode env c) = Some (ae_encode env c)"
    unfolding bearer_ok_def by blast
  then show ?thesis by (simp add: bearer_header_def)
qed

lemma bearer_length: "str_lower scheme = ''bearer'' \<Longrightarrow> length scheme = 6"
  by (drule arg_cong [of _ _ length]) (simp add: str_lower_def)

text \<open>Any other spelling of the scheme passes the session check unseen.\<close>

lemma session_check_skipped:
  assumes "str_lower scheme = ''bearer''" and "scheme \<noteq> ''Bearer''"
  shows "session_check env path (scheme @ '' '' @ token) s = (Inr (), s)"
proof -
  have len: "length scheme = 6" by (rule bearer_length [OF assms(1)])
  have "\<not> str_startswith (scheme @ '' '' @ token) ''Bearer ''"
  proof
    assume "str_startswith (scheme @ '' '' @ token) ''Bearer ''"
    then obtain rest where "scheme @ '' '' @ token = ''Bearer'' @ '' '' @ rest" by (auto simp: str_startswith_def prefix_def)
    then have "scheme = ''Bearer''" by (rule append_eq_append_conv [THEN iffD1, THEN conjunct1, rotated]) (simp add: len)
    with assms(2) show False by contradiction
  qed
  then show ?thesis by (simp add: session_check_def aret_def)
qed

definition protected_path :: "string \<Rightarrow> bool" where
  "protected_path path \<longleftrightarrow> path \<notin> set EXCLUDED_PATHS \<and> path \<notin> set NO_SESSION_PATHS"

lemma session_check_eval:
  assumes "jwt_ok env" and "issued env c" and "protected_path path" and "claim (jc_jti c) \<noteq> []"
  shows "session_check env path (bearer_header (ae_encode env c)) s =
    (if valid_at (clock s) c \<and> (session_of s (claim (jc_jti c)) = None \<or> revoked_row (session_of s (claim (jc_jti c))))
     then Inl (HTTPException 401) else Inr (), after_tick s)"
  using assms by (simp add: session_check_def bearer_header_def protected_path_def str_startswith_def act_defs decode_issued)

lemma current_user_needs_valid:
  assumes "jwt_ok env" and "issued env c" and "\<not> valid_at (clock s) c"
  shows "isl (fst (get_current_user env tick (Some (ae_encode env c)) s))"
  using assms by (simp add: get_current_user_def act_defs decode_issued)

lemma logout_access_revokes:
  assumes "jwt_ok env" and "issued env c" and "valid_at (clock s) c" and "jc_jti c = Some j" and "j \<noteq> []"
    and "jc_sub c = Some (uuid_str uid)" and "session_of s j = Some r" and "se_user_id r = uid"
    and "logout_access env tick (ae_encode env c) s = (x, s')"
  shows "revoked_session env j s'"
proof -
  have sub: "uuid_str uid \<noteq> []" using length_uuid_str [of uid] by auto
  let ?hit = "\<lambda>r. se_jti r = j \<and> se_user_id r = uid \<and> se_revoked_at r = None"
  let ?s = "after_tick (after_tick s)"
  let ?s1 = "?s\<lparr>au_db := update_sessions ?hit (\<lambda>r. r\<lparr>se_revoked_at := Some (DateTime (clock (after_tick s)) True)\<rparr>) (au_db ?s)\<rparr>"
  have "revoke_from_claims tick c ?s1 = (x, s')"
    using assms(9) sub
    by (simp add: logout_access_def revoke_auth_session_by_jti_def act_defs decode_issued [OF assms(1,2)] assms(3-6) claim_def
        as_uuid_def uuid_of_uuid_str arun_now Let_def)
  moreover have "revoked_session env j ?s1"
    using assms(1,7,8) find_satisfies [of "\<lambda>r. se_jti r = j"]
    by (subst revoked_session_def, subst session_of_update) (auto simp: revoked_row_def session_of_def)
  ultimately show ?thesis using hoareD [OF revoked.keeps_revoke_claims _ TrueI] by blast
qed

lemma logout_revokes_session:
  assumes "jwt_ok env" and "issued env c" and "valid_at (clock s) c" and "jc_jti c = Some j" and "j \<noteq> []"
    and "jc_sub c = Some (uuid_str uid)" and "session_of s j = Some r" and "se_user_id r = uid"
    and "logout env tick (Some (ae_encode env c)) rt s = (x, s')"
  shows "revoked_session env j s'"
proof -
  obtain x1 s1 where a: "logout_access env tick (ae_encode env c) s = (x1, s1)" by force
  have rev: "revoked_session env j s1" by (rule logout_access_revokes [OF assms(1-8) a])
  let ?tail = "case rt of Some (d # ds) \<Rightarrow> acatch (logout_refresh env tick (d # ds)) (\<lambda>_. aret ()) | _ \<Rightarrow> aret ()"
  have "keeps (revoked_session env j) ?tail"
    unfolding logout_refresh_def Let_def by (intro revoked.request_rules)
  moreover obtain r2 s2 where t: "?tail s1 = (r2, s2)" by force
  ultimately have "revoked_session env j s2" using hoareD rev by blast
  moreover have "s' = s2 \<or> s' = s2\<lparr>au_db := au_db s\<rparr> \<and> isl r2"
    using assms(9) a t by (auto simp: logout_def in_session_def act_defs split: sum.splits prod.splits option.splits list.splits)
  moreover have "\<not> isl r2" using t by (auto simp: acatch_def aret_def split: option.splits list.splits prod.splits sum.splits)
  ultimately show ?thesis by blast
qed

section \<open>Login\<close>

definition new_session :: "uuid \<Rightarrow> uuid \<Rightarrow> string \<Rightarrow> string option \<Rightarrow> uuid \<Rightarrow> SessionRow" where
  "new_session uid tid j ip i = \<lparr>se_id = i, se_user_id = uid, se_tenant_id = tid, se_jti = j, se_ip_address = ip,
     se_revoked_at = None, se_revoked_by = None\<rparr>"

definition with_session :: "SessionRow \<Rightarrow> auth \<Rightarrow> auth" where
  "with_session r s = s\<lparr>au_db := (au_db s)\<lparr>at_sessions := at_sessions (au_db s) @ [r]\<rparr>\<rparr>"

lemma insert_session_eval:
  "insert_auth_session env (uuid_str uid) (uuid_str tid) j ip s =
     (case session_row_ok env (after_draw s) (new_session uid tid j ip (next_id s)) of
        Inl e \<Rightarrow> (Inl e, after_draw s)
      | Inr _ \<Rightarrow> (Inr (), with_session (new_session uid tid j ip (next_id s)) (after_draw s)))"
  by (simp add: insert_auth_session_def act_defs as_uuid_def uuid_of_uuid_str arun_uuid new_session_def with_session_def Let_def
      split: sum.split)

lemma session_row_ok_Inr:
  "session_row_ok env s r = Inr x \<longleftrightarrow>
     py_len (se_jti r) \<le> 80 \<and> pred_option (ae_inet env) (se_ip_address r) \<and> user_of s (se_user_id r) \<noteq> None \<and>
     se_tenant_id r \<in> set (ae_tenants env) \<and> session_of s (se_jti r) = None \<and> se_id r \<notin> se_id ` set (at_sessions (au_db s))"
  by (auto simp: session_row_ok_def)

definition login_access :: "AuthEnv \<Rightarrow> UserRow \<Rightarrow> auth \<Rightarrow> Claims" where
  "login_access env u s =
     access_claims env (uuid_str (ur_id u)) (ur_role_code u) (uuid_str (ur_tenant_id u)) False None (clock s div 10 ^ 6) (next_id s)"

definition login_refresh :: "AuthEnv \<Rightarrow> UserRow \<Rightarrow> auth \<Rightarrow> Claims" where
  "login_refresh env u s =
     refresh_claims env (uuid_str (ur_id u)) (uuid_str (ur_tenant_id u)) (clock (after_tick s) div 10 ^ 6) (next_id (after_draw s))"

lemma login_limit_Inr: "login_limit t ip s = (Inr x, s') \<Longrightarrow> \<exists>sw. s' = s\<lparr>au_limiter := sw\<rparr>"
  by (auto simp: login_limit_def Let_def split: prod.splits)

lemma lookup_limiter [simp]: "lookup_user n c (s\<lparr>au_limiter := sw\<rparr>) = lookup_user n c s"
  by (simp add: lookup_user_def)

lemma limiter_simps [simp]:
  "clock (s\<lparr>au_limiter := sw\<rparr>) = clock s" "next_id (s\<lparr>au_limiter := sw\<rparr>) = next_id s"
  "session_of (s\<lparr>au_limiter := sw\<rparr>) j = session_of s j" "user_of (s\<lparr>au_limiter := sw\<rparr>) i = user_of s i"
  "after_tick (s\<lparr>au_limiter := sw\<rparr>) = (after_tick s)\<lparr>au_limiter := sw\<rparr>"
  "after_draw (s\<lparr>au_limiter := sw\<rparr>) = (after_draw s)\<lparr>au_limiter := sw\<rparr>"
  by (simp_all add: clock_def next_id_def session_of_def user_of_def after_tick_def after_draw_def)

lemma lookup_Row:
  assumes "lookup_user n c s = Inr (Row (Some u))"
  shows "u \<in> set (at_users (au_db s))" "ur_username u = n"
proof -
  define rows where "rows = filter (\<lambda>u. ur_username u = n) (at_users (au_db s))"
  have "u \<in> set rows"
    using assms unfolding lookup_user_def Let_def rows_def [symmetric] by (cases rows) (simp_all split: if_split_asm)
  then show "u \<in> set (at_users (au_db s))" "ur_username u = n" by (simp_all add: rows_def)
qed

lemma login_parts:
  assumes "login env tick host b s = (Inr (LoginTokens t), s')"
  obtains sw u s2 ip where "lookup_user (str_strip (lr_username b)) (lr_tenant_code b) s = Inr (Row (Some u))"
    "ur_is_active u" "ae_checkpw env (lr_password b) (ur_password_hash u)"
    "authenticate_user env (lr_password b) (Some u) (s\<lparr>au_limiter := sw\<rparr>) = (Inr (Some t), s2)"
    "start_session env ip t s2 = (Inr (LoginTokens t), s')"
proof -
  let ?ip = "case host of Some h \<Rightarrow> h | None \<Rightarrow> ''unknown''"
  let ?n = "str_strip (lr_username b)" and ?c = "lr_tenant_code b"
  let ?k = "\<lambda>user. abind (authenticate_user env (lr_password b) user) (\<lambda>tokens.
    case tokens of None \<Rightarrow> unauthorized | Some t \<Rightarrow> finish_login env ?ip user t)"
  obtain s1 where lim: "login_limit tick ?ip s = (Inr (), s1)"
    and k: "abind (alift (lookup_user ?n ?c s1)) (\<lambda>found. case found of Ambiguous \<Rightarrow> unauthorized | Row user \<Rightarrow> ?k user) s1 =
      (Inr (LoginTokens t), s')"
    using assms by (simp add: login_def in_session_Inr abind_Inr [of "login_limit tick ?ip"] Let_def split: if_split_asm)
      (auto simp: abind_def aget_def)
  obtain sw where s1: "s1 = s\<lparr>au_limiter := sw\<rparr>" using login_limit_Inr [OF lim] by blast
  obtain user where look: "lookup_user ?n ?c s = Inr (Row user)" and "?k user s1 = (Inr (LoginTokens t), s')"
    using k by (cases "lookup_user ?n ?c s") (auto simp: abind_def alift_def s1 split: lookup.split_asm)
  then obtain toks s2 where auth: "authenticate_user env (lr_password b) user (s\<lparr>au_limiter := sw\<rparr>) = (Inr (Some toks), s2)"
    and fin: "finish_login env ?ip user toks s2 = (Inr (LoginTokens t), s')"
    by (auto simp: abind_Inr s1 split: option.split_asm)
  obtain u where u: "user = Some u" "ur_is_active u" "ae_checkpw env (lr_password b) (ur_password_hash u)"
    using auth by (auto simp: authenticate_user_def aret_def split: option.splits if_splits)
  have "start_session env ?ip toks s2 = (Inr (LoginTokens t), s')" "toks = t"
    using fin by (auto simp: finish_login_def start_session_def abind_Inr aret_def u(1) split: if_splits)
  with that [OF look [unfolded u(1)] u(2,3)] auth u(1) show thesis by blast
qed

text \<open>What a successful login of a user without second factor did.\<close>

lemma login_Inr:
  assumes "jwt_ok env" and run: "login env tick host b s = (Inr (LoginTokens t), s')"
  obtains u ip where "u \<in> set (at_users (au_db s))" "ur_username u = str_strip (lr_username b)" "ur_is_active u"
    "ae_checkpw env (lr_password b) (ur_password_hash u)" "ur_tenant_id u \<in> set (ae_tenants env)"
    "tr_access_token t = ae_encode env (login_access env u s)" "tr_refresh_token t = ae_encode env (login_refresh env u s)"
    "session_of s (uuid_str (next_id s)) = None"
    "au_db s' = (au_db s)\<lparr>at_sessions := at_sessions (au_db s) @
       [new_session (ur_id u) (ur_tenant_id u) (uuid_str (next_id s)) (Some ip) (next_id (after_draw (after_draw s)))]\<rparr>"
    "au_world s' = (au_world s)\<lparr>w_ticks := w_ticks (au_world s) + 3, w_uuids := w_uuids (au_world s) + 3\<rparr>"
    "au_redis s' = au_redis s"
proof -
  obtain sw u s2 ip where look: "lookup_user (str_strip (lr_username b)) (lr_tenant_code b) s = Inr (Row (Some u))"
    and u: "ur_is_active u" "ae_checkpw env (lr_password b) (ur_password_hash u)"
    and auth: "authenticate_user env (lr_password b) (Some u) (s\<lparr>au_limiter := sw\<rparr>) = (Inr (Some t), s2)"
    and start: "start_session env ip t s2 = (Inr (LoginTokens t), s')"
    by (rule login_parts [OF run])
  have t: "tr_access_token t = ae_encode env (login_access env u s)" "tr_refresh_token t = ae_encode env (login_refresh env u s)"
    and s2: "s2 = (after_draw (after_tick (after_draw (after_tick s))))\<lparr>au_limiter := sw\<rparr>"
    using auth u
    by (auto simp: authenticate_user_def abind_def access_eval refresh_eval aret_def login_access_def login_refresh_def
        clock_def after_tick_def after_draw_def next_id_def)
  have claims: "claim (jc_sub (login_access env u s)) = uuid_str (ur_id u)"
    "claim (jc_tenant_id (login_access env u s)) = uuid_str (ur_tenant_id u)"
    "claim (jc_jti (login_access env u s)) = uuid_str (next_id s)"
    by (simp_all add: login_access_def access_claims_def claim_def)
  have iss: "issued env (login_access env u s)" by (simp add: login_access_def)
  let ?r = "new_session (ur_id u) (ur_tenant_id u) (uuid_str (next_id s)) (Some ip) (next_id s2)"
  have "session_row_ok env (after_draw (after_tick s2)) ?r = Inr ()" "s' = with_session ?r (after_draw (after_tick s2))"
    using start
    by (auto simp: start_session_def abind_Inr decode_issued [OF assms(1) iss] t(1) claims insert_session_eval aret_def
        split: if_splits sum.splits)
  moreover have "next_id s2 = next_id (after_draw (after_draw s))" by (simp add: s2 next_id_def after_tick_def after_draw_def)
  ultimately show thesis
    using lookup_Row [OF look] u t
    by (intro that [of u ip]) (auto simp: session_row_ok_Inr new_session_def with_session_def s2 after_tick_def after_draw_def
      session_of_def)
qed

lemma current_user_eval:
  assumes "jwt_ok env" and "issued env c" and "valid_at (clock s) c" and "jc_role c = Some role"
    and "role \<in> {''editor'', ''admin'', ''viewer''}" and "\<not> jc_pre_2fa c" and "jc_sub c = Some (uuid_str uid)"
    and "jc_tenant_id c = Some (uuid_str tid)" and "jc_jti c = Some j" and "KEY_PREFIX @ j \<notin> fst ` set (au_redis s)"
  shows "get_current_user env tick (Some (ae_encode env c)) s =
    (Inr \<lparr>us_sub = uuid_str uid, us_role = role, us_tenant_id = tid, cu_jti = j\<rparr>, after_tick s)"
proof -
  have "\<not> redis_exists tick (KEY_PREFIX @ j) (au_redis s)"
    using assms(10) by (force simp: redis_exists_def redis_prune_def)
  then show ?thesis
    using assms(3-9)
    by (auto simp: get_current_user_def act_defs decode_issued [OF assms(1,2)] claim_def is_revoked_def current_user_def
        uuid_of_uuid_str)
qed

lemma current_user_blacklist:
  assumes "jwt_ok env" and "issued env c" and "valid_at (clock s) c" and "jc_role c = Some role"
    and "role \<in> {''editor'', ''admin'', ''viewer''}" and "\<not> jc_pre_2fa c" and "jc_sub c = Some (uuid_str uid)"
    and "jc_tenant_id c = Some (uuid_str tid)" and "jc_jti c = Some j"
  shows "isl (fst (get_current_user env tick (Some (ae_encode env c)) s)) \<longleftrightarrow> is_revoked tick j s"
  using assms(3-9)
  by (auto simp: get_current_user_def act_defs decode_issued [OF assms(1,2)] claim_def current_user_def uuid_of_uuid_str
      is_revoked_def after_tick_def)

lemma clock_tick: "clock (after_tick s) = w_clock (au_world s) (Suc (w_ticks (au_world s)))"
  by (simp add: clock_def after_tick_def)

lemma second_bounds: "(t0 :: int) div 10 ^ 6 * 10 ^ 6 \<le> t0 \<and> t0 < t0 div 10 ^ 6 * 10 ^ 6 + 10 ^ 6"
proof -
  have "t0 div 10 ^ 6 * 10 ^ 6 + t0 mod 10 ^ 6 = t0" by (rule div_mult_mod_eq)
  moreover have "0 \<le> t0 mod 10 ^ 6" "t0 mod 10 ^ 6 < 10 ^ 6" by simp_all
  ultimately show ?thesis by linarith
qed

lemma access_valid:
  assumes "t0 \<le> now" and "now + 10 ^ 6 \<le> t0 + ae_access_ttl env * 10 ^ 6"
  shows "valid_at now (access_claims env sub role ten p None (t0 div 10 ^ 6) u)"
  using assms second_bounds [of t0] by (simp add: valid_at_def access_claims_def)

lemma refresh_valid:
  assumes "t0 \<le> now" and "now + 10 ^ 6 \<le> t0 + ae_refresh_ttl env * 10 ^ 6"
  shows "valid_at now (refresh_claims env sub ten (t0 div 10 ^ 6) u)"
  using assms second_bounds [of t0] by (simp add: valid_at_def refresh_claims_def)

section \<open>Refresh tokens\<close>

text \<open>No session has one of the next three identifiers; the next reads of the clock come within the life of a token.\<close>

definition fresh_ids :: "auth \<Rightarrow> bool" where
  "fresh_ids s \<longleftrightarrow> (\<forall>i\<in>{w_uuids (au_world s)..<w_uuids (au_world s) + 3}. session_of s (uuid_str (w_uuid (au_world s) i)) = None \<and>
     w_uuid (au_world s) i \<notin> se_id ` set (at_sessions (au_db s)))"

definition prompt :: "AuthEnv \<Rightarrow> nat \<Rightarrow> auth \<Rightarrow> bool" where
  "prompt env n s \<longleftrightarrow> mono (w_clock (au_world s)) \<and>
     w_clock (au_world s) (w_ticks (au_world s) + n) + 10 ^ 6 \<le> clock s + ae_access_ttl env * 10 ^ 6"

lemma jwt_nonempty: "jwt_ok env \<Longrightarrow> issued env c \<Longrightarrow> ae_encode env c \<noteq> []"
  by (simp add: jwt_ok_def)

text \<open>The sessions grow by one for the first of three new identifiers, and the clock was read \<open>n\<close> times.\<close>

definition session_added :: "uuid \<Rightarrow> uuid \<Rightarrow> string option \<Rightarrow> nat \<Rightarrow> auth \<Rightarrow> auth \<Rightarrow> bool" where
  "session_added uid tid ip n s s' \<longleftrightarrow>
     (let w = au_world s; k = w_uuids w in
      au_world s' = w\<lparr>w_ticks := w_ticks w + n, w_uuids := k + 3\<rparr> \<and>
      at_sessions (au_db s') = at_sessions (au_db s) @ [new_session uid tid (uuid_str (w_uuid w k)) ip (w_uuid w (k + 2))])"

lemma issue_tokens_returns:
  assumes "jwt_ok env" and "fresh_ids s" and "prompt env 2 s" and "user_of s uid \<noteq> None"
    and "tid \<in> set (ae_tenants env)" and "pred_option (ae_inet env) ip"
  shows "\<exists>t s'. issue_tokens env (uuid_str uid) role (uuid_str tid) ip s = (Inr t, s') \<and> session_added uid tid ip 3 s s'"
proof -
  let ?c = "access_claims env (uuid_str uid) role (uuid_str tid) False None (clock s div 10 ^ 6) (next_id s)"
  let ?s = "after_draw (after_tick (after_draw (after_tick s)))"
  have "clock ?s = w_clock (au_world s) (w_ticks (au_world s) + 2)" by (simp add: clock_def after_tick_def after_draw_def)
  then have valid: "valid_at (clock ?s) ?c"
    using assms(3) by (intro access_valid) (auto simp: prompt_def clock_def monoD)
  have "py_len (uuid_str (next_id s)) \<le> 80" using py_len_le [of "uuid_str (next_id s)"] by (simp add: length_uuid_str)
  moreover have "next_id ?s = w_uuid (au_world s) (w_uuids (au_world s) + 2)" by (simp add: next_id_def after_tick_def after_draw_def)
  then have "session_of s (uuid_str (next_id s)) = None" "next_id ?s \<notin> se_id ` set (at_sessions (au_db s))"
    using assms(2) by (auto simp: fresh_ids_def next_id_def)
  ultimately have "session_row_ok env (after_draw (after_tick ?s)) (new_session uid tid (uuid_str (next_id s)) ip (next_id ?s)) = Inr ()"
    using assms(4-6) by (simp add: session_row_ok_Inr new_session_def)
  then show ?thesis
    using valid by (simp add: issue_tokens_def abind_def access_eval refresh_eval decode_issued [OF assms(1)] insert_session_eval aret_def
        session_added_def with_session_def next_id_def after_tick_def after_draw_def)
qed

lemma revoke_claims_eval:
  assumes "claim (jc_jti c) \<noteq> []"
  shows "\<exists>store. revoke_from_claims tick c s = (Inr (), (after_tick s)\<lparr>au_redis := store\<rparr>)"
proof -
  have "0 < clamp_ttl n" for n by (simp add: clamp_ttl_def MIN_TTL_S_def MAX_TTL_S_def)
  then show ?thesis
    using assms by (auto simp: revoke_from_claims_def revoke_def act_defs arun_now setex_def Let_def not_le)
qed

lemma refresh_returns:
  assumes "jwt_ok env" and "issued env c" and "valid_at (clock s) c" and "jc_token_type c = Some ''refresh''"
    and "claim (jc_jti c) \<noteq> []" and "session_of s (claim (jc_jti c)) = None" and "claim (jc_sub c) = uuid_str (ur_id u)"
    and "user_of s (ur_id u) = Some v" and "identity v = identity u" and "ur_is_active u"
    and "ur_tenant_id u \<in> set (ae_tenants env)" and "ae_inet env host" and "fresh_ids s" and "prompt env 4 s"
  shows "\<exists>t s'. refresh env tick (Some host) (ae_encode env c) s = (Inr t, s') \<and>
    session_added (ur_id u) (ur_tenant_id u) (Some host) 5 s s'"
proof -
  have v: "ur_is_active v" "ur_tenant_id v = ur_tenant_id u" using assms(9,10) by (simp_all add: identity_def)
  obtain store where store: "revoke_from_claims tick c (after_tick s) = (Inr (), (after_tick (after_tick s))\<lparr>au_redis := store\<rparr>)"
    using revoke_claims_eval [OF assms(5)] by blast
  let ?s = "(after_tick (after_tick s))\<lparr>au_redis := store\<rparr>"
  have "fresh_ids ?s" using assms(13) by (simp add: fresh_ids_def after_tick_def session_of_def)
  moreover have "prompt env 2 ?s"
    using assms(14) monoD [of "w_clock (au_world s)" "w_ticks (au_world s)" "w_ticks (au_world s) + 2"]
    by (simp add: prompt_def clock_def after_tick_def numeral_eq_Suc)
  moreover have "user_of ?s (ur_id u) \<noteq> None" using assms(8) by (simp add: user_of_def after_tick_def)
  ultimately obtain t s' where "issue_tokens env (uuid_str (ur_id u)) (ur_role_code v) (uuid_str (ur_tenant_id v)) (Some host) ?s = (Inr t, s')"
      and "session_added (ur_id u) (ur_tenant_id u) (Some host) 3 ?s s'"
    using issue_tokens_returns [OF assms(1), of ?s "ur_id u" "ur_tenant_id u" "Some host" "ur_role_code v"] assms(11,12) v(2)
    by auto
  moreover from this(2) have "session_added (ur_id u) (ur_tenant_id u) (Some host) 5 s s'"
    by (simp add: session_added_def Let_def after_tick_def)
  ultimately show ?thesis
    using assms(3-8) v store jwt_nonempty [OF assms(1,2)]
    by (simp add: refresh_def in_session_def act_defs decode_issued [OF assms(1,2)] as_uuid_def uuid_of_uuid_str revoked_row_def Let_def)
qed

lemma prompt_later:
  assumes "prompt env n s" and "au_world s' = (au_world s)\<lparr>w_ticks := w_ticks (au_world s) + k\<rparr>" and "k + m \<le> n"
  shows "prompt env m s'"
proof -
  let ?t = "\<lambda>i. w_clock (au_world s) (w_ticks (au_world s) + i)"
  have mono: "mono (w_clock (au_world s))" using assms(1) by (simp add: prompt_def)
  have "?t (k + m) \<le> ?t n" "?t 0 \<le> ?t k" using assms(3) by (intro monoD [OF mono]; simp)+
  then show ?thesis using assms(1) unfolding prompt_def clock_def assms(2) by (simp add: add.assoc)
qed

section \<open>Requests that succeed\<close>

lemma login_returns:
  assumes "jwt_ok env" and "validate_login b" and "login_limit tick ip s = (Inr (), s\<lparr>au_limiter := sw\<rparr>)"
    and "lookup_user (str_strip (lr_username b)) (lr_tenant_code b) s = Inr (Row (Some u))"
    and "ur_is_active u" and "ae_checkpw env (lr_password b) (ur_password_hash u)" and "\<not> ur_totp_enabled u"
    and "user_of s (ur_id u) \<noteq> None" and "ur_tenant_id u \<in> set (ae_tenants env)" and "ae_inet env ip"
    and "fresh_ids s" and "prompt env 2 s"
  shows "\<exists>t s1. login env tick (Some ip) b s = (Inr (LoginTokens t), s1)"
proof -
  let ?c = "login_access env u s"
  let ?s = "(after_draw (after_tick (after_draw (after_tick s))))\<lparr>au_limiter := sw\<rparr>"
  let ?r = "new_session (ur_id u) (ur_tenant_id u) (uuid_str (next_id s)) (Some ip) (next_id ?s)"
  have c: "issued env ?c" "claim (jc_sub ?c) = uuid_str (ur_id u)" "claim (jc_tenant_id ?c) = uuid_str (ur_tenant_id u)"
    "claim (jc_jti ?c) = uuid_str (next_id s)"
    by (simp_all add: login_access_def) (simp_all add: access_claims_def claim_def)
  have "clock ?s = w_clock (au_world s) (w_ticks (au_world s) + 2)" by (simp add: clock_def after_tick_def after_draw_def)
  then have valid: "valid_at (clock ?s) ?c"
    using assms(12) unfolding login_access_def by (intro access_valid) (auto simp: prompt_def clock_def monoD)
  have "next_id ?s = w_uuid (au_world s) (w_uuids (au_world s) + 2)" by (simp add: next_id_def after_tick_def after_draw_def)
  then have "session_of s (uuid_str (next_id s)) = None" "next_id ?s \<notin> se_id ` set (at_sessions (au_db s))"
    using assms(11) by (auto simp: fresh_ids_def next_id_def)
  moreover have "py_len (uuid_str (next_id s)) \<le> 80" using py_len_le [of "uuid_str (next_id s)"] by (simp add: length_uuid_str)
  ultimately have "session_row_ok env (after_draw (after_tick ?s)) ?r = Inr ()"
    using assms(8-10) by (simp add: session_row_ok_Inr new_session_def)
  then have "\<exists>s1. start_session env ip \<lparr>tr_access_token = ae_encode env ?c, tr_refresh_token = rt, tr_expires_in = n\<rparr> ?s =
      (Inr (LoginTokens \<lparr>tr_access_token = ae_encode env ?c, tr_refresh_token = rt, tr_expires_in = n\<rparr>), s1)" for rt n
    using valid c by (simp add: start_session_def abind_def decode_issued [OF assms(1)] insert_session_eval aret_def)
  moreover have "authenticate_user env (lr_password b) (Some u) (s\<lparr>au_limiter := sw\<rparr>) =
      (Inr (Some \<lparr>tr_access_token = ae_encode env ?c, tr_refresh_token = ae_encode env (login_refresh env u s),
         tr_expires_in = ae_access_ttl env\<rparr>), ?s)"
    using assms(5,6) by (simp add: authenticate_user_def abind_def access_eval refresh_eval aret_def login_access_def login_refresh_def
        next_id_def clock_def after_draw_def after_tick_def)
  ultimately show ?thesis
    using assms(2-4,7) by (fastforce simp: login_def in_session_Inr abind_def aget_def alift_def finish_login_def Let_def)
qed

lemma mark_first_use:
  "j \<notin> fst ` set (au_consumed s) \<Longrightarrow>
   \<exists>cache. mark_partial_jti_consumed j e s = (Inr True, (after_tick s)\<lparr>au_consumed := cache\<rparr>)"
  by (auto simp: mark_partial_jti_consumed_def act_defs arun_now after_tick_def)

lemma challenge_returns:
  assumes "jwt_ok env" and "issued env c" and "valid_at (clock s) c" and "jc_pre_2fa c" and "10 \<le> py_len (ae_encode env c)"
    and "otp_text_ok otp" and "claim (jc_jti c) = uuid_str j" and "uuid_str j \<notin> fst ` set (au_consumed s)"
    and "uuid_str j \<notin> set (at_consumed_partial_jti (au_db s))" and "claim (jc_sub c) = uuid_str uid"
    and "claim (jc_tenant_id c) = uuid_str tid" and "user_of s uid = Some u" and "ur_totp_enabled u" and "has_secret u"
    and "ae_otp env (claim (ur_totp_secret u)) otp (clock (after_tick (after_tick s)) div 10 ^ 6)"
    and "ur_totp_last_counter u < clock (after_tick (after_tick (after_tick s))) div 10 ^ 6 div 30"
    and "tid \<in> set (ae_tenants env)" and "ae_inet env ip" and "fresh_ids s" and "prompt env 6 s"
  shows "\<exists>t s1. challenge env (Some ip) (ae_encode env c) otp s = (Inr t, s1)"
proof -
  let ?j = "uuid_str j"
  let ?e = "case jc_exp c of Some e \<Rightarrow> e | None \<Rightarrow> 0"
  obtain cache where mark: "mark_partial_jti_consumed ?j ?e (after_tick s) =
      (Inr True, (after_tick (after_tick s))\<lparr>au_consumed := cache\<rparr>)"
    using mark_first_use [of ?j "after_tick s"] assms(8) by (auto simp: after_tick_def)
  define s2 where "s2 = (after_tick (after_tick s))\<lparr>au_consumed := cache\<rparr>"
  define s3 where "s3 = s2\<lparr>au_db := (au_db s2)\<lparr>at_consumed_partial_jti := ?j # at_consumed_partial_jti (au_db s2)\<rparr>\<rparr>"
  define k where "k = clock (after_tick s3) div 10 ^ 6 div 30"
  define s4 where "s4 = (after_tick (after_tick s3))\<lparr>au_db := map_user uid (\<lambda>u. u\<lparr>ur_totp_last_counter := k\<rparr>) (au_db s3)\<rparr>"
  have consume: "insert_consumed_partial_jti ?j s2 = (Inr (), s3)"
    using assms(9) py_len_le [of ?j] by (simp add: insert_consumed_partial_jti_def act_defs s2_def s3_def length_uuid_str)
  have row: "user_of s3 uid = Some u" using assms(12) by (simp add: s3_def s2_def user_of_def)
  have clocks: "clock s3 = clock (after_tick (after_tick s))" "clock (after_tick s3) = clock (after_tick (after_tick (after_tick s)))"
    by (simp_all add: s3_def s2_def clock_def after_tick_def)
  have verify: "verify_otp_no_replay env (uuid_str uid) (claim (ur_totp_secret u)) otp (ur_totp_last_counter u) s3 = (Inr k, s4)"
    using assms(15,16) by (simp add: verify_otp_eval Let_def uuid_of_uuid_str clocks k_def s4_def)
  have rows: "session_of s4 i = session_of s i" "at_sessions (au_db s4) = at_sessions (au_db s)" for i
    by (simp_all add: s4_def s3_def s2_def session_of_def map_user_def after_tick_def)
  have world: "au_world s4 = (au_world s)\<lparr>w_ticks := w_ticks (au_world s) + 4\<rparr>"
    by (simp add: s4_def s3_def s2_def after_tick_def)
  have "fresh_ids s4" using assms(19) by (simp add: fresh_ids_def rows world)
  moreover have "prompt env 2 s4" by (rule prompt_later [OF assms(20) world]) simp
  moreover have "user_of s4 uid \<noteq> None"
    using row by (auto simp: s4_def user_of_def map_user_def find_map_cong)
  ultimately obtain t s' where "issue_tokens env (uuid_str uid) (claim (jc_role c)) (uuid_str tid) (Some ip) s4 = (Inr t, s')"
    using issue_tokens_returns [OF assms(1), of s4 uid tid "Some ip" "claim (jc_role c)"] assms(17,18) by auto
  then have "complete_challenge env (Some ip) otp c s3 = (Inr t, s')"
    using row verify assms(10,11,13,14)
    by (simp add: complete_challenge_def fetch_totp_row_def as_uuid_def uuid_of_uuid_str act_defs Let_def)
  then show ?thesis
    using assms(3-7) mark consume [unfolded s2_def]
    by (simp add: challenge_def in_session_Inr act_defs decode_issued [OF assms(1,2)] Let_def)
qed

end
