(* ===== verification/Auth_Demo.thy ===== *)
theory Auth_Demo
  imports Auth_Runs
begin

text \<open>
  A concrete token library for the witnesses of the authentication theorems: claims written as text
  with a marker before every character, read back exactly, under a fixed header. It meets the contract
  of PyJWT that the theorems assume. One-time passwords alternate between two codes.
\<close>

section \<open>Claims as text\<close>

definition put_text :: "string \<Rightarrow> string" where
  "put_text s = concat (map (\<lambda>c. [CHR ''x'', c]) s) @ ''.''"

fun take_text :: "string \<Rightarrow> (string \<times> string) option" where
  "take_text [] = None"
| "take_text [c] = (if c = CHR ''.'' then Some ([], []) else None)"
| "take_text (c # d # r) =
     (if c = CHR ''.'' then Some ([], d # r) else case take_text r of None \<Rightarrow> None | Some (s, t) \<Rightarrow> Some (d # s, t))"

lemma take_put_text: "take_text (put_text s @ t) = Some (s, t)"
proof (induction s)
  case Nil
  then show ?case by (cases t) (simp_all add: put_text_def)
qed (simp add: put_text_def)

definition put_opt :: "string option \<Rightarrow> string" where
  "put_opt v = (case v of None \<Rightarrow> ''-'' | Some s \<Rightarrow> CHR ''+'' # put_text s)"

fun take_opts :: "nat \<Rightarrow> string \<Rightarrow> string option list option" where
  "take_opts 0 t = (if t = [] then Some [] else None)"
| "take_opts (Suc n) [] = None"
| "take_opts (Suc n) (c # t) =
     (if c = CHR ''-'' then map_option (\<lambda>vs. None # vs) (take_opts n t)
      else case take_text t of None \<Rightarrow> None | Some (s, r) \<Rightarrow> map_option (\<lambda>vs. Some s # vs) (take_opts n r))"

lemma take_put_opts: "take_opts (length vs) (concat (map put_opt vs)) = Some vs"
proof (induction vs)
  case (Cons v vs)
  then show ?case by (cases v) (simp_all add: put_opt_def take_put_text)
qed simp

definition claim_texts :: "Claims \<Rightarrow> string option list" where
  "claim_texts c =
     [jc_sub c, jc_role c, jc_tenant_id c, jc_jti c, map_option signed_int_str (jc_iat c), map_option signed_int_str (jc_exp c),
      jc_token_type c, jc_iss c, jc_aud c, if jc_pre_2fa c then Some [] else None]"

definition claims_of_texts :: "string option list \<Rightarrow> Claims option" where
  "claims_of_texts vs =
     (case vs of
        [a, b, c, d, e, f, g, h, i, p] \<Rightarrow>
          Some \<lparr>jc_sub = a, jc_role = b, jc_tenant_id = c, jc_jti = d, jc_iat = Option.bind e signed_int_of,
                jc_exp = Option.bind f signed_int_of, jc_token_type = g, jc_iss = h, jc_aud = i, jc_pre_2fa = (p \<noteq> None)\<rparr>
      | _ \<Rightarrow> None)"

lemma claims_of_claim_texts: "claims_of_texts (claim_texts c) = Some c"
proof -
  have "Option.bind (map_option signed_int_str v) signed_int_of = v" for v by (cases v) (simp_all add: signed_int_of_print)
  then show ?thesis by (simp add: claims_of_texts_def claim_texts_def)
qed

definition demo_header :: string where "demo_header = ''eyJhbGciOiJIUzI1NiJ9.''"

definition demo_encode :: "Claims \<Rightarrow> string" where
  "demo_encode c = demo_header @ concat (map put_opt (claim_texts c))"

definition demo_decode :: "int \<Rightarrow> string \<Rightarrow> Claims res" where
  "demo_decode now t =
     (if take 21 t \<noteq> demo_header then Inl JWTError
      else case Option.bind (take_opts 10 (drop 21 t)) claims_of_texts of
             None \<Rightarrow> Inl JWTError
           | Some c \<Rightarrow> if valid_at now c \<and> jc_iss c = None \<and> jc_aud c = None then Inr c else Inl JWTError)"

definition demo_code :: "string \<Rightarrow> int \<Rightarrow> string" where
  "demo_code secret k = (if even k then ''000000'' else ''111111'')"

definition demo_aenv :: AuthEnv where
  "demo_aenv =
     \<lparr>ae_issuer = [], ae_audience = [], ae_access_ttl = 3600, ae_refresh_ttl = 604800, ae_encode = demo_encode,
      ae_decode = demo_decode, ae_header_alg = (\<lambda>_. Inr ''HS256''), ae_checkpw = (=),
      ae_otp = (\<lambda>secret otp t. \<exists>d\<in>{- 1, 0, 1}. demo_code secret (t div 30 + d) = otp), ae_inet = (\<lambda>_. True),
      ae_tenants = [1],
      ae_http_bearer = (\<lambda>h. if str_lower (take 7 h) = ''bearer '' then Some (drop 7 h) else None)\<rparr>"

lemma demo_aenv_simps [simp]:
  "ae_issuer demo_aenv = []" "ae_audience demo_aenv = []" "ae_access_ttl demo_aenv = 3600" "ae_refresh_ttl demo_aenv = 604800"
  "ae_inet demo_aenv ip" "ae_tenants demo_aenv = [1]" "ae_checkpw demo_aenv p q \<longleftrightarrow> p = q"
  by (simp_all add: demo_aenv_def)

lemma demo_jwt: "jwt_ok demo_aenv"
proof -
  have len: "length demo_header = 21" by (simp add: demo_header_def)
  have ten: "length (claim_texts c) = 10" for c by (simp add: claim_texts_def)
  have "take_opts 10 (concat (map put_opt (claim_texts c))) = Some (claim_texts c)" for c
    using take_put_opts [of "claim_texts c"] by (simp only: ten)
  then have "demo_decode now (demo_encode c) = (if valid_at now c then Inr c else Inl JWTError)" if "issued demo_aenv c" for now c
    using that by (simp add: demo_decode_def demo_encode_def len claims_of_claim_texts issued_def opt_text_def)
  moreover have "demo_encode c \<noteq> DEMO_TOKEN_SENTINEL" "demo_encode c \<noteq> []" for c
    by (simp_all add: demo_encode_def demo_header_def DEMO_TOKEN_SENTINEL_def)
  moreover have "str_lower ''HS256'' \<notin> set FORBIDDEN_ALGORITHMS"
    by (simp add: str_lower_def chr_lower_def FORBIDDEN_ALGORITHMS_def)
  ultimately show ?thesis by (auto simp: jwt_ok_def demo_aenv_def)
qed

lemma demo_bearer: "bearer_ok demo_aenv"
proof -
  have "length scheme = 6" "str_lower (scheme @ '' '') = ''bearer ''" if "str_lower scheme = ''bearer''" for scheme
    using that bearer_length [OF that] by (simp_all add: str_lower_append) (simp add: str_lower_def chr_lower_def)
  then show ?thesis by (simp add: bearer_ok_def demo_aenv_def)
qed

lemma demo_token_length: "10 \<le> py_len (ae_encode demo_aenv c)"
proof -
  have "10 \<le> py_len demo_header" by (simp add: py_len_def demo_header_def)
  moreover have "py_len (s @ t) = py_len s + py_len t" for s t by (simp add: py_len_def)
  ultimately show ?thesis by (simp add: demo_aenv_def demo_encode_def)
qed

section \<open>A small deployment\<close>

definition demo_account :: "uuid \<Rightarrow> string \<Rightarrow> bool \<Rightarrow> UserRow" where
  "demo_account i name totp =
     \<lparr>ur_id = i, ur_tenant_id = 1, ur_username = name, ur_password_hash = ''pw'', ur_role_code = ''editor'', ur_is_active = True,
      ur_totp_secret = (if totp then Some ''S'' else None), ur_totp_enabled = totp, ur_totp_enrolled_at = None,
      ur_totp_last_counter = 0\<rparr>"

definition demo_auth :: auth where
  "demo_auth =
     \<lparr>au_db = \<lparr>at_users = [demo_account 5 ''ann'' False, demo_account 6 ''bob'' True], at_sessions = [],
               at_consumed_partial_jti = [], at_audit = []\<rparr>,
      au_redis = [], au_consumed = [], au_limiter = sliding_window_init 60 5,
      au_world = \<lparr>w_uuid = (\<lambda>i. word_of_nat (min i 100)), w_clock = (\<lambda>i. 60000000 + int i), w_uuids = 0, w_ticks = 0\<rparr>\<rparr>"

definition demo_login :: LoginRequest where
  "demo_login = \<lparr>lr_username = ''ann'', lr_password = ''pw'', lr_tenant_code = None\<rparr>"

lemma demo_clock: "mono (w_clock (au_world demo_auth))" and demo_time: "clock demo_auth = 60000000"
  by (auto simp: mono_def demo_auth_def clock_def)

lemma demo_fresh: "fresh_ids demo_auth"
  by (simp add: fresh_ids_def demo_auth_def session_of_def)

lemma demo_users:
  "user_of demo_auth 5 = Some (demo_account 5 ''ann'' False)" "user_of demo_auth 6 = Some (demo_account 6 ''bob'' True)"
  by (simp_all add: user_of_def demo_auth_def demo_account_def)

lemma demo_otp: "otp_ok demo_aenv demo_code"
  by (simp add: otp_ok_def demo_aenv_def)

lemma demo_login_returns: "\<exists>t s1. login demo_aenv 0 (Some ''10.0.0.1'') demo_login demo_auth = (Inr (LoginTokens t), s1)"
proof -
  let ?ann = "demo_account 5 ''ann'' False"
  have strip: "str_strip ''ann'' = ''ann''" by (rule str_strip_id) (auto simp: chr_space_def)
  obtain sw where "login_limit 0 ''10.0.0.1'' demo_auth = (Inr (), demo_auth\<lparr>au_limiter := sw\<rparr>)"
    by (simp add: login_limit_def is_allowed_def demo_auth_def sliding_window_init_def)
  moreover have "validate_login demo_login" using strip by (simp add: validate_login_def demo_login_def py_len_def)
  moreover have "lookup_user (str_strip (lr_username demo_login)) (lr_tenant_code demo_login) demo_auth = Inr (Row (Some ?ann))"
    using strip by (simp add: lookup_user_def demo_login_def demo_auth_def demo_account_def claim_def)
  moreover have "prompt demo_aenv 2 demo_auth" using demo_clock by (simp add: prompt_def demo_auth_def clock_def)
  ultimately show ?thesis
    using demo_fresh demo_users
    by (intro login_returns [OF demo_jwt]) (auto simp: demo_account_def demo_login_def)
qed

definition demo_partial :: Claims where
  "demo_partial = access_claims demo_aenv (uuid_str 6) ''editor'' (uuid_str 1) True (Some PARTIAL_TOKEN_TTL_S) 60 9"

lemma demo_challenge_returns:
  "\<exists>t s1. challenge demo_aenv (Some ''10.0.0.1'') (ae_encode demo_aenv demo_partial) ''000000'' demo_auth = (Inr t, s1)"
proof (rule challenge_returns [OF demo_jwt, where u = "demo_account 6 ''bob'' True" and j = 9 and uid = 6 and tid = 1])
  show "issued demo_aenv demo_partial" "claim (jc_jti demo_partial) = uuid_str 9" by (simp_all add: demo_partial_def)
  show "valid_at (clock demo_auth) demo_partial" "jc_pre_2fa demo_partial" "claim (jc_sub demo_partial) = uuid_str 6"
    "claim (jc_tenant_id demo_partial) = uuid_str 1"
    by (simp_all add: demo_partial_def access_claims_def claim_def valid_at_def demo_time PARTIAL_TOKEN_TTL_S_def)
  show "otp_text_ok ''000000''" by (simp add: otp_text_ok_def is_digit_def)
  show "ae_otp demo_aenv (claim (ur_totp_secret (demo_account 6 ''bob'' True))) ''000000''
      (clock (after_tick (after_tick demo_auth)) div 10 ^ 6)"
    by (simp add: demo_aenv_def demo_code_def clock_def after_tick_def demo_auth_def)
  show "prompt demo_aenv 6 demo_auth" using demo_clock by (simp add: prompt_def demo_auth_def clock_def)
  show "user_of demo_auth 6 = Some (demo_account 6 ''bob'' True)" by (rule demo_users)
qed (simp_all add: demo_fresh demo_token_length,
  simp_all add: demo_account_def has_secret_def claim_def demo_auth_def clock_def after_tick_def)

text \<open>The same one-time password in two steps: half a minute passes between the requests.\<close>

definition half_minute_later :: "auth \<Rightarrow> auth" where
  "half_minute_later s = s\<lparr>au_world := (au_world s)\<lparr>w_ticks := 30000000\<rparr>\<rparr>"

lemma demo_otp_runs:
  "\<exists>s1 s3. verify_otp_no_replay demo_aenv (uuid_str 6) ''S'' ''000000'' 0 demo_auth = (Inr 2, s1) \<and>
     auth_step demo_aenv s1 (half_minute_later s1) \<and>
     user_of (half_minute_later s1) 6 = Some ((demo_account 6 ''bob'' True)\<lparr>ur_totp_last_counter := 2\<rparr>) \<and>
     verify_otp_no_replay demo_aenv (uuid_str 6) ''S'' ''000000'' 2 (half_minute_later s1) = (Inr 3, s3)"
proof -
  have steps: "in_step 2 demo_auth" by (simp add: in_step_def clock_def after_tick_def demo_auth_def)
  obtain s1 where s1: "verify_otp_no_replay demo_aenv (uuid_str 6) ''S'' ''000000'' 0 demo_auth = (Inr 2, s1)"
    "au_db s1 = map_user 6 (\<lambda>u. u\<lparr>ur_totp_last_counter := 2\<rparr>) (au_db demo_auth)"
    "au_world s1 = au_world (after_tick (after_tick demo_auth))"
    using otp_accepted [OF demo_otp steps, of 0 0 "uuid_str 6" 6 "''S''"] by (auto simp: uuid_of_uuid_str demo_code_def)
  have "in_step 3 (half_minute_later s1)"
    by (simp add: in_step_def clock_def after_tick_def half_minute_later_def s1(3) demo_auth_def)
  then obtain s3 where "verify_otp_no_replay demo_aenv (uuid_str 6) ''S'' ''000000'' 2 (half_minute_later s1) = (Inr 3, s3)"
    using otp_accepted [OF demo_otp, of 3 "half_minute_later s1" 2 "- 1" "uuid_str 6" 6 "''S''"]
    by (auto simp: uuid_of_uuid_str demo_code_def)
  moreover have "auth_step demo_aenv s1 (half_minute_later s1)"
    unfolding half_minute_later_def by (rule auth_step.wait) (simp add: advances_def s1(3) after_tick_def demo_auth_def)
  moreover have "user_of (half_minute_later s1) 6 = Some ((demo_account 6 ''bob'' True)\<lparr>ur_totp_last_counter := 2\<rparr>)"
    by (simp add: user_of_def half_minute_later_def s1(2) map_user_def demo_auth_def demo_account_def)
  ultimately show ?thesis using s1(1) by blast
qed

text \<open>A state in which the first user has a session, and its access token.\<close>

definition demo_access :: Claims where
  "demo_access = access_claims demo_aenv (uuid_str 5) ''editor'' (uuid_str 1) False None 60 7"

definition demo_logged_in :: auth where
  "demo_logged_in = with_session (new_session 5 1 (uuid_str 7) None 8) demo_auth"

lemma demo_logout_clock:
  assumes "logout demo_aenv 0 (Some (ae_encode demo_aenv demo_access)) None demo_logged_in = (x, s1)"
  shows "valid_at (clock s1) demo_access"
proof -
  have iss: "issued demo_aenv demo_access" and jti: "claim (jc_jti demo_access) = uuid_str 7" "claim (jc_sub demo_access) = uuid_str 5"
    by (simp_all add: demo_access_def) (simp add: access_claims_def claim_def)
  have "uuid_str 7 \<noteq> []" "uuid_str 5 \<noteq> []" using length_uuid_str [of 7] length_uuid_str [of 5] by auto
  then have "w_ticks (au_world s1) \<le> 3 \<and> w_clock (au_world s1) = w_clock (au_world demo_auth)"
    using assms
    by (auto simp: logout_def in_session_def logout_access_def revoke_auth_session_by_jti_def revoke_from_claims_def revoke_def
        act_defs decode_issued [OF demo_jwt iss] jti as_uuid_def uuid_of_uuid_str arun_now Let_def after_tick_def update_sessions_def
        demo_logged_in_def with_session_def demo_auth_def split: if_splits sum.splits prod.splits)
  then show ?thesis
    by (auto simp: valid_at_def demo_access_def access_claims_def clock_def demo_auth_def)
qed

lemma demo_login_world:
  assumes "login demo_aenv 0 (Some ''10.0.0.1'') demo_login demo_auth = (Inr (LoginTokens t), s1)"
  shows "au_world s1 = (au_world demo_auth)\<lparr>w_ticks := 3, w_uuids := 3\<rparr>"
  by (rule login_Inr [OF demo_jwt assms]) (simp add: demo_auth_def)

text \<open>The first user logs in and refreshes once: the identifiers still to come are still unused.\<close>

lemma demo_uuid_inj: "i \<le> 100 \<Longrightarrow> j \<le> 100 \<Longrightarrow> (word_of_nat i :: uuid) = word_of_nat j \<Longrightarrow> i = j"
proof -
  assume "i \<le> 100" "j \<le> 100" "(word_of_nat i :: uuid) = word_of_nat j"
  moreover have "unat (word_of_nat k :: uuid) = k" if "k \<le> 100" for k
    using that by (simp add: unsigned_of_nat take_bit_nat_eq_self_iff)
  ultimately show "i = j" by metis
qed

lemma demo_ids: "w_uuid (au_world demo_auth) i = w_uuid (au_world demo_auth) 1 \<Longrightarrow> i = 1"
  using demo_uuid_inj [of "min i 100" 1] by (simp add: demo_auth_def)

lemma demo_prompt: "au_world s = (au_world demo_auth)\<lparr>w_ticks := n, w_uuids := m\<rparr> \<Longrightarrow> prompt demo_aenv 4 s"
  using demo_clock by (simp add: prompt_def clock_def) (simp add: demo_auth_def)

definition numbered :: "nat \<Rightarrow> SessionRow \<Rightarrow> bool" where
  "numbered m r \<longleftrightarrow> (\<exists>i<m. se_jti r = uuid_str (word_of_nat i)) \<and> (\<exists>i<m. se_id r = word_of_nat i)"

lemma demo_fresh_ids:
  assumes "au_world s = (au_world demo_auth)\<lparr>w_ticks := n, w_uuids := m\<rparr>" and "\<forall>r\<in>set (at_sessions (au_db s)). numbered m r"
    and "m + 3 \<le> 100"
  shows "fresh_ids s"
proof -
  have other: "(word_of_nat j :: uuid) \<noteq> word_of_nat i" if "m \<le> i" "i \<le> 100" "j < m" for i j
    using that demo_uuid_inj [of j i] by auto
  have "se_jti r \<noteq> uuid_str (word_of_nat i) \<and> se_id r \<noteq> word_of_nat i"
    if "r \<in> set (at_sessions (au_db s))" "m \<le> i" "i \<le> 100" for r i
    using bspec [OF assms(2) that(1)] other [OF that(2,3)] unfolding numbered_def by (metis uuid_str_inj)
  then show ?thesis
    using assms(3) unfolding fresh_ids_def assms(1) session_of_def find_None_iff
    by (fastforce simp: demo_auth_def min_def)
qed

lemma demo_login_refresh:
  assumes "login demo_aenv 0 (Some ''10.0.0.1'') demo_login demo_auth = (Inr (LoginTokens t), s1)"
  shows "\<exists>t2 s2. refresh demo_aenv 0 (Some ''10.0.0.1'') (tr_refresh_token t) s1 = (Inr t2, s2) \<and> fresh_ids s2 \<and>
    au_world s2 = (au_world demo_auth)\<lparr>w_ticks := 8, w_uuids := 6\<rparr>"
proof -
  obtain u ip where u: "u \<in> set (at_users (au_db demo_auth))" "ur_username u = str_strip (lr_username demo_login)"
    and t: "tr_refresh_token t = ae_encode demo_aenv (login_refresh demo_aenv u demo_auth)"
    and db: "au_db s1 = (au_db demo_auth)\<lparr>at_sessions := at_sessions (au_db demo_auth) @
       [new_session (ur_id u) (ur_tenant_id u) (uuid_str (next_id demo_auth)) (Some ip) (next_id (after_draw (after_draw demo_auth)))]\<rparr>"
    by (rule login_Inr [OF demo_jwt assms])
  have "str_strip ''ann'' = ''ann''" by (rule str_strip_id) (auto simp: chr_space_def)
  then have ann: "u = demo_account 5 ''ann'' False" using u by (auto simp: demo_auth_def demo_account_def demo_login_def)
  note world = demo_login_world [OF assms]
  have first: "at_sessions (au_db s1) = [new_session 5 1 (uuid_str 0) (Some ip) 2]"
    by (simp add: db ann next_id_def after_draw_def demo_auth_def demo_account_def)
  have "numbered 3 (new_session 5 1 (uuid_str 0) (Some ip) 2)"
    by (auto simp: numbered_def new_session_def intro: exI [of _ 0] exI [of _ 2])
  then have fresh: "fresh_ids s1" using demo_fresh_ids [OF world] first by simp
  let ?c = "login_refresh demo_aenv u demo_auth"
  have c: "claim (jc_jti ?c) = uuid_str 1" "issued demo_aenv ?c"
    by (simp_all add: login_refresh_def next_id_def after_draw_def demo_auth_def)
  have valid: "valid_at (clock s1) ?c" "jc_token_type ?c = Some ''refresh''" "claim (jc_sub ?c) = uuid_str (ur_id u)"
    by (simp_all add: valid_at_def login_refresh_def refresh_claims_def clock_def world after_tick_def claim_def)
      (simp_all add: demo_auth_def)
  have "uuid_str 1 \<noteq> []" "uuid_str 0 \<noteq> uuid_str 1" using length_uuid_str [of 1] by (auto simp: uuid_str_inj)
  then have "\<exists>t2 s2. refresh demo_aenv 0 (Some ''10.0.0.1'') (ae_encode demo_aenv ?c) s1 = (Inr t2, s2) \<and>
      session_added (ur_id u) (ur_tenant_id u) (Some ''10.0.0.1'') 5 s1 s2"
    by (intro refresh_returns [OF demo_jwt c(2) valid(1,2) _ _ valid(3), where v = u])
      (simp_all add: c fresh demo_prompt [OF world], simp_all add: session_of_def first new_session_def,
       simp_all add: user_of_def db ann demo_account_def demo_auth_def)
  then obtain t2 s2 where run: "refresh demo_aenv 0 (Some ''10.0.0.1'') (tr_refresh_token t) s1 = (Inr t2, s2)"
    and added: "session_added 5 1 (Some ''10.0.0.1'') 5 s1 s2"
    by (auto simp: t ann demo_account_def)
  have w2: "au_world s2 = (au_world demo_auth)\<lparr>w_ticks := 8, w_uuids := 6\<rparr>"
    using added by (simp add: session_added_def world Let_def)
  have "at_sessions (au_db s2) = [new_session 5 1 (uuid_str 0) (Some ip) 2, new_session 5 1 (uuid_str 3) (Some ''10.0.0.1'') 5]"
    using added by (simp add: session_added_def world first Let_def) (simp add: demo_auth_def)
  moreover have "numbered 6 (new_session 5 1 (uuid_str 0) (Some ip) 2)" "numbered 6 (new_session 5 1 (uuid_str 3) (Some ''10.0.0.1'') 5)"
    unfolding numbered_def by (intro conjI exI [of _ 0] exI [of _ 2] exI [of _ 3] exI [of _ 5]; simp add: new_session_def)+
  ultimately have "fresh_ids s2" using demo_fresh_ids [OF w2] by simp
  with run w2 show ?thesis by blast
qed

end
