(* ===== verification/Auth_Properties.thy ===== *)
theory Auth_Properties
  imports Auth_Demo
begin

text \<open>
  What the invariants of the authentication endpoints give: kinds of tokens do not mix, a revoked
  session stays revoked, a partial token is used once, a time step accepts one password per user; and
  what the code fails to prevent: the reuse of a refresh token after rotation, and of a one-time
  password in the next time step.
\<close>

text \<open>
  C34. The three kinds of tokens do not mix. In any state a refresh token authenticates no request and
  completes no challenge; the partial token of a login that waits for the second factor authenticates
  no request and refreshes nothing; an access token refreshes nothing and completes no challenge.
\<close>

theorem token_kinds_separate:
  assumes "jwt_ok env"
  shows "isl (fst (get_current_user env tick (Some (ae_encode env (refresh_claims env sub ten now u))) s)) \<and>
    isl (fst (challenge env host (ae_encode env (refresh_claims env sub ten now u)) otp s)) \<and>
    isl (fst (get_current_user env tick (Some (ae_encode env (access_claims env sub role ten True ttl now u))) s)) \<and>
    isl (fst (refresh env tick host (ae_encode env (access_claims env sub role ten p ttl now u)) s)) \<and>
    isl (fst (challenge env host (ae_encode env (access_claims env sub role ten False ttl now u)) otp s))"
  using assms
  by (auto intro!: current_user_kind refresh_kind challenge_kind) (simp_all add: access_claims_def refresh_claims_def)

theorem token_kinds_separate_witness:
  "isl (fst (get_current_user demo_aenv 0 (Some (ae_encode demo_aenv (refresh_claims demo_aenv (uuid_str 5) (uuid_str 1) 60 9))) demo_auth)) \<and>
   isl (fst (refresh demo_aenv 0 None (ae_encode demo_aenv demo_partial) demo_auth))"
  using token_kinds_separate [OF demo_jwt] by (simp add: demo_partial_def)

text \<open>
  C38. Within one 30-second step the replay guard accepts at most one password per user: if a password is
  accepted in step \<open>k1\<close> and, after any further requests, another in step \<open>k2\<close>, then \<open>k1 < k2\<close>.
\<close>

theorem otp_once_per_step:
  assumes "jwt_ok env" and "user_of s uid = Some u"
    and "verify_otp_no_replay env (uuid_str uid) secret1 otp1 (ur_totp_last_counter u) s = (Inr k1, s1)"
    and "(auth_step env)\<^sup>*\<^sup>* s1 s2" and "user_of s2 uid = Some u2"
    and "verify_otp_no_replay env (uuid_str uid) secret2 otp2 (ur_totp_last_counter u2) s2 = (Inr k2, s3)"
  shows "k1 < k2"
proof -
  have "user_of s1 uid = Some (u\<lparr>ur_totp_last_counter := k1\<rparr>)"
    using assms(2,3) user_of_id [OF assms(2)]
    by (auto simp: verify_otp_eval uuid_of_uuid_str Let_def user_of_def map_user_def find_map_cong split: if_splits)
  then have "counted env uid k1 s1" using assms(1) by (simp add: counted_def)
  then have "counted env uid k1 s2" by (rule counter.steps_keep [OF assms(4)])
  then have "k1 \<le> ur_totp_last_counter u2" using assms(5) by (simp add: counted_def)
  also have "\<dots> < k2" using assms(6) by (auto simp: verify_otp_eval uuid_of_uuid_str Let_def split: if_splits)
  finally show ?thesis .
qed

theorem otp_once_per_step_witness:
  "\<exists>s1 s3. verify_otp_no_replay demo_aenv (uuid_str 6) ''S'' ''000000'' 0 demo_auth = (Inr 2, s1) \<and>
     verify_otp_no_replay demo_aenv (uuid_str 6) ''S'' ''000000'' 2 (half_minute_later s1) = (Inr 3, s3) \<and> (2 :: int) < 3"
proof -
  obtain s1 s3 where runs: "verify_otp_no_replay demo_aenv (uuid_str 6) ''S'' ''000000'' 0 demo_auth = (Inr 2, s1)"
      "auth_step demo_aenv s1 (half_minute_later s1)"
      "user_of (half_minute_later s1) 6 = Some ((demo_account 6 ''bob'' True)\<lparr>ur_totp_last_counter := 2\<rparr>)"
      "verify_otp_no_replay demo_aenv (uuid_str 6) ''S'' ''000000'' 2 (half_minute_later s1) = (Inr 3, s3)"
    using demo_otp_runs by blast
  have "(2 :: int) < 3"
    by (rule otp_once_per_step [OF demo_jwt demo_users(2) _ r_into_rtranclp [where r = "auth_step demo_aenv"] runs(3)])
      (use runs in \<open>simp_all add: demo_account_def\<close>)
  with runs show ?thesis by blast
qed

text \<open>
  C40. A one-time password can be used twice: the password of step \<open>k\<close> is accepted in step \<open>k\<close>, and again in
  the next step, because the guard stores the current step and not the one the password belongs to.
\<close>

theorem otp_accepted_twice:
  assumes "otp_ok env code" and "user_of s uid = Some u" and "ur_totp_last_counter u < k" and "in_step k s"
  shows "\<exists>s1. verify_otp_no_replay env (uuid_str uid) secret (code secret k) (ur_totp_last_counter u) s = (Inr k, s1) \<and>
    (\<forall>w. advances (au_world s1) w \<and> in_step (k + 1) (s1\<lparr>au_world := w\<rparr>) \<longrightarrow>
      (\<exists>u1 s2. user_of (s1\<lparr>au_world := w\<rparr>) uid = Some u1 \<and>
        verify_otp_no_replay env (uuid_str uid) secret (code secret k) (ur_totp_last_counter u1) (s1\<lparr>au_world := w\<rparr>) =
          (Inr (k + 1), s2)))"
proof -
  obtain s1 where s1: "verify_otp_no_replay env (uuid_str uid) secret (code secret k) (ur_totp_last_counter u) s = (Inr k, s1)"
    "au_db s1 = map_user uid (\<lambda>u. u\<lparr>ur_totp_last_counter := k\<rparr>) (au_db s)"
    using otp_accepted [OF assms(1,4,3), of 0 "uuid_str uid" uid secret] by (auto simp: uuid_of_uuid_str)
  have "user_of (s1\<lparr>au_world := w\<rparr>) uid = Some (u\<lparr>ur_totp_last_counter := k\<rparr>)" for w
    using assms(2) user_of_id [OF assms(2)] s1(2) by (simp add: user_of_def map_user_def find_map_cong)
  moreover have "\<exists>s2. verify_otp_no_replay env (uuid_str uid) secret (code secret k) k (s1\<lparr>au_world := w\<rparr>) = (Inr (k + 1), s2)"
    if "in_step (k + 1) (s1\<lparr>au_world := w\<rparr>)" for w
    using otp_accepted [OF assms(1) that, of k "- 1" "uuid_str uid" uid secret] by (auto simp: uuid_of_uuid_str)
  ultimately show ?thesis using s1(1) by auto
qed

theorem otp_accepted_twice_witness:
  "\<exists>s1. verify_otp_no_replay demo_aenv (uuid_str 6) ''S'' ''000000'' 0 demo_auth = (Inr 2, s1) \<and>
     (\<exists>u1 s2. user_of (half_minute_later s1) 6 = Some u1 \<and>
       verify_otp_no_replay demo_aenv (uuid_str 6) ''S'' ''000000'' (ur_totp_last_counter u1) (half_minute_later s1) = (Inr 3, s2))"
proof -
  have step: "in_step 2 demo_auth" by (simp add: in_step_def clock_def after_tick_def demo_auth_def)
  have code: "demo_code ''S'' 2 = ''000000''" "ur_totp_last_counter (demo_account 6 ''bob'' True) = 0"
    by (simp_all add: demo_code_def demo_account_def)
  obtain s1 where first: "verify_otp_no_replay demo_aenv (uuid_str 6) ''S'' ''000000'' 0 demo_auth = (Inr 2, s1)"
    and again: "\<And>w. advances (au_world s1) w \<Longrightarrow> in_step 3 (s1\<lparr>au_world := w\<rparr>) \<Longrightarrow>
      \<exists>u1 s2. user_of (s1\<lparr>au_world := w\<rparr>) 6 = Some u1 \<and>
        verify_otp_no_replay demo_aenv (uuid_str 6) ''S'' ''000000'' (ur_totp_last_counter u1) (s1\<lparr>au_world := w\<rparr>) = (Inr 3, s2)"
    using otp_accepted_twice [OF demo_otp demo_users(2) _ step, of "''S''"] by (auto simp: code)
  have "au_world s1 = au_world (after_tick (after_tick demo_auth))"
    using first by (auto simp: verify_otp_eval Let_def split: if_splits sum.splits)
  then show ?thesis
    using first again [of "(au_world s1)\<lparr>w_ticks := 30000000\<rparr>"]
    by (simp add: half_minute_later_def advances_def in_step_def clock_def after_tick_def demo_auth_def)
qed

text \<open>
  C37. A partial token buys at most one token pair: after a successful challenge no later challenge with
  the same token succeeds, whatever happens in between, on whatever process and with whatever password.
\<close>

theorem partial_token_once:
  assumes "jwt_ok env" and "issued env c" and "challenge env host1 (ae_encode env c) otp1 s = (Inr t, s1)"
    and "(auth_step env)\<^sup>*\<^sup>* s1 s2"
  shows "\<exists>e s3. challenge env host2 (ae_encode env c) otp2 s2 = (Inl e, s3)"
proof -
  have "consumed_partial env (claim (jc_jti c)) s2"
    using challenge_Inr [OF assms(1-3)] by (intro consumed.steps_keep [OF assms(4)]) simp
  then have "challenge env host2 (ae_encode env c) otp2 s2 \<noteq> (Inr t2, s3)" for t2 s3
    using challenge_Inr [OF assms(1,2)] by (auto simp: consumed_partial_def)
  then show ?thesis by (cases "challenge env host2 (ae_encode env c) otp2 s2"; cases "fst (challenge env host2 (ae_encode env c) otp2 s2)") auto
qed

theorem partial_token_once_witness:
  "\<exists>t s1. challenge demo_aenv (Some ''10.0.0.1'') (ae_encode demo_aenv demo_partial) ''000000'' demo_auth = (Inr t, s1) \<and>
     (\<exists>e s3. challenge demo_aenv None (ae_encode demo_aenv demo_partial) ''111111'' s1 = (Inl e, s3))"
proof -
  obtain t s1 where run: "challenge demo_aenv (Some ''10.0.0.1'') (ae_encode demo_aenv demo_partial) ''000000'' demo_auth = (Inr t, s1)"
    using demo_challenge_returns by blast
  have "issued demo_aenv demo_partial" by (simp add: demo_partial_def)
  from partial_token_once [OF demo_jwt this run rtranclp.rtrancl_refl] run show ?thesis by blast
qed

text \<open>
  C35. What a logout revokes. After a logout with a valid access token that has a session, a request
  with the header \<open>Bearer <token>\<close> is rejected on every protected path for ever, whatever other requests
  follow and even if the process memory with the blacklist is lost. With any other spelling of the
  scheme, which FastAPI accepts and the session check does not recognise, only the blacklist of the
  process keeps the token out while it has not expired: the request is rejected exactly if the blacklist
  has the token, and one step away, on another process, it is accepted.
\<close>

theorem logout_is_final:
  assumes "jwt_ok env" and "bearer_ok env" and "mono (w_clock (au_world s))" and "issued env c" and "valid_at (clock s) c"
    and "jc_jti c = Some j" and "j \<noteq> []" and "jc_sub c = Some (uuid_str uid)"
    and "session_of s j = Some r" and "se_user_id r = uid"
    and "logout env tick1 (Some (ae_encode env c)) rt s = (x, s1)" and "(auth_step env)\<^sup>*\<^sup>* s1 s2" and "protected_path path"
  shows "isl (fst (authorized env path tick2 (bearer_header (ae_encode env c)) s2)) \<and>
    (\<forall>scheme role tid. str_lower scheme = ''bearer'' \<and> scheme \<noteq> ''Bearer'' \<and> valid_at (clock s2) c \<and>
       jc_role c = Some role \<and> role \<in> {''editor'', ''admin'', ''viewer''} \<and> \<not> jc_pre_2fa c \<and> jc_tenant_id c = Some (uuid_str tid) \<longrightarrow>
       (isl (fst (authorized env path tick2 (scheme @ '' '' @ ae_encode env c) s2)) \<longleftrightarrow> is_revoked tick2 j s2) \<and>
       (\<exists>s3. auth_step env s2 s3 \<and> authorized env path tick2 (scheme @ '' '' @ ae_encode env c) s3 =
          (Inr \<lparr>us_sub = uuid_str uid, us_role = role, us_tenant_id = tid, cu_jti = j\<rparr>, after_tick s3)))"
proof (intro conjI allI impI)
  have "revoked_session env j s2"
    using logout_revokes_session [OF assms(1,4-11)] by (rule revoked.steps_keep [OF assms(12)])
  moreover have "later env (au_world s) s2"
    by (rule time.steps_keep [OF assms(12)], rule hoareD [OF time.keeps_logout _ TrueI assms(11)])
      (simp add: later_def assms(1))
  then have "clock s \<le> clock s2" "clock s2 \<le> clock (after_tick s2)"
    using assms(3) by (auto simp: later_def advances_def clock_def after_tick_def monoD)
  then have "valid_at (clock s2) c \<or> \<not> valid_at (clock (after_tick s2)) c"
    using assms(5) by (cases "jc_exp c"; cases "jc_iat c") (auto simp: valid_at_def)
  ultimately show "isl (fst (authorized env path tick2 (bearer_header (ae_encode env c)) s2))"
    using current_user_needs_valid [OF assms(1,4)] assms(6,7)
    by (auto simp: authorized_def bearer_token [OF assms(2,4)] abind_def session_check_eval [OF assms(1,4,13)] claim_def
        revoked_session_def revoked_row_def split: option.splits)
next
  fix scheme role tid
  assume other: "str_lower scheme = ''bearer'' \<and> scheme \<noteq> ''Bearer'' \<and> valid_at (clock s2) c \<and> jc_role c = Some role \<and>
    role \<in> {''editor'', ''admin'', ''viewer''} \<and> \<not> jc_pre_2fa c \<and> jc_tenant_id c = Some (uuid_str tid)"
  have run: "authorized env path tick2 (scheme @ '' '' @ ae_encode env c) s' = get_current_user env tick2 (Some (ae_encode env c)) s'" for s'
    using other assms(2,4) by (simp add: authorized_def bearer_ok_def abind_def session_check_skipped [of scheme, simplified])
  show "isl (fst (authorized env path tick2 (scheme @ '' '' @ ae_encode env c) s2)) \<longleftrightarrow> is_revoked tick2 j s2"
    unfolding run using other assms(8) by (intro current_user_blacklist [OF assms(1,4) _ _ _ _ _ _ assms(6)]) auto
  let ?s = "s2\<lparr>au_redis := [], au_consumed := [], au_limiter := au_limiter s2\<rparr>"
  have "authorized env path tick2 (scheme @ '' '' @ ae_encode env c) ?s =
      (Inr \<lparr>us_sub = uuid_str uid, us_role = role, us_tenant_id = tid, cu_jti = j\<rparr>, after_tick ?s)"
    unfolding run using other assms(6,8) by (intro current_user_eval [OF assms(1,4)]) (auto simp: clock_def)
  then show "\<exists>s3. auth_step env s2 s3 \<and> authorized env path tick2 (scheme @ '' '' @ ae_encode env c) s3 =
      (Inr \<lparr>us_sub = uuid_str uid, us_role = role, us_tenant_id = tid, cu_jti = j\<rparr>, after_tick s3)"
    using auth_step.other_process by blast
qed

theorem logout_is_final_witness:
  "\<exists>x s1. logout demo_aenv 0 (Some (ae_encode demo_aenv demo_access)) None demo_logged_in = (x, s1) \<and>
     isl (fst (authorized demo_aenv ''/api/v1/emissions'' 1 (bearer_header (ae_encode demo_aenv demo_access)) s1)) \<and>
     (\<exists>s3. auth_step demo_aenv s1 s3 \<and> \<not> isl (fst (authorized demo_aenv ''/api/v1/emissions'' 1 (''bearer '' @ ae_encode demo_aenv demo_access) s3)))"
proof -
  obtain x s1 where run: "logout demo_aenv 0 (Some (ae_encode demo_aenv demo_access)) None demo_logged_in = (x, s1)" by force
  have sess: "session_of demo_logged_in (uuid_str 7) = Some (new_session 5 1 (uuid_str 7) None 8)"
    by (simp add: demo_logged_in_def with_session_def session_of_def demo_auth_def new_session_def)
  have jti: "uuid_str 7 \<noteq> []" using length_uuid_str [of 7] by auto
  have time: "mono (w_clock (au_world demo_logged_in))" "valid_at (clock demo_logged_in) demo_access"
    using demo_clock demo_time by (simp_all add: demo_logged_in_def with_session_def valid_at_def demo_access_def access_claims_def clock_def)
  have claims: "issued demo_aenv demo_access" "jc_jti demo_access = Some (uuid_str 7)" "jc_sub demo_access = Some (uuid_str 5)"
    "jc_role demo_access = Some ''editor''" "\<not> jc_pre_2fa demo_access" "jc_tenant_id demo_access = Some (uuid_str 1)"
    by (simp_all add: demo_access_def) (simp_all add: access_claims_def)
  have path: "protected_path ''/api/v1/emissions''" by (simp add: protected_path_def EXCLUDED_PATHS_def NO_SESSION_PATHS_def)
  have other: "str_lower ''bearer'' = ''bearer'' \<and> ''bearer'' \<noteq> ''Bearer'' \<and> valid_at (clock s1) demo_access \<and>
    jc_role demo_access = Some ''editor'' \<and> ''editor'' \<in> {''editor'', ''admin'', ''viewer''} \<and> \<not> jc_pre_2fa demo_access \<and>
    jc_tenant_id demo_access = Some (uuid_str 1)"
    using demo_logout_clock [OF run] claims by (auto simp: str_lower_def chr_lower_def)
  have user: "se_user_id (new_session 5 1 (uuid_str 7) None 8) = 5" by (simp add: new_session_def)
  note final = logout_is_final [OF demo_jwt demo_bearer time(1) claims(1) time(2) claims(2) jti claims(3) sess user run
      rtranclp.rtrancl_refl path, of 1]
  note accepted = final [THEN conjunct2, rule_format, OF other, THEN conjunct2]
  have "\<exists>s3. auth_step demo_aenv s1 s3 \<and>
    \<not> isl (fst (authorized demo_aenv ''/api/v1/emissions'' 1 (''bearer '' @ ae_encode demo_aenv demo_access) s3))"
    using accepted by auto
  with run conjunct1 [OF final] show ?thesis by blast
qed

text \<open>
  C36. A login works: the access token it returns passes the session check and the dependency of every
  protected endpoint until it expires, and the endpoint sees the user, the role and the tenant of the
  user row whose name and password were given.
\<close>

theorem login_token_accepted:
  assumes "jwt_ok env" and "mono (w_clock (au_world s))" and "login env tick host b s = (Inr (LoginTokens t), s1)"
    and "\<forall>u\<in>set (at_users (au_db s)). ur_role_code u \<in> set ALL_ROLES"
    and "KEY_PREFIX @ uuid_str (next_id s) \<notin> fst ` set (au_redis s)"
    and "clock (after_tick s1) + 10 ^ 6 \<le> clock s + ae_access_ttl env * 10 ^ 6" and "protected_path path" and "bearer_ok env"
  shows "\<exists>u\<in>set (at_users (au_db s)). ur_username u = str_strip (lr_username b) \<and> ur_is_active u \<and>
    ae_checkpw env (lr_password b) (ur_password_hash u) \<and>
    authorized env path tick2 (bearer_header (tr_access_token t)) s1 =
      (Inr \<lparr>us_sub = uuid_str (ur_id u), us_role = ur_role_code u, us_tenant_id = ur_tenant_id u,
            cu_jti = uuid_str (next_id s)\<rparr>, after_tick (after_tick s1))"
proof -
  obtain u ip where u: "u \<in> set (at_users (au_db s))" "ur_username u = str_strip (lr_username b)" "ur_is_active u"
      "ae_checkpw env (lr_password b) (ur_password_hash u)"
    and t: "tr_access_token t = ae_encode env (login_access env u s)" and none: "session_of s (uuid_str (next_id s)) = None"
    and db: "au_db s1 = (au_db s)\<lparr>at_sessions := at_sessions (au_db s) @
       [new_session (ur_id u) (ur_tenant_id u) (uuid_str (next_id s)) (Some ip) (next_id (after_draw (after_draw s)))]\<rparr>"
    and w: "au_world s1 = (au_world s)\<lparr>w_ticks := w_ticks (au_world s) + 3, w_uuids := w_uuids (au_world s) + 3\<rparr>"
    and redis: "au_redis s1 = au_redis s"
    by (rule login_Inr [OF assms(1,3)])
  let ?c = "login_access env u s" and ?j = "uuid_str (next_id s)"
  have "clock s \<le> clock s1" "clock s1 \<le> clock (after_tick s1)"
    using assms(2) by (simp_all add: clock_def after_tick_def w monoD)
  then have valid: "valid_at (clock s1) ?c" "valid_at (clock (after_tick s1)) ?c"
    using assms(6) unfolding login_access_def by (intro access_valid; linarith)+
  have iss: "issued env ?c" and jti: "claim (jc_jti ?c) = ?j" "?j \<noteq> []"
    using length_uuid_str [of "next_id s"] by (auto simp: login_access_def)
  have "session_of s1 ?j = Some (new_session (ur_id u) (ur_tenant_id u) ?j (Some ip) (next_id (after_draw (after_draw s))))"
    using none by (simp add: session_of_def db find_append new_session_def)
  then have "session_check env path (bearer_header (ae_encode env ?c)) s1 = (Inr (), after_tick s1)"
    using session_check_eval [OF assms(1) iss assms(7)] jti by (simp add: revoked_row_def new_session_def)
  moreover have "ur_role_code u \<in> {''editor'', ''admin'', ''viewer''}"
    using assms(4) u(1) by (auto simp: ALL_ROLES_def ROLE_EDITOR_def ROLE_ADMIN_def ROLE_VIEWER_def)
  then have "get_current_user env tick2 (Some (ae_encode env ?c)) (after_tick s1) =
      (Inr \<lparr>us_sub = uuid_str (ur_id u), us_role = ur_role_code u, us_tenant_id = ur_tenant_id u, cu_jti = ?j\<rparr>,
       after_tick (after_tick s1))"
    using assms(5) redis valid(2)
    by (intro current_user_eval [OF assms(1) iss]) (auto simp: login_access_def access_claims_def)
  ultimately show ?thesis using u by (intro bexI [of _ u]) (simp_all add: authorized_def abind_def t bearer_token [OF assms(8) iss])
qed

theorem login_token_accepted_witness:
  "\<exists>t s1 u. login demo_aenv 0 (Some ''10.0.0.1'') demo_login demo_auth = (Inr (LoginTokens t), s1) \<and> u \<in> set (at_users (au_db demo_auth)) \<and>
     authorized demo_aenv ''/api/v1/emissions'' 1 (bearer_header (tr_access_token t)) s1 =
       (Inr \<lparr>us_sub = uuid_str (ur_id u), us_role = ur_role_code u, us_tenant_id = ur_tenant_id u, cu_jti = uuid_str (next_id demo_auth)\<rparr>,
        after_tick (after_tick s1))"
proof -
  obtain t s1 where run: "login demo_aenv 0 (Some ''10.0.0.1'') demo_login demo_auth = (Inr (LoginTokens t), s1)"
    using demo_login_returns by blast
  have world: "au_world s1 = (au_world demo_auth)\<lparr>w_ticks := 3, w_uuids := 3\<rparr>" by (rule demo_login_world [OF run])
  have "\<exists>u\<in>set (at_users (au_db demo_auth)). ur_username u = str_strip (lr_username demo_login) \<and> ur_is_active u \<and>
      ae_checkpw demo_aenv (lr_password demo_login) (ur_password_hash u) \<and>
      authorized demo_aenv ''/api/v1/emissions'' 1 (bearer_header (tr_access_token t)) s1 =
        (Inr \<lparr>us_sub = uuid_str (ur_id u), us_role = ur_role_code u, us_tenant_id = ur_tenant_id u,
              cu_jti = uuid_str (next_id demo_auth)\<rparr>, after_tick (after_tick s1))"
    by (rule login_token_accepted [OF demo_jwt demo_clock run _ _ _ _ demo_bearer])
      (simp_all add: clock_def after_tick_def world protected_path_def EXCLUDED_PATHS_def NO_SESSION_PATHS_def,
       simp_all add: demo_auth_def demo_account_def ALL_ROLES_def ROLE_EDITOR_def)
  with run show ?thesis by blast
qed

text \<open>
  C39. Rotation does not retire a refresh token: the refresh token of a login keeps working until it
  expires, whatever follows, be it a refresh that rotates it, a logout that names it or the revocation
  of every session, as long as its user is active; identifiers are taken not to repeat, and the request
  to come within the life of an access token. Neither the session of a refresh token nor the blacklist
  is there to stop it: only access tokens get a session, and the endpoint does not read the blacklist.
\<close>

theorem refresh_token_reusable:
  assumes "jwt_ok env" and "mono (w_clock (au_world s))" and "distinct (map ur_id (at_users (au_db s)))"
    and "fresh_ids s"
    and "\<forall>i. w_uuid (au_world s) i = w_uuid (au_world s) (w_uuids (au_world s) + 1) \<longrightarrow> i = w_uuids (au_world s) + 1"
    and "login env tick1 host b s = (Inr (LoginTokens t), s1)" and "(auth_step env)\<^sup>*\<^sup>* s1 s2"
    and "clock s2 + 10 ^ 6 \<le> clock s + ae_refresh_ttl env * 10 ^ 6"
    and "ae_inet env ip" and "fresh_ids s2" and "prompt env 4 s2"
  shows "\<exists>t2 s3. refresh env tick2 (Some ip) (tr_refresh_token t) s2 = (Inr t2, s3)"
proof -
  obtain u ip1 where u: "u \<in> set (at_users (au_db s))" "ur_is_active u" "ur_tenant_id u \<in> set (ae_tenants env)"
    and t: "tr_refresh_token t = ae_encode env (login_refresh env u s)"
    and db: "au_db s1 = (au_db s)\<lparr>at_sessions := at_sessions (au_db s) @
       [new_session (ur_id u) (ur_tenant_id u) (uuid_str (next_id s)) (Some ip1) (next_id (after_draw (after_draw s)))]\<rparr>"
    and w: "au_world s1 = (au_world s)\<lparr>w_ticks := w_ticks (au_world s) + 3, w_uuids := w_uuids (au_world s) + 3\<rparr>"
    by (rule login_Inr [OF assms(1,6)])
  let ?w = "au_world s"
  let ?c = "login_refresh env u s" and ?j = "uuid_str (w_uuid ?w (w_uuids ?w + 1))"
  have c: "issued env ?c" "claim (jc_jti ?c) = ?j" "claim (jc_sub ?c) = uuid_str (ur_id u)" "jc_token_type ?c = Some ''refresh''"
    "?j \<noteq> []" using length_uuid_str [of "w_uuid ?w (w_uuids ?w + 1)"]
    by (auto simp: login_refresh_def next_id_def after_draw_def) (simp_all add: refresh_claims_def claim_def)
  have "uuid_str (next_id s) \<noteq> ?j" using assms(5) by (metis next_id_def uuid_str_inj add_eq_self_zero zero_neq_one)
  then have "session_of s1 ?j = None" using assms(4) by (simp add: fresh_ids_def session_of_def db find_append new_session_def)
  then have "never_session env ?j s1" using assms(1,5) by (auto simp: never_session_def w uuid_str_inj)
  then have none: "session_of s2 ?j = None" using never.steps_keep [OF assms(7)] by (auto simp: never_session_def)
  have "user_of s1 (ur_id u) = Some u"
    using u(1) assms(3) by (auto simp: user_of_def db find_Some_iff in_set_conv_nth distinct_conv_nth)
  then have "known_user env u s1" using assms(1) by (simp add: known_user_def)
  then obtain v where v: "user_of s2 (ur_id u) = Some v" "identity v = identity u"
    using known.steps_keep [OF assms(7)] by (auto simp: known_user_def)
  have "later env (au_world s1) s2" by (rule time.steps_keep [OF assms(7)]) (simp add: later_def assms(1))
  then have "clock s \<le> clock (after_tick s)" "clock (after_tick s) \<le> clock s2"
    using assms(2) by (auto simp: later_def advances_def clock_def after_tick_def w monoD)
  then have valid: "valid_at (clock s2) ?c" using assms(8) unfolding login_refresh_def by (intro refresh_valid; linarith)
  have "\<exists>t2 s3. refresh env tick2 (Some ip) (ae_encode env ?c) s2 = (Inr t2, s3) \<and>
      session_added (ur_id u) (ur_tenant_id u) (Some ip) 5 s2 s3"
    by (rule refresh_returns [OF assms(1) c(1) valid c(4) _ _ c(3) v u(2,3) assms(9-11)]) (use c(2,5) none in simp_all)
  then show ?thesis unfolding t by blast
qed

theorem refresh_token_reusable_witness:
  "\<exists>t s1 t2 s2 t3 s3. login demo_aenv 0 (Some ''10.0.0.1'') demo_login demo_auth = (Inr (LoginTokens t), s1) \<and>
     refresh demo_aenv 0 (Some ''10.0.0.1'') (tr_refresh_token t) s1 = (Inr t2, s2) \<and>
     refresh demo_aenv 0 (Some ''10.0.0.1'') (tr_refresh_token t) s2 = (Inr t3, s3)"
proof -
  obtain t s1 where run: "login demo_aenv 0 (Some ''10.0.0.1'') demo_login demo_auth = (Inr (LoginTokens t), s1)"
    using demo_login_returns by blast
  obtain t2 s2 where first: "refresh demo_aenv 0 (Some ''10.0.0.1'') (tr_refresh_token t) s1 = (Inr t2, s2)" "fresh_ids s2"
    and world: "au_world s2 = (au_world demo_auth)\<lparr>w_ticks := 8, w_uuids := 6\<rparr>"
    using demo_login_refresh [OF run] by blast
  have "\<exists>t3 s3. refresh demo_aenv 0 (Some ''10.0.0.1'') (tr_refresh_token t) s2 = (Inr t3, s3)"
  proof (rule refresh_token_reusable [OF demo_jwt demo_clock _ demo_fresh _ run])
    show "(auth_step demo_aenv)\<^sup>*\<^sup>* s1 s2" using auth_step.refresh [OF first(1)] by (rule r_into_rtranclp)
    show "fresh_ids s2" "prompt demo_aenv 4 s2" using first(2) demo_prompt [OF world] by simp_all
    show "\<forall>i. w_uuid (au_world demo_auth) i = w_uuid (au_world demo_auth) (w_uuids (au_world demo_auth) + 1) \<longrightarrow>
        i = w_uuids (au_world demo_auth) + 1"
      using demo_ids by (simp add: demo_auth_def)
  qed (simp_all add: clock_def world, simp_all add: demo_auth_def demo_account_def)
  with run first show ?thesis by blast
qed

end
