(* ===== verification/Spec2Isabelle.thy ===== *)
theory Spec2Isabelle
  imports Calc_Properties Schema_Conflicts Reporting_Properties Hotspot_Properties Auto_Calc_Equivalence
    Auto_Calc_Insert_Properties Factor_Workflow_Properties Auth_Properties
begin

text \<open>
  A verification library for \<open>ghg_tool\<close>, a greenhouse-gas accounting service. The program reads
  activity rows, multiplies them by emission factors, writes the resulting records to an
  append-only ledger and derives reports from them. All paths below are relative to
  \<open>src/src/ghg_tool/\<close>; migrations are under \<open>src/alembic/versions/\<close>.

  \<^bold>\<open>Parts and their interaction.\<close> A calculation run (\<open>application/services/calc_orchestrator.py\<close>)
  calls the calculation modules (\<open>application/calc/*.py\<close>) in a fixed order. A module reads the
  factor catalogue through a port (\<open>domain/ports/factor_catalog.py\<close>), which
  \<open>infrastructure/factors/sql_adapter.py\<close> implements over SQL, and builds validated emission
  records (\<open>domain/entities/emission_record.py\<close>). The persistence service
  (\<open>application/services/calc_persistence.py\<close>) runs one or two such calculations and stores the
  records and run rows in one transaction, subject to the constraints and triggers of the
  migrations. The reporting services read records or exported rows: intensity ratios, hot-spot
  ranking, SBTi trajectories, year-over-year statistics, reconciliation, base-year recalculation.
  The auto-calc service answers single requests, with the same factors, and inserts one row.

  \<^bold>\<open>Foundations.\<close> \<open>Ghg_Prelude\<close>: exceptions as one datatype, results as sums, the state-and-error
  monad \<open>run\<close> over the identifiers and instants the outside world supplies, loops, and the logic
  (\<open>post\<close>, \<open>returns\<close>, \<open>fails\<close>) its clients use. \<open>Py_Text\<close>: the string operations of Python used
  by the program, on UTF-8 bytes. \<open>Py_Decimal\<close> and \<open>Py_Division\<close>: \<open>decimal.Decimal\<close> with the default
  context of 28 digits, half-even rounding, quantisation and division; \<open>rounded n x d\<close> says that
  \<open>d\<close> is \<open>x\<close> up to \<open>n\<close> roundings and carries every accuracy theorem. \<open>Py_Values\<close>: dynamic row values,
  the texts of decimals, integers and UUIDs, and that reading inverts printing.

  \<^bold>\<open>Calculation.\<close> \<open>Domain_Model\<close> (\<open>domain/\<close>): GWP sets, factor records, the emission record and the
  validation of its constructor. \<open>Calc_Helpers\<close> (\<open>application/calc/_helpers.py\<close>): factor look-up,
  record construction, and the relation \<open>realizes\<close> between an effectful loop and its pure plan.
  \<open>Calc_Contract\<close>: the locale \<open>calc_module\<close> every module satisfies and its extension for declared
  zero lines. \<open>Calc_Scope1\<close>, \<open>Calc_Scope2\<close>, \<open>Calc_Scope3_Activity\<close>, \<open>Calc_Scope3_Derived\<close>: one
  definition per function of the modules, with the interpretations. \<open>Calc_Orchestrator\<close>: the run,
  itself an interpretation of the contract. \<open>Demo_Inputs\<close> holds the concrete inputs of witnesses;
  \<open>Calc_Properties\<close> and this theory the theorems: a run refines its plan, is reproducible, stamps
  every record, fails only on negative amounts, and the amounts of the modules are accurate.

  \<^bold>\<open>Catalogue and ledger.\<close> \<open>Factor_Sql_Adapter\<close>: the SELECTs over a list of rows, the conversion of
  a row, the cache, and the locale \<open>factor_catalog\<close>. \<open>Emission_Ledger\<close>: the tables, constraints,
  triggers and the correction procedure, transactions, the locale \<open>emission_store\<close>.
  \<open>Calc_Persistence\<close>: the single-track and dual-track entry points. \<open>Persistence_Properties\<close>,
  \<open>Ledger_Invariants\<close> (step relation and reachability), \<open>Ledger_Properties\<close>: what a run leaves in
  the ledger, the history that the triggers protect (with and without a session that sets
  \<open>app.correction_in_progress\<close>), the invariant of reachable ledgers. \<open>Schema_Conflicts\<close>: runs that the
  constraints of migrations 0002, 0021 and 0030 reject.

  \<^bold>\<open>Reporting.\<close> \<open>Recalculation_Policy\<close>, \<open>Intensity_Service\<close>, \<open>Sbti_Service\<close>, \<open>Yoy_Stats\<close>,
  \<open>Hotspot_Service\<close>, \<open>Reconciliation_Service\<close>, each named after its file, with the theorems in the
  same theory, in \<open>Reporting_Properties\<close> or in \<open>Hotspot_Properties\<close>.

  \<^bold>\<open>Auto-calc.\<close> \<open>Auto_Calc_Schema\<close> (\<open>api/schemas/calc_schemas.py\<close>), \<open>Auto_Calc_Service\<close>
  (\<open>application/services/auto_calc_service.py\<close>), \<open>Auto_Calc_Contract\<close> (the locale
  \<open>preview_handler\<close>, interpreted by the twelve handlers: a well-formed response or an exception with its
  cause) and \<open>Auto_Calc_Properties\<close>.
  \<open>Auto_Calc_Equivalence\<close>: a preview agrees with the batch module. \<open>Idempotency_Service\<close>
  (\<open>application/services/idempotency_service.py\<close>), \<open>Auto_Calc_Insert\<close> (\<open>compute_and_insert\<close> and the
  endpoints of \<open>api/routers/calc.py\<close>, over one record of tables with the constraints of migrations
  0002 and 0026) and \<open>Auto_Calc_Insert_Properties\<close>: atomicity and traceability of an insert, replay
  of a key, and the requests that the schema or the wiring rejects. JSON forms, the SHA-256 digest and
  the binary float of a decimal are parameters.

  \<^bold>\<open>Factor workflow and access.\<close> \<open>Access_Control\<close> (\<open>infrastructure/security/rbac.py\<close>,
  \<open>api/middleware/rbac.py\<close>): the permission matrix. \<open>Rate_Limit\<close> (\<open>api/middleware/rate_limit.py\<close>): the
  sliding window and the middleware, the locale \<open>rate_limiter\<close> and its refinement of a specification
  that remembers every request. \<open>Factor_Workflow\<close> (\<open>application/services/factor_publish_service.py\<close>,
  \<open>api/routers/factor_catalog.py\<close>, \<open>api/schemas/factor_schemas.py\<close>): the endpoints that create, patch,
  delete, propose, approve and reject, over the tables with the constraints and triggers of migrations
  0001, 0010, 0012, 0014 and 0020. \<open>Factor_Workflow_Properties\<close>: the step relation of the endpoints, the
  two-eyes invariant of its reachable states, what two admins achieve under a role that bypasses row-level
  security and under another, and the deletion and rejection that the schema defeats.

  \<^bold>\<open>Authentication.\<close> \<open>Auth_Tokens\<close> (\<open>infrastructure/security/\<close>, \<open>infrastructure/redis_client.py\<close>,
  \<open>application/services/session_service.py\<close>): claims, the tables of accounts and sessions, the
  blacklist, and the state-and-error actions of the endpoints, whose failures roll the database back and
  nothing else. \<open>Auth_Service\<close> (\<open>api/routers/auth.py\<close>, \<open>api/routers/sessions.py\<close>,
  \<open>application/services/auth_service.py\<close>, \<open>api/dependencies/auth.py\<close>, \<open>api/middleware/session_check.py\<close>):
  login, refresh, logout, revocation, and what a bearer token must pass. \<open>Totp_Service\<close>
  (\<open>api/routers/totp.py\<close>): the second factor. \<open>Auth_Logic\<close>: a Hoare logic of the actions, the step
  relation of all requests (with time passing and other processes in between) and the locale
  \<open>auth_invariant\<close>; \<open>Auth_Runs\<close>: its six interpretations and what single requests do; \<open>Auth_Demo\<close>: a
  concrete token library that meets the assumed contract; \<open>Auth_Properties\<close>: kinds of tokens do not
  mix, what a logout revokes, a login works, partial tokens and time steps are used once, and the gaps
  (refresh tokens outlive their rotation, a one-time password counts twice, another spelling of the scheme
  evades the session check).

  \<^bold>\<open>Parameters.\<close> The seeded pseudo-random samples of Cat 6, the mean and deviation of binary floats
  in the year-over-year statistics, the clock, the identifier source, and PyJWT, bcrypt, pyotp, FastAPI's
  reading of the \<open>Authorization\<close> header and the casts of PostgreSQL to \<open>inet\<close> are arguments of the
  definitions; \<open>jwt_ok\<close>, \<open>bearer_ok\<close> and \<open>otp_ok\<close> state what the theorems assume of PyJWT, FastAPI and
  pyotp, and \<open>Auth_Demo\<close> meets them. No
  definition uses fuel: every loop is structural recursion over its input, and
  decimal digits and divisions are total functions.

  \<^bold>\<open>Conventions.\<close> The class of an exception is modelled, its message is not; log lines are left
  out. Dictionaries are association lists in insertion order. Where SQL leaves the order of rows
  open the model takes table order. Row-level security: \<open>ref.factor_catalog\<close> has it in force without a
  policy for UPDATE and DELETE, which \<open>Factor_Workflow\<close> models for roles that bypass it and for others;
  elsewhere the role bypasses it, like the user of \<open>docker-compose.yml\<close>, and the tenant conditions are
  those the queries state.

  \<^bold>\<open>Not modelled.\<close> HTTP plumbing, user administration and the provisioning of unknown users, key
  files and a real Redis server, listings, log lines and SIEM events, exports through third-party
  renderers, the Excel import, the seed loader and the user interface; see the component list.
\<close>

section \<open>A calculation run\<close>

text \<open>
  C1. A run returns exactly when its pure plan succeeds and every planned record passes the
  constructor, and then it returns the planned records in plan order, the timestamps read from
  the clock and the identifiers drawn one per record. In particular the final check for a single
  GWP set never rejects a list the modules produced.
\<close>

theorem run_refines_plan:
  "orchestrator_run draw catalog g inputs w = Inr (rs, w') \<longleftrightarrow>
     (\<exists>as. run_plan draw catalog g inputs = Inr as \<and> (\<forall>a\<in>set as. args_ok a) \<and>
        emit_pure as w = (rs, w'))"
  using orchestrator_run_realizes [of draw catalog g inputs] by (simp add: realizes_def)

theorem run_refines_plan_witness:
  "\<exists>rs w' as. orchestrator_run demo_sampler demo_catalog AR6 demo_inputs demo_world = Inr (rs, w') \<and>
     run_plan demo_sampler demo_catalog AR6 demo_inputs = Inr as \<and> emit_pure as demo_world = (rs, w')"
  using demo_run_returns [of demo_sampler demo_world]
    run_refines_plan [of demo_sampler demo_catalog AR6 demo_inputs demo_world] by blast

text \<open>
  C2. Every record of a run is well formed, carries the run's correlation identifier, author,
  regulatory stream and GWP set, and one of the sub-scopes of its scope that the modules emit.
\<close>

theorem run_records_stamped:
  assumes "orchestrator_run draw catalog g inputs w = Inr (rs, w')" and "r \<in> set rs"
  shows "er_wf r \<and> er_gwp_set r = gv_code g \<and> er_correlation_id r = ci_correlation_id inputs \<and>
    er_created_by r = ci_created_by inputs \<and> er_regulatory_stream r = ci_regulatory_stream inputs \<and>
    (er_scope r, er_sub_scope r) \<in> run_tags"
  using run_record_stamps [OF assms] by (simp add: common_ctx_def)

theorem run_records_stamped_witness:
  "\<exists>rs w' r. orchestrator_run demo_sampler demo_catalog AR6 demo_inputs demo_world = Inr (rs, w') \<and>
     r \<in> set rs \<and> er_wf r \<and> er_gwp_set r = gv_code AR6"
proof -
  obtain rs w' where run: "orchestrator_run demo_sampler demo_catalog AR6 demo_inputs demo_world = Inr (rs, w')"
    using demo_run_returns by blast
  then obtain r where "r \<in> set rs" using demo_run_nonempty by blast
  with run run_records_stamped [OF run this] show ?thesis by blast
qed

text \<open>
  C3. Once the rows can be read and the factors found, a negative amount is the only reason a
  run under an admissible stream and GWP set does not return.
\<close>

theorem run_fails_only_on_negative:
  assumes "run_plan draw catalog g inputs = Inr as"
    and "ci_regulatory_stream inputs \<in> set ALLOWED_REGULATORY_STREAMS"
    and "gv_code g \<in> set ALLOWED_GWP_SETS"
  shows "(\<exists>rs w'. orchestrator_run draw catalog g inputs w = Inr (rs, w')) \<longleftrightarrow>
    (\<forall>a\<in>set as. nonneg_args a)"
  using assms by (intro run_returns_iff_nonneg) (simp_all add: ctx_ok_def common_ctx_def)

theorem run_fails_only_on_negative_witness:
  "\<exists>as. run_plan demo_sampler demo_catalog AR6 demo_inputs = Inr as \<and>
    ((\<exists>rs w'. orchestrator_run demo_sampler demo_catalog AR6 demo_inputs demo_world = Inr (rs, w')) \<longleftrightarrow>
     (\<forall>a\<in>set as. nonneg_args a))"
proof -
  obtain as where as: "run_plan demo_sampler demo_catalog AR6 demo_inputs = Inr as"
    using demo_run_plan by (auto simp: good_plan_def)
  moreover have "ci_regulatory_stream demo_inputs \<in> set ALLOWED_REGULATORY_STREAMS"
    "gv_code AR6 \<in> set ALLOWED_GWP_SETS"
    using demo_ctx_ok by (auto simp: ctx_ok_def demo_ctx_def demo_inputs_def)
  ultimately show ?thesis
    using run_fails_only_on_negative [of demo_sampler demo_catalog AR6 demo_inputs as demo_world]
    by blast
qed

definition untimed :: "EmissionRecord \<Rightarrow> EmissionRecord" where
  "untimed r = r\<lparr>er_id := 0, er_calc_timestamp := DateTime 0 True\<rparr>"

lemma untimed_emission_of: "untimed (emission_of a t i) = emission_of a (DateTime 0 True) 0"
  by (simp add: untimed_def emission_of_def)

lemma untimed_emit_pure:
  "map untimed (fst (emit_pure as w)) = map (\<lambda>a. emission_of a (DateTime 0 True) 0) as"
proof (induction as arbitrary: w)
  case Nil
  show ?case by simp
next
  case (Cons a as)
  have "untimed (fst (emit_one a w)) = emission_of a (DateTime 0 True) 0"
    by (simp add: emit_one_def untimed_emission_of split: option.split)
  with Cons.IH show ?case by (simp add: split_def Let_def)
qed

text \<open>
  C6. Runs are reproducible: on the same inputs and catalogue, two runs at different times both
  return or both fail, and their records agree in every column but identifier and timestamp.
\<close>

theorem run_reproducible:
  assumes "orchestrator_run draw catalog g inputs w1 = Inr (rs1, w1')"
  shows "\<exists>rs2 w2'. orchestrator_run draw catalog g inputs w2 = Inr (rs2, w2') \<and>
    map untimed rs2 = map untimed rs1"
proof -
  obtain as where as: "run_plan draw catalog g inputs = Inr as" "\<forall>a\<in>set as. args_ok a"
    "emit_pure as w1 = (rs1, w1')"
    using orchestrator_run_realizes [of draw catalog g inputs] assms by (auto simp: realizes_def)
  then have "orchestrator_run draw catalog g inputs w2 = Inr (emit_pure as w2)"
    using orchestrator_run_realizes [of draw catalog g inputs] by (simp add: realizes_returns)
  moreover have "map untimed (fst (emit_pure as w2)) = map untimed rs1"
    using untimed_emit_pure [of as w1] as(3) by (simp add: untimed_emit_pure)
  ultimately show ?thesis by (cases "emit_pure as w2") simp
qed

theorem run_reproducible_witness:
  "\<exists>rs1 w1' rs2 w2'.
     orchestrator_run demo_sampler demo_catalog AR6 demo_inputs demo_world = Inr (rs1, w1') \<and>
     orchestrator_run demo_sampler demo_catalog AR6 demo_inputs (demo_world\<lparr>w_ticks := 100\<rparr>) =
       Inr (rs2, w2') \<and> map untimed rs2 = map untimed rs1"
  using demo_run_returns [of demo_sampler demo_world]
    run_reproducible [of demo_sampler demo_catalog AR6 demo_inputs demo_world _ _
      "demo_world\<lparr>w_ticks := 100\<rparr>"] by blast

text \<open>
  Identifiers are fresh: when the identifiers drawn up to the end of the run do not repeat,
  the records of the run have pairwise different identifiers, none of them drawn before the run.
\<close>

theorem run_ids_fresh:
  assumes "orchestrator_run draw catalog g inputs w = Inr (rs, w')"
    and "inj_on (w_uuid w) {..< w_uuids w + length rs}"
  shows "distinct (map er_id rs) \<and> (\<forall>n < w_uuids w. w_uuid w n \<notin> set (map er_id rs))"
proof -
  have ids: "map er_id rs = map (w_uuid w) [w_uuids w ..< w_uuids w + length rs]"
    by (rule realizes_ids [OF orchestrator_run_realizes assms(1)])
  have "inj_on (w_uuid w) (set [w_uuids w ..< w_uuids w + length rs])"
    using assms(2) by (rule inj_on_subset) auto
  moreover have "w_uuid w n \<noteq> w_uuid w m" if "n < w_uuids w" "w_uuids w \<le> m" "m < w_uuids w + length rs"
    for n m
    using assms(2) that by (auto dest: inj_onD)
  ultimately show ?thesis
    unfolding ids by (auto simp: distinct_map)
qed

theorem run_ids_fresh_witness:
  "\<exists>rs w'. orchestrator_run demo_sampler demo_catalog AR6 demo_inputs demo_world = Inr (rs, w') \<and>
     distinct (map er_id rs)"
proof -
  obtain rs w' where run: "orchestrator_run demo_sampler demo_catalog AR6 demo_inputs demo_world = Inr (rs, w')"
    using demo_run_returns by blast
  have "unat (of_nat k :: uuid) = k" if "k < 22" for k
    using that by (simp add: unat_of_nat)
  then have "inj_on (of_nat :: nat \<Rightarrow> uuid) {..< 22}"
    by (metis inj_onI lessThan_iff)
  then have "inj_on (w_uuid demo_world) {..< w_uuids demo_world + length rs}"
    using demo_run_nonempty(1) [OF run] by (simp add: demo_world_def)
  with run run_ids_fresh [OF run] show ?thesis by blast
qed

definition zero_record :: "int \<Rightarrow> EmissionRecord \<Rightarrow> bool" where
  "zero_record anno r \<longleftrightarrow>
     er_tco2e r = dec_zero \<and> er_raw_row_id r = None \<and> er_methodology r = ''declared-zero'' \<and>
     er_anno r = anno"

lemma zero_line_built:
  assumes "built (zero_line_args ctx g f s t site anno n) r"
  shows "zero_record anno r" and "er_sub_scope r = t" and "er_codice_sito r = site"
  unfolding zero_record_def built_fields [OF assms]
  by (simp_all add: zero_line_args_def emission_args_def)

lemma fugitive_plan_built:
  assumes "fugitive_zero_plan sites anno g ctx = Inr as" and "list_all2 built as rs"
  shows "list_all2 (\<lambda>site r. zero_record anno r \<and> er_sub_scope r = ''fugitive'' \<and>
    er_codice_sito r = Some site) sites rs"
proof -
  have "as = map (\<lambda>site. zero_line_args ctx g (fugitive_synth_factor_record (gv_code g)) 1
      ''fugitive'' (Some site) anno FUGITIVE_RATIONALE) sites"
    using assms(1) unfolding fugitive_zero_plan_def fugitive_zero_site_def
    by (subst (asm) collect_total) auto
  with assms(2) show ?thesis
    by (auto simp: list_all2_conv_all_nth dest: zero_line_built)
qed

lemma closing_plan_built:
  assumes "cat11_zero_plan anno g ctx = Inr as" and "omitted_zero_plan anno g ctx = Inr bs"
    and "list_all2 built (as @ bs) rs"
  shows "(\<forall>r\<in>set rs. zero_record anno r) \<and>
    map er_sub_scope rs = [''Cat11_ZERO'', ''Cat8_ZERO'', ''Cat10_ZERO'', ''Cat13_ZERO'', ''Cat14_ZERO'',
      ''Cat15_ZERO'']"
  using assms
  by (auto simp: cat11_zero_plan_def omitted_zero_plan_def omitted_zero_entry_def OMITTED_CATEGORIES_def
      list_all2_Cons1 zero_line_built)

text \<open>
  Completeness of the disclosure: a run starts with one fugitive zero-line per site, in site
  order, and ends with the zero-lines of Cat 11, 8, 10, 13, 14 and 15, all for the reporting year.
\<close>

theorem run_zero_lines:
  assumes "orchestrator_run draw catalog g inputs w = Inr (rs, w')"
  shows "list_all2 (\<lambda>site r. zero_record (ci_anno inputs) r \<and> er_sub_scope r = ''fugitive'' \<and>
           er_codice_sito r = Some site) (ci_sites inputs) (take (length (ci_sites inputs)) rs) \<and>
         (\<forall>r\<in>set (drop (length rs - 6) rs). zero_record (ci_anno inputs) r) \<and>
         map er_sub_scope (drop (length rs - 6) rs) =
           [''Cat11_ZERO'', ''Cat8_ZERO'', ''Cat10_ZERO'', ''Cat13_ZERO'', ''Cat14_ZERO'', ''Cat15_ZERO'']"
proof -
  let ?ctx = "common_ctx inputs"
  obtain as where as: "run_plan draw catalog g inputs = Inr as" "list_all2 built as rs"
    using realizes_built [OF orchestrator_run_realizes assms] by blast
  obtain fug mid c11 om where parts: "fugitive_zero_plan (ci_sites inputs) (ci_anno inputs) g ?ctx = Inr fug"
    "cat11_zero_plan (ci_anno inputs) g ?ctx = Inr c11" "omitted_zero_plan (ci_anno inputs) g ?ctx = Inr om"
    "as = fug @ mid @ c11 @ om"
    using run_plan_ends [OF as(1)] by blast
  obtain rs1 rs2 rs3 where rs: "rs = rs1 @ rs2 @ rs3" "list_all2 built fug rs1"
    "list_all2 built (c11 @ om) rs3"
    using as(2) list_all2_append1 [of built fug "mid @ c11 @ om" rs]
      list_all2_append1 [of built mid "c11 @ om"] unfolding parts(4) by metis
  note first = fugitive_plan_built [OF parts(1) rs(2)]
  note last = closing_plan_built [OF parts(2,3) rs(3)]
  from first have "length rs1 = length (ci_sites inputs)" by (simp add: list_all2_lengthD)
  moreover from last have "length (map er_sub_scope rs3) = length
      [''Cat11_ZERO'', ''Cat8_ZERO'', ''Cat10_ZERO'', ''Cat13_ZERO'', ''Cat14_ZERO'', ''Cat15_ZERO'']"
    by (intro arg_cong [where f = length]) (rule conjunct2)
  then have "drop (length rs - 6) rs = rs3" using rs(1) by simp
  ultimately show ?thesis
    using first last rs(1) by simp
qed

theorem run_zero_lines_witness:
  "\<exists>rs w'. orchestrator_run demo_sampler demo_catalog AR6 demo_inputs demo_world = Inr (rs, w') \<and>
     map er_sub_scope (drop (length rs - 6) rs) =
       [''Cat11_ZERO'', ''Cat8_ZERO'', ''Cat10_ZERO'', ''Cat13_ZERO'', ''Cat14_ZERO'', ''Cat15_ZERO'']"
proof -
  obtain rs w' where "orchestrator_run demo_sampler demo_catalog AR6 demo_inputs demo_world = Inr (rs, w')"
    using demo_run_returns by blast
  with run_zero_lines [OF this] show ?thesis by auto
qed

end
